(* ===== verification/Prelude.thy ===== *)
theory Prelude
  imports Complex_Main "HOL-Library.Code_Target_Numeral"
begin

text \<open>
  Vocabulary shared by every component of the archive backend.

  A relational table is a list of row records in physical order.  The four statements
  the services issue are \<open>filter\<close> (SELECT), \<open>upd_where\<close> (UPDATE ... WHERE), \<open>del_where\<close>
  (DELETE ... WHERE) and appending (INSERT).  \<open>scalar_one_or_none\<close> is the accessor of the
  same name of the SQLAlchemy result.

  Instants are microseconds since the Unix epoch, which is the resolution of a Python
  \<open>datetime\<close>.  A UUID is a natural number; \<open>uuid4\<close> hands out the next unused one, so the
  collision freedom of version 4 UUIDs is part of the representation.  Identifiers and keys,
  which the wire schemas restrict to ASCII, are \<open>string\<close>s; free text is a list of Unicode
  code points.
\<close>

type_synonym time = int
type_synonym uuid = nat
type_synonym ustr = "nat list"

definition seconds :: "int \<Rightarrow> time" where
  "seconds n = n * 1000000"

definition minutes :: "int \<Rightarrow> time" where
  "minutes n = seconds (60 * n)"

definition days :: "int \<Rightarrow> time" where
  "days n = seconds (86400 * n)"

lemma seconds_mono [simp]: "seconds a \<le> seconds b \<longleftrightarrow> a \<le> b"
  by (simp add: seconds_def)

lemma seconds_nonneg [simp]: "0 \<le> seconds a \<longleftrightarrow> 0 \<le> a"
  by (simp add: seconds_def)

named_theorems tbl_simps \<open>facts about tables as lists of rows\<close>

section \<open>Errors\<close>

text \<open>
  The exceptions the services raise (\<open>app/core/errors.py\<close>), those of the database driver
  they catch, and the non-retryable failure of the job handlers.  A result is \<open>Inl\<close> of an
  exception or \<open>Inr\<close> of a value.
\<close>

datatype exn =
    ValidationError string
  | AuthenticationError string
  | AuthorizationError string
  | PolicyError string
  | NotFoundError string
  | UpstreamError string
  | RateLimitError int
  | BackpressureError int
  | IntegrityError
  | MultipleResultsFound
  | NonRetryableError string
  | PyValueError
  | OtherException string

type_synonym 'a res = "exn + 'a"

definition bindE :: "'e + 'a \<Rightarrow> ('a \<Rightarrow> 'e + 'b) \<Rightarrow> 'e + 'b" where
  "bindE m f = (case m of Inl e \<Rightarrow> Inl e | Inr x \<Rightarrow> f x)"

lemma bindE_Inl [simp]: "bindE (Inl e) f = Inl e"
  by (simp add: bindE_def)

lemma bindE_Inr [simp]: "bindE (Inr x) f = f x"
  by (simp add: bindE_def)

lemma bindE_eq_Inr: "bindE m f = Inr y \<longleftrightarrow> (\<exists>x. m = Inr x \<and> f x = Inr y)"
  by (cases m) auto

text \<open>
  \<open>type(exc).__name__\<close>; the exceptions of libraries carry their type name.  After an error of the database
  driver the transaction is lost: the session can only be rolled back.
\<close>

primrec exn_type :: "exn \<Rightarrow> string" where
  "exn_type (ValidationError m) = ''ValidationError''"
| "exn_type (AuthenticationError m) = ''AuthenticationError''"
| "exn_type (AuthorizationError m) = ''AuthorizationError''"
| "exn_type (PolicyError m) = ''PolicyError''"
| "exn_type (NotFoundError m) = ''NotFoundError''"
| "exn_type (UpstreamError m) = ''UpstreamError''"
| "exn_type (RateLimitError n) = ''RateLimitError''"
| "exn_type (BackpressureError n) = ''BackpressureError''"
| "exn_type IntegrityError = ''IntegrityError''"
| "exn_type MultipleResultsFound = ''MultipleResultsFound''"
| "exn_type (NonRetryableError m) = ''NonRetryableError''"
| "exn_type PyValueError = ''ValueError''"
| "exn_type (OtherException m) = m"

definition database_failed :: "exn \<Rightarrow> bool" where
  "database_failed e \<longleftrightarrow> e = IntegrityError \<or> e = OtherException ''DBAPIError''
     \<or> e = OtherException ''ProgrammingError''"

section \<open>Tables\<close>

definition upd_where :: "('r \<Rightarrow> bool) \<Rightarrow> ('r \<Rightarrow> 'r) \<Rightarrow> 'r list \<Rightarrow> 'r list" where
  "upd_where p f rows = map (\<lambda>r. if p r then f r else r) rows"

definition del_where :: "('r \<Rightarrow> bool) \<Rightarrow> 'r list \<Rightarrow> 'r list" where
  "del_where p rows = filter (\<lambda>r. \<not> p r) rows"

fun scalar_one_or_none :: "'r list \<Rightarrow> 'r option res" where
  "scalar_one_or_none [] = Inr None"
| "scalar_one_or_none [r] = Inr (Some r)"
| "scalar_one_or_none (r # r' # rs) = Inl MultipleResultsFound"

lemma upd_where_Nil [simp, tbl_simps]: "upd_where p f [] = []"
  by (simp add: upd_where_def)

lemma upd_where_Cons [simp, tbl_simps]:
  "upd_where p f (r # rs) = (if p r then f r else r) # upd_where p f rs"
  by (simp add: upd_where_def)

lemma length_upd_where [simp, tbl_simps]: "length (upd_where p f rows) = length rows"
  by (simp add: upd_where_def)

lemma set_upd_where [tbl_simps]:
  "set (upd_where p f rows) = (\<lambda>r. if p r then f r else r) ` set rows"
  by (simp add: upd_where_def)

lemma in_upd_whereE:
  assumes "r \<in> set (upd_where p f rows)"
  obtains r0 where "r0 \<in> set rows" "r = (if p r0 then f r0 else r0)"
  using assms by (auto simp: set_upd_where)

lemma in_upd_where: "r \<in> set rows \<Longrightarrow> (if p r then f r else r) \<in> set (upd_where p f rows)"
  by (auto simp: set_upd_where)

lemma in_upd_whereI: "r \<in> set rows \<Longrightarrow> p r \<Longrightarrow> f r \<in> set (upd_where p f rows)"
  by (force simp: set_upd_where)

lemma map_upd_where_same [tbl_simps]:
  assumes "\<And>r. r \<in> set rows \<Longrightarrow> p r \<Longrightarrow> k (f r) = k r"
  shows "map k (upd_where p f rows) = map k rows"
  using assms by (induction rows) auto

lemma upd_where_id: "(\<And>r. r \<in> set rows \<Longrightarrow> \<not> p r) \<Longrightarrow> upd_where p f rows = rows"
  by (induction rows) auto

lemma set_del_where [simp, tbl_simps]: "set (del_where p rows) = {r \<in> set rows. \<not> p r}"
  by (auto simp: del_where_def)

lemma distinct_map_filterI: "distinct (map k xs) \<Longrightarrow> distinct (map k (filter p xs))"
  by (induction xs) auto

lemma distinct_map_eq:
  "distinct (map k xs) \<Longrightarrow> x \<in> set xs \<Longrightarrow> y \<in> set xs \<Longrightarrow> k x = k y \<Longrightarrow> x = y"
  by (induction xs) (auto simp: image_iff)

lemma filter_key_unique:
  assumes "distinct (map k xs)" "x \<in> set xs"
  shows "filter (\<lambda>y. k y = k x) xs = [x]"
  using assms
proof (induction xs)
  case Nil
  then show ?case by simp
next
  case (Cons a xs)
  show ?case
  proof (cases "x = a")
    case True
    with Cons.prems(1) show ?thesis by (auto simp: filter_empty_conv image_iff)
  next
    case False
    with Cons show ?thesis by (auto simp: image_iff)
  qed
qed

lemma scalar_one_or_none_filter:
  assumes "distinct (map k xs)"
  shows "scalar_one_or_none (filter (\<lambda>y. k y = v) xs) = Inr (find (\<lambda>y. k y = v) xs)"
  using assms
proof (induction xs)
  case Nil
  then show ?case by simp
next
  case (Cons a xs)
  have "filter (\<lambda>y. k y = k a) xs = []"
    using Cons.prems by (auto simp: filter_empty_conv image_iff)
  with Cons show ?case by auto
qed

lemma find_Some_in: "find p xs = Some x \<Longrightarrow> x \<in> set xs \<and> p x"
  by (induction xs) (auto split: if_splits)

lemma find_None_all: "find p xs = None \<longleftrightarrow> (\<forall>x\<in>set xs. \<not> p x)"
  by (induction xs) auto

lemma find_unique:
  "distinct (map k xs) \<Longrightarrow> x \<in> set xs \<Longrightarrow> find (\<lambda>y. k y = k x) xs = Some x"
  by (induction xs) (auto simp: image_iff)

section \<open>Systems with an invariant\<close>

text \<open>
  The states a component can reach from \<open>init\<close> by \<open>step\<close>, and the contract of an inductive
  invariant.  The stateful components interpret \<open>inv_system\<close> on their own step relation.
\<close>

inductive reach :: "('s \<Rightarrow> bool) \<Rightarrow> ('s \<Rightarrow> 's \<Rightarrow> bool) \<Rightarrow> 's \<Rightarrow> bool"
  for init :: "'s \<Rightarrow> bool" and step :: "'s \<Rightarrow> 's \<Rightarrow> bool" where
  reach_init: "init s \<Longrightarrow> reach init step s"
| reach_step: "reach init step s \<Longrightarrow> step s t \<Longrightarrow> reach init step t"

locale inv_system =
  fixes init :: "'s \<Rightarrow> bool"
    and step :: "'s \<Rightarrow> 's \<Rightarrow> bool"
    and inv :: "'s \<Rightarrow> bool"
  assumes init_inv: "init s \<Longrightarrow> inv s"
    and step_inv: "step s t \<Longrightarrow> inv s \<Longrightarrow> inv t"
begin

lemma reach_inv: "reach init step s \<Longrightarrow> inv s"
  by (induction rule: reach.induct) (auto intro: init_inv step_inv)

lemma steps_inv: "step\<^sup>*\<^sup>* s t \<Longrightarrow> inv s \<Longrightarrow> inv t"
  by (induction rule: rtranclp_induct) (auto intro: step_inv)

end

section \<open>Python values\<close>

text \<open>Truthiness of an optional string, and \<open>a or b\<close> on optional strings.\<close>

definition truthy :: "'c list option \<Rightarrow> bool" where
  "truthy s = (case s of None \<Rightarrow> False | Some x \<Rightarrow> x \<noteq> [])"

definition str_or :: "'c list option \<Rightarrow> 'c list option \<Rightarrow> 'c list option" where
  "str_or a b = (if truthy a then a else b)"

lemma truthy_simps [simp]: "\<not> truthy None" "truthy (Some x) \<longleftrightarrow> x \<noteq> []"
  by (simp_all add: truthy_def)

lemma truthyE: "truthy s \<Longrightarrow> (\<And>c cs. s = Some (c # cs) \<Longrightarrow> P) \<Longrightarrow> P"
  by (auto simp: truthy_def neq_Nil_conv split: option.splits)

text \<open>The values of a JSON column, and dictionary access by key.\<close>

datatype json =
    JNull
  | JBool bool
  | JInt int
  | JFloat rat
  | JStr string
  | JText ustr
  | JList "json list"
  | JObj "(string \<times> json) list"

definition jget :: "json \<Rightarrow> string \<Rightarrow> json option" where
  "jget j k = (case j of JObj kvs \<Rightarrow> map_of kvs k | _ \<Rightarrow> None)"

text \<open>\<open>{**base, **new}\<close>: the keys of \<open>new\<close> replace those of \<open>base\<close> in place, the others follow.\<close>

definition jmerge :: "json \<Rightarrow> (string \<times> json) list \<Rightarrow> json" where
  "jmerge base new = (case base of
     JObj kvs \<Rightarrow> JObj (map (\<lambda>(k, v). (k, case map_of new k of Some v' \<Rightarrow> v' | None \<Rightarrow> v)) kvs
                  @ filter (\<lambda>(k, v). k \<notin> fst ` set kvs) new)
   | _ \<Rightarrow> JObj new)"

end
