(* ===== verification/Pytext.thy ===== *)
theory Pytext
  imports Prelude
begin

text \<open>
  Text as the backend handles it: Python \<open>str\<close> values are lists of code points.  The theory
  holds the string operations of the language the services use: whitespace, \<open>strip\<close>, \<open>re.sub\<close>
  of a character class, UTF-8.  Tables of the Unicode character database are a parameter, the
  record \<open>unidb\<close>.
\<close>

type_synonym bytes = "nat list"

definition lit :: "string \<Rightarrow> ustr" where
  "lit s = map of_char s"

lemma lit_simps [simp]: "lit [] = []" "lit (c # cs) = of_char c # lit cs"
  by (simp_all add: lit_def)

lemma lit_append [simp]: "lit (a @ b) = lit a @ lit b"
  by (simp add: lit_def)

lemma lit_inj [simp]: "lit a = lit b \<longleftrightarrow> a = b"
  by (simp add: lit_def inj_map_eq_map inj_def)

record unidb =
  u_nfkc :: "ustr \<Rightarrow> ustr"
  u_nfkd :: "ustr \<Rightarrow> ustr"
  u_casefold :: "ustr \<Rightarrow> ustr"
  u_lower :: "ustr \<Rightarrow> ustr"
  u_isalnum :: "nat \<Rightarrow> bool"
  u_isprintable :: "nat \<Rightarrow> bool"

text \<open>The database cut down to ASCII, on which the concrete examples are evaluated.\<close>

definition ascii_lower_code :: "nat \<Rightarrow> nat" where
  "ascii_lower_code c = (if 65 \<le> c \<and> c \<le> 90 then c + 32 else c)"

definition ascii_db :: unidb where
  "ascii_db = \<lparr>u_nfkc = (\<lambda>s. s), u_nfkd = (\<lambda>s. s), u_casefold = map ascii_lower_code,
     u_lower = map ascii_lower_code,
     u_isalnum = (\<lambda>c. (48 \<le> c \<and> c \<le> 57) \<or> (65 \<le> c \<and> c \<le> 90) \<or> (97 \<le> c \<and> c \<le> 122)),
     u_isprintable = (\<lambda>c. 32 \<le> c \<and> c < 127)\<rparr>"

section \<open>Operations of the language\<close>

text \<open>\<open>str.isspace\<close>, which is also the class \<open>\s\<close> of a \<open>str\<close> pattern.\<close>

definition is_space :: "nat \<Rightarrow> bool" where
  "is_space c \<longleftrightarrow> (9 \<le> c \<and> c \<le> 13) \<or> (28 \<le> c \<and> c \<le> 32) \<or> c = 133 \<or> c = 160 \<or> c = 5760
     \<or> (8192 \<le> c \<and> c \<le> 8202) \<or> c = 8232 \<or> c = 8233 \<or> c = 8239 \<or> c = 8287 \<or> c = 12288"

definition strip_by :: "('c \<Rightarrow> bool) \<Rightarrow> 'c list \<Rightarrow> 'c list" where
  "strip_by p xs = rev (dropWhile p (rev (dropWhile p xs)))"

definition py_strip :: "ustr \<Rightarrow> ustr" where
  "py_strip = strip_by is_space"

text \<open>\<open>re.sub("[class]+", c, s)\<close>: every maximal run of the class becomes one character.\<close>

function sub_runs :: "('c \<Rightarrow> bool) \<Rightarrow> 'c \<Rightarrow> 'c list \<Rightarrow> 'c list" where
  "sub_runs p c [] = []"
| "sub_runs p c (x # xs) =
     (if p x then c # sub_runs p c (dropWhile p xs) else x # sub_runs p c xs)"
  by pat_completeness auto
termination
  by (relation "measure (\<lambda>(p, c, xs). length xs)") (auto simp: less_Suc_eq_le length_dropWhile_le)

text \<open>\<open>str.encode("utf-8")\<close> of scalar values.\<close>

definition utf8_char :: "nat \<Rightarrow> bytes" where
  "utf8_char c =
     (if c < 128 then [c]
      else if c < 2048 then [192 + c div 64, 128 + c mod 64]
      else if c < 65536 then [224 + c div 4096, 128 + c div 64 mod 64, 128 + c mod 64]
      else [240 + c div 262144, 128 + c div 4096 mod 64, 128 + c div 64 mod 64, 128 + c mod 64])"

definition utf8_encode :: "ustr \<Rightarrow> bytes" where
  "utf8_encode s = concat (map utf8_char s)"

text \<open>
  Strict UTF-8 decoding succeeds on a byte string: well-formed sequences only, no overlong
  forms, no surrogates, nothing above U+10FFFF.
\<close>

definition is_cont :: "nat \<Rightarrow> bool" where
  "is_cont b \<longleftrightarrow> 128 \<le> b \<and> b < 192"

fun utf8_valid :: "bytes \<Rightarrow> bool" where
  "utf8_valid [] = True"
| "utf8_valid (b # bs) =
     (if b < 128 then utf8_valid bs
      else if 194 \<le> b \<and> b < 224 then
        (case bs of b1 # r \<Rightarrow> is_cont b1 \<and> utf8_valid r | _ \<Rightarrow> False)
      else if 224 \<le> b \<and> b < 240 then
        (case bs of b1 # b2 # r \<Rightarrow> is_cont b1 \<and> is_cont b2
             \<and> (b = 224 \<longrightarrow> 160 \<le> b1) \<and> (b = 237 \<longrightarrow> b1 < 160) \<and> utf8_valid r
         | _ \<Rightarrow> False)
      else if 240 \<le> b \<and> b < 245 then
        (case bs of b1 # b2 # b3 # r \<Rightarrow> is_cont b1 \<and> is_cont b2 \<and> is_cont b3
             \<and> (b = 240 \<longrightarrow> 144 \<le> b1) \<and> (b = 244 \<longrightarrow> b1 < 144) \<and> utf8_valid r
         | _ \<Rightarrow> False)
      else False)"

definition is_scalar :: "nat \<Rightarrow> bool" where
  "is_scalar c \<longleftrightarrow> c < 1114112 \<and> \<not> (55296 \<le> c \<and> c < 57344)"

section \<open>Facts about strip\<close>

lemma set_strip_by: "set (strip_by p xs) \<subseteq> set xs"
  by (auto simp: strip_by_def dest!: set_dropWhileD)

lemma length_strip_by: "length (strip_by p xs) \<le> length xs"
  unfolding strip_by_def
  by (metis length_dropWhile_le length_rev order_trans)

lemma dropWhile_idem: "dropWhile p (dropWhile p xs) = dropWhile p xs"
  by (induction xs) auto

lemma dropWhile_head: "dropWhile p xs \<noteq> [] \<Longrightarrow> \<not> p (hd (dropWhile p xs))"
  by (induction xs) auto

lemma strip_by_ends:
  "strip_by p xs = [] \<or> (\<not> p (hd (strip_by p xs)) \<and> \<not> p (last (strip_by p xs)))"
proof -
  let ?d = "dropWhile p xs"
  let ?r = "dropWhile p (rev ?d)"
  show ?thesis
  proof (cases "?r = []")
    case True
    then show ?thesis by (simp add: strip_by_def)
  next
    case False
    then have lastp: "\<not> p (hd ?r)" by (rule dropWhile_head)
    obtain zs where zs: "rev ?d = zs @ ?r" by (metis takeWhile_dropWhile_id)
    then have d: "?d = rev ?r @ rev zs" by (metis rev_append rev_rev_ident)
    from False have ne: "rev ?r \<noteq> []" by simp
    with d have "hd ?d = hd (rev ?r)" by (metis hd_append2)
    moreover have "?d \<noteq> []" using d ne by (metis append_is_Nil_conv)
    then have "\<not> p (hd ?d)" by (rule dropWhile_head)
    ultimately have "\<not> p (hd (rev ?r))" by simp
    moreover have "last (rev ?r) = hd ?r" by (simp add: last_rev)
    ultimately show ?thesis using lastp unfolding strip_by_def by metis
  qed
qed

lemma strip_by_fixed:
  assumes "xs = [] \<or> (\<not> p (hd xs) \<and> \<not> p (last xs))"
  shows "strip_by p xs = xs"
proof (cases "xs = []")
  case True
  then show ?thesis by (simp add: strip_by_def)
next
  case False
  have 1: "dropWhile p ys = ys" if "ys \<noteq> []" "\<not> p (hd ys)" for ys
    using that by (cases ys) auto
  from False assms show ?thesis by (simp add: strip_by_def 1 hd_rev)
qed

lemma strip_by_idem: "strip_by p (strip_by p xs) = strip_by p xs"
  by (rule strip_by_fixed) (rule strip_by_ends)

lemma strip_by_infix: "\<exists>as bs. xs = as @ strip_by p xs @ bs"
proof -
  obtain as where as: "xs = as @ dropWhile p xs" by (metis takeWhile_dropWhile_id)
  obtain bs where bs: "rev (dropWhile p xs) = bs @ dropWhile p (rev (dropWhile p xs))"
    by (metis takeWhile_dropWhile_id)
  then have "dropWhile p xs = strip_by p xs @ rev bs"
    by (metis rev_append rev_rev_ident strip_by_def)
  with as show ?thesis by metis
qed

end
