(* ===== verification/Sanitize.thy ===== *)
theory Sanitize
  imports Pytext
begin

text \<open>
  The sanitisers of \<open>app/core/sanitize.py\<close>: plain text (control characters removed, runs of
  blanks collapsed, length capped, ends stripped) and HTML (allowlist cleaner, then one pass
  that removes script markers).
\<close>

section \<open>Plain text (sanitize.py)\<close>

definition keep_char :: "nat \<Rightarrow> bool" where
  "keep_char c \<longleftrightarrow> c \<in> {9, 10, 13} \<or> (32 \<le> c \<and> \<not> (127 \<le> c \<and> c \<le> 159))"

definition strip_control_characters :: "ustr \<Rightarrow> ustr" where
  "strip_control_characters s = filter keep_char s"

definition ws_char :: "nat \<Rightarrow> bool" where
  "ws_char c \<longleftrightarrow> c = 32 \<or> c = 9"

definition clean_plain_text_max :: "nat \<Rightarrow> ustr option \<Rightarrow> ustr" where
  "clean_plain_text_max max_length txt =
     (if \<not> truthy txt then []
      else let s = strip_control_characters (the txt);
               s = sub_runs ws_char 32 s;
               s = (if length s > max_length then take max_length s else s)
           in py_strip s)"

definition clean_plain_text :: "ustr option \<Rightarrow> ustr" where
  "clean_plain_text = clean_plain_text_max 1000000"

subsection \<open>What the sanitiser guarantees\<close>

fun no_ws_pair :: "ustr \<Rightarrow> bool" where
  "no_ws_pair (x # y # zs) \<longleftrightarrow> \<not> (ws_char x \<and> ws_char y) \<and> no_ws_pair (y # zs)"
| "no_ws_pair _ \<longleftrightarrow> True"

lemma no_ws_pair_appendD: "no_ws_pair (as @ bs) \<Longrightarrow> no_ws_pair as \<and> no_ws_pair bs"
proof (induction as rule: no_ws_pair.induct, goal_cases)
  case (3 x)
  then show ?case by (cases bs) auto
qed auto

lemma no_ws_pair_strip: "no_ws_pair s \<Longrightarrow> no_ws_pair (strip_by p s)"
  by (metis no_ws_pair_appendD strip_by_infix)

lemma no_ws_pair_take: "no_ws_pair s \<Longrightarrow> no_ws_pair (take n s)"
  by (metis append_take_drop_id no_ws_pair_appendD)

lemma no_ws_pair_Cons:
  "no_ws_pair (x # xs) \<longleftrightarrow> (xs = [] \<or> \<not> (ws_char x \<and> ws_char (hd xs))) \<and> no_ws_pair xs"
  by (cases xs) auto

lemma sub_runs_hd:
  "xs \<noteq> [] \<Longrightarrow> hd (sub_runs p c xs) = (if p (hd xs) then c else hd xs)"
  by (cases xs) auto

lemma sub_runs_Nil_iff [simp]: "sub_runs p c xs = [] \<longleftrightarrow> xs = []"
  by (cases xs) auto

lemma no_ws_pair_sub_runs: "no_ws_pair (sub_runs ws_char 32 xs)"
proof (induction ws_char "32 :: nat" xs rule: sub_runs.induct)
  case (2 x xs)
  show ?case
  proof (cases "ws_char x")
    case True
    with 2 dropWhile_head [of ws_char xs] show ?thesis
      by (cases "dropWhile ws_char xs = []") (simp_all add: no_ws_pair_Cons sub_runs_hd del: dropWhile_eq_Nil_conv)
  next
    case False
    with 2 show ?thesis by (auto simp: no_ws_pair_Cons)
  qed
qed simp

lemma set_sub_runs: "set (sub_runs p c xs) \<subseteq> insert c {x \<in> set xs. \<not> p x}"
proof (induction p c xs rule: sub_runs.induct)
  case (2 p c x xs)
  then show ?case
    by (auto dest: set_dropWhileD split: if_splits)
qed simp

lemma sub_runs_fixed:
  "no_ws_pair xs \<Longrightarrow> 9 \<notin> set xs \<Longrightarrow> sub_runs ws_char 32 xs = xs"
proof (induction ws_char "32 :: nat" xs rule: sub_runs.induct)
  case (2 x xs)
  show ?case
  proof (cases "ws_char x")
    case True
    with 2(3,4) have "x = 32" "dropWhile ws_char xs = xs"
      by (auto simp: ws_char_def) (cases xs; auto simp: ws_char_def)
    with True 2 show ?thesis by (auto simp: no_ws_pair_Cons)
  next
    case False
    with 2 show ?thesis by (auto simp: no_ws_pair_Cons)
  qed
qed simp

text \<open>The shape of every cleaned text, and its converse: text of that shape is left alone.\<close>

definition clean_text :: "nat \<Rightarrow> ustr \<Rightarrow> bool" where
  "clean_text n s \<longleftrightarrow> list_all keep_char s \<and> 9 \<notin> set s \<and> no_ws_pair s \<and> length s \<le> n
     \<and> (s = [] \<or> (\<not> is_space (hd s) \<and> \<not> is_space (last s)))"

lemma clean_plain_text_shape: "clean_text n (clean_plain_text_max n txt)"
proof (cases "truthy txt")
  case False
  then show ?thesis by (simp add: clean_plain_text_max_def clean_text_def)
next
  case True
  define a where "a = sub_runs ws_char 32 (strip_control_characters (the txt))"
  define b where "b = (if length a > n then take n a else a)"
  have eq: "clean_plain_text_max n txt = py_strip b"
    using True by (simp add: clean_plain_text_max_def a_def b_def)
  have sa: "set a \<subseteq> insert 32 {x. keep_char x \<and> \<not> ws_char x}"
    using set_sub_runs by (fastforce simp: a_def strip_control_characters_def)
  have sb: "set b \<subseteq> set a" using set_take_subset [of n a] by (simp add: b_def)
  have ss: "set (py_strip b) \<subseteq> set a"
    using set_strip_by [of is_space b] sb by (auto simp: py_strip_def)
  have "no_ws_pair a" by (simp add: a_def no_ws_pair_sub_runs)
  then have "no_ws_pair b" by (simp add: b_def no_ws_pair_take)
  then have p: "no_ws_pair (py_strip b)" by (simp add: py_strip_def no_ws_pair_strip)
  have "length b \<le> n" by (simp add: b_def)
  then have l: "length (py_strip b) \<le> n"
    using length_strip_by [of is_space b] by (simp add: py_strip_def)
  have k: "list_all keep_char (py_strip b)" and t: "9 \<notin> set (py_strip b)"
    using ss sa by (auto simp: list_all_iff keep_char_def ws_char_def)
  show ?thesis
    using p l k t strip_by_ends [of is_space b]
    by (simp add: eq clean_text_def py_strip_def)
qed

lemma clean_plain_text_fixed: "clean_text n s \<Longrightarrow> clean_plain_text_max n (Some s) = s"
proof -
  assume c: "clean_text n s"
  then have "strip_control_characters s = s"
    by (auto simp: clean_text_def strip_control_characters_def list_all_iff intro: filter_True)
  moreover have "sub_runs ws_char 32 s = s" using c by (simp add: clean_text_def sub_runs_fixed)
  moreover have "py_strip s = s" using c by (simp add: clean_text_def py_strip_def strip_by_fixed)
  ultimately show ?thesis using c by (auto simp: clean_plain_text_max_def clean_text_def)
qed

section \<open>HTML (sanitize.py)\<close>

text \<open>
  The pattern \<open>_SCRIPTISH\<close>, case-insensitive on \<open>str\<close>: besides the two ASCII cases, the dotted and
  dotless Turkish letters match \<open>i\<close> and the long s matches \<open>s\<close>.  The allowlist cleaner of the
  bleach package is the parameter \<open>bleach_clean\<close>.
\<close>

definition ci_eq :: "nat \<Rightarrow> nat \<Rightarrow> bool" where
  "ci_eq p x \<longleftrightarrow> x = p \<or> (97 \<le> p \<and> p \<le> 122 \<and> x + 32 = p)
     \<or> (p = 105 \<and> (x = 304 \<or> x = 305)) \<or> (p = 115 \<and> x = 383) \<or> (p = 107 \<and> x = 8490)"

fun match_lit :: "ustr \<Rightarrow> ustr \<Rightarrow> ustr option" where
  "match_lit [] xs = Some xs"
| "match_lit (p # ps) [] = None"
| "match_lit (p # ps) (x # xs) = (if ci_eq p x then match_lit ps xs else None)"

definition match_scriptish :: "ustr \<Rightarrow> ustr option" where
  "match_scriptish xs =
     (case match_lit (lit ''javascript:'') xs of Some r \<Rightarrow> Some r | None \<Rightarrow>
     (case match_lit (lit ''vbscript:'') xs of Some r \<Rightarrow> Some r | None \<Rightarrow>
     (case match_lit (lit ''data:text/html'') xs of Some r \<Rightarrow> Some r | None \<Rightarrow>
     (case xs of [] \<Rightarrow> None
      | c # cs \<Rightarrow> if c = 60 then match_lit (lit ''script'') (dropWhile is_space cs) else None))))"

fun search_scriptish :: "ustr \<Rightarrow> bool" where
  "search_scriptish [] = (match_scriptish [] \<noteq> None)"
| "search_scriptish (x # xs) = (match_scriptish (x # xs) \<noteq> None \<or> search_scriptish xs)"

lemma match_lit_length: "match_lit ps xs = Some r \<Longrightarrow> length r + length ps = length xs"
  by (induction ps xs rule: match_lit.induct) (auto split: if_splits)

lemma match_lit_shorter: "match_lit (p # ps) xs = Some r \<Longrightarrow> length r < length xs"
  by (drule match_lit_length) simp

lemma match_scriptish_length:
  assumes "match_scriptish xs = Some r"
  shows "length r < length xs"
proof -
  have tag: "length r < length (c # cs)"
    if "match_lit (lit ''script'') (dropWhile is_space cs) = Some r" for c cs
  proof -
    have "length r < length (dropWhile is_space cs)"
      using that by (simp only: lit_simps match_lit_shorter)
    also have "\<dots> \<le> length cs" by (rule length_dropWhile_le)
    finally show ?thesis by simp
  qed
  consider "match_lit (lit ''javascript:'') xs = Some r" | "match_lit (lit ''vbscript:'') xs = Some r"
    | "match_lit (lit ''data:text/html'') xs = Some r"
    | c cs where "xs = c # cs" "match_lit (lit ''script'') (dropWhile is_space cs) = Some r"
    using assms unfolding match_scriptish_def
    by (simp only: split: option.splits list.splits if_splits)
  then show ?thesis
    by cases (simp_all only: lit_simps match_lit_shorter tag)
qed

function sub_scriptish :: "ustr \<Rightarrow> ustr" where
  "sub_scriptish [] = []"
| "sub_scriptish (x # xs) = (case match_scriptish (x # xs) of
     Some r \<Rightarrow> sub_scriptish r
   | None \<Rightarrow> x # sub_scriptish xs)"
  by pat_completeness auto
termination
  by (relation "measure length") (auto dest: match_scriptish_length)

definition sanitize_html_max :: "(ustr \<Rightarrow> ustr) \<Rightarrow> nat \<Rightarrow> ustr option \<Rightarrow> ustr option" where
  "sanitize_html_max bleach_clean max_length html =
     (if \<not> truthy html then None
      else let h = the html;
               h = (if length h > max_length then take max_length h else h);
               cleaned = bleach_clean h;
               cleaned = (if search_scriptish cleaned then sub_scriptish cleaned else cleaned)
           in if cleaned = [] then None else Some cleaned)"

definition sanitize_html :: "(ustr \<Rightarrow> ustr) \<Rightarrow> ustr option \<Rightarrow> ustr option" where
  "sanitize_html bleach_clean = sanitize_html_max bleach_clean 2000000"

lemma sub_scriptish_fixed: "\<not> search_scriptish xs \<Longrightarrow> sub_scriptish xs = xs"
  by (induction xs) auto

lemma sub_scriptish_shorter: "length (sub_scriptish xs) \<le> length xs"
proof (induction xs rule: sub_scriptish.induct)
  case (2 x xs)
  then show ?case
    by (cases "match_scriptish (x # xs)") (auto dest!: match_scriptish_length)
qed simp

section \<open>Properties\<close>


text \<open>
  The script-marker filter is a single pass: removing a marker can join its neighbours into a
  new one, so text with a marker nested in another still contains one afterwards.
\<close>

theorem scriptish_single_pass:
  "\<exists>html. sanitize_html (\<lambda>s. s) (Some html) = Some (lit ''javascript:x'') \<and> search_scriptish (lit ''javascript:x'')"
proof
  show "sanitize_html (\<lambda>s. s) (Some (lit ''javasjavascript:cript:x'')) = Some (lit ''javascript:x'')
    \<and> search_scriptish (lit ''javascript:x'')" by code_simp
qed

end
