(* ===== verification/Crypto.thy ===== *)
theory Crypto
  imports Pytext "HOL-Library.Word"
begin

text \<open>
  The hashing and naming helpers of \<open>app/core/crypto.py\<close>, over an executable SHA-256
  (\<open>hashlib\<close>), Base64 and HMAC of the standard library.
\<close>

unbundle bit_operations_syntax

section \<open>Standard library: hexadecimal and decimal text, UUIDs\<close>

definition hex_digit :: "nat \<Rightarrow> char" where
  "hex_digit n = ''0123456789abcdef'' ! n"

fun hex_fixed :: "nat \<Rightarrow> nat \<Rightarrow> string" where
  "hex_fixed 0 n = []"
| "hex_fixed (Suc k) n = hex_fixed k (n div 16) @ [hex_digit (n mod 16)]"

definition hex_bytes :: "bytes \<Rightarrow> string" where
  "hex_bytes bs = concat (map (hex_fixed 2) bs)"

definition unhex_digit :: "char \<Rightarrow> nat option" where
  "unhex_digit c = (let n = of_char c :: nat in
     if 48 \<le> n \<and> n \<le> 57 then Some (n - 48)
     else if 97 \<le> n \<and> n \<le> 102 then Some (n - 87)
     else if 65 \<le> n \<and> n \<le> 70 then Some (n - 55)
     else None)"

fun unhex_acc :: "nat \<Rightarrow> string \<Rightarrow> nat option" where
  "unhex_acc acc [] = Some acc"
| "unhex_acc acc (c # cs) = (case unhex_digit c of
     None \<Rightarrow> None | Some d \<Rightarrow> unhex_acc (16 * acc + d) cs)"

fun dec_nat :: "nat \<Rightarrow> string" where
  "dec_nat n = (if n < 10 then [char_of (48 + n)] else dec_nat (n div 10) @ [char_of (48 + n mod 10)])"

declare dec_nat.simps [simp del]

definition dec_int :: "int \<Rightarrow> string" where
  "dec_int i = (if i < 0 then CHR ''-'' # dec_nat (nat (- i)) else dec_nat (nat i))"

text \<open>\<open>str(uuid)\<close>: 32 hexadecimal digits in groups of 8, 4, 4, 4 and 12.\<close>

definition uuid_str :: "uuid \<Rightarrow> string" where
  "uuid_str u = (let h = hex_fixed 32 u in
     take 8 h @ ''-'' @ take 4 (drop 8 h) @ ''-'' @ take 4 (drop 12 h) @ ''-''
       @ take 4 (drop 16 h) @ ''-'' @ drop 20 h)"

text \<open>
  \<open>uuid.UUID(s)\<close>: the prefixes \<open>urn:\<close> and \<open>uuid:\<close> and every hyphen are dropped, braces are
  stripped from the ends, and exactly 32 hexadecimal digits must remain; \<open>None\<close> is ValueError.
\<close>

function replace_del :: "string \<Rightarrow> string \<Rightarrow> string" where
  "replace_del pat [] = []"
| "replace_del pat (x # xs) =
     (if pat \<noteq> [] \<and> take (length pat) (x # xs) = pat
      then replace_del pat (drop (length pat) (x # xs))
      else x # replace_del pat xs)"
  by pat_completeness auto
termination
proof (relation "measure (\<lambda>(pat, xs). length xs)", goal_cases)
  case (2 pat x xs)
  then have "0 < length pat" by simp
  then have "Suc (length xs) - length pat < Suc (length xs)" by linarith
  then show ?case by simp
qed auto

definition uuid_parse :: "string \<Rightarrow> uuid option" where
  "uuid_parse s =
     (let h = replace_del ''uuid:'' (replace_del ''urn:'' s);
          h = filter (\<lambda>c. c \<noteq> CHR ''-'') (strip_by (\<lambda>c. c \<in> {CHR ''{'', CHR ''}''}) h)
      in if length h \<noteq> 32 then None else unhex_acc 0 h)"

section \<open>Standard library: SHA-256, HMAC, Base64\<close>

type_synonym w32 = "32 word"

definition rotr :: "nat \<Rightarrow> w32 \<Rightarrow> w32" where
  "rotr n x = drop_bit n x OR push_bit (32 - n) x"

definition sha_k :: "w32 list" where
  "sha_k = [
    1116352408, 1899447441, 3049323471, 3921009573, 961987163, 1508970993, 2453635748, 2870763221,
    3624381080, 310598401, 607225278, 1426881987, 1925078388, 2162078206, 2614888103, 3248222580,
    3835390401, 4022224774, 264347078, 604807628, 770255983, 1249150122, 1555081692, 1996064986,
    2554220882, 2821834349, 2952996808, 3210313671, 3336571891, 3584528711, 113926993, 338241895,
    666307205, 773529912, 1294757372, 1396182291, 1695183700, 1986661051, 2177026350, 2456956037,
    2730485921, 2820302411, 3259730800, 3345764771, 3516065817, 3600352804, 4094571909, 275423344,
    430227734, 506948616, 659060556, 883997877, 958139571, 1322822218, 1537002063, 1747873779,
    1955562222, 2024104815, 2227730452, 2361852424, 2428436474, 2756734187, 3204031479, 3329325298]"

definition sha_h0 :: "w32 list" where
  "sha_h0 = [1779033703, 3144134277, 1013904242, 2773480762,
             1359893119, 2600822924, 528734635, 1541459225]"

definition be32 :: "w32 \<Rightarrow> bytes" where
  "be32 w = (let n = unat w in [n div 16777216, n div 65536 mod 256, n div 256 mod 256, n mod 256])"

definition of_be32 :: "bytes \<Rightarrow> w32" where
  "of_be32 bs = of_nat (foldl (\<lambda>a b. 256 * a + b) 0 bs)"

fun chunks_fuel :: "nat \<Rightarrow> nat \<Rightarrow> 'a list \<Rightarrow> 'a list list" where
  "chunks_fuel 0 n xs = []"
| "chunks_fuel (Suc k) n xs = (if xs = [] then [] else take n xs # chunks_fuel k n (drop n xs))"

definition chunks_of :: "nat \<Rightarrow> 'a list \<Rightarrow> 'a list list" where
  "chunks_of n xs = chunks_fuel (length xs) n xs"

definition sha_pad :: "bytes \<Rightarrow> bytes" where
  "sha_pad msg = (let l = length msg; z = (119 - l mod 64) mod 64; bits = 8 * l in
     msg @ [128] @ replicate z 0
       @ be32 (of_nat (bits div 4294967296)) @ be32 (of_nat bits))"

fun sha_extend :: "nat \<Rightarrow> w32 list \<Rightarrow> w32 list" where
  "sha_extend 0 w = w"
| "sha_extend (Suc k) w =
     (let n = length w; a = w ! (n - 15); b = w ! (n - 2);
          s0 = rotr 7 a XOR rotr 18 a XOR drop_bit 3 a;
          s1 = rotr 17 b XOR rotr 19 b XOR drop_bit 10 b
      in sha_extend k (w @ [w ! (n - 16) + s0 + w ! (n - 7) + s1]))"

fun sha_round :: "w32 list \<Rightarrow> w32 \<times> w32 \<Rightarrow> w32 list" where
  "sha_round [a, b, c, d, e, f, g, h] (k, w) =
     (let s1 = rotr 6 e XOR rotr 11 e XOR rotr 25 e;
          ch = (e AND f) XOR (NOT e AND g);
          t1 = h + s1 + ch + k + w;
          s0 = rotr 2 a XOR rotr 13 a XOR rotr 22 a;
          maj = (a AND b) XOR (a AND c) XOR (b AND c)
      in [t1 + s0 + maj, a, b, c, d + t1, e, f, g])"
| "sha_round st kw = st"

definition sha_block :: "w32 list \<Rightarrow> bytes \<Rightarrow> w32 list" where
  "sha_block hs block =
     (let w = sha_extend 48 (map of_be32 (chunks_of 4 block))
      in map2 (+) hs (foldl sha_round hs (zip sha_k w)))"

definition sha256 :: "bytes \<Rightarrow> bytes" where
  "sha256 msg = concat (map be32 (foldl sha_block sha_h0 (chunks_of 64 (sha_pad msg))))"

definition hmac_sha256 :: "bytes \<Rightarrow> bytes \<Rightarrow> bytes" where
  "hmac_sha256 key msg =
     (let k = (if length key > 64 then sha256 key else key);
          k = k @ replicate (64 - length k) 0;
          ipad = map (\<lambda>b. b XOR 54) k; opad = map (\<lambda>b. b XOR 92) k
      in sha256 (opad @ sha256 (ipad @ msg)))"

definition b64_alphabet :: string where
  "b64_alphabet = ''ABCDEFGHIJKLMNOPQRSTUVWXYZabcdefghijklmnopqrstuvwxyz0123456789+/''"

fun b64encode :: "string \<Rightarrow> bytes \<Rightarrow> string" where
  "b64encode al [] = []"
| "b64encode al [a] = [al ! (a div 4), al ! (a mod 4 * 16), CHR ''='', CHR ''='']"
| "b64encode al [a, b] = [al ! (a div 4), al ! (a mod 4 * 16 + b div 16), al ! (b mod 16 * 4), CHR ''='']"
| "b64encode al (a # b # c # r) =
     [al ! (a div 4), al ! (a mod 4 * 16 + b div 16), al ! (b mod 16 * 4 + c div 64), al ! (c mod 64)]
     @ b64encode al r"

section \<open>Hashes (crypto.py)\<close>

definition sha256_hex_bytes :: "bytes \<Rightarrow> string" where
  "sha256_hex_bytes data = hex_bytes (sha256 data)"

definition sha256_hex :: "ustr \<Rightarrow> string" where
  "sha256_hex data = sha256_hex_bytes (utf8_encode data)"

definition sha256_b64 :: "ustr \<Rightarrow> string" where
  "sha256_b64 data = b64encode b64_alphabet (sha256 (utf8_encode data))"

fun fromhex :: "string \<Rightarrow> bytes option" where
  "fromhex [] = Some []"
| "fromhex [c] = None"
| "fromhex (c # d # r) = (case (unhex_digit c, unhex_digit d, fromhex r) of
     (Some x, Some y, Some bs) \<Rightarrow> Some ((16 * x + y) # bs) | _ \<Rightarrow> None)"

definition hex_to_b64 :: "string \<Rightarrow> string res" where
  "hex_to_b64 hex_digest = (case fromhex hex_digest of
     None \<Rightarrow> Inl PyValueError | Some bs \<Rightarrow> Inr (b64encode b64_alphabet bs))"

definition normalize_text :: "unidb \<Rightarrow> ustr \<Rightarrow> ustr" where
  "normalize_text U txt =
     (let normalized = u_nfkc U txt;
          normalized = py_strip (sub_runs is_space 32 normalized)
      in u_casefold U normalized)"

definition content_hash :: "unidb \<Rightarrow> ustr \<Rightarrow> string" where
  "content_hash U txt = sha256_hex (normalize_text U txt)"

text \<open>\<open>int(ts.timestamp())\<close> truncates towards zero; naive datetimes are read as UTC.\<close>

definition epoch_seconds :: "time \<Rightarrow> int" where
  "epoch_seconds t = (if 0 \<le> t then t div 1000000 else - ((- t) div 1000000))"

definition timestamp_bucket :: "int \<Rightarrow> time option \<Rightarrow> int" where
  "timestamp_bucket bucket_seconds ts = (case ts of
     None \<Rightarrow> 0
   | Some t \<Rightarrow> (let epoch = epoch_seconds t in epoch - epoch mod bucket_seconds))"

fun join :: "string \<Rightarrow> string list \<Rightarrow> string" where
  "join sep [] = []"
| "join sep [x] = x"
| "join sep (x # y # ys) = x @ sep @ join sep (y # ys)"

definition ascii_lower_char :: "char \<Rightarrow> char" where
  "ascii_lower_char c = (let n = of_char c :: nat in
     if 65 \<le> n \<and> n \<le> 90 then char_of (n + 32) else c)"

definition ascii_space :: "char \<Rightarrow> bool" where
  "ascii_space c = is_space (of_char c)"

definition ascii_lower :: "string \<Rightarrow> string" where
  "ascii_lower s = map ascii_lower_char s"

definition ascii_strip :: "string \<Rightarrow> string" where
  "ascii_strip s = strip_by ascii_space s"

definition seq_bucket :: "int option \<Rightarrow> int" where
  "seq_bucket sequence_index = (case sequence_index of None \<Rightarrow> -1 | Some i \<Rightarrow> i div 5)"

definition fingerprint_material ::
  "unidb \<Rightarrow> uuid \<Rightarrow> string \<Rightarrow> ustr \<Rightarrow> int option \<Rightarrow> time option \<Rightarrow> string" where
  "fingerprint_material U conversation_id role txt sequence_index created_at =
     join ''|'' [uuid_str conversation_id, ascii_lower (ascii_strip role), content_hash U txt,
       dec_int (seq_bucket sequence_index), dec_int (timestamp_bucket 300 created_at)]"

definition message_fingerprint ::
  "unidb \<Rightarrow> uuid \<Rightarrow> string \<Rightarrow> ustr \<Rightarrow> int option \<Rightarrow> time option \<Rightarrow> string" where
  "message_fingerprint U conversation_id role txt sequence_index created_at =
     sha256_hex (lit (fingerprint_material U conversation_id role txt sequence_index created_at))"

definition pseudonymize_salted :: "unidb \<Rightarrow> ustr \<Rightarrow> ustr \<Rightarrow> string" where
  "pseudonymize_salted U salt v = sha256_hex (salt @ lit ''|'' @ u_lower U (py_strip v))"

definition pseudonymize :: "unidb \<Rightarrow> ustr \<Rightarrow> string" where
  "pseudonymize U v = pseudonymize_salted U [] v"

section \<open>File names (crypto.py)\<close>

definition safe_char :: "nat \<Rightarrow> bool" where
  "safe_char c \<longleftrightarrow> (48 \<le> c \<and> c \<le> 57) \<or> (65 \<le> c \<and> c \<le> 90) \<or> (97 \<le> c \<and> c \<le> 122)
     \<or> c = 46 \<or> c = 95 \<or> c = 45"

definition after_last :: "'c \<Rightarrow> 'c list \<Rightarrow> 'c list" where
  "after_last c s = rev (takeWhile (\<lambda>x. x \<noteq> c) (rev s))"

text \<open>\<open>s.rpartition(c)\<close>: head, whether the separator occurs, tail.\<close>

definition rpartition :: "'c \<Rightarrow> 'c list \<Rightarrow> 'c list \<times> bool \<times> 'c list" where
  "rpartition c s =
     (if c \<in> set s then (rev (drop 1 (dropWhile (\<lambda>x. x \<noteq> c) (rev s))), True, after_last c s)
      else ([], False, s))"

definition safe_filename_max :: "unidb \<Rightarrow> int \<Rightarrow> ustr \<Rightarrow> ustr \<Rightarrow> ustr" where
  "safe_filename_max U max_length fallback name =
     (if name = [] then fallback
      else let candidate = after_last 47 (map (\<lambda>c. if c = 92 then 47 else c) name);
               candidate = filter (u_isprintable U) (u_nfkd U candidate);
               (stem, dot, ext) = rpartition 46 candidate;
               (stem, ext) = (if \<not> dot \<or> \<not> (ext \<noteq> [] \<and> list_all (u_isalnum U) ext) \<or> length ext > 10
                              then (candidate, []) else (stem, ext));
               ext = u_lower U ext;
               stem = map (\<lambda>c. if safe_char c then c else 95) stem;
               stem = strip_by (\<lambda>c. c \<in> {46, 95, 45}) (sub_runs (\<lambda>c. c = 46) 46 stem);
               stem = (if stem = [] then lit ''file'' else stem);
               budget = max_length - (if ext \<noteq> [] then int (length ext) + 1 else 0)
           in if budget < 1 then fallback
              else let stem = take (nat budget) stem
                   in if ext \<noteq> [] then stem @ [46] @ ext else stem)"

definition safe_filename :: "unidb \<Rightarrow> ustr \<Rightarrow> ustr" where
  "safe_filename U name = safe_filename_max U 128 (lit ''attachment.bin'') name"

section \<open>Round trips and injectivity\<close>

lemma length_hex_fixed [simp]: "length (hex_fixed k n) = k"
  by (induction k n rule: hex_fixed.induct) auto

lemma unhex_hex_digit [simp]: "n < 16 \<Longrightarrow> unhex_digit (hex_digit n) = Some n"
proof -
  have "list_all (\<lambda>k. unhex_digit (hex_digit k) = Some k) [0..<16]" by code_simp
  then show "n < 16 \<Longrightarrow> unhex_digit (hex_digit n) = Some n" by (simp add: list_all_iff)
qed

definition hex_char :: "char \<Rightarrow> bool" where
  "hex_char c \<longleftrightarrow> c \<in> set ''0123456789abcdef''"

lemma hex_char_hex_digit: "n < 16 \<Longrightarrow> hex_char (hex_digit n)"
  by (simp add: hex_char_def hex_digit_def del: set_simps)

lemma hex_fixed_chars: "c \<in> set (hex_fixed k n) \<Longrightarrow> hex_char c"
  by (induction k n rule: hex_fixed.induct) (auto intro: hex_char_hex_digit)

lemma unhex_acc_append:
  "unhex_acc a (xs @ ys) = (case unhex_acc a xs of None \<Rightarrow> None | Some b \<Rightarrow> unhex_acc b ys)"
  by (induction a xs rule: unhex_acc.induct) (auto split: option.splits)

lemma unhex_acc_hex_fixed: "unhex_acc a (hex_fixed k n) = Some (a * 16 ^ k + n mod 16 ^ k)"
proof (induction k n rule: hex_fixed.induct)
  case (2 k n)
  have "n mod (16 * 16 ^ k) = 16 * (n div 16 mod 16 ^ k) + n mod 16"
    by (rule mod_mult2_eq)
  with 2 show ?case by (simp add: unhex_acc_append algebra_simps)
qed simp

lemma replace_del_fixed: "pat \<noteq> [] \<Longrightarrow> hd pat \<notin> set xs \<Longrightarrow> replace_del pat xs = xs"
proof (induction pat xs rule: replace_del.induct)
  case (2 pat x xs)
  then have "take (length pat) (x # xs) \<noteq> pat" by (cases pat) auto
  with 2 show ?case by auto
qed simp

lemma uuid_str_chars: "c \<in> set (uuid_str u) \<Longrightarrow> hex_char c \<or> c = CHR ''-''"
  by (auto simp: uuid_str_def Let_def dest!: in_set_takeD in_set_dropD intro: hex_fixed_chars)

lemma filter_hex: "filter (\<lambda>c. c \<noteq> CHR ''-'') xs = xs" if "\<And>c. c \<in> set xs \<Longrightarrow> hex_char c"
  using that by (auto intro!: filter_True simp: hex_char_def)

lemma uuid_str_no_hyphen: "filter (\<lambda>c. c \<noteq> CHR ''-'') (uuid_str u) = hex_fixed 32 u"
proof -
  let ?h = "hex_fixed 32 u"
  have f: "filter (\<lambda>c. c \<noteq> CHR ''-'') (take m (drop n ?h)) = take m (drop n ?h)"
    and g: "filter (\<lambda>c. c \<noteq> CHR ''-'') (drop n ?h) = drop n ?h"
    and h: "filter (\<lambda>c. c \<noteq> CHR ''-'') (take n ?h) = take n ?h" for m n
    by (rule filter_hex; auto dest!: in_set_takeD in_set_dropD intro: hex_fixed_chars)+
  have "take 12 ?h = take 8 ?h @ take 4 (drop 8 ?h)" using take_add [of 8 4 ?h] by simp
  moreover have "take 16 ?h = take 12 ?h @ take 4 (drop 12 ?h)" using take_add [of 12 4 ?h] by simp
  moreover have "take 20 ?h = take 16 ?h @ take 4 (drop 16 ?h)" using take_add [of 16 4 ?h] by simp
  ultimately have "take 8 ?h @ take 4 (drop 8 ?h) @ take 4 (drop 12 ?h) @ take 4 (drop 16 ?h)
      @ drop 20 ?h = take 20 ?h @ drop 20 ?h" by simp
  also have "\<dots> = ?h" by (rule append_take_drop_id)
  finally have "take 8 ?h @ take 4 (drop 8 ?h) @ take 4 (drop 12 ?h) @ take 4 (drop 16 ?h)
      @ drop 20 ?h = ?h" .
  then show ?thesis by (simp add: uuid_str_def Let_def f g h)
qed

lemma uuid_parse_str: "uuid_parse (uuid_str u) = Some (u mod 16 ^ 32)"
proof -
  have nu: "CHR ''u'' \<notin> set (uuid_str u)" by (auto simp: hex_char_def dest: uuid_str_chars)
  have r: "replace_del ''uuid:'' (replace_del ''urn:'' (uuid_str u)) = uuid_str u"
    using nu by (simp add: replace_del_fixed)
  have "strip_by (\<lambda>c. c \<in> {CHR ''{'', CHR ''}''}) (uuid_str u) = uuid_str u"
  proof (rule strip_by_fixed)
    have "uuid_str u \<noteq> []" by (simp add: uuid_str_def Let_def)
    then have "hd (uuid_str u) \<in> set (uuid_str u)" "last (uuid_str u) \<in> set (uuid_str u)" by simp_all
    then show "uuid_str u = [] \<or> hd (uuid_str u) \<notin> {CHR ''{'', CHR ''}''}
        \<and> last (uuid_str u) \<notin> {CHR ''{'', CHR ''}''}"
      by (auto simp: hex_char_def dest!: uuid_str_chars)
  qed
  with r show ?thesis
    by (simp add: uuid_parse_def uuid_str_no_hyphen unhex_acc_hex_fixed)
qed

lemma uuid_str_inj: "u < 16 ^ 32 \<Longrightarrow> v < 16 ^ 32 \<Longrightarrow> uuid_str u = uuid_str v \<longleftrightarrow> u = v"
  by (metis mod_less option.inject uuid_parse_str)

definition digit_val :: "char \<Rightarrow> nat" where
  "digit_val c = of_char c - 48"

definition undec :: "string \<Rightarrow> nat" where
  "undec s = foldl (\<lambda>a c. 10 * a + digit_val c) 0 s"

lemma digit_val_char [simp]: "n < 10 \<Longrightarrow> digit_val (char_of (48 + n)) = n"
  by (simp add: digit_val_def)

lemma undec_dec_nat: "undec (dec_nat n) = n"
proof (induction n rule: dec_nat.induct)
  case (1 n)
  show ?case
  proof (cases "n < 10")
    case True
    then show ?thesis by (simp add: dec_nat.simps [of n] undec_def)
  next
    case False
    with 1 have "undec (dec_nat (n div 10)) = n div 10" by simp
    with False show ?thesis
      by (simp add: dec_nat.simps [of n] undec_def)
  qed
qed

lemma dec_nat_inj [simp]: "dec_nat m = dec_nat n \<longleftrightarrow> m = n"
  by (metis undec_dec_nat)

definition digit_char :: "char \<Rightarrow> bool" where
  "digit_char c \<longleftrightarrow> 48 \<le> (of_char c :: nat) \<and> (of_char c :: nat) \<le> 57"

lemma dec_nat_chars: "c \<in> set (dec_nat n) \<Longrightarrow> digit_char c"
proof (induction n rule: dec_nat.induct)
  case (1 n)
  show ?case
  proof (cases "n < 10")
    case True
    with 1 show ?thesis by (simp add: dec_nat.simps [of n] digit_char_def)
  next
    case False
    have d: "digit_char (char_of (48 + n mod 10))" by (simp add: digit_char_def)
    from False 1 d show ?thesis by (auto simp: dec_nat.simps [of n])
  qed
qed

lemma dec_nat_no_hyphen: "dec_nat n \<noteq> CHR ''-'' # s"
proof
  assume "dec_nat n = CHR ''-'' # s"
  then have "CHR ''-'' \<in> set (dec_nat n)" by simp
  then show False by (auto dest!: dec_nat_chars simp: digit_char_def)
qed

lemma dec_int_inj [simp]: "dec_int i = dec_int j \<longleftrightarrow> i = j"
  by (auto simp: dec_int_def dec_nat_no_hyphen dec_nat_no_hyphen [symmetric])

lemma dec_int_chars: "c \<in> set (dec_int i) \<Longrightarrow> digit_char c \<or> c = CHR ''-''"
  by (auto simp: dec_int_def split: if_splits dest: dec_nat_chars)

lemma append_sep_inj:
  "c \<notin> set a \<Longrightarrow> c \<notin> set b \<Longrightarrow> a @ c # x = b @ c # y \<longleftrightarrow> a = b \<and> x = y"
proof (induction a arbitrary: b)
  case Nil
  then show ?case by (cases b) auto
next
  case (Cons d a)
  then show ?case by (cases b) auto
qed

lemma hex_bytes_chars: "c \<in> set (hex_bytes bs) \<Longrightarrow> hex_char c"
  by (auto simp: hex_bytes_def simp del: hex_fixed.simps dest: hex_fixed_chars)

text \<open>The material of a fingerprint determines each of its five components.\<close>

lemma bar_free:
  "CHR ''|'' \<notin> set (uuid_str u)" "CHR ''|'' \<notin> set (content_hash U t)" "CHR ''|'' \<notin> set (dec_int i)"
  by (auto simp: content_hash_def sha256_hex_def sha256_hex_bytes_def hex_char_def digit_char_def
      dest!: uuid_str_chars hex_bytes_chars dec_int_chars)

lemma fingerprint_material_iff:
  assumes "c < 16 ^ 32" "c' < 16 ^ 32"
    and "CHR ''|'' \<notin> set (ascii_lower (ascii_strip r))" "CHR ''|'' \<notin> set (ascii_lower (ascii_strip r'))"
  shows "fingerprint_material U c r t s ts = fingerprint_material U c' r' t' s' ts' \<longleftrightarrow>
    c = c' \<and> ascii_lower (ascii_strip r) = ascii_lower (ascii_strip r')
    \<and> content_hash U t = content_hash U t' \<and> seq_bucket s = seq_bucket s'
    \<and> timestamp_bucket 300 ts = timestamp_bucket 300 ts'"
  using assms by (simp add: fingerprint_material_def append_sep_inj bar_free uuid_str_inj)

lemma timestamp_bucket_bounds:
  "0 < b \<Longrightarrow> timestamp_bucket b (Some t) \<le> epoch_seconds t \<and> epoch_seconds t < timestamp_bucket b (Some t) + b
    \<and> timestamp_bucket b (Some t) mod b = 0"
  using pos_mod_bound [of b "epoch_seconds t"] pos_mod_sign [of b "epoch_seconds t"]
  by (auto simp: timestamp_bucket_def Let_def mod_diff_eq)

section \<open>Properties\<close>





section \<open>Digests are 32 bytes\<close>

lemma be32_bytes: "b \<in> set (be32 w) \<Longrightarrow> b < 256"
proof -
  assume "b \<in> set (be32 w)"
  moreover have "unat w < 2 ^ LENGTH(32)" by (rule unsigned_less)
  then have "unat w div 16777216 < 256" by (simp add: less_mult_imp_div_less)
  ultimately show ?thesis by (auto simp: be32_def Let_def)
qed

lemma sha256_bytes: "b \<in> set (sha256 m) \<Longrightarrow> b < 256"
  by (auto simp: sha256_def dest: be32_bytes)

lemma length_sha_round: "length (sha_round st kw) = length st"
  by (induction st kw rule: sha_round.induct) (simp_all add: Let_def)

lemma length_sha_rounds: "length (foldl sha_round st kws) = length st"
  by (induction kws arbitrary: st) (simp_all add: length_sha_round)

lemma length_sha_blocks: "length (foldl sha_block st blocks) = length st"
  by (induction blocks arbitrary: st) (simp_all add: sha_block_def length_sha_rounds Let_def)

lemma length_sha256: "length (sha256 m) = 32"
proof -
  have "length (concat (map be32 ws)) = 4 * length ws" for ws
    by (induction ws) (simp_all add: be32_def Let_def)
  then show ?thesis by (simp add: sha256_def length_sha_blocks sha_h0_def)
qed

lemma length_hex_bytes: "length (hex_bytes bs) = 2 * length bs"
  by (induction bs) (simp_all add: hex_bytes_def del: hex_fixed.simps)

lemma length_sha256_hex [simp]: "length (sha256_hex_bytes m) = 64"
  by (simp add: sha256_hex_bytes_def length_hex_bytes length_sha256)

lemma fromhex_hex_bytes: "(\<And>b. b \<in> set bs \<Longrightarrow> b < 256) \<Longrightarrow> fromhex (hex_bytes bs) = Some bs"
proof (induction bs)
  case (Cons a bs)
  have a: "a < 256" using Cons.prems by simp
  have "hex_fixed 2 a = [hex_digit (a div 16), hex_digit (a mod 16)]"
    using a by (simp add: numeral_2_eq_2 less_mult_imp_div_less)
  moreover have "fromhex (hex_bytes bs) = Some bs" using Cons by simp
  ultimately show ?case using a
    by (simp add: hex_bytes_def less_mult_imp_div_less del: hex_fixed.simps)
qed (simp add: hex_bytes_def)

lemma hex_to_b64_sha256 [simp]: "hex_to_b64 (sha256_hex_bytes m) = Inr (b64encode b64_alphabet (sha256 m))"
  by (simp add: hex_to_b64_def sha256_hex_bytes_def fromhex_hex_bytes sha256_bytes)

end
