(* ===== verification/Enums.thy ===== *)
theory Enums
  imports Prelude
begin

text \<open>
  The string enumerations of \<open>app/models/enums.py\<close>: a
  datatype per enumeration, its members in declaration order and the string stored in the
  database.  \<open>enum_parse\<close> is the enumeration's constructor call \<open>E(value)\<close>, which raises
  \<open>ValueError\<close> (here \<open>None\<close>) on an unknown string.
\<close>

definition enum_parse :: "'e list \<Rightarrow> ('e \<Rightarrow> string) \<Rightarrow> string \<Rightarrow> 'e option" where
  "enum_parse members value s = find (\<lambda>e. value e = s) members"

locale str_enum =
  fixes members :: "'e list" and val :: "'e \<Rightarrow> string"
  assumes all_members: "e \<in> set members"
    and val_inj: "val e = val e' \<Longrightarrow> e = e'"
begin

lemma parse_value: "enum_parse members val (val e) = Some e"
proof -
  have "find (\<lambda>x. val x = val e) members \<noteq> None"
    using all_members by (auto simp: find_None_all)
  then obtain x where "find (\<lambda>x. val x = val e) members = Some x" by blast
  then show ?thesis
    using val_inj by (auto simp: enum_parse_def dest: find_Some_in)
qed

lemma parse_iff: "enum_parse members val s = Some e \<longleftrightarrow> val e = s"
  using parse_value by (auto simp: enum_parse_def dest: find_Some_in)

lemma parse_None: "enum_parse members val s = None \<longleftrightarrow> (\<forall>e. val e \<noteq> s)"
  using all_members by (auto simp: enum_parse_def find_None_all)

end

datatype message_role =
    RoleUser
  | RoleAssistant
  | RoleTool
  | RoleSystem

definition message_role_values :: "message_role list" where
  "message_role_values = [RoleUser, RoleAssistant, RoleTool, RoleSystem]"

primrec message_role_str :: "message_role \<Rightarrow> string" where
  "message_role_str RoleUser = ''user''"
| "message_role_str RoleAssistant = ''assistant''"
| "message_role_str RoleTool = ''tool''"
| "message_role_str RoleSystem = ''system''"

interpretation message_role: str_enum message_role_values message_role_str
proof
  show "e \<in> set message_role_values" for e
    by (cases e) (simp_all add: message_role_values_def)
  show "message_role_str e = message_role_str e' \<Longrightarrow> e = e'" for e e'
    by (cases e; cases e') simp_all
qed

datatype completion_status =
    CompletionComplete
  | CompletionPartial
  | CompletionReconciled
  | CompletionUnknown

definition completion_status_values :: "completion_status list" where
  "completion_status_values = [CompletionComplete, CompletionPartial, CompletionReconciled, CompletionUnknown]"

primrec completion_status_str :: "completion_status \<Rightarrow> string" where
  "completion_status_str CompletionComplete = ''complete''"
| "completion_status_str CompletionPartial = ''partial''"
| "completion_status_str CompletionReconciled = ''reconciled''"
| "completion_status_str CompletionUnknown = ''unknown''"

interpretation completion_status: str_enum completion_status_values completion_status_str
proof
  show "e \<in> set completion_status_values" for e
    by (cases e) (simp_all add: completion_status_values_def)
  show "completion_status_str e = completion_status_str e' \<Longrightarrow> e = e'" for e e'
    by (cases e; cases e') simp_all
qed

datatype capture_completeness =
    CcCompleteCurrentPage
  | CcPartialScrollLimit
  | CcLiveOnly
  | CcComplianceVerified
  | CcReconciled
  | CcUnknown

definition capture_completeness_values :: "capture_completeness list" where
  "capture_completeness_values = [CcCompleteCurrentPage,
     CcPartialScrollLimit,
     CcLiveOnly,
     CcComplianceVerified,
     CcReconciled,
     CcUnknown]"

primrec capture_completeness_str :: "capture_completeness \<Rightarrow> string" where
  "capture_completeness_str CcCompleteCurrentPage = ''complete_current_page''"
| "capture_completeness_str CcPartialScrollLimit = ''partial_scroll_limit''"
| "capture_completeness_str CcLiveOnly = ''live_only''"
| "capture_completeness_str CcComplianceVerified = ''compliance_verified''"
| "capture_completeness_str CcReconciled = ''reconciled''"
| "capture_completeness_str CcUnknown = ''unknown''"

interpretation capture_completeness: str_enum capture_completeness_values capture_completeness_str
proof
  show "e \<in> set capture_completeness_values" for e
    by (cases e) (simp_all add: capture_completeness_values_def)
  show "capture_completeness_str e = capture_completeness_str e' \<Longrightarrow> e = e'" for e e'
    by (cases e; cases e') simp_all
qed

datatype capture_source =
    SrcChromeExtension
  | SrcComplianceApi
  | SrcManualImport

definition capture_source_values :: "capture_source list" where
  "capture_source_values = [SrcChromeExtension, SrcComplianceApi, SrcManualImport]"

primrec capture_source_str :: "capture_source \<Rightarrow> string" where
  "capture_source_str SrcChromeExtension = ''chrome_extension''"
| "capture_source_str SrcComplianceApi = ''compliance_api''"
| "capture_source_str SrcManualImport = ''manual_import''"

interpretation capture_source: str_enum capture_source_values capture_source_str
proof
  show "e \<in> set capture_source_values" for e
    by (cases e) (simp_all add: capture_source_values_def)
  show "capture_source_str e = capture_source_str e' \<Longrightarrow> e = e'" for e e'
    by (cases e; cases e') simp_all
qed

datatype workspace_kind =
    WsManagedCompany
  | WsPersonal
  | WsUnverified

definition workspace_kind_values :: "workspace_kind list" where
  "workspace_kind_values = [WsManagedCompany, WsPersonal, WsUnverified]"

primrec workspace_kind_str :: "workspace_kind \<Rightarrow> string" where
  "workspace_kind_str WsManagedCompany = ''managed_company''"
| "workspace_kind_str WsPersonal = ''personal''"
| "workspace_kind_str WsUnverified = ''unverified''"

interpretation workspace_kind: str_enum workspace_kind_values workspace_kind_str
proof
  show "e \<in> set workspace_kind_values" for e
    by (cases e) (simp_all add: workspace_kind_values_def)
  show "workspace_kind_str e = workspace_kind_str e' \<Longrightarrow> e = e'" for e e'
    by (cases e; cases e') simp_all
qed

datatype capture_event_kind =
    EvConversationUpsert
  | EvMessageVersion
  | EvAttachmentMetadata
  | EvFeedback
  | EvDiagnostic
  | EvComplianceEvent

definition capture_event_kind_values :: "capture_event_kind list" where
  "capture_event_kind_values = [EvConversationUpsert,
     EvMessageVersion,
     EvAttachmentMetadata,
     EvFeedback,
     EvDiagnostic,
     EvComplianceEvent]"

primrec capture_event_kind_str :: "capture_event_kind \<Rightarrow> string" where
  "capture_event_kind_str EvConversationUpsert = ''conversation_upsert''"
| "capture_event_kind_str EvMessageVersion = ''message_version''"
| "capture_event_kind_str EvAttachmentMetadata = ''attachment_metadata''"
| "capture_event_kind_str EvFeedback = ''feedback''"
| "capture_event_kind_str EvDiagnostic = ''diagnostic''"
| "capture_event_kind_str EvComplianceEvent = ''compliance_event''"

interpretation capture_event_kind: str_enum capture_event_kind_values capture_event_kind_str
proof
  show "e \<in> set capture_event_kind_values" for e
    by (cases e) (simp_all add: capture_event_kind_values_def)
  show "capture_event_kind_str e = capture_event_kind_str e' \<Longrightarrow> e = e'" for e e'
    by (cases e; cases e') simp_all
qed

datatype ingest_status =
    IngestAccepted
  | IngestDuplicate
  | IngestRejected
  | IngestRetryable

definition ingest_status_values :: "ingest_status list" where
  "ingest_status_values = [IngestAccepted, IngestDuplicate, IngestRejected, IngestRetryable]"

primrec ingest_status_str :: "ingest_status \<Rightarrow> string" where
  "ingest_status_str IngestAccepted = ''accepted''"
| "ingest_status_str IngestDuplicate = ''duplicate''"
| "ingest_status_str IngestRejected = ''rejected''"
| "ingest_status_str IngestRetryable = ''retryable''"

interpretation ingest_status: str_enum ingest_status_values ingest_status_str
proof
  show "e \<in> set ingest_status_values" for e
    by (cases e) (simp_all add: ingest_status_values_def)
  show "ingest_status_str e = ingest_status_str e' \<Longrightarrow> e = e'" for e e'
    by (cases e; cases e') simp_all
qed

datatype attachment_state =
    AttPending
  | AttQuarantine
  | AttClean
  | AttRejected
  | AttExpired
  | AttMetadataOnly

definition attachment_state_values :: "attachment_state list" where
  "attachment_state_values = [AttPending,
     AttQuarantine,
     AttClean,
     AttRejected,
     AttExpired,
     AttMetadataOnly]"

primrec attachment_state_str :: "attachment_state \<Rightarrow> string" where
  "attachment_state_str AttPending = ''pending''"
| "attachment_state_str AttQuarantine = ''quarantine''"
| "attachment_state_str AttClean = ''clean''"
| "attachment_state_str AttRejected = ''rejected''"
| "attachment_state_str AttExpired = ''expired''"
| "attachment_state_str AttMetadataOnly = ''metadata_only''"

interpretation attachment_state: str_enum attachment_state_values attachment_state_str
proof
  show "e \<in> set attachment_state_values" for e
    by (cases e) (simp_all add: attachment_state_values_def)
  show "attachment_state_str e = attachment_state_str e' \<Longrightarrow> e = e'" for e e'
    by (cases e; cases e') simp_all
qed

datatype job_status =
    JobPending
  | JobRunning
  | JobSucceeded
  | JobFailed
  | JobDead
  | JobCancelled

definition job_status_values :: "job_status list" where
  "job_status_values = [JobPending,
     JobRunning,
     JobSucceeded,
     JobFailed,
     JobDead,
     JobCancelled]"

primrec job_status_str :: "job_status \<Rightarrow> string" where
  "job_status_str JobPending = ''pending''"
| "job_status_str JobRunning = ''running''"
| "job_status_str JobSucceeded = ''succeeded''"
| "job_status_str JobFailed = ''failed''"
| "job_status_str JobDead = ''dead''"
| "job_status_str JobCancelled = ''cancelled''"

interpretation job_status: str_enum job_status_values job_status_str
proof
  show "e \<in> set job_status_values" for e
    by (cases e) (simp_all add: job_status_values_def)
  show "job_status_str e = job_status_str e' \<Longrightarrow> e = e'" for e e'
    by (cases e; cases e') simp_all
qed

datatype job_kind =
    KindArchiveRawEvent
  | KindBuildConversationSnapshot
  | KindFinalizeAttachment
  | KindRunExport
  | KindRetentionSweep
  | KindComplianceSync
  | KindReconcilePartial
  | KindMaintainPartitions
  | KindCleanupStale

definition job_kind_values :: "job_kind list" where
  "job_kind_values = [KindArchiveRawEvent,
     KindBuildConversationSnapshot,
     KindFinalizeAttachment,
     KindRunExport,
     KindRetentionSweep,
     KindComplianceSync,
     KindReconcilePartial,
     KindMaintainPartitions,
     KindCleanupStale]"

primrec job_kind_str :: "job_kind \<Rightarrow> string" where
  "job_kind_str KindArchiveRawEvent = ''archive_raw_event''"
| "job_kind_str KindBuildConversationSnapshot = ''build_conversation_snapshot''"
| "job_kind_str KindFinalizeAttachment = ''finalize_attachment''"
| "job_kind_str KindRunExport = ''run_export''"
| "job_kind_str KindRetentionSweep = ''retention_sweep''"
| "job_kind_str KindComplianceSync = ''compliance_sync''"
| "job_kind_str KindReconcilePartial = ''reconcile_partial''"
| "job_kind_str KindMaintainPartitions = ''maintain_partitions''"
| "job_kind_str KindCleanupStale = ''cleanup_stale''"

interpretation job_kind: str_enum job_kind_values job_kind_str
proof
  show "e \<in> set job_kind_values" for e
    by (cases e) (simp_all add: job_kind_values_def)
  show "job_kind_str e = job_kind_str e' \<Longrightarrow> e = e'" for e e'
    by (cases e; cases e') simp_all
qed

datatype export_status =
    ExportPending
  | ExportRunning
  | ExportCompleted
  | ExportFailed
  | ExportCancelled

definition export_status_values :: "export_status list" where
  "export_status_values = [ExportPending, ExportRunning, ExportCompleted, ExportFailed, ExportCancelled]"

primrec export_status_str :: "export_status \<Rightarrow> string" where
  "export_status_str ExportPending = ''pending''"
| "export_status_str ExportRunning = ''running''"
| "export_status_str ExportCompleted = ''completed''"
| "export_status_str ExportFailed = ''failed''"
| "export_status_str ExportCancelled = ''cancelled''"

interpretation export_status: str_enum export_status_values export_status_str
proof
  show "e \<in> set export_status_values" for e
    by (cases e) (simp_all add: export_status_values_def)
  show "export_status_str e = export_status_str e' \<Longrightarrow> e = e'" for e e'
    by (cases e; cases e') simp_all
qed

datatype export_kind =
    ExportKindCuratedTrainingJsonl
  | ExportKindComplianceExtract
  | ExportKindLegalHoldBundle

definition export_kind_values :: "export_kind list" where
  "export_kind_values = [ExportKindCuratedTrainingJsonl, ExportKindComplianceExtract, ExportKindLegalHoldBundle]"

primrec export_kind_str :: "export_kind \<Rightarrow> string" where
  "export_kind_str ExportKindCuratedTrainingJsonl = ''curated_training_jsonl''"
| "export_kind_str ExportKindComplianceExtract = ''compliance_extract''"
| "export_kind_str ExportKindLegalHoldBundle = ''legal_hold_bundle''"

interpretation export_kind: str_enum export_kind_values export_kind_str
proof
  show "e \<in> set export_kind_values" for e
    by (cases e) (simp_all add: export_kind_values_def)
  show "export_kind_str e = export_kind_str e' \<Longrightarrow> e = e'" for e e'
    by (cases e; cases e') simp_all
qed

datatype approval_status =
    ApprovalPending
  | ApprovalApproved
  | ApprovalRejected
  | ApprovalWithdrawn

definition approval_status_values :: "approval_status list" where
  "approval_status_values = [ApprovalPending, ApprovalApproved, ApprovalRejected, ApprovalWithdrawn]"

primrec approval_status_str :: "approval_status \<Rightarrow> string" where
  "approval_status_str ApprovalPending = ''pending''"
| "approval_status_str ApprovalApproved = ''approved''"
| "approval_status_str ApprovalRejected = ''rejected''"
| "approval_status_str ApprovalWithdrawn = ''withdrawn''"

interpretation approval_status: str_enum approval_status_values approval_status_str
proof
  show "e \<in> set approval_status_values" for e
    by (cases e) (simp_all add: approval_status_values_def)
  show "approval_status_str e = approval_status_str e' \<Longrightarrow> e = e'" for e e'
    by (cases e; cases e') simp_all
qed

datatype feedback_kind =
    FeedbackUseful
  | FeedbackIncorrect
  | FeedbackApproved
  | FeedbackRejected
  | FeedbackNote

definition feedback_kind_values :: "feedback_kind list" where
  "feedback_kind_values = [FeedbackUseful, FeedbackIncorrect, FeedbackApproved, FeedbackRejected, FeedbackNote]"

primrec feedback_kind_str :: "feedback_kind \<Rightarrow> string" where
  "feedback_kind_str FeedbackUseful = ''useful''"
| "feedback_kind_str FeedbackIncorrect = ''incorrect''"
| "feedback_kind_str FeedbackApproved = ''approved''"
| "feedback_kind_str FeedbackRejected = ''rejected''"
| "feedback_kind_str FeedbackNote = ''note''"

interpretation feedback_kind: str_enum feedback_kind_values feedback_kind_str
proof
  show "e \<in> set feedback_kind_values" for e
    by (cases e) (simp_all add: feedback_kind_values_def)
  show "feedback_kind_str e = feedback_kind_str e' \<Longrightarrow> e = e'" for e e'
    by (cases e; cases e') simp_all
qed

datatype part_kind =
    PartText
  | PartCode
  | PartHeading
  | PartList
  | PartTable
  | PartQuote
  | PartLink
  | PartCitation
  | PartImageRef
  | PartAttachmentRef
  | PartToolOutput
  | PartUnknown

definition part_kind_values :: "part_kind list" where
  "part_kind_values = [PartText,
     PartCode,
     PartHeading,
     PartList,
     PartTable,
     PartQuote,
     PartLink,
     PartCitation,
     PartImageRef,
     PartAttachmentRef,
     PartToolOutput,
     PartUnknown]"

primrec part_kind_str :: "part_kind \<Rightarrow> string" where
  "part_kind_str PartText = ''text''"
| "part_kind_str PartCode = ''code''"
| "part_kind_str PartHeading = ''heading''"
| "part_kind_str PartList = ''list''"
| "part_kind_str PartTable = ''table''"
| "part_kind_str PartQuote = ''quote''"
| "part_kind_str PartLink = ''link''"
| "part_kind_str PartCitation = ''citation''"
| "part_kind_str PartImageRef = ''image_ref''"
| "part_kind_str PartAttachmentRef = ''attachment_ref''"
| "part_kind_str PartToolOutput = ''tool_output''"
| "part_kind_str PartUnknown = ''unknown''"

interpretation part_kind: str_enum part_kind_values part_kind_str
proof
  show "e \<in> set part_kind_values" for e
    by (cases e) (simp_all add: part_kind_values_def)
  show "part_kind_str e = part_kind_str e' \<Longrightarrow> e = e'" for e e'
    by (cases e; cases e') simp_all
qed

datatype audit_action =
    AuditAdminRead
  | AuditAdminSearch
  | AuditExportCreated
  | AuditExportDownloaded
  | AuditApprovalChanged
  | AuditRetentionSoftDelete
  | AuditRetentionHardDelete
  | AuditLegalHoldSet
  | AuditLegalHoldCleared
  | AuditDeviceRevoked
  | AuditAuthLogin
  | AuditAuthRefresh
  | AuditAuthDenied
  | AuditConfigRead
  | AuditPolicyBlocked
  | AuditAttachmentPresigned
  | AuditAttachmentFinalized

definition audit_action_values :: "audit_action list" where
  "audit_action_values = [AuditAdminRead,
     AuditAdminSearch,
     AuditExportCreated,
     AuditExportDownloaded,
     AuditApprovalChanged,
     AuditRetentionSoftDelete,
     AuditRetentionHardDelete,
     AuditLegalHoldSet,
     AuditLegalHoldCleared,
     AuditDeviceRevoked,
     AuditAuthLogin,
     AuditAuthRefresh,
     AuditAuthDenied,
     AuditConfigRead,
     AuditPolicyBlocked,
     AuditAttachmentPresigned,
     AuditAttachmentFinalized]"

primrec audit_action_str :: "audit_action \<Rightarrow> string" where
  "audit_action_str AuditAdminRead = ''admin_read''"
| "audit_action_str AuditAdminSearch = ''admin_search''"
| "audit_action_str AuditExportCreated = ''export_created''"
| "audit_action_str AuditExportDownloaded = ''export_downloaded''"
| "audit_action_str AuditApprovalChanged = ''approval_changed''"
| "audit_action_str AuditRetentionSoftDelete = ''retention_soft_delete''"
| "audit_action_str AuditRetentionHardDelete = ''retention_hard_delete''"
| "audit_action_str AuditLegalHoldSet = ''legal_hold_set''"
| "audit_action_str AuditLegalHoldCleared = ''legal_hold_cleared''"
| "audit_action_str AuditDeviceRevoked = ''device_revoked''"
| "audit_action_str AuditAuthLogin = ''auth_login''"
| "audit_action_str AuditAuthRefresh = ''auth_refresh''"
| "audit_action_str AuditAuthDenied = ''auth_denied''"
| "audit_action_str AuditConfigRead = ''config_read''"
| "audit_action_str AuditPolicyBlocked = ''policy_blocked''"
| "audit_action_str AuditAttachmentPresigned = ''attachment_presigned''"
| "audit_action_str AuditAttachmentFinalized = ''attachment_finalized''"

interpretation audit_action: str_enum audit_action_values audit_action_str
proof
  show "e \<in> set audit_action_values" for e
    by (cases e) (simp_all add: audit_action_values_def)
  show "audit_action_str e = audit_action_str e' \<Longrightarrow> e = e'" for e e'
    by (cases e; cases e') simp_all
qed

datatype retention_action =
    RetentionSoftDelete
  | RetentionHardDelete
  | RetentionAnonymize

definition retention_action_values :: "retention_action list" where
  "retention_action_values = [RetentionSoftDelete, RetentionHardDelete, RetentionAnonymize]"

primrec retention_action_str :: "retention_action \<Rightarrow> string" where
  "retention_action_str RetentionSoftDelete = ''soft_delete''"
| "retention_action_str RetentionHardDelete = ''hard_delete''"
| "retention_action_str RetentionAnonymize = ''anonymize''"

interpretation retention_action: str_enum retention_action_values retention_action_str
proof
  show "e \<in> set retention_action_values" for e
    by (cases e) (simp_all add: retention_action_values_def)
  show "retention_action_str e = retention_action_str e' \<Longrightarrow> e = e'" for e e'
    by (cases e; cases e') simp_all
qed

datatype source_event_kind =
    SrcEventConversation
  | SrcEventMessage
  | SrcEventFile
  | SrcEventDeletion
  | SrcEventUnknown

definition source_event_kind_values :: "source_event_kind list" where
  "source_event_kind_values = [SrcEventConversation, SrcEventMessage, SrcEventFile, SrcEventDeletion, SrcEventUnknown]"

primrec source_event_kind_str :: "source_event_kind \<Rightarrow> string" where
  "source_event_kind_str SrcEventConversation = ''conversation''"
| "source_event_kind_str SrcEventMessage = ''message''"
| "source_event_kind_str SrcEventFile = ''file''"
| "source_event_kind_str SrcEventDeletion = ''deletion''"
| "source_event_kind_str SrcEventUnknown = ''unknown''"

interpretation source_event_kind: str_enum source_event_kind_values source_event_kind_str
proof
  show "e \<in> set source_event_kind_values" for e
    by (cases e) (simp_all add: source_event_kind_values_def)
  show "source_event_kind_str e = source_event_kind_str e' \<Longrightarrow> e = e'" for e e'
    by (cases e; cases e') simp_all
qed

end
