(* ===== verification/Rows.thy ===== *)
theory Rows
  imports Enums Complex_Main
begin

text \<open>
  The tables of the archive (\<open>app/models\<close>): a record per ORM class, the constraints declared in
  its \<open>__table_args__\<close>, and \<open>db\<close>, the database a session works on.  \<open>flush\<close> is the point at which
  pending writes meet the constraints: it fails with \<open>IntegrityError\<close> exactly when one is
  violated.  \<open>updated_at\<close>, which no service reads, and the full-text column computed by the
  database are left out; foreign keys are not checked here, their cascades are written out by
  the operations that rely on them.
\<close>

section \<open>Identity (models/identity.py)\<close>

record organization =
  org_id :: uuid
  org_created_at :: time
  org_slug :: string
  org_display_name :: ustr
  org_primary_domain :: ustr
  org_allowed_domains :: "ustr list"
  org_is_active :: bool
  org_settings :: json

record workspace =
  ws_id :: uuid
  ws_created_at :: time
  ws_organization_id :: uuid
  ws_source_workspace_id :: "string option"
  ws_label :: "ustr option"
  ws_workspace_hash :: string
  ws_kind :: workspace_kind
  ws_verified_at :: "time option"
  ws_capture_enabled :: bool

record user =
  usr_id :: uuid
  usr_created_at :: time
  usr_organization_id :: uuid
  usr_email :: ustr
  usr_email_hash :: string
  usr_display_name :: "ustr option"
  usr_roles :: "string list"
  usr_is_active :: bool
  usr_notice_acknowledged_at :: "time option"
  usr_last_seen_at :: "time option"

record user_identity =
  ui_id :: uuid
  ui_created_at :: time
  ui_user_id :: uuid
  ui_provider :: string
  ui_issuer :: ustr
  ui_subject :: ustr
  ui_hosted_domain :: "ustr option"
  ui_last_authenticated_at :: "time option"

record device =
  dev_id :: uuid
  dev_created_at :: time
  dev_user_id :: uuid
  dev_organization_id :: uuid
  dev_device_fingerprint :: ustr
  dev_extension_id :: "ustr option"
  dev_extension_version :: "ustr option"
  dev_adapter_version :: "ustr option"
  dev_browser_version :: "ustr option"
  dev_platform :: "ustr option"
  dev_managed_by_policy :: bool
  dev_session_id :: "uuid option"
  dev_refresh_token_hash :: "string option"
  dev_refresh_token_expires_at :: "time option"
  dev_refresh_rotation_counter :: int
  dev_last_seen_at :: "time option"
  dev_last_sync_at :: "time option"
  dev_last_ip_hash :: "string option"
  dev_revoked_at :: "time option"
  dev_revoked_reason :: "ustr option"

definition organizations_ok :: "organization list \<Rightarrow> bool" where
  "organizations_ok rows \<longleftrightarrow> distinct (map org_id rows) \<and> distinct (map org_slug rows)
     \<and> list_all (\<lambda>r. org_slug r \<noteq> []) rows"

definition workspaces_ok :: "workspace list \<Rightarrow> bool" where
  "workspaces_ok rows \<longleftrightarrow> distinct (map ws_id rows)
     \<and> distinct (map (\<lambda>r. (ws_organization_id r, ws_workspace_hash r)) rows)"

definition users_ok :: "user list \<Rightarrow> bool" where
  "users_ok rows \<longleftrightarrow> distinct (map usr_id rows)
     \<and> distinct (map (\<lambda>r. (usr_organization_id r, usr_email r)) rows)
     \<and> list_all (\<lambda>r. 64 \<in> set (tl (usr_email r)) \<and> hd (usr_email r) \<noteq> 64) rows"

definition user_identities_ok :: "user_identity list \<Rightarrow> bool" where
  "user_identities_ok rows \<longleftrightarrow> distinct (map ui_id rows)
     \<and> distinct (map (\<lambda>r. (ui_issuer r, ui_subject r)) rows)"

definition devices_ok :: "device list \<Rightarrow> bool" where
  "devices_ok rows \<longleftrightarrow> distinct (map dev_id rows)
     \<and> distinct (map (\<lambda>r. (dev_user_id r, dev_device_fingerprint r)) rows)"

section \<open>Conversations (models/conversation.py)\<close>

record conversation =
  cv_id :: uuid
  cv_created_at :: time
  cv_deleted_at :: "time option"
  cv_deletion_reason :: "ustr option"
  cv_legal_hold :: bool
  cv_organization_id :: uuid
  cv_workspace_id :: uuid
  cv_user_id :: "uuid option"
  cv_source_conversation_id :: string
  cv_source_url :: "ustr option"
  cv_title :: "ustr option"
  cv_model_slug :: "ustr option"
  cv_capture_sources :: "string list"
  cv_capture_completeness :: capture_completeness
  cv_employee_id_hash :: "string option"
  cv_source_created_at :: "time option"
  cv_source_updated_at :: "time option"
  cv_first_captured_at :: "time option"
  cv_last_captured_at :: "time option"
  cv_message_count :: int
  cv_snapshot_version :: int
  cv_snapshot_s3_key :: "string option"
  cv_snapshot_sha256 :: "string option"
  cv_snapshot_stale :: bool
  cv_retention_policy_id :: "uuid option"
  cv_metadata_json :: json

record conversation_branch =
  br_id :: uuid
  br_created_at :: time
  br_conversation_id :: uuid
  br_parent_branch_id :: "uuid option"
  br_source_branch_id :: "ustr option"
  br_branch_key :: ustr
  br_branch_index :: int
  br_is_selected :: bool
  br_detected_at :: "time option"

record message =
  msg_id :: uuid
  msg_created_at :: time
  msg_deleted_at :: "time option"
  msg_deletion_reason :: "ustr option"
  msg_legal_hold :: bool
  msg_conversation_id :: uuid
  msg_organization_id :: uuid
  msg_branch_id :: "uuid option"
  msg_parent_message_id :: "uuid option"
  msg_source_message_id :: "string option"
  msg_fingerprint :: string
  msg_role :: message_role
  msg_author_name :: "ustr option"
  msg_sequence_index :: int
  msg_source_created_at :: "time option"
  msg_current_version_id :: "uuid option"
  msg_version_count :: int
  msg_completion_status :: completion_status
  msg_has_attachments :: bool

record message_version =
  mv_id :: uuid
  mv_created_at :: time
  mv_deleted_at :: "time option"
  mv_deletion_reason :: "ustr option"
  mv_legal_hold :: bool
  mv_message_id :: uuid
  mv_conversation_id :: uuid
  mv_organization_id :: uuid
  mv_version_number :: int
  mv_is_edit :: bool
  mv_is_regeneration :: bool
  mv_completion_status :: completion_status
  mv_plain_text :: ustr
  mv_sanitized_html :: "ustr option"
  mv_content_sha256 :: string
  mv_normalized_sha256 :: string
  mv_char_count :: int
  mv_token_estimate :: int
  mv_captured_at :: time
  mv_source_created_at :: "time option"
  mv_capture_source :: string
  mv_device_id :: "uuid option"
  mv_capture_event_id :: "uuid option"
  mv_raw_s3_key :: "string option"
  mv_raw_s3_version_id :: "string option"
  mv_citations :: json
  mv_metadata_json :: json

record message_part =
  mp_id :: uuid
  mp_message_version_id :: uuid
  mp_conversation_id :: uuid
  mp_part_index :: int
  mp_kind :: part_kind
  mp_language :: "ustr option"
  mp_text_content :: "ustr option"
  mp_structured :: json
  mp_byte_size :: int

definition conversations_ok :: "conversation list \<Rightarrow> bool" where
  "conversations_ok rows \<longleftrightarrow> distinct (map cv_id rows)
     \<and> distinct (map (\<lambda>r. (cv_organization_id r, cv_workspace_id r, cv_source_conversation_id r)) rows)
     \<and> list_all (\<lambda>r. 0 \<le> cv_message_count r \<and> \<not> (cv_legal_hold r \<and> cv_deleted_at r \<noteq> None)) rows"

definition branches_ok :: "conversation_branch list \<Rightarrow> bool" where
  "branches_ok rows \<longleftrightarrow> distinct (map br_id rows)
     \<and> distinct (map (\<lambda>r. (br_conversation_id r, br_branch_key r)) rows)"

definition has_source_id :: "message \<Rightarrow> bool" where
  "has_source_id r \<longleftrightarrow> msg_source_message_id r \<noteq> None"

definition messages_ok :: "message list \<Rightarrow> bool" where
  "messages_ok rows \<longleftrightarrow> distinct (map msg_id rows)
     \<and> distinct (map (\<lambda>r. (msg_conversation_id r, msg_source_message_id r)) (filter has_source_id rows))
     \<and> distinct (map (\<lambda>r. (msg_conversation_id r, msg_fingerprint r)) rows)
     \<and> list_all (\<lambda>r. 0 \<le> msg_sequence_index r \<and> 0 \<le> msg_version_count r
          \<and> \<not> (msg_legal_hold r \<and> msg_deleted_at r \<noteq> None)) rows"

definition versions_ok :: "message_version list \<Rightarrow> bool" where
  "versions_ok rows \<longleftrightarrow> distinct (map mv_id rows)
     \<and> distinct (map (\<lambda>r. (mv_message_id r, mv_version_number r)) rows)
     \<and> distinct (map (\<lambda>r. (mv_message_id r, mv_normalized_sha256 r)) rows)
     \<and> list_all (\<lambda>r. 1 \<le> mv_version_number r \<and> 0 \<le> mv_char_count r) rows"

definition parts_ok :: "message_part list \<Rightarrow> bool" where
  "parts_ok rows \<longleftrightarrow> distinct (map mp_id rows)
     \<and> distinct (map (\<lambda>r. (mp_message_version_id r, mp_part_index r)) rows)
     \<and> list_all (\<lambda>r. 0 \<le> mp_part_index r) rows"

section \<open>Attachments (models/attachment.py)\<close>

record attachment =
  at_id :: uuid
  at_created_at :: time
  at_deleted_at :: "time option"
  at_legal_hold :: bool
  at_organization_id :: uuid
  at_workspace_id :: uuid
  at_conversation_id :: uuid
  at_user_id :: "uuid option"
  at_device_id :: "uuid option"
  at_client_attachment_id :: ustr
  at_original_filename :: "ustr option"
  at_safe_filename :: ustr
  at_declared_mime_type :: "string option"
  at_detected_mime_type :: "string option"
  at_extension :: "ustr option"
  at_byte_size :: int
  at_verified_byte_size :: "int option"
  at_sha256 :: string
  at_verified_sha256 :: "string option"
  at_state :: attachment_state
  at_rejection_reason :: "string option"
  at_metadata_only :: bool
  at_source_file_id :: "string option"
  at_quarantine_s3_key :: "ustr option"
  at_clean_s3_key :: "ustr option"
  at_curated_s3_key :: "ustr option"
  at_s3_version_id :: "string option"
  at_presign_issued_at :: "time option"
  at_presign_expires_at :: "time option"
  at_uploaded_at :: "time option"
  at_verified_at :: "time option"
  at_scan_status :: "string option"
  at_scan_result :: json
  at_exif_stripped :: bool
  at_metadata_json :: json

record message_attachment =
  ma_id :: uuid
  ma_created_at :: time
  ma_attachment_id :: uuid
  ma_message_id :: uuid
  ma_message_version_id :: "uuid option"
  ma_conversation_id :: uuid
  ma_position :: int
  ma_relation :: string

definition attachments_ok :: "attachment list \<Rightarrow> bool" where
  "attachments_ok rows \<longleftrightarrow> distinct (map at_id rows)
     \<and> distinct (map (\<lambda>r. (at_conversation_id r, at_client_attachment_id r)) rows)
     \<and> list_all (\<lambda>r. 0 \<le> at_byte_size r \<and> length (at_sha256 r) = 64
          \<and> (at_state r = AttClean \<longrightarrow> at_clean_s3_key r \<noteq> None \<or> at_metadata_only r)) rows"

definition message_attachments_ok :: "message_attachment list \<Rightarrow> bool" where
  "message_attachments_ok rows \<longleftrightarrow> distinct (map ma_id rows)
     \<and> distinct (map (\<lambda>r. (ma_attachment_id r, ma_message_id r)) rows)
     \<and> list_all (\<lambda>r. ma_relation r \<in> {''uploaded_by_user'', ''generated_by_assistant'', ''referenced_historical''}) rows"

section \<open>Events, keys, checkpoints, audit (models/events.py)\<close>

record capture_event =
  ce_id :: uuid
  ce_created_at :: time
  ce_organization_id :: uuid
  ce_workspace_id :: "uuid option"
  ce_user_id :: "uuid option"
  ce_device_id :: "uuid option"
  ce_conversation_id :: "uuid option"
  ce_message_id :: "uuid option"
  ce_kind :: capture_event_kind
  ce_idempotency_key :: string
  ce_status :: ingest_status
  ce_schema_version :: string
  ce_adapter_version :: "string option"
  ce_extension_version :: "string option"
  ce_client_captured_at :: "time option"
  ce_payload :: json
  ce_payload_sha256 :: string
  ce_payload_bytes :: int
  ce_raw_s3_key :: "string option"
  ce_raw_s3_version_id :: "string option"
  ce_archived_at :: "time option"

record idempotency_key =
  ik_organization_id :: uuid
  ik_idempotency_key :: string
  ik_capture_event_id :: uuid
  ik_capture_event_created_at :: time
  ik_result_ref :: json
  ik_created_at :: time

record source_event =
  se_id :: uuid
  se_created_at :: time
  se_organization_id :: uuid
  se_source :: string
  se_source_event_id :: ustr
  se_kind :: source_event_kind
  se_source_conversation_id :: "ustr option"
  se_source_message_id :: "ustr option"
  se_source_workspace_id :: "ustr option"
  se_actor_email_hash :: "string option"
  se_event_time :: "time option"
  se_is_deletion :: bool
  se_payload :: json
  se_payload_sha256 :: string
  se_raw_s3_key :: "string option"
  se_raw_s3_version_id :: "string option"
  se_processed_at :: "time option"

record source_event_key =
  sk_organization_id :: uuid
  sk_source :: string
  sk_source_event_id :: ustr
  sk_source_event_created_at :: time
  sk_created_at :: time

record sync_checkpoint =
  sc_id :: uuid
  sc_organization_id :: uuid
  sc_source :: string
  sc_stream :: string
  sc_cursor_value :: "ustr option"
  sc_window_start :: "time option"
  sc_window_end :: "time option"
  sc_last_event_time :: "time option"
  sc_last_success_at :: "time option"
  sc_last_attempt_at :: "time option"
  sc_consecutive_errors :: int
  sc_total_events :: int
  sc_last_error :: "string option"
  sc_state :: json

record audit_event =
  ae_id :: uuid
  ae_organization_id :: "uuid option"
  ae_actor_user_id :: "uuid option"
  ae_actor_email :: "ustr option"
  ae_actor_roles :: "string list"
  ae_device_id :: "uuid option"
  ae_action :: audit_action
  ae_resource_type :: "string option"
  ae_resource_id :: "ustr option"
  ae_outcome :: string
  ae_ip_hash :: "string option"
  ae_source_ip :: "ustr option"
  ae_user_agent_hash :: "string option"
  ae_correlation_id :: "string option"
  ae_details :: "(string \<times> json) list"

definition capture_events_ok :: "capture_event list \<Rightarrow> bool" where
  "capture_events_ok rows \<longleftrightarrow> distinct (map (\<lambda>r. (ce_id r, ce_created_at r)) rows)
     \<and> list_all (\<lambda>r. 0 \<le> ce_payload_bytes r) rows"

definition idempotency_keys_ok :: "idempotency_key list \<Rightarrow> bool" where
  "idempotency_keys_ok rows \<longleftrightarrow>
     distinct (map (\<lambda>r. (ik_organization_id r, ik_idempotency_key r)) rows)"

definition source_events_ok :: "source_event list \<Rightarrow> bool" where
  "source_events_ok rows \<longleftrightarrow> distinct (map (\<lambda>r. (se_id r, se_created_at r)) rows)"

definition source_event_keys_ok :: "source_event_key list \<Rightarrow> bool" where
  "source_event_keys_ok rows \<longleftrightarrow>
     distinct (map (\<lambda>r. (sk_organization_id r, sk_source r, sk_source_event_id r)) rows)"

definition sync_checkpoints_ok :: "sync_checkpoint list \<Rightarrow> bool" where
  "sync_checkpoints_ok rows \<longleftrightarrow> distinct (map sc_id rows)
     \<and> distinct (map (\<lambda>r. (sc_organization_id r, sc_source r, sc_stream r)) rows)
     \<and> list_all (\<lambda>r. 0 \<le> sc_consecutive_errors r) rows"

definition audit_events_ok :: "audit_event list \<Rightarrow> bool" where
  "audit_events_ok rows \<longleftrightarrow> distinct (map ae_id rows)
     \<and> list_all (\<lambda>r. ae_outcome r \<in> {''success'', ''failure'', ''denied''}) rows"

section \<open>Jobs (models/jobs.py)\<close>

record job =
  jb_id :: uuid
  jb_created_at :: time
  jb_organization_id :: "uuid option"
  jb_kind :: job_kind
  jb_status :: job_status
  jb_priority :: int
  jb_payload :: json
  jb_dedupe_key :: "string option"
  jb_attempts :: int
  jb_max_attempts :: int
  jb_run_after :: time
  jb_locked_at :: "time option"
  jb_locked_by :: "string option"
  jb_lock_token :: "uuid option"
  jb_started_at :: "time option"
  jb_finished_at :: "time option"
  jb_error_summary :: "ustr option"
  jb_result :: json

record job_attempt =
  ja_id :: uuid
  ja_job_id :: uuid
  ja_attempt_number :: int
  ja_worker_id :: string
  ja_started_at :: time
  ja_finished_at :: "time option"
  ja_duration_ms :: "int option"
  ja_succeeded :: "bool option"
  ja_error_type :: "string option"
  ja_error_summary :: "ustr option"
  ja_recovered_stale_lock :: bool

definition live :: "job \<Rightarrow> bool" where
  "live j \<longleftrightarrow> jb_status j = JobPending \<or> jb_status j = JobRunning"

definition live_keyed :: "job \<Rightarrow> bool" where
  "live_keyed j \<longleftrightarrow> live j \<and> jb_dedupe_key j \<noteq> None"

definition jobs_ok :: "job list \<Rightarrow> bool" where
  "jobs_ok rows \<longleftrightarrow> distinct (map jb_id rows)
     \<and> distinct (map jb_dedupe_key (filter live_keyed rows))
     \<and> list_all (\<lambda>r. 0 \<le> jb_attempts r \<and> 1 \<le> jb_max_attempts r
          \<and> 0 \<le> jb_priority r \<and> jb_priority r \<le> 1000) rows"

definition job_attempts_ok :: "job_attempt list \<Rightarrow> bool" where
  "job_attempts_ok rows \<longleftrightarrow> distinct (map ja_id rows)
     \<and> distinct (map (\<lambda>r. (ja_job_id r, ja_attempt_number r)) rows)
     \<and> list_all (\<lambda>r. 1 \<le> ja_attempt_number r) rows"

section \<open>Governance (models/governance.py)\<close>

record feedback =
  fb_id :: uuid
  fb_created_at :: time
  fb_organization_id :: uuid
  fb_conversation_id :: uuid
  fb_message_id :: "uuid option"
  fb_message_version_id :: "uuid option"
  fb_user_id :: "uuid option"
  fb_kind :: feedback_kind
  fb_rating :: "int option"
  fb_note :: "ustr option"
  fb_client_feedback_id :: ustr

record training_approval =
  ta_id :: uuid
  ta_created_at :: time
  ta_organization_id :: uuid
  ta_conversation_id :: uuid
  ta_message_id :: "uuid option"
  ta_status :: approval_status
  ta_reviewed_by_user_id :: "uuid option"
  ta_reviewed_at :: "time option"
  ta_reason :: "ustr option"
  ta_contains_secrets :: bool
  ta_contains_personal_data :: bool
  ta_policy_version :: "string option"

record export =
  ex_id :: uuid
  ex_created_at :: time
  ex_organization_id :: uuid
  ex_requested_by_user_id :: "uuid option"
  ex_kind :: export_kind
  ex_status :: export_status
  ex_filter_conversation_ids :: "uuid list"
  ex_filter_workspace_id :: "uuid option"
  ex_filter_from_time :: "time option"
  ex_filter_to_time :: "time option"
  ex_split_strategy :: string
  ex_split_ratios :: "(string \<times> rat) list"
  ex_include_attachments :: bool
  ex_conversation_count :: int
  ex_record_count :: int
  ex_byte_size :: int
  ex_s3_prefix :: "string option"
  ex_manifest_s3_key :: "string option"
  ex_manifest_sha256 :: "string option"
  ex_parts :: "json list"
  ex_started_at :: "time option"
  ex_completed_at :: "time option"
  ex_error_summary :: "ustr option"

record retention_policy =
  rp_id :: uuid
  rp_created_at :: time
  rp_organization_id :: uuid
  rp_name :: ustr
  rp_description :: "ustr option"
  rp_applies_to :: string
  rp_retain_days :: int
  rp_grace_days :: int
  rp_action :: retention_action
  rp_is_default :: bool
  rp_is_active :: bool
  rp_legal_hold_exempt :: bool
  rp_last_run_at :: "time option"

record legal_hold =
  lh_id :: uuid
  lh_created_at :: time
  lh_organization_id :: uuid
  lh_name :: ustr
  lh_matter_reference :: "ustr option"
  lh_scope_conversation_ids :: "string list"
  lh_created_by_user_id :: "uuid option"
  lh_released_at :: "time option"
  lh_released_by_user_id :: "uuid option"

definition feedback_ok :: "feedback list \<Rightarrow> bool" where
  "feedback_ok rows \<longleftrightarrow> distinct (map fb_id rows)
     \<and> distinct (map (\<lambda>r. (fb_organization_id r, fb_client_feedback_id r)) rows)
     \<and> list_all (\<lambda>r. case fb_rating r of None \<Rightarrow> True | Some n \<Rightarrow> 1 \<le> n \<and> n \<le> 5) rows"

text \<open>In a UNIQUE constraint of PostgreSQL two NULLs are different values.\<close>

definition training_approvals_ok :: "training_approval list \<Rightarrow> bool" where
  "training_approvals_ok rows \<longleftrightarrow> distinct (map ta_id rows)
     \<and> distinct (map (\<lambda>r. (ta_conversation_id r, ta_message_id r))
          (filter (\<lambda>r. ta_message_id r \<noteq> None) rows))"

definition exports_ok :: "export list \<Rightarrow> bool" where
  "exports_ok rows \<longleftrightarrow> distinct (map ex_id rows)
     \<and> list_all (\<lambda>r. 0 \<le> ex_record_count r
          \<and> ex_split_strategy r \<in> {''conversation_hash'', ''none''}) rows"

definition retention_policies_ok :: "retention_policy list \<Rightarrow> bool" where
  "retention_policies_ok rows \<longleftrightarrow> distinct (map rp_id rows)
     \<and> distinct (map (\<lambda>r. (rp_organization_id r, rp_name r)) rows)
     \<and> distinct (map rp_organization_id (filter rp_is_default rows))
     \<and> list_all (\<lambda>r. 1 \<le> rp_retain_days r \<and> 0 \<le> rp_grace_days r
          \<and> rp_applies_to r \<in> {''conversations'', ''capture_events'', ''source_events'', ''audit_events'',
               ''attachments'', ''exports''}
          \<and> \<not> (rp_legal_hold_exempt r \<and> rp_action r = RetentionHardDelete)) rows"

definition legal_holds_ok :: "legal_hold list \<Rightarrow> bool" where
  "legal_holds_ok rows \<longleftrightarrow> distinct (map lh_id rows)
     \<and> distinct (map (\<lambda>r. (lh_organization_id r, lh_name r)) rows)"

section \<open>The database of a session\<close>

record db =
  d_next_uuid :: uuid
  d_organizations :: "organization list"
  d_workspaces :: "workspace list"
  d_users :: "user list"
  d_user_identities :: "user_identity list"
  d_devices :: "device list"
  d_conversations :: "conversation list"
  d_branches :: "conversation_branch list"
  d_messages :: "message list"
  d_versions :: "message_version list"
  d_parts :: "message_part list"
  d_attachments :: "attachment list"
  d_message_attachments :: "message_attachment list"
  d_capture_events :: "capture_event list"
  d_idempotency_keys :: "idempotency_key list"
  d_source_events :: "source_event list"
  d_source_event_keys :: "source_event_key list"
  d_sync_checkpoints :: "sync_checkpoint list"
  d_audit_events :: "audit_event list"
  d_jobs :: "job list"
  d_job_attempts :: "job_attempt list"
  d_feedback :: "feedback list"
  d_training_approvals :: "training_approval list"
  d_exports :: "export list"
  d_retention_policies :: "retention_policy list"
  d_legal_holds :: "legal_hold list"

definition empty_db :: db where
  "empty_db = \<lparr>d_next_uuid = 1, d_organizations = [], d_workspaces = [], d_users = [],
     d_user_identities = [], d_devices = [], d_conversations = [], d_branches = [], d_messages = [],
     d_versions = [], d_parts = [], d_attachments = [], d_message_attachments = [],
     d_capture_events = [], d_idempotency_keys = [], d_source_events = [], d_source_event_keys = [],
     d_sync_checkpoints = [], d_audit_events = [], d_jobs = [], d_job_attempts = [], d_feedback = [],
     d_training_approvals = [], d_exports = [], d_retention_policies = [], d_legal_holds = []\<rparr>"

definition uuid4 :: "db \<Rightarrow> uuid \<times> db" where
  "uuid4 d = (d_next_uuid d, d\<lparr>d_next_uuid := Suc (d_next_uuid d)\<rparr>)"

definition constraints :: "db \<Rightarrow> bool" where
  "constraints d \<longleftrightarrow>
     organizations_ok (d_organizations d) \<and> workspaces_ok (d_workspaces d) \<and> users_ok (d_users d)
     \<and> user_identities_ok (d_user_identities d) \<and> devices_ok (d_devices d)
     \<and> conversations_ok (d_conversations d) \<and> branches_ok (d_branches d)
     \<and> messages_ok (d_messages d) \<and> versions_ok (d_versions d) \<and> parts_ok (d_parts d)
     \<and> attachments_ok (d_attachments d) \<and> message_attachments_ok (d_message_attachments d)
     \<and> capture_events_ok (d_capture_events d) \<and> idempotency_keys_ok (d_idempotency_keys d)
     \<and> source_events_ok (d_source_events d) \<and> source_event_keys_ok (d_source_event_keys d)
     \<and> sync_checkpoints_ok (d_sync_checkpoints d) \<and> audit_events_ok (d_audit_events d)
     \<and> jobs_ok (d_jobs d) \<and> job_attempts_ok (d_job_attempts d) \<and> feedback_ok (d_feedback d)
     \<and> training_approvals_ok (d_training_approvals d) \<and> exports_ok (d_exports d)
     \<and> retention_policies_ok (d_retention_policies d) \<and> legal_holds_ok (d_legal_holds d)"

lemmas table_ok_defs =
  organizations_ok_def workspaces_ok_def users_ok_def user_identities_ok_def devices_ok_def
  conversations_ok_def branches_ok_def messages_ok_def versions_ok_def parts_ok_def
  attachments_ok_def message_attachments_ok_def capture_events_ok_def idempotency_keys_ok_def
  source_events_ok_def source_event_keys_ok_def sync_checkpoints_ok_def audit_events_ok_def
  jobs_ok_def job_attempts_ok_def feedback_ok_def training_approvals_ok_def exports_ok_def
  retention_policies_ok_def legal_holds_ok_def

definition flush :: "db \<Rightarrow> db res" where
  "flush d = (if constraints d then Inr d else Inl IntegrityError)"

lemma flush_Inr [simp]: "flush d = Inr d' \<longleftrightarrow> d' = d \<and> constraints d"
  by (auto simp: flush_def)

lemma flush_ok [simp]: "constraints d \<Longrightarrow> flush d = Inr d"
  by (simp add: flush_def)

lemma constraints_empty: "constraints empty_db"
  by (simp add: constraints_def empty_db_def table_ok_defs)

lemma constraints_upd:
  assumes "constraints d"
  shows "constraints (d\<lparr>d_organizations := x0\<rparr>) \<longleftrightarrow> organizations_ok x0"
    and "constraints (d\<lparr>d_workspaces := x1\<rparr>) \<longleftrightarrow> workspaces_ok x1"
    and "constraints (d\<lparr>d_users := x2\<rparr>) \<longleftrightarrow> users_ok x2"
    and "constraints (d\<lparr>d_user_identities := x3\<rparr>) \<longleftrightarrow> user_identities_ok x3"
    and "constraints (d\<lparr>d_devices := x4\<rparr>) \<longleftrightarrow> devices_ok x4"
    and "constraints (d\<lparr>d_conversations := x5\<rparr>) \<longleftrightarrow> conversations_ok x5"
    and "constraints (d\<lparr>d_branches := x6\<rparr>) \<longleftrightarrow> branches_ok x6"
    and "constraints (d\<lparr>d_messages := x7\<rparr>) \<longleftrightarrow> messages_ok x7"
    and "constraints (d\<lparr>d_versions := x8\<rparr>) \<longleftrightarrow> versions_ok x8"
    and "constraints (d\<lparr>d_parts := x9\<rparr>) \<longleftrightarrow> parts_ok x9"
    and "constraints (d\<lparr>d_attachments := x10\<rparr>) \<longleftrightarrow> attachments_ok x10"
    and "constraints (d\<lparr>d_message_attachments := x11\<rparr>) \<longleftrightarrow> message_attachments_ok x11"
    and "constraints (d\<lparr>d_capture_events := x12\<rparr>) \<longleftrightarrow> capture_events_ok x12"
    and "constraints (d\<lparr>d_idempotency_keys := x13\<rparr>) \<longleftrightarrow> idempotency_keys_ok x13"
    and "constraints (d\<lparr>d_source_events := x14\<rparr>) \<longleftrightarrow> source_events_ok x14"
    and "constraints (d\<lparr>d_source_event_keys := x15\<rparr>) \<longleftrightarrow> source_event_keys_ok x15"
    and "constraints (d\<lparr>d_sync_checkpoints := x16\<rparr>) \<longleftrightarrow> sync_checkpoints_ok x16"
    and "constraints (d\<lparr>d_audit_events := x17\<rparr>) \<longleftrightarrow> audit_events_ok x17"
    and "constraints (d\<lparr>d_jobs := x18\<rparr>) \<longleftrightarrow> jobs_ok x18"
    and "constraints (d\<lparr>d_job_attempts := x19\<rparr>) \<longleftrightarrow> job_attempts_ok x19"
    and "constraints (d\<lparr>d_feedback := x20\<rparr>) \<longleftrightarrow> feedback_ok x20"
    and "constraints (d\<lparr>d_training_approvals := x21\<rparr>) \<longleftrightarrow> training_approvals_ok x21"
    and "constraints (d\<lparr>d_exports := x22\<rparr>) \<longleftrightarrow> exports_ok x22"
    and "constraints (d\<lparr>d_retention_policies := x23\<rparr>) \<longleftrightarrow> retention_policies_ok x23"
    and "constraints (d\<lparr>d_legal_holds := x24\<rparr>) \<longleftrightarrow> legal_holds_ok x24"
    and "constraints (d\<lparr>d_next_uuid := n\<rparr>)"
  using assms by (simp_all add: constraints_def)

lemma empty_db_sel [simp]: "d_organizations empty_db = []"
    "d_workspaces empty_db = []"
    "d_users empty_db = []"
    "d_user_identities empty_db = []"
    "d_devices empty_db = []"
    "d_conversations empty_db = []"
    "d_branches empty_db = []"
    "d_messages empty_db = []"
    "d_versions empty_db = []"
    "d_parts empty_db = []"
    "d_attachments empty_db = []"
    "d_message_attachments empty_db = []"
    "d_capture_events empty_db = []"
    "d_idempotency_keys empty_db = []"
    "d_source_events empty_db = []"
    "d_source_event_keys empty_db = []"
    "d_sync_checkpoints empty_db = []"
    "d_audit_events empty_db = []"
    "d_jobs empty_db = []"
    "d_job_attempts empty_db = []"
    "d_feedback empty_db = []"
    "d_training_approvals empty_db = []"
    "d_exports empty_db = []"
    "d_retention_policies empty_db = []"
    "d_legal_holds empty_db = []"
    "d_next_uuid empty_db = 1"
  by (simp_all add: empty_db_def)

text \<open>A conversation for the concrete runs.\<close>

definition sample_conversation :: "uuid \<Rightarrow> bool \<Rightarrow> time option \<Rightarrow> conversation" where
  "sample_conversation cid hold deleted =
     \<lparr>cv_id = cid, cv_created_at = 0, cv_deleted_at = deleted, cv_deletion_reason = None, cv_legal_hold = hold,
      cv_organization_id = 1, cv_workspace_id = 1, cv_user_id = None, cv_source_conversation_id = replicate cid (CHR ''c''),
      cv_source_url = None, cv_title = None, cv_model_slug = None, cv_capture_sources = [],
      cv_capture_completeness = CcUnknown, cv_employee_id_hash = None, cv_source_created_at = None,
      cv_source_updated_at = None, cv_first_captured_at = None, cv_last_captured_at = None,
      cv_message_count = 0, cv_snapshot_version = 0, cv_snapshot_s3_key = None, cv_snapshot_sha256 = None,
      cv_snapshot_stale = True, cv_retention_policy_id = None, cv_metadata_json = JObj []\<rparr>"

end
