(* ===== verification/Policy.thy ===== *)
theory Policy
  imports Config Rows
begin

text \<open>
  \<open>app/services/policy.py\<close>: the server's own decision on whether a workspace may be captured,
  the two capture gates with the kill switch, and the workspace row a verified reference
  resolves to.  \<open>workspace_ref\<close> is \<open>WorkspaceRef\<close> of \<open>app/schemas/common.py\<close>.
\<close>

record workspace_ref =
  wr_source_workspace_id :: "string option"
  wr_label :: "ustr option"
  wr_kind :: workspace_kind
  wr_verified :: bool
  wr_verification_signals :: "string list"

definition KNOWN_SIGNALS :: "string list" where
  "KNOWN_SIGNALS = [''workspace_label_match'', ''workspace_id_match'',
     ''account_switcher_managed_badge'', ''managed_account_url_path'', ''enterprise_workspace_marker'']"

definition STRONG_SIGNALS :: "string list" where
  "STRONG_SIGNALS = [''workspace_id_match'', ''workspace_label_match'']"

record workspace_decision =
  wd_workspace :: workspace
  wd_workspace_hash :: string
  wd_reason :: string

section \<open>Operations\<close>

definition workspace_hash_for :: "unidb \<Rightarrow> string \<Rightarrow> workspace_ref \<Rightarrow> string" where
  "workspace_hash_for ud slug ref =
     (let identity = (if truthy (wr_source_workspace_id ref) then lit (the (wr_source_workspace_id ref))
                      else u_lower ud (py_strip (case wr_label ref of Some l \<Rightarrow> l | None \<Rightarrow> [])))
      in take 32 (pseudonymize ud (lit slug @ lit ''|'' @ identity)))"

definition assert_browser_capture_allowed :: "settings \<Rightarrow> unit res" where
  "assert_browser_capture_allowed s =
     (if st_kill_switch_enabled s then Inl (PolicyError ''kill_switch_active'')
      else if \<not> st_browser_content_capture_enabled s then Inl (PolicyError ''capture_disabled'')
      else if \<not> st_openai_written_authorization_confirmed s
        then Inl (PolicyError ''authorization_not_confirmed'')
      else Inr ())"

definition assert_attachment_capture_allowed :: "settings \<Rightarrow> unit res" where
  "assert_attachment_capture_allowed s =
     bindE (assert_browser_capture_allowed s) (\<lambda>_.
       if \<not> st_attachment_capture_enabled s then Inl (PolicyError ''attachments_disabled'') else Inr ())"

definition allowed_workspace_ids :: "settings \<Rightarrow> ustr list" where
  "allowed_workspace_ids s =
     map py_strip (filter (\<lambda>i. py_strip i \<noteq> []) (managed_workspace_id_list s))"

definition configured_label :: "unidb \<Rightarrow> settings \<Rightarrow> ustr" where
  "configured_label ud s = u_lower ud (py_strip (st_managed_workspace_label s))"

definition evaluate_workspace_ref :: "unidb \<Rightarrow> workspace_ref \<Rightarrow> settings \<Rightarrow> string res" where
  "evaluate_workspace_ref ud ref s =
     (if wr_kind ref = WsPersonal then Inl (PolicyError ''personal_workspace_blocked'')
      else if wr_kind ref \<noteq> WsManagedCompany then Inl (PolicyError ''workspace_unverified'')
      else if \<not> wr_verified ref then Inl (PolicyError ''workspace_unverified'')
      else
        let signals = filter (\<lambda>x. x \<in> set KNOWN_SIGNALS) (wr_verification_signals ref);
            allowed_ids = allowed_workspace_ids s;
            conf_label = configured_label ud s
        in if allowed_ids = [] \<and> conf_label = []
             then Inl (PolicyError ''workspace_policy_unconfigured'')
           else if allowed_ids \<noteq> [] then
             (if \<not> truthy (wr_source_workspace_id ref)
                 \<or> py_strip (lit (the (wr_source_workspace_id ref))) \<notin> set allowed_ids
                then Inl (PolicyError ''workspace_not_allowlisted'')
              else if set signals \<inter> set STRONG_SIGNALS = {}
                then Inl (PolicyError ''workspace_signal_missing'')
              else Inr ''workspace_id_allowlisted'')
           else
             let label = u_lower ud (py_strip (case wr_label ref of Some l \<Rightarrow> l | None \<Rightarrow> []))
             in if label = [] \<or> label \<noteq> conf_label
                  then Inl (PolicyError ''workspace_label_mismatch'')
                else if set signals \<inter> set STRONG_SIGNALS = {}
                  then Inl (PolicyError ''workspace_signal_missing'')
                else Inr ''workspace_label_matched'')"

text \<open>\<open>existing.source_workspace_id\<close> and \<open>label\<close> are filled in when the row lacks them.\<close>

definition ws_backfill :: "workspace_ref \<Rightarrow> workspace \<Rightarrow> workspace" where
  "ws_backfill ref w =
     (let w1 = (if truthy (wr_source_workspace_id ref) \<and> \<not> truthy (ws_source_workspace_id w)
                then w\<lparr>ws_source_workspace_id := wr_source_workspace_id ref\<rparr> else w)
      in if truthy (wr_label ref) \<and> \<not> truthy (ws_label w1)
         then w1\<lparr>ws_label := wr_label ref\<rparr> else w1)"

definition select_workspace :: "db \<Rightarrow> uuid \<Rightarrow> string \<Rightarrow> workspace option res" where
  "select_workspace d oid h = scalar_one_or_none
     (filter (\<lambda>w. ws_organization_id w = oid \<and> ws_workspace_hash w = h) (d_workspaces d))"

definition admit_workspace ::
  "workspace_ref \<Rightarrow> string \<Rightarrow> string \<Rightarrow> workspace \<Rightarrow> db \<Rightarrow> (workspace_decision \<times> db) res" where
  "admit_workspace ref h reason w d =
     (if ws_kind w \<noteq> WsManagedCompany \<or> \<not> ws_capture_enabled w
      then Inl (PolicyError ''workspace_capture_disabled'')
      else let w' = ws_backfill ref w;
               d' = d\<lparr>d_workspaces := upd_where (\<lambda>r. ws_id r = ws_id w) (\<lambda>_. w') (d_workspaces d)\<rparr>
           in Inr (\<lparr>wd_workspace = w', wd_workspace_hash = h, wd_reason = reason\<rparr>, d'))"

text \<open>\<open>INSERT ... ON CONFLICT ON CONSTRAINT uq_workspaces_org_hash DO NOTHING\<close>.\<close>

definition insert_workspace :: "workspace \<Rightarrow> db \<Rightarrow> db res" where
  "insert_workspace w d =
     (if (\<exists>r\<in>set (d_workspaces d). ws_organization_id r = ws_organization_id w
            \<and> ws_workspace_hash r = ws_workspace_hash w)
      then Inr d
      else flush (d\<lparr>d_workspaces := d_workspaces d @ [w]\<rparr>))"

definition resolve_workspace ::
  "unidb \<Rightarrow> time \<Rightarrow> organization \<Rightarrow> workspace_ref \<Rightarrow> settings \<Rightarrow> db \<Rightarrow> (workspace_decision \<times> db) res" where
  "resolve_workspace ud now org ref s d =
     bindE (evaluate_workspace_ref ud ref s) (\<lambda>reason.
     let h = workspace_hash_for ud (org_slug org) ref in
     bindE (select_workspace d (org_id org) h) (\<lambda>existing.
     case existing of
       Some w \<Rightarrow> admit_workspace ref h reason w d
     | None \<Rightarrow>
         (let (wid, d1) = uuid4 d in
          bindE (insert_workspace
                   \<lparr>ws_id = wid, ws_created_at = now, ws_organization_id = org_id org,
                    ws_source_workspace_id = wr_source_workspace_id ref, ws_label = wr_label ref,
                    ws_workspace_hash = h, ws_kind = WsManagedCompany, ws_verified_at = Some now,
                    ws_capture_enabled = True\<rparr> d1) (\<lambda>d2.
          bindE (select_workspace d2 (org_id org) h) (\<lambda>again.
          case again of None \<Rightarrow> Inl (OtherException ''NoResultFound'')
          | Some w \<Rightarrow> admit_workspace ref h reason w d2)))))"

definition capture_policy_dict :: "settings \<Rightarrow> (string \<times> bool) list" where
  "capture_policy_dict s =
     [(''browser_content_capture_enabled'', st_browser_content_capture_enabled s),
      (''openai_written_authorization_confirmed'', st_openai_written_authorization_confirmed s),
      (''capture_active'', browser_capture_active s),
      (''auto_archive_current_open_chat'', st_auto_archive_current_open_chat s),
      (''attachment_capture_enabled'', st_attachment_capture_enabled s),
      (''personal_workspace_capture_enabled'', False),
      (''capture_unsent_drafts'', False),
      (''kill_switch'', st_kill_switch_enabled s),
      (''compliance_poll_enabled'', st_compliance_poll_enabled s),
      (''training_export_enabled'', st_training_export_enabled s)]"

section \<open>The decision\<close>

lemma browser_gate_iff: "assert_browser_capture_allowed s = Inr () \<longleftrightarrow> browser_capture_active s"
  by (auto simp: assert_browser_capture_allowed_def browser_capture_active_def)

lemma attachment_gate_iff:
  "assert_attachment_capture_allowed s = Inr ()
     \<longleftrightarrow> browser_capture_active s \<and> st_attachment_capture_enabled s"
  by (auto simp: assert_attachment_capture_allowed_def bindE_eq_Inr browser_gate_iff)

definition strong_signal_seen :: "workspace_ref \<Rightarrow> bool" where
  "strong_signal_seen ref \<longleftrightarrow> ''workspace_id_match'' \<in> set (wr_verification_signals ref)
     \<or> ''workspace_label_match'' \<in> set (wr_verification_signals ref)"

lemma strong_signal_iff:
  "set (filter (\<lambda>x. x \<in> set KNOWN_SIGNALS) (wr_verification_signals ref)) \<inter> set STRONG_SIGNALS = {}
     \<longleftrightarrow> \<not> strong_signal_seen ref"
  by (auto simp: strong_signal_seen_def KNOWN_SIGNALS_def STRONG_SIGNALS_def)

text \<open>
  C11. The workspace decision is exactly: a managed, client-verified reference with a strong
  signal whose id is on the allowlist when there is one, and otherwise whose label equals the
  configured label.  In particular a personal or unverified reference is never admitted, and a
  server with neither ids nor label admits nothing.
\<close>

theorem evaluate_workspace_ref_iff:
  "evaluate_workspace_ref ud ref s = Inr reason \<longleftrightarrow>
     wr_kind ref = WsManagedCompany \<and> wr_verified ref \<and> strong_signal_seen ref
     \<and> (if allowed_workspace_ids s \<noteq> []
        then reason = ''workspace_id_allowlisted''
          \<and> (\<exists>i. wr_source_workspace_id ref = Some i \<and> i \<noteq> [] \<and> py_strip (lit i) \<in> set (allowed_workspace_ids s))
        else reason = ''workspace_label_matched'' \<and> configured_label ud s \<noteq> []
          \<and> u_lower ud (py_strip (case wr_label ref of Some l \<Rightarrow> l | None \<Rightarrow> [])) = configured_label ud s)"
  unfolding evaluate_workspace_ref_def Let_def strong_signal_iff
  by (cases "wr_source_workspace_id ref") auto

section \<open>The row\<close>

lemma ws_backfill_keeps [simp]:
  "ws_id (ws_backfill ref w) = ws_id w"
  "ws_organization_id (ws_backfill ref w) = ws_organization_id w"
  "ws_workspace_hash (ws_backfill ref w) = ws_workspace_hash w"
  "ws_kind (ws_backfill ref w) = ws_kind w"
  "ws_capture_enabled (ws_backfill ref w) = ws_capture_enabled w"
  by (simp_all add: ws_backfill_def Let_def)

lemma ws_backfill_idem: "ws_backfill ref (ws_backfill ref w) = ws_backfill ref w"
  by (auto simp: ws_backfill_def Let_def)

lemma select_workspace_find:
  assumes "workspaces_ok (d_workspaces d)"
  shows "select_workspace d oid h
     = Inr (find (\<lambda>w. (ws_organization_id w, ws_workspace_hash w) = (oid, h)) (d_workspaces d))"
  using scalar_one_or_none_filter [of "\<lambda>w. (ws_organization_id w, ws_workspace_hash w)" "d_workspaces d" "(oid, h)"]
    assms by (simp add: select_workspace_def workspaces_ok_def)

lemma workspaces_ok_backfill:
  assumes "workspaces_ok rows" "w \<in> set rows"
  shows "workspaces_ok (upd_where (\<lambda>r. ws_id r = ws_id w) (\<lambda>_. ws_backfill ref w) rows)"
proof -
  have u: "r = w" if "r \<in> set rows" "ws_id r = ws_id w" for r
    using assms that distinct_map_eq unfolding workspaces_ok_def by metis
  have "map ws_id (upd_where (\<lambda>r. ws_id r = ws_id w) (\<lambda>_. ws_backfill ref w) rows) = map ws_id rows"
    by (rule map_upd_where_same) (auto dest: u)
  moreover have "map (\<lambda>r. (ws_organization_id r, ws_workspace_hash r))
      (upd_where (\<lambda>r. ws_id r = ws_id w) (\<lambda>_. ws_backfill ref w) rows)
    = map (\<lambda>r. (ws_organization_id r, ws_workspace_hash r)) rows"
    by (rule map_upd_where_same) (auto dest: u)
  ultimately show ?thesis using assms(1) by (simp only: workspaces_ok_def)
qed

lemma admit_workspace_ok:
  assumes a: "admit_workspace ref h reason w d = Inr (wd, d')"
    and ok: "workspaces_ok (d_workspaces d)" and w: "w \<in> set (d_workspaces d)"
    and k: "ws_organization_id w = oid" "ws_workspace_hash w = h"
  shows "wd_workspace wd \<in> set (d_workspaces d') \<and> ws_kind (wd_workspace wd) = WsManagedCompany
    \<and> ws_capture_enabled (wd_workspace wd) \<and> ws_organization_id (wd_workspace wd) = oid
    \<and> ws_workspace_hash (wd_workspace wd) = h \<and> wd_reason wd = reason
    \<and> wd_workspace wd = ws_backfill ref w \<and> workspaces_ok (d_workspaces d')"
  using a w k workspaces_ok_backfill [OF ok w]
  by (auto simp: admit_workspace_def Let_def set_upd_where split: if_splits)

lemma insert_workspace_ok:
  assumes "insert_workspace w d = Inr d'" "workspaces_ok (d_workspaces d)"
  shows "workspaces_ok (d_workspaces d')"
  using assms by (auto simp: insert_workspace_def constraints_def split: if_splits)

lemma resolve_workspace_ok:
  assumes r: "resolve_workspace ud now org ref s d = Inr (wd, d')"
    and ok: "workspaces_ok (d_workspaces d)"
  shows "evaluate_workspace_ref ud ref s = Inr (wd_reason wd)
    \<and> wd_workspace wd \<in> set (d_workspaces d') \<and> ws_kind (wd_workspace wd) = WsManagedCompany
    \<and> ws_capture_enabled (wd_workspace wd) \<and> ws_organization_id (wd_workspace wd) = org_id org
    \<and> ws_workspace_hash (wd_workspace wd) = workspace_hash_for ud (org_slug org) ref
    \<and> (\<exists>w0. wd_workspace wd = ws_backfill ref w0) \<and> workspaces_ok (d_workspaces d')"
proof -
  let ?h = "workspace_hash_for ud (org_slug org) ref"
  obtain reason where e: "evaluate_workspace_ref ud ref s = Inr reason"
    using r by (auto simp: resolve_workspace_def bindE_eq_Inr)
  have ins: "workspaces_ok (d_workspaces e)"
    if "insert_workspace w (d\<lparr>d_next_uuid := n\<rparr>) = Inr e" for w n e
    using insert_workspace_ok [OF that] ok by simp
  have "\<exists>w d2. workspaces_ok (d_workspaces d2) \<and> select_workspace d2 (org_id org) ?h = Inr (Some w)
      \<and> admit_workspace ref ?h reason w d2 = Inr (wd, d')"
    using r ok e
    by (fastforce simp: resolve_workspace_def bindE_eq_Inr Let_def uuid4_def split: option.splits
        dest: ins)
  then obtain w d2 where d2: "workspaces_ok (d_workspaces d2)"
    "select_workspace d2 (org_id org) ?h = Inr (Some w)" "admit_workspace ref ?h reason w d2 = Inr (wd, d')"
    by blast
  then have "w \<in> set (d_workspaces d2) \<and> ws_organization_id w = org_id org \<and> ws_workspace_hash w = ?h"
    by (auto simp: select_workspace_find dest: find_Some_in)
  with d2 e show ?thesis by (blast dest: admit_workspace_ok)
qed

text \<open>
  Resolving a verified reference yields a row of the caller's organisation that is a
  capture-enabled managed workspace, and resolving the same reference again returns that very
  row: one workspace per organisation and pseudonym, whichever request created it.
\<close>

theorem resolve_workspace_stable:
  assumes r: "resolve_workspace ud now org ref s d = Inr (wd, d')"
    and ok: "workspaces_ok (d_workspaces d)"
  shows "ws_organization_id (wd_workspace wd) = org_id org
    \<and> ws_kind (wd_workspace wd) = WsManagedCompany \<and> ws_capture_enabled (wd_workspace wd)
    \<and> workspaces_ok (d_workspaces d')
    \<and> resolve_workspace ud now' org ref s d' = Inr (wd, d')"
proof -
  let ?h = "workspace_hash_for ud (org_slug org) ref" and ?w = "wd_workspace wd"
  note f = resolve_workspace_ok [OF r ok]
  have h: "wd_workspace_hash wd = ?h"
    using r by (auto simp: resolve_workspace_def admit_workspace_def bindE_eq_Inr Let_def uuid4_def
        split: option.splits if_splits)
  have sel: "select_workspace d' (org_id org) ?h = Inr (Some ?w)"
    using find_unique [of "\<lambda>w. (ws_organization_id w, ws_workspace_hash w)" "d_workspaces d'" ?w] f
    by (simp add: select_workspace_find workspaces_ok_def)
  have b: "ws_backfill ref ?w = ?w" using f ws_backfill_idem by metis
  have "upd_where (\<lambda>r. ws_id r = ws_id ?w) (\<lambda>_. ?w) (d_workspaces d') = d_workspaces d'"
    unfolding upd_where_def
    by (rule map_idI) (use f in \<open>auto simp: workspaces_ok_def dest: distinct_map_eq\<close>)
  then have "admit_workspace ref ?h (wd_reason wd) ?w d' = Inr (wd, d')"
    using f b h by (simp add: admit_workspace_def)
  then show ?thesis
    using f sel by (simp add: resolve_workspace_def)
qed

text \<open>A first request of the default workspace on an empty database.\<close>

definition sample_org :: organization where
  "sample_org = \<lparr>org_id = 1, org_created_at = 0, org_slug = ''techsara'', org_display_name = lit ''T'',
     org_primary_domain = lit ''t.io'', org_allowed_domains = [lit ''t.io''], org_is_active = True,
     org_settings = JObj []\<rparr>"

definition sample_ref :: workspace_ref where
  "sample_ref = \<lparr>wr_source_workspace_id = None, wr_label = Some (lit ''Acme''),
     wr_kind = WsManagedCompany, wr_verified = True,
     wr_verification_signals = [''workspace_label_match'']\<rparr>"

definition sample_settings :: settings where
  "sample_settings = default_settings\<lparr>st_managed_workspace_label := lit ''acme'',
     st_browser_content_capture_enabled := True, st_openai_written_authorization_confirmed := True\<rparr>"

lemma sample_evaluates: "evaluate_workspace_ref ascii_db sample_ref sample_settings = Inr ''workspace_label_matched''"
  by code_simp

lemma sample_resolves:
  "\<exists>wd d'. resolve_workspace ascii_db 0 sample_org sample_ref sample_settings empty_db = Inr (wd, d')"
  using constraints_empty
  by (auto simp: resolve_workspace_def sample_evaluates select_workspace_def uuid4_def Let_def
      insert_workspace_def empty_db_def admit_workspace_def constraints_def table_ok_defs flush_def)

theorem resolve_workspace_stable_witness:
  "\<exists>wd d'. resolve_workspace ascii_db 0 sample_org sample_ref sample_settings empty_db = Inr (wd, d')
     \<and> resolve_workspace ascii_db 5 sample_org sample_ref sample_settings d' = Inr (wd, d')"
proof -
  obtain wd d' where r: "resolve_workspace ascii_db 0 sample_org sample_ref sample_settings empty_db = Inr (wd, d')"
    using sample_resolves by blast
  have ok: "workspaces_ok (d_workspaces empty_db)"
    using constraints_empty by (simp add: constraints_def)
  show ?thesis using r resolve_workspace_stable [OF r ok] by blast
qed

end
