(* ===== verification/RateLimit.thy ===== *)
theory RateLimit
  imports Prelude Complex_Main
begin

text \<open>
  \<open>app/core/ratelimit.py\<close>: the per-process sliding-window limiter and the composite of the user,
  device, address and burst limiters.  Clock readings are rationals; the dictionary of hits is an
  association list in insertion order, which is the order a Python dictionary iterates in.
\<close>

definition WINDOW_SECONDS :: rat where
  "WINDOW_SECONDS = 60"

definition MAX_TRACKED_KEYS :: nat where
  "MAX_TRACKED_KEYS = 100000"

definition CLEANUP_EVERY :: nat where
  "CLEANUP_EVERY = 2048"

record decision =
  rl_allowed :: bool
  rl_remaining :: int
  rl_retry_after :: int
  rl_limit :: int

record limiter =
  lm_limit :: int
  lm_window :: rat
  lm_hits :: "(string \<times> rat list) list"
  lm_ops :: nat

section \<open>The sliding window\<close>

definition new_limiter :: "int \<Rightarrow> rat \<Rightarrow> limiter" where
  "new_limiter limit window = \<lparr>lm_limit = max 1 limit, lm_window = window, lm_hits = [], lm_ops = 0\<rparr>"

text \<open>\<open>int(x)\<close> of a float truncates towards zero.\<close>

definition py_int :: "rat \<Rightarrow> int" where
  "py_int q = (if 0 \<le> q then floor q else ceiling q)"

definition key_stale :: "rat \<Rightarrow> rat \<Rightarrow> rat list \<Rightarrow> bool" where
  "key_stale window now hits \<longleftrightarrow> hits = [] \<or> now - last hits > window"

definition prune :: "rat \<Rightarrow> limiter \<Rightarrow> limiter" where
  "prune now l =
     (let kept = filter (\<lambda>(k, hits). \<not> key_stale (lm_window l) now hits) (lm_hits l)
      in if length kept > MAX_TRACKED_KEYS
         then let ordered = sort_key (\<lambda>(k, hits). if hits \<noteq> [] then last hits else 0) kept;
                  cold = map fst (take (length ordered div 2) ordered)
              in l\<lparr>lm_hits := filter (\<lambda>(k, hits). k \<notin> set cold) kept\<rparr>
         else l\<lparr>lm_hits := kept\<rparr>)"

definition hits_of :: "limiter \<Rightarrow> string \<Rightarrow> rat list" where
  "hits_of l key = (case map_of (lm_hits l) key of Some h \<Rightarrow> h | None \<Rightarrow> [])"

definition set_hits :: "string \<Rightarrow> rat list \<Rightarrow> limiter \<Rightarrow> limiter" where
  "set_hits key h l =
     (if map_of (lm_hits l) key = None then l\<lparr>lm_hits := lm_hits l @ [(key, h)]\<rparr>
      else l\<lparr>lm_hits := map (\<lambda>(k, x). (k, if k = key then h else x)) (lm_hits l)\<rparr>)"

definition check :: "string \<Rightarrow> nat \<Rightarrow> rat \<Rightarrow> limiter \<Rightarrow> decision \<times> limiter" where
  "check key cost now l0 =
     (let l1 = l0\<lparr>lm_ops := Suc (lm_ops l0)\<rparr>;
          l2 = (if lm_ops l1 mod CLEANUP_EVERY = 0 then prune now l1 else l1);
          cutoff = now - lm_window l2;
          hits = dropWhile (\<lambda>h. h < cutoff) (hits_of l2 key)
      in if int (length hits) + int cost > lm_limit l2
         then let oldest = (if hits \<noteq> [] then hd hits else now);
                  retry_after = max 1 (py_int (lm_window l2 - (now - oldest)) + 1)
              in (\<lparr>rl_allowed = False, rl_remaining = 0, rl_retry_after = retry_after,
                   rl_limit = lm_limit l2\<rparr>, set_hits key hits l2)
         else let hits' = hits @ replicate cost now
              in (\<lparr>rl_allowed = True, rl_remaining = lm_limit l2 - int (length hits'),
                   rl_retry_after = 0, rl_limit = lm_limit l2\<rparr>, set_hits key hits' l2))"

definition reset :: "limiter \<Rightarrow> limiter" where
  "reset l = l\<lparr>lm_hits := [], lm_ops := 0\<rparr>"

section \<open>The composite\<close>

record composite =
  cl_user :: limiter
  cl_device :: limiter
  cl_ip :: limiter
  cl_burst :: limiter

definition new_composite :: "int \<Rightarrow> int \<Rightarrow> int \<Rightarrow> composite" where
  "new_composite per_minute workers burst =
     (let effective = max 1 (per_minute div max 1 workers)
      in \<lparr>cl_user = new_limiter effective WINDOW_SECONDS,
          cl_device = new_limiter effective WINDOW_SECONDS,
          cl_ip = new_limiter (max effective (effective * 4)) WINDOW_SECONDS,
          cl_burst = new_limiter (max 1 (burst div max 1 workers)) 1\<rparr>)"

text \<open>\<open>max(xs, key=f)\<close> and \<open>min(xs, key=f)\<close> return the first extremal element.\<close>

fun first_max :: "('a \<Rightarrow> int) \<Rightarrow> 'a \<Rightarrow> 'a list \<Rightarrow> 'a" where
  "first_max f x [] = x"
| "first_max f x (y # ys) = first_max f (if f x < f y then y else x) ys"

fun first_min :: "('a \<Rightarrow> int) \<Rightarrow> 'a \<Rightarrow> 'a list \<Rightarrow> 'a" where
  "first_min f x [] = x"
| "first_min f x (y # ys) = first_min f (if f y < f x then y else x) ys"

definition verdict :: "decision list \<Rightarrow> decision" where
  "verdict checks = (case checks of
       [] \<Rightarrow> \<lparr>rl_allowed = True, rl_remaining = 0, rl_retry_after = 0, rl_limit = 0\<rparr>
     | x # xs \<Rightarrow> (case filter (\<lambda>d. \<not> rl_allowed d) checks of
         [] \<Rightarrow> first_min rl_remaining x xs
       | y # ys \<Rightarrow> first_max rl_retry_after y ys))"

definition composite_check ::
  "string option \<Rightarrow> string option \<Rightarrow> string option \<Rightarrow> nat \<Rightarrow> rat \<Rightarrow> composite \<Rightarrow> decision \<times> composite" where
  "composite_check user_key device_key ip_key cost now c0 =
     (let (checks1, c1) = (if truthy user_key
            then let (a, u) = check (''u:'' @ the user_key) cost now (cl_user c0);
                     (b, bu) = check (''bu:'' @ the user_key) cost now (cl_burst c0)
                 in ([a, b], c0\<lparr>cl_user := u, cl_burst := bu\<rparr>)
            else ([], c0));
          (checks2, c2) = (if truthy device_key
            then let (a, dv) = check (''d:'' @ the device_key) cost now (cl_device c1)
                 in (checks1 @ [a], c1\<lparr>cl_device := dv\<rparr>)
            else (checks1, c1));
          (checks, c3) = (if truthy ip_key
            then let (a, i) = check (''i:'' @ the ip_key) cost now (cl_ip c2)
                 in (checks2 @ [a], c2\<lparr>cl_ip := i\<rparr>)
            else (checks2, c2))
      in (verdict checks, c3))"

definition composite_reset :: "composite \<Rightarrow> composite" where
  "composite_reset c = \<lparr>cl_user = reset (cl_user c), cl_device = reset (cl_device c),
     cl_ip = reset (cl_ip c), cl_burst = reset (cl_burst c)\<rparr>"

section \<open>Facts about one limiter\<close>

lemma hits_of_set_hits [simp]: "hits_of (set_hits key h l) k = (if k = key then h else hits_of l k)"
proof (cases "map_of (lm_hits l) key = None")
  case True
  then show ?thesis by (auto simp: set_hits_def hits_of_def map_add_def split: option.splits)
next
  case False
  have "map_of (map (\<lambda>(k, x). (k, if k = key then h else x)) xs) k
      = (if k = key then (case map_of xs k of None \<Rightarrow> None | Some _ \<Rightarrow> Some h) else map_of xs k)" for xs :: "(string \<times> rat list) list"
    by (induction xs) (auto split: option.splits)
  with False show ?thesis by (auto simp: set_hits_def hits_of_def split: option.splits)
qed

lemma set_hits_keeps [simp]: "lm_limit (set_hits key h l) = lm_limit l" "lm_window (set_hits key h l) = lm_window l"
  by (simp_all add: set_hits_def)

lemma prune_keeps [simp]: "lm_limit (prune now l) = lm_limit l" "lm_window (prune now l) = lm_window l"
  by (simp_all add: prune_def Let_def)

definition tick :: "rat \<Rightarrow> limiter \<Rightarrow> limiter" where
  "tick now l = (let l1 = l\<lparr>lm_ops := Suc (lm_ops l)\<rparr>
     in if lm_ops l1 mod CLEANUP_EVERY = 0 then prune now l1 else l1)"

definition recent :: "rat \<Rightarrow> limiter \<Rightarrow> string \<Rightarrow> rat list" where
  "recent now l key = dropWhile (\<lambda>h. h < now - lm_window l) (hits_of (tick now l) key)"

lemma tick_keeps [simp]: "lm_limit (tick now l) = lm_limit l" "lm_window (tick now l) = lm_window l"
  by (simp_all add: tick_def Let_def)

lemma check_eq:
  "check key cost now l =
     (let hits = recent now l key; ok = int (length hits) + int cost \<le> lm_limit l
      in (\<lparr>rl_allowed = ok,
           rl_remaining = (if ok then lm_limit l - int (length hits + cost) else 0),
           rl_retry_after = (if ok then 0
             else max 1 (py_int (lm_window l - (now - (if hits \<noteq> [] then hd hits else now))) + 1)),
           rl_limit = lm_limit l\<rparr>,
          set_hits key (if ok then hits @ replicate cost now else hits) (tick now l)))"
  by (auto simp: check_def recent_def tick_def Let_def)

section \<open>The window is never exceeded\<close>

text \<open>The times at which a sequence of unit-cost requests was admitted for one key.\<close>

fun admitted :: "string \<Rightarrow> (string \<times> rat) list \<Rightarrow> limiter \<Rightarrow> rat list" where
  "admitted key [] l = []"
| "admitted key ((k, t) # reqs) l =
     (let (d, l') = check k 1 t l
      in (if k = key \<and> rl_allowed d then [t] else []) @ admitted key reqs l')"

definition spaced :: "nat \<Rightarrow> rat \<Rightarrow> rat list \<Rightarrow> bool" where
  "spaced n w ts \<longleftrightarrow> (\<forall>i. i + n < length ts \<longrightarrow> ts ! i + w < ts ! (i + n))"

definition window_of :: "rat \<Rightarrow> rat \<Rightarrow> rat list \<Rightarrow> rat list" where
  "window_of w now = dropWhile (\<lambda>h. h < now - w)"

lemma dropWhile_mono:
  "(\<And>x. p x \<Longrightarrow> q x) \<Longrightarrow> dropWhile q (dropWhile p xs @ ys) = dropWhile q (xs @ ys)"
  by (induction xs) auto

lemma window_of_mono:
  "s \<le> t \<Longrightarrow> window_of w t (window_of w s xs @ ys) = window_of w t (xs @ ys)"
  unfolding window_of_def by (rule dropWhile_mono) simp

lemma window_of_later: "s \<le> t \<Longrightarrow> window_of w s xs = window_of w s ys \<Longrightarrow> window_of w t xs = window_of w t ys"
  using window_of_mono [of s t w xs "[]"] window_of_mono [of s t w ys "[]"] by simp

lemma window_of_snoc:
  "s \<le> t \<Longrightarrow> window_of w s xs = window_of w s ys \<Longrightarrow> window_of w t (xs @ zs) = window_of w t (ys @ zs)"
  using window_of_mono [of s t w xs zs] window_of_mono [of s t w ys zs] by simp

lemma window_of_stale:
  assumes "key_stale w now hits" "sorted hits"
  shows "window_of w now hits = []"
proof -
  have "h < now - w" if "h \<in> set hits" for h
  proof -
    have "h \<le> last hits" using that assms(2) by (cases hits rule: rev_cases) (auto simp: sorted_append)
    then show ?thesis using assms(1) that by (auto simp: key_stale_def)
  qed
  then show ?thesis by (simp add: window_of_def)
qed

lemma map_of_filter_distinct:
  "distinct (map fst xs) \<Longrightarrow> map_of (filter P xs) k = Option.bind (map_of xs k) (\<lambda>v. if P (k, v) then Some v else None)"
  by (induction xs) (auto split: option.splits simp: map_of_eq_None_iff image_iff)

definition keys_ok :: "string set \<Rightarrow> limiter \<Rightarrow> bool" where
  "keys_ok K l \<longleftrightarrow> distinct (map fst (lm_hits l)) \<and> set (map fst (lm_hits l)) \<subseteq> K"

lemma hits_of_prune:
  assumes "keys_ok K l" "finite K" "card K \<le> MAX_TRACKED_KEYS"
  shows "hits_of (prune now l) k = (if key_stale (lm_window l) now (hits_of l k) then [] else hits_of l k)"
    "keys_ok K (prune now l)"
proof -
  have "length (lm_hits l) \<le> card K"
    using assms by (metis keys_ok_def card_mono distinct_card length_map)
  then have "length (filter (\<lambda>(k, hits). \<not> key_stale (lm_window l) now hits) (lm_hits l)) \<le> MAX_TRACKED_KEYS"
    using assms(3) length_filter_le le_trans by blast
  then have p: "prune now l = l\<lparr>lm_hits := filter (\<lambda>(k, hits). \<not> key_stale (lm_window l) now hits) (lm_hits l)\<rparr>"
    by (simp add: prune_def)
  show "hits_of (prune now l) k = (if key_stale (lm_window l) now (hits_of l k) then [] else hits_of l k)"
    using assms(1) by (auto simp: p hits_of_def keys_ok_def map_of_filter_distinct split: option.splits)
  show "keys_ok K (prune now l)"
    using assms(1) by (auto simp: p keys_ok_def distinct_map_filterI)
qed

lemma keys_ok_set_hits:
  assumes "keys_ok K l" "k \<in> K"
  shows "keys_ok K (set_hits k h l)"
proof (cases "map_of (lm_hits l) k")
  case None
  then have "k \<notin> set (map fst (lm_hits l))" by (simp add: map_of_eq_None_iff)
  with None assms show ?thesis by (simp add: keys_ok_def set_hits_def)
next
  case (Some x)
  have "map fst (map (\<lambda>(a, b). (a, if a = k then h else b)) xs) = map fst xs" for xs :: "(string \<times> rat list) list"
    by (induction xs) auto
  then have "map fst (lm_hits (set_hits k h l)) = map fst (lm_hits l)"
    using Some by (simp add: set_hits_def del: map_map)
  with assms show ?thesis unfolding keys_ok_def by (simp only:)
qed

text \<open>What the limiter knows about a key is the window of its admission history.\<close>

definition tracks :: "string set \<Rightarrow> string \<Rightarrow> rat \<Rightarrow> rat list \<Rightarrow> limiter \<Rightarrow> bool" where
  "tracks K key s hist l \<longleftrightarrow> keys_ok K l \<and> sorted (hits_of l key) \<and> (\<forall>h\<in>set (hits_of l key). h \<le> s)
     \<and> window_of (lm_window l) s (hits_of l key) = window_of (lm_window l) s hist"

lemma tracks_tick:
  assumes "tracks K key s hist l" "s \<le> now" "finite K" "card K \<le> MAX_TRACKED_KEYS"
  shows "tracks K key now hist (tick now l)"
proof -
  let ?l = "l\<lparr>lm_ops := Suc (lm_ops l)\<rparr>"
  have same: "hits_of ?l key = hits_of l key" "keys_ok K ?l" "lm_window ?l = lm_window l"
    using assms(1) by (simp_all add: hits_of_def tracks_def keys_ok_def)
  have w: "window_of (lm_window l) now (hits_of l key) = window_of (lm_window l) now hist"
    using assms(1) window_of_later [OF assms(2)] unfolding tracks_def by blast
  note pr = hits_of_prune [OF same(2) assms(3,4), of now]
  show ?thesis
  proof (cases "lm_ops ?l mod CLEANUP_EVERY = 0 \<and> key_stale (lm_window l) now (hits_of l key)")
    case True
    then have h: "hits_of (tick now l) key = []" using pr(1) [of key] same by (simp add: tick_def Let_def)
    have "sorted (hits_of l key)" using assms(1) by (simp add: tracks_def)
    then have "window_of (lm_window l) now hist = []"
      using True w window_of_stale by metis
    then show ?thesis
      using True h pr(2) same unfolding tracks_def
      by (simp add: tick_def Let_def) (simp add: window_of_def)
  next
    case False
    then have h: "hits_of (tick now l) key = hits_of l key" "keys_ok K (tick now l)"
      using pr same by (auto simp: tick_def Let_def)
    then show ?thesis using assms(1,2) w by (auto simp: tracks_def)
  qed
qed

lemma tracks_check:
  assumes "tracks K key s hist l" "s \<le> now" "finite K" "card K \<le> MAX_TRACKED_KEYS" "k \<in> K"
    and "check k 1 now l = (d, l')"
  shows "tracks K key now (hist @ (if k = key \<and> rl_allowed d then [now] else [])) l'
    \<and> lm_limit l' = lm_limit l \<and> lm_window l' = lm_window l
    \<and> (k = key \<longrightarrow> (rl_allowed d \<longleftrightarrow> int (length (window_of (lm_window l) now hist)) + 1 \<le> lm_limit l))"
proof -
  have t: "tracks K key now hist (tick now l)" using assms(1-4) by (rule tracks_tick)
  let ?h = "recent now l k"
  have h: "?h = window_of (lm_window l) now (hits_of (tick now l) k)" by (simp add: recent_def window_of_def)
  have d: "rl_allowed d \<longleftrightarrow> int (length ?h) + 1 \<le> lm_limit l"
    and l': "l' = set_hits k (if rl_allowed d then ?h @ [now] else ?h) (tick now l)"
    using assms(6) by (auto simp: check_eq Let_def)
  have ok: "keys_ok K l'" using t assms(5) l' keys_ok_set_hits by (simp add: tracks_def)
  show ?thesis
  proof (cases "k = key")
    case True
    have kh: "?h = window_of (lm_window l) now hist" using t h True by (simp add: tracks_def)
    have srt: "sorted ?h" "\<forall>x\<in>set ?h. x \<le> now"
      using t True unfolding h tracks_def window_of_def
      by (simp_all only: sorted_dropWhile) (blast dest: set_dropWhileD)
    have "window_of (lm_window l) now ?h = window_of (lm_window l) now hist"
      by (simp add: kh window_of_def dropWhile_mono [of _ _ _ "[]", simplified])
    then have wx: "window_of (lm_window l) now (?h @ xs) = window_of (lm_window l) now (hist @ xs)" for xs
      using window_of_snoc [of now now] by blast
    show ?thesis
      using wx [of "[]"] wx [of "[now]"] True ok d l' kh srt by (auto simp: tracks_def sorted_append)
  next
    case False
    then show ?thesis using t ok l' by (simp add: tracks_def)
  qed
qed

lemma spaced_snoc:
  assumes "spaced n w xs" "length (window_of w now xs) < n" "0 < n"
  shows "spaced n w (xs @ [now])"
  unfolding spaced_def
proof (intro allI impI)
  fix i assume i: "i + n < length (xs @ [now])"
  show "(xs @ [now]) ! i + w < (xs @ [now]) ! (i + n)"
  proof (cases "i + n < length xs")
    case True
    then show ?thesis using assms(1) by (simp add: spaced_def nth_append)
  next
    case False
    then have n: "i + n = length xs" using i by simp
    let ?p = "\<lambda>h. h < now - w"
    have "length (takeWhile ?p xs) + length (window_of w now xs) = length xs"
      unfolding window_of_def by (metis length_append takeWhile_dropWhile_id)
    then have i': "i < length (takeWhile ?p xs)" using assms(2) n by simp
    then have "?p (xs ! i)" by (metis nth_mem set_takeWhileD takeWhile_nth)
    then show ?thesis using n assms(3) by (simp add: nth_append)
  qed
qed

lemma admitted_spaced:
  assumes "tracks K key s hist l" "spaced n w hist" "lm_limit l = int n" "lm_window l = w" "0 < n"
    and "finite K" "card K \<le> MAX_TRACKED_KEYS" "fst ` set reqs \<subseteq> K"
    and "sorted (map snd reqs)" "\<forall>t\<in>set (map snd reqs). s \<le> t"
  shows "spaced n w (hist @ admitted key reqs l)"
  using assms
proof (induction reqs arbitrary: hist l s)
  case Nil
  then show ?case by simp
next
  case (Cons r reqs)
  obtain k t where r: "r = (k, t)" by fastforce
  obtain d l' where c: "check k 1 t l = (d, l')" by fastforce
  let ?hist = "hist @ (if k = key \<and> rl_allowed d then [t] else [])"
  have st: "s \<le> t" "k \<in> K" using Cons.prems r by auto
  note tr = tracks_check [OF Cons.prems(1) st(1) Cons.prems(6,7) st(2) c]
  have "spaced n w ?hist"
    using tr Cons.prems(2-5) spaced_snoc by auto
  then have "spaced n w (?hist @ admitted key reqs l')"
    using tr Cons.prems r by (intro Cons.IH [of t]) auto
  then show ?case using c by (simp add: r)
qed

text \<open>
  Over any run of unit-cost requests on a fresh limiter, with a monotone clock and no more
  keys than it tracks, a key's admissions never exceed the limit in any window: the admission
  that many places later is more than a window later.
\<close>

theorem window_never_exceeded:
  assumes "sorted (map snd reqs)" "card (fst ` set reqs) \<le> MAX_TRACKED_KEYS"
    and "i + nat (max 1 limit) < length (admitted key reqs (new_limiter limit w))"
  shows "admitted key reqs (new_limiter limit w) ! i + w
    < admitted key reqs (new_limiter limit w) ! (i + nat (max 1 limit))"
proof -
  let ?l = "new_limiter limit w" and ?K = "fst ` set reqs"
  let ?s = "if reqs = [] then 0 else snd (hd reqs)"
  have t: "tracks ?K key ?s [] ?l"
    by (simp add: tracks_def new_limiter_def keys_ok_def hits_of_def)
  have s: "\<forall>t\<in>set (map snd reqs). ?s \<le> t" using assms(1) by (cases reqs) auto
  have "spaced (nat (max 1 limit)) w ([] @ admitted key reqs ?l)"
    by (rule admitted_spaced [OF t]) (use assms(1,2) s in \<open>auto simp: spaced_def new_limiter_def\<close>)
  then show ?thesis using assms(3) by (simp add: spaced_def)
qed

section \<open>The promised retry time\<close>

fun after :: "(string \<times> rat) list \<Rightarrow> limiter \<Rightarrow> limiter" where
  "after [] l = l"
| "after ((k, t) # reqs) l = after reqs (snd (check k 1 t l))"

definition bounded_hits :: "limiter \<Rightarrow> bool" where
  "bounded_hits l \<longleftrightarrow> (\<forall>(k, h)\<in>set (lm_hits l). int (length h) \<le> lm_limit l)"

lemma bounded_hits_of: "bounded_hits l \<Longrightarrow> 0 \<le> lm_limit l \<Longrightarrow> int (length (hits_of l k)) \<le> lm_limit l"
  by (auto simp: bounded_hits_def hits_of_def split: option.splits dest!: map_of_SomeD)

lemma bounded_hits_set: "bounded_hits l \<Longrightarrow> int (length h) \<le> lm_limit l \<Longrightarrow> bounded_hits (set_hits k h l)"
  by (auto simp: bounded_hits_def set_hits_def)

lemma bounded_hits_tick: "bounded_hits l \<Longrightarrow> bounded_hits (tick now l)"
  by (auto simp: bounded_hits_def tick_def prune_def Let_def)

lemma length_recent: "bounded_hits l \<Longrightarrow> 0 \<le> lm_limit l \<Longrightarrow> int (length (recent now l k)) \<le> lm_limit l"
  using bounded_hits_of [OF bounded_hits_tick, of l now k]
    length_dropWhile_le [of "\<lambda>h. h < now - lm_window l" "hits_of (tick now l) k"]
  by (simp add: recent_def)

lemma bounded_hits_check:
  "bounded_hits l \<Longrightarrow> 0 \<le> lm_limit l \<Longrightarrow> bounded_hits (snd (check k 1 now l))"
  by (auto simp: check_eq Let_def length_recent intro!: bounded_hits_set bounded_hits_tick)

lemma after_tracks:
  assumes "tracks K key s hist l" "bounded_hits l" "1 \<le> lm_limit l"
    and "finite K" "card K \<le> MAX_TRACKED_KEYS" "fst ` set reqs \<subseteq> K"
    and "sorted (map snd reqs)" "\<forall>t\<in>set (map snd reqs). s \<le> t \<and> t \<le> now" "s \<le> now"
  shows "\<exists>hist. tracks K key now hist (after reqs l) \<and> bounded_hits (after reqs l)
    \<and> lm_limit (after reqs l) = lm_limit l \<and> lm_window (after reqs l) = lm_window l"
  using assms
proof (induction reqs arbitrary: hist l s)
  case Nil
  then have "window_of (lm_window l) now (hits_of l key) = window_of (lm_window l) now hist"
    using window_of_later [of s now] unfolding tracks_def by blast
  with Nil show ?case by (intro exI [of _ hist]) (auto simp: tracks_def)
next
  case (Cons r reqs)
  obtain k t where r: "r = (k, t)" by fastforce
  obtain d l' where c: "check k 1 t l = (d, l')" by fastforce
  have st: "s \<le> t" "k \<in> K" using Cons.prems r by auto
  note tr = tracks_check [OF Cons.prems(1) st(1) Cons.prems(4,5) st(2) c]
  have b: "bounded_hits l'" using bounded_hits_check [OF Cons.prems(2), of k t] Cons.prems(3) c by simp
  have "\<exists>hist. tracks K key now hist (after reqs l') \<and> bounded_hits (after reqs l')
    \<and> lm_limit (after reqs l') = lm_limit l' \<and> lm_window (after reqs l') = lm_window l'"
    by (rule Cons.IH [OF conjunct1 [OF tr] b]) (use tr Cons.prems r in auto)
  then show ?case using tr c by (simp add: r)
qed

lemma py_int_upper: "q < of_int (py_int q) + 1"
proof (cases "0 \<le> q")
  case True
  then show ?thesis using floor_correct [of q] by (simp add: py_int_def)
next
  case False
  have "q \<le> of_int (ceiling q)" by (rule le_of_int_ceiling)
  then have "q < of_int (ceiling q) + 1" by linarith
  with False show ?thesis by (simp add: py_int_def)
qed

lemma retry_wait:
  assumes "bounded_hits l" "1 \<le> lm_limit l" "sorted (hits_of l key)" "\<forall>h\<in>set (hits_of l key). h \<le> now"
    and "check key 1 now l = (d, l')" "\<not> rl_allowed d" "now + of_int (rl_retry_after d) \<le> now'"
    and "keys_ok K l" "finite K" "card K \<le> MAX_TRACKED_KEYS" "key \<in> K"
  shows "rl_allowed (fst (check key 1 now' l'))"
proof -
  let ?w = "lm_window l" and ?r = "recent now l key"
  have full: "\<not> int (length ?r) + 1 \<le> lm_limit l" and l': "l' = set_hits key ?r (tick now l)"
    and ra: "rl_retry_after d = max 1 (py_int (?w - (now - (if ?r \<noteq> [] then hd ?r else now))) + 1)"
    using assms(5,6) by (auto simp: check_eq Let_def split: if_splits)
  have len: "int (length ?r) \<le> lm_limit l" using assms(1,2) by (simp add: length_recent)
  have ne: "?r \<noteq> []" using full assms(2) by auto
  then obtain x xs where x: "?r = x # xs" by (cases ?r) auto
  have "?w - (now - x) < of_int (rl_retry_after d)"
    using py_int_upper [of "?w - (now - x)"] ra x by simp
  then have exp: "x < now' - ?w" using assms(7) by linarith
  have r': "recent now' l' key = [] \<or> recent now' l' key = window_of ?w now' ?r"
  proof -
    have k: "keys_ok K (tick now l)"
      using hits_of_prune(2) [of K "l\<lparr>lm_ops := Suc (lm_ops l)\<rparr>" now] assms(8-10)
      by (auto simp: tick_def Let_def keys_ok_def)
    then have k': "keys_ok K (l'\<lparr>lm_ops := Suc (lm_ops l')\<rparr>)"
      using keys_ok_set_hits [OF k assms(11)] by (simp add: l' keys_ok_def)
    have "hits_of (l'\<lparr>lm_ops := Suc (lm_ops l')\<rparr>) key = ?r"
      by (metis (no_types, lifting) hits_of_set_hits hits_of_def l' limiter.select_convs(3) limiter.surjective
          limiter.update_convs(4))
    then show ?thesis
      using hits_of_prune(1) [OF k' assms(9,10), of now' key]
      by (auto simp: recent_def tick_def Let_def window_of_def l')
  qed
  have "length (window_of ?w now' ?r) \<le> length xs"
    using exp length_dropWhile_le [of "\<lambda>h. h < now' - ?w" xs] by (simp add: x window_of_def)
  then have "int (length (recent now' l' key)) + 1 \<le> lm_limit l'"
    using r' len x assms(2) l' by auto
  then show ?thesis by (simp add: check_eq Let_def)
qed


section \<open>The strictest verdict wins\<close>

lemma first_max_props: "first_max f x xs \<in> set (x # xs) \<and> (\<forall>y\<in>set (x # xs). f y \<le> f (first_max f x xs))"
  by (induction f x xs rule: first_max.induct) fastforce+

lemma first_min_props: "first_min f x xs \<in> set (x # xs) \<and> (\<forall>y\<in>set (x # xs). f (first_min f x xs) \<le> f y)"
  by (induction f x xs rule: first_min.induct) fastforce+

definition consulted ::
  "string option \<Rightarrow> string option \<Rightarrow> string option \<Rightarrow> nat \<Rightarrow> rat \<Rightarrow> composite \<Rightarrow> decision list" where
  "consulted uk dk ik cost now c =
     (if truthy uk then [fst (check (''u:'' @ the uk) cost now (cl_user c)),
        fst (check (''bu:'' @ the uk) cost now (cl_burst c))] else [])
     @ (if truthy dk then [fst (check (''d:'' @ the dk) cost now (cl_device c))] else [])
     @ (if truthy ik then [fst (check (''i:'' @ the ik) cost now (cl_ip c))] else [])"

lemma composite_check_verdict:
  "fst (composite_check uk dk ik cost now c) = verdict (consulted uk dk ik cost now c)"
  by (cases "truthy uk"; cases "truthy dk"; cases "truthy ik")
    (simp_all add: composite_check_def consulted_def Let_def case_prod_beta)

lemma verdict_admits:
  "list_all rl_allowed xs \<Longrightarrow> rl_allowed (verdict xs) \<and> (\<forall>x\<in>set xs. rl_remaining (verdict xs) \<le> rl_remaining x)"
proof (cases xs)
  case (Cons x ys)
  assume "list_all rl_allowed xs"
  then have "filter (\<lambda>d. \<not> rl_allowed d) xs = []" by (simp add: filter_empty_conv list_all_iff)
  then have "verdict xs = first_min rl_remaining x ys" using Cons by (simp add: verdict_def)
  then show ?thesis
    using first_min_props [of rl_remaining x ys] \<open>list_all rl_allowed xs\<close> Cons by (metis list_all_iff)
qed (simp add: verdict_def)

lemma verdict_refuses:
  assumes "\<not> list_all rl_allowed xs"
  shows "\<not> rl_allowed (verdict xs) \<and> (\<forall>x\<in>set xs. rl_allowed x \<or> rl_retry_after x \<le> rl_retry_after (verdict xs))"
proof -
  obtain y ys where f: "filter (\<lambda>d. \<not> rl_allowed d) xs = y # ys"
    using assms by (cases "filter (\<lambda>d. \<not> rl_allowed d) xs") (auto simp: filter_empty_conv list_all_iff)
  then have v: "verdict xs = first_max rl_retry_after y ys" by (cases xs) (simp_all add: verdict_def)
  have s: "set (y # ys) = {x \<in> set xs. \<not> rl_allowed x}" using f by (metis set_filter)
  show ?thesis
    using first_max_props [of rl_retry_after y ys] unfolding v s by blast
qed

text \<open>
  The composite admits a request exactly when the user, burst, device and address limiters
  it consults all do; a refusal is one of theirs and carries the longest retry time of the
  refusing ones, an admission reports the smallest remaining budget.
\<close>

theorem composite_strictest:
  "let d = fst (composite_check uk dk ik cost now c); cs = consulted uk dk ik cost now c
   in (rl_allowed d \<longleftrightarrow> list_all rl_allowed cs)
     \<and> list_all (\<lambda>x. if rl_allowed d then rl_remaining d \<le> rl_remaining x
          else rl_allowed x \<or> rl_retry_after x \<le> rl_retry_after d) cs"
proof (cases "list_all rl_allowed (consulted uk dk ik cost now c)")
  case True
  then show ?thesis
    using verdict_admits [OF True] by (simp add: composite_check_verdict Let_def list_all_iff)
next
  case False
  then show ?thesis
    using verdict_refuses [OF False] by (simp add: composite_check_verdict Let_def list_all_iff)
qed

text \<open>Two admissions a minute: the third request waits until the first has left the window.\<close>

definition sample_reqs :: "(string \<times> rat) list" where
  "sample_reqs = [(''a'', 0), (''a'', 10), (''a'', 20), (''a'', 61)]"

theorem window_never_exceeded_witness:
  "admitted ''a'' sample_reqs (new_limiter 2 60) = [0, 10, 61] \<and> (0 :: rat) + 60 < 61"
proof -
  have a: "admitted ''a'' sample_reqs (new_limiter 2 60) = [0, 10, 61]"
    by (simp add: sample_reqs_def new_limiter_def check_def hits_of_def set_hits_def CLEANUP_EVERY_def Let_def)
  have "fst ` set sample_reqs = {''a''}" by (simp add: sample_reqs_def)
  then show ?thesis
    using a window_never_exceeded [of sample_reqs 0 2 "''a''" 60]
    by (simp add: sample_reqs_def MAX_TRACKED_KEYS_def)
qed


end
