(* ===== verification/RateLimit_Spec.thy ===== *)
theory RateLimit_Spec
  imports RateLimit
begin

text \<open>
  What the sliding-window limiter of \<open>app/core/ratelimit.py\<close> promises, as an abstract machine: it
  remembers every admission for ever and counts those of the key inside the window.  The limiter,
  which drops old hits, keeps its keys in a dictionary and prunes that every 2048 operations, is
  shown to take the same decisions by a simulation.
\<close>

section \<open>The abstract machine\<close>

type_synonym admissions = "(string \<times> rat) list"

definition admit :: "int \<Rightarrow> rat \<Rightarrow> string \<Rightarrow> rat \<Rightarrow> admissions \<Rightarrow> bool \<times> admissions" where
  "admit limit window key now adm =
     (if int (length (filter (\<lambda>(k, t). k = key \<and> now - window \<le> t) adm)) < limit
      then (True, adm @ [(key, now)]) else (False, adm))"

fun run_requests :: "(string \<Rightarrow> rat \<Rightarrow> 's \<Rightarrow> bool \<times> 's) \<Rightarrow> (string \<times> rat) list \<Rightarrow> 's \<Rightarrow> bool list" where
  "run_requests step [] s = []"
| "run_requests step ((key, now) # reqs) s =
     (let (allowed, s1) = step key now s in allowed # run_requests step reqs s1)"

definition limiter_step :: "string \<Rightarrow> rat \<Rightarrow> limiter \<Rightarrow> bool \<times> limiter" where
  "limiter_step key now l = (let (d, l1) = check key 1 now l in (rl_allowed d, l1))"

section \<open>Simulation in time\<close>

text \<open>
  Two machines that decide requests; \<open>sim p s a c\<close> relates their states at time \<open>s\<close>, \<open>p\<close> being what
  stays fixed over a run, and \<open>ok p\<close> says which keys may be asked for.
\<close>

locale timed_simulation =
  fixes abs_step :: "string \<Rightarrow> rat \<Rightarrow> 'a \<Rightarrow> bool \<times> 'a"
    and step :: "string \<Rightarrow> rat \<Rightarrow> 'c \<Rightarrow> bool \<times> 'c"
    and sim :: "'p \<Rightarrow> rat \<Rightarrow> 'a \<Rightarrow> 'c \<Rightarrow> bool"
    and ok :: "'p \<Rightarrow> string \<Rightarrow> bool"
  assumes step_sim: "sim p s a c \<Longrightarrow> s \<le> now \<Longrightarrow> ok p key \<Longrightarrow>
    fst (step key now c) = fst (abs_step key now a) \<and> sim p now (snd (abs_step key now a)) (snd (step key now c))"
begin

lemma same_decisions:
  assumes "sim p s a c" "sorted (map snd reqs)" "\<forall>t\<in>set (map snd reqs). s \<le> t" "\<forall>k\<in>set (map fst reqs). ok p k"
  shows "run_requests step reqs c = run_requests abs_step reqs a"
  using assms
proof (induction reqs arbitrary: s a c)
  case Nil
  then show ?case by simp
next
  case (Cons r reqs)
  obtain key now where r: "r = (key, now)" by fastforce
  have st: "fst (step key now c) = fst (abs_step key now a) \<and> sim p now (snd (abs_step key now a)) (snd (step key now c))"
    using Cons.prems r by (intro step_sim) auto
  then have "run_requests step reqs (snd (step key now c)) = run_requests abs_step reqs (snd (abs_step key now a))"
    using Cons.prems r by (intro Cons.IH [of now]) auto
  with st show ?case by (simp add: r case_prod_beta Let_def)
qed

end

section \<open>The limiter simulates the machine\<close>

definition admissions_of :: "string \<Rightarrow> admissions \<Rightarrow> rat list" where
  "admissions_of key adm = map snd (filter (\<lambda>(k, t). k = key) adm)"

definition limiter_sim :: "int \<Rightarrow> rat \<Rightarrow> string set \<Rightarrow> rat \<Rightarrow> admissions \<Rightarrow> limiter \<Rightarrow> bool" where
  "limiter_sim n w K s adm l \<longleftrightarrow> finite K \<and> card K \<le> MAX_TRACKED_KEYS \<and> lm_limit l = n \<and> lm_window l = w
     \<and> sorted (map snd adm) \<and> (\<forall>t\<in>set (map snd adm). t \<le> s) \<and> (\<forall>key. tracks K key s (admissions_of key adm) l)"

lemma sorted_window: "sorted xs \<Longrightarrow> window_of w now xs = filter (\<lambda>t. now - w \<le> t) xs"
proof (induction xs)
  case (Cons x xs)
  then show ?case
  proof (cases "x < now - w")
    case False
    then have "\<And>t. t \<in> set xs \<Longrightarrow> now - w \<le> t" using Cons.prems by fastforce
    then show ?thesis using False by (simp add: window_of_def filter_id_conv)
  qed (simp add: window_of_def)
qed (simp add: window_of_def)

lemma sorted_admissions: "sorted (map snd adm) \<Longrightarrow> sorted (admissions_of key adm)"
  unfolding admissions_of_def by (rule sorted_filter)

lemma count_admissions:
  assumes "sorted (map snd adm)"
  shows "length (filter (\<lambda>(k, t). k = key \<and> now - w \<le> t) adm) = length (window_of w now (admissions_of key adm))"
  unfolding sorted_window [OF sorted_admissions [OF assms]]
  by (simp add: admissions_of_def filter_map o_def case_prod_unfold conj_commute)

lemma limiter_sim_step:
  assumes "limiter_sim n w K s adm l" "s \<le> now" "k \<in> K"
  shows "fst (limiter_step k now l) = fst (admit n w k now adm)
    \<and> limiter_sim n w K now (snd (admit n w k now adm)) (snd (limiter_step k now l))"
proof -
  obtain d l' where c: "check k 1 now l = (d, l')" by fastforce
  note s = assms(1) [unfolded limiter_sim_def]
  have tr: "tracks K key now (admissions_of key adm @ (if k = key \<and> rl_allowed d then [now] else [])) l'
    \<and> lm_limit l' = lm_limit l \<and> lm_window l' = lm_window l
    \<and> (k = key \<longrightarrow> (rl_allowed d \<longleftrightarrow> int (length (window_of (lm_window l) now (admissions_of key adm))) + 1 \<le> lm_limit l))" for key
    by (rule tracks_check [OF _ assms(2) _ _ assms(3) c]) (use s in auto)
  have dec: "rl_allowed d \<longleftrightarrow> fst (admit n w k now adm)"
    using tr [of k] s count_admissions [of adm k now w] by (auto simp: admit_def)
  have adm': "snd (admit n w k now adm) = adm @ (if rl_allowed d then [(k, now)] else [])"
    using dec by (auto simp: admit_def split: if_splits)
  have "tracks K key now (admissions_of key (snd (admit n w k now adm))) l'" for key
    using tr [of key] unfolding adm' by (auto simp: admissions_of_def split: if_splits)
  then have "limiter_sim n w K now (snd (admit n w k now adm)) l'"
    using s tr assms(2) unfolding limiter_sim_def adm' by (auto simp: sorted_append)
  then show ?thesis using c dec by (simp add: limiter_step_def)
qed

interpretation limiter: timed_simulation "admit n w" limiter_step "limiter_sim n w" "\<lambda>K k. k \<in> K" for n w
  by unfold_locales (rule limiter_sim_step)

text \<open>
  C5. The limiter refines its specification: over any run of requests in the order of time, with no
  more keys than it tracks, it admits and refuses exactly what the machine that remembers every
  admission for ever does; neither the dropping of old hits nor the pruning of keys shows.
\<close>

theorem limiter_refines_window:
  assumes "sorted (map snd reqs)" "card (fst ` set reqs) \<le> MAX_TRACKED_KEYS"
  shows "run_requests limiter_step reqs (new_limiter limit w) = run_requests (admit (max 1 limit) w) reqs []"
proof -
  let ?s = "if reqs = [] then 0 else snd (hd reqs)"
  have "limiter_sim (max 1 limit) w (fst ` set reqs) ?s [] (new_limiter limit w)"
    using assms(2) by (simp add: limiter_sim_def tracks_def new_limiter_def keys_ok_def hits_of_def admissions_of_def)
  then show ?thesis
    by (rule limiter.same_decisions) (use assms(1) in \<open>cases reqs; auto\<close>)+
qed

theorem limiter_refines_window_witness:
  "run_requests limiter_step sample_reqs (new_limiter 2 60) = run_requests (admit 2 60) sample_reqs []
     \<and> True \<in> set (run_requests (admit 2 60) sample_reqs [])
     \<and> False \<in> set (run_requests (admit 2 60) sample_reqs [])"
proof -
  have "sorted (map snd sample_reqs)" "card (fst ` set sample_reqs) \<le> MAX_TRACKED_KEYS"
    by (simp_all add: sample_reqs_def MAX_TRACKED_KEYS_def)
  from limiter_refines_window [OF this, of 2 60] show ?thesis
    by (simp add: sample_reqs_def admit_def)
qed

end
