(* ===== verification/Dates.thy ===== *)
theory Dates
  imports Crypto
begin

text \<open>
  Calendar dates and the text form of instants, as \<open>datetime\<close> has them: the proleptic Gregorian
  calendar, \<open>isoformat()\<close> of an aware UTC instant and its inverse \<open>fromisoformat\<close>.  Years start in
  March inside the conversions, so that the leap day is the last day of a year.
\<close>

record date =
  dt_year :: int
  dt_month :: int
  dt_day :: int

definition EPOCH_SHIFT :: int where
  "EPOCH_SHIFT = 719468"

text \<open>Days before the March-based year \<open>y\<close>, and before the \<open>m\<close>-th month of such a year.\<close>

definition year_days :: "int \<Rightarrow> int" where
  "year_days y = 365 * y + y div 4 - y div 100 + y div 400"

definition month_days :: "int \<Rightarrow> int" where
  "month_days m = (153 * m + 2) div 5"

definition split_year :: "int \<Rightarrow> int \<times> int" where
  "split_year n =
     (let a = n div 146097; r1 = n mod 146097;
          b = min 3 (r1 div 36524); r2 = r1 - 36524 * b;
          c = r2 div 1461; r3 = r2 mod 1461;
          e = min 3 (r3 div 365)
      in (400 * a + 100 * b + 4 * c + e, r3 - 365 * e))"

definition civil_from_days :: "int \<Rightarrow> date" where
  "civil_from_days z =
     (let (y, doy) = split_year (z + EPOCH_SHIFT);
          mp = (5 * doy + 2) div 153;
          d = doy - month_days mp + 1;
          m = (if mp < 10 then mp + 3 else mp - 9)
      in \<lparr>dt_year = (if m \<le> 2 then y + 1 else y), dt_month = m, dt_day = d\<rparr>)"

definition days_from_civil :: "date \<Rightarrow> int" where
  "days_from_civil dt =
     (let y = (if dt_month dt \<le> 2 then dt_year dt - 1 else dt_year dt);
          mp = (if dt_month dt > 2 then dt_month dt - 3 else dt_month dt + 9)
      in year_days y + month_days mp + dt_day dt - 1 - EPOCH_SHIFT)"

definition DAY :: time where
  "DAY = 86400000000"

definition date_of :: "time \<Rightarrow> date" where
  "date_of t = civil_from_days (t div DAY)"

lemma split_year_days:
  assumes "split_year n = (y, doy)"
  shows "year_days y + doy = n \<and> 0 \<le> doy \<and> doy \<le> 365"
proof -
  define a r1 where "a = n div 146097" and "r1 = n mod 146097"
  define b where "b = min 3 (r1 div 36524)"
  define r2 where "r2 = r1 - 36524 * b"
  define c r3 where "c = r2 div 1461" and "r3 = r2 mod 1461"
  define e where "e = min 3 (r3 div 365)"
  have n: "n = 146097 * a + r1" "0 \<le> r1" "r1 < 146097" by (simp_all add: a_def r1_def)
  have b: "0 \<le> b" "b \<le> 3" "0 \<le> r2" "r2 \<le> 36524" using n by (auto simp: b_def r2_def min_def)
  have c: "r2 = 1461 * c + r3" "0 \<le> r3" "r3 < 1461" by (simp_all add: c_def r3_def)
  then have c': "0 \<le> c" "c \<le> 24" using b by linarith+
  have e: "0 \<le> e" "e \<le> 3" "0 \<le> r3 - 365 * e" "r3 - 365 * e \<le> 365" using c by (auto simp: e_def min_def)
  have y: "y = 400 * a + 100 * b + 4 * c + e" "doy = r3 - 365 * e"
    using assms unfolding split_year_def Let_def a_def r1_def b_def r2_def c_def r3_def e_def by simp_all
  have "y div 4 = 100 * a + 25 * b + c" using y e by simp
  moreover have "y div 100 = 4 * a + b" using y e b c' by simp
  moreover have "y div 400 = a" using y e b c' by simp
  ultimately have "year_days y = 146097 * a + 36524 * b + 1461 * c + 365 * e"
    using y by (simp add: year_days_def)
  then show ?thesis using n c y e by (simp add: r2_def)
qed

lemma month_of_day:
  assumes "0 \<le> doy" "doy \<le> 365"
  shows "let mp = (5 * doy + 2) div 153 in 0 \<le> mp \<and> mp \<le> 11 \<and> month_days mp \<le> doy \<and> doy - month_days mp \<le> 30"
proof -
  define mp where "mp = (5 * doy + 2) div 153"
  have "153 * mp \<le> 5 * doy + 2" "5 * doy + 2 < 153 * mp + 153" by (simp_all add: mp_def)
  then have "0 \<le> mp" "mp \<le> 11" using assms by linarith+
  moreover have "month_days mp \<le> doy"
    using \<open>153 * mp \<le> 5 * doy + 2\<close> by (simp add: month_days_def)
  moreover have "doy - month_days mp \<le> 30"
    using \<open>5 * doy + 2 < 153 * mp + 153\<close> by (simp add: month_days_def)
  ultimately show ?thesis by (simp add: Let_def mp_def)
qed

lemma days_from_civil_from_days: "days_from_civil (civil_from_days z) = z"
proof -
  obtain y doy where s: "split_year (z + EPOCH_SHIFT) = (y, doy)" by fastforce
  note f = split_year_days [OF s]
  then show ?thesis
    using month_of_day [of doy] s
    by (auto simp: civil_from_days_def days_from_civil_def Let_def)
qed

lemma civil_from_days_range:
  "1 \<le> dt_month (civil_from_days z) \<and> dt_month (civil_from_days z) \<le> 12
    \<and> 1 \<le> dt_day (civil_from_days z) \<and> dt_day (civil_from_days z) \<le> 31"
proof -
  obtain y doy where s: "split_year (z + EPOCH_SHIFT) = (y, doy)" by fastforce
  show ?thesis
    using month_of_day [of doy] split_year_days [OF s] s
    by (auto simp: civil_from_days_def Let_def)
qed

section \<open>Text\<close>

text \<open>\<open>format(n, "0kd")\<close> for a non-negative \<open>n\<close>.\<close>

definition zpad :: "nat \<Rightarrow> nat \<Rightarrow> string" where
  "zpad k n = replicate (k - length (dec_nat n)) CHR ''0'' @ dec_nat n"

definition zpad_int :: "nat \<Rightarrow> int \<Rightarrow> string" where
  "zpad_int k n = zpad k (nat n)"

definition date_iso :: "date \<Rightarrow> string" where
  "date_iso d = zpad_int 4 (dt_year d) @ ''-'' @ zpad_int 2 (dt_month d) @ ''-'' @ zpad_int 2 (dt_day d)"

definition clock_iso :: "time \<Rightarrow> string" where
  "clock_iso t =
     (let us = t mod DAY; s = us div 1000000
      in zpad_int 2 (s div 3600) @ '':'' @ zpad_int 2 (s div 60 mod 60) @ '':'' @ zpad_int 2 (s mod 60)
         @ (if us mod 1000000 = 0 then [] else ''.'' @ zpad_int 6 (us mod 1000000)))"

definition isoformat :: "time \<Rightarrow> string" where
  "isoformat t = date_iso (date_of t) @ ''T'' @ clock_iso t @ ''+00:00''"

text \<open>Pydantic writes the UTC offset as \<open>Z\<close>.\<close>

definition isoformat_z :: "time \<Rightarrow> string" where
  "isoformat_z t = date_iso (date_of t) @ ''T'' @ clock_iso t @ ''Z''"

text \<open>\<open>fromisoformat\<close> on the text \<open>isoformat\<close> writes.\<close>

fun digits_acc :: "nat \<Rightarrow> string \<Rightarrow> nat option" where
  "digits_acc a [] = Some a"
| "digits_acc a (c # cs) = (if digit_char c then digits_acc (10 * a + digit_val c) cs else None)"

definition digits :: "string \<Rightarrow> int option" where
  "digits s = (if s = [] then None else map_option int (digits_acc 0 s))"

definition parse_clock :: "string \<Rightarrow> time option" where
  "parse_clock s =
     (case (digits (take 2 s), digits (take 2 (drop 3 s)), digits (take 2 (drop 6 s))) of
        (Some h, Some m, Some sec) \<Rightarrow>
          let base = ((h * 60 + m) * 60 + sec) * 1000000
          in if drop 8 s = [] then Some base
             else if take 1 (drop 8 s) = ''.'' \<and> length (drop 9 s) = 6
               then map_option (\<lambda>f. base + f) (digits (drop 9 s)) else None
      | _ \<Rightarrow> None)"

definition fromisoformat :: "string \<Rightarrow> time option" where
  "fromisoformat s =
     (case (digits (take 4 s), digits (take 2 (drop 5 s)), digits (take 2 (drop 8 s))) of
        (Some y, Some m, Some d) \<Rightarrow>
          let rest = drop 11 s; clock = take (length rest - 6) rest
          in if length rest < 6 \<or> drop (length rest - 6) rest \<noteq> ''+00:00'' then None
             else map_option (\<lambda>c. days_from_civil \<lparr>dt_year = y, dt_month = m, dt_day = d\<rparr> * DAY + c)
                    (parse_clock clock)
      | _ \<Rightarrow> None)"

section \<open>Reading back what was written\<close>

lemma digits_acc_undec: "list_all digit_char s \<Longrightarrow> digits_acc a s = Some (foldl (\<lambda>n c. 10 * n + digit_val c) a s)"
  by (induction s arbitrary: a) auto

lemma dec_nat_not_Nil: "dec_nat n \<noteq> []"
  by (simp add: dec_nat.simps [of n])

lemma digits_zpad: "digits (zpad k n) = Some (int n)"
proof -
  have d: "list_all digit_char (zpad k n)"
    by (auto simp: zpad_def list_all_iff digit_char_def dest: dec_nat_chars)
  have z: "foldl (\<lambda>n c. 10 * n + digit_val c) 0 (replicate m CHR ''0'') = 0" for m
    by (induction m) (auto simp: digit_val_def)
  have ne: "zpad k n \<noteq> []" by (simp add: zpad_def dec_nat_not_Nil)
  have "foldl (\<lambda>n c. 10 * n + digit_val c) 0 (zpad k n) = n"
    using undec_dec_nat [of n] by (simp add: zpad_def z undec_def)
  then show ?thesis using digits_acc_undec [OF d] ne by (simp add: digits_def)
qed

lemma length_dec_nat: "n < 10 ^ Suc k \<Longrightarrow> length (dec_nat n) \<le> Suc k"
proof (induction k arbitrary: n)
  case 0
  then show ?case by (simp add: dec_nat.simps [of n])
next
  case (Suc k)
  then show ?case by (cases "n < 10") (auto simp: dec_nat.simps [of n])
qed

lemma length_zpad: "n < 10 ^ k \<Longrightarrow> 0 < k \<Longrightarrow> length (zpad k n) = k"
  using length_dec_nat [of n "k - 1"] by (simp add: zpad_def)

lemma zpad_int_simps:
  "0 \<le> i \<Longrightarrow> digits (zpad_int k i) = Some i"
  "0 \<le> i \<Longrightarrow> i < 10 ^ k \<Longrightarrow> 0 < k \<Longrightarrow> length (zpad_int k i) = k"
  by (simp_all add: zpad_int_def digits_zpad length_zpad nat_less_iff)

lemma parse_clock_iso: "parse_clock (clock_iso t) = Some (t mod DAY)"
proof -
  define us where "us = t mod DAY"
  define s where "s = us div 1000000"
  define f where "f = us mod 1000000"
  have us: "0 \<le> us" "us < DAY" by (simp_all add: us_def DAY_def)
  then have s: "0 \<le> s" "s < 86400" by (auto simp: s_def DAY_def)
  have eq: "us = s * 1000000 + f" "0 \<le> f" "f < 1000000" by (simp_all add: s_def f_def)
  define h m x where "h = s div 3600" and "m = s div 60 mod 60" and "x = s mod 60"
  have b: "0 \<le> h" "h < 10 ^ 2" "0 \<le> m" "m < 10 ^ 2" "0 \<le> x" "x < 10 ^ 2"
    using s by (auto simp: h_def m_def x_def)
  have "h = s div 60 div 60" by (simp add: h_def flip: zdiv_zmult2_eq)
  then have "h * 60 + m = s div 60" by (simp add: m_def)
  then have hms: "(h * 60 + m) * 60 + x = s" by (simp add: x_def)
  have l: "length (zpad_int 2 h) = 2" "length (zpad_int 2 m) = 2" "length (zpad_int 2 x) = 2"
    "length (zpad_int 6 f) = 6"
    using b eq by (simp_all add: zpad_int_simps)
  have d: "digits (zpad_int 2 h) = Some h" "digits (zpad_int 2 m) = Some m" "digits (zpad_int 2 x) = Some x"
    "digits (zpad_int 6 f) = Some f"
    using b eq by (simp_all add: zpad_int_simps)
  have c: "clock_iso t = zpad_int 2 h @ '':'' @ zpad_int 2 m @ '':'' @ zpad_int 2 x
      @ (if f = 0 then [] else ''.'' @ zpad_int 6 f)"
    by (simp add: clock_iso_def Let_def us_def s_def f_def h_def m_def x_def)
  show ?thesis
    unfolding c parse_clock_def us_def [symmetric]
    using l d hms eq by (cases "f = 0") (simp_all add: Let_def numeral_2_eq_2 numeral_3_eq_3)
qed

lemma fromisoformat_isoformat:
  assumes "0 \<le> dt_year (date_of t)" "dt_year (date_of t) < 10000"
  shows "fromisoformat (isoformat t) = Some t"
proof -
  let ?d = "date_of t"
  define y m d where "y = dt_year ?d" and "m = dt_month ?d" and "d = dt_day ?d"
  have r: "1 \<le> m" "m \<le> 12" "1 \<le> d" "d \<le> 31"
    using civil_from_days_range [of "t div DAY"] by (simp_all add: m_def d_def date_of_def)
  have l: "length (zpad_int 4 y) = 4" "length (zpad_int 2 m) = 2" "length (zpad_int 2 d) = 2"
    using r assms by (simp_all add: zpad_int_simps y_def)
  have g: "digits (zpad_int 4 y) = Some y" "digits (zpad_int 2 m) = Some m" "digits (zpad_int 2 d) = Some d"
    using r assms by (simp_all add: zpad_int_simps y_def)
  have "\<lparr>dt_year = y, dt_month = m, dt_day = d\<rparr> = ?d" by (simp add: y_def m_def d_def)
  then have dd: "days_from_civil \<lparr>dt_year = y, dt_month = m, dt_day = d\<rparr> = t div DAY"
    by (simp add: date_of_def days_from_civil_from_days)
  have i: "isoformat t = zpad_int 4 y @ ''-'' @ zpad_int 2 m @ ''-'' @ zpad_int 2 d @ ''T'' @ clock_iso t @ ''+00:00''"
    by (simp add: isoformat_def date_iso_def y_def m_def d_def)
  have dr: "take 4 (isoformat t) = zpad_int 4 y" "take 2 (drop 5 (isoformat t)) = zpad_int 2 m"
    "take 2 (drop 8 (isoformat t)) = zpad_int 2 d" "drop 11 (isoformat t) = clock_iso t @ ''+00:00''"
    using l by (simp_all add: i)
  show ?thesis
    unfolding fromisoformat_def dr g
    using parse_clock_iso [of t] dd by (simp add: Let_def)
qed

end
