(* ===== verification/Floats.thy ===== *)
theory Floats
  imports Crypto Complex_Main
begin

text \<open>
  The binary64 numbers of Python as the rationals they denote: rounding to nearest even, to
  which a sum or a quotient is subject, and \<open>repr\<close>, the shortest decimal that rounds to the
  number, which is the text of a float in JSON.  Infinities, NaN and the sign of zero are left
  out; no service computes them.
\<close>

definition round_half_even :: "rat \<Rightarrow> int" where
  "round_half_even q = (let f = floor q; r = q - of_int f
     in if r < 1 / 2 then f else if r > 1 / 2 then f + 1 else if even f then f else f + 1)"

fun bit_length :: "nat \<Rightarrow> int" where
  "bit_length n = (if n = 0 then 0 else 1 + bit_length (n div 2))"

declare bit_length.simps [simp del]

text \<open>\<open>floor_log b len x\<close>: the exponent \<open>k\<close> with \<open>b^k \<le> x < b^(k+1)\<close> of a positive \<open>x\<close>, from the lengths of its terms.\<close>

definition floor_log :: "rat \<Rightarrow> (nat \<Rightarrow> int) \<Rightarrow> rat \<Rightarrow> int" where
  "floor_log b len x = (let (n, d) = quotient_of x; k = len (nat n) - len (nat d)
     in if x < b powi k then k - 1 else k)"

definition ulp :: "rat \<Rightarrow> rat" where
  "ulp x = 2 powi (max (floor_log 2 bit_length \<bar>x\<bar>) (-1022) - 52)"

definition fround :: "rat \<Rightarrow> rat" where
  "fround x = (if x = 0 then 0 else of_int (round_half_even (x / ulp x)) * ulp x)"

definition float_add :: "rat \<Rightarrow> rat \<Rightarrow> rat" where
  "float_add x y = fround (x + y)"

definition float_div :: "rat \<Rightarrow> rat \<Rightarrow> rat" where
  "float_div x y = fround (x / y)"

text \<open>The decimals with \<open>p\<close> digits next to \<open>x\<close> that round to \<open>x\<close>, the nearest first.\<close>

definition decimals :: "rat \<Rightarrow> int \<Rightarrow> nat \<Rightarrow> int list" where
  "decimals x k p = (let u = 10 powi (k - int p + 1); m = round_half_even (x / u); f = floor (x / u)
     in filter (\<lambda>c. fround (of_int c * u) = x) [m, f, f + 1])"

fun shortest :: "rat \<Rightarrow> int \<Rightarrow> nat list \<Rightarrow> int \<times> nat" where
  "shortest x k [] = (round_half_even (x / 10 powi (k - 16)), 17)"
| "shortest x k (p # ps) = (case decimals x k p of [] \<Rightarrow> shortest x k ps | m # _ \<Rightarrow> (m, p))"

definition float_text :: "rat \<Rightarrow> string" where
  "float_text x = (let k0 = floor_log 10 (\<lambda>n. int (length (dec_nat n))) x;
       (m, p) = shortest x k0 [1..<18];
       s = dec_nat (nat m); k = k0 + (int (length s) - int p);
       ds = (let t = rev (dropWhile (\<lambda>c. c = CHR ''0'') (rev s)) in if t = [] then ''0'' else t);
       n = int (length ds)
     in if - 4 \<le> k \<and> k < 0 then ''0.'' @ replicate (nat (- k - 1)) (CHR ''0'') @ ds
        else if 0 \<le> k \<and> k < 16 then
          (if n \<le> k + 1 then ds @ replicate (nat (k + 1 - n)) (CHR ''0'') @ ''.0''
           else take (nat (k + 1)) ds @ ''.'' @ drop (nat (k + 1)) ds)
        else (if n = 1 then ds else take 1 ds @ ''.'' @ drop 1 ds) @ ''e''
          @ (if k < 0 then ''-'' else ''+'') @ (let e = dec_nat (nat \<bar>k\<bar>) in if length e < 2 then ''0'' @ e else e))"

definition float_repr :: "rat \<Rightarrow> string" where
  "float_repr x = (if x = 0 then ''0.0'' else if x < 0 then ''-'' @ float_text (- x) else float_text x)"

end
