(* ===== verification/JsonText.thy ===== *)
theory JsonText
  imports Dates Floats "HOL-Library.List_Lexorder" "HOL-Library.Multiset"
begin

text \<open>
  Canonical JSON (\<open>canonical_json\<close> of \<open>app/core/crypto.py\<close>): \<open>json.dumps\<close> with sorted keys, no
  blanks and non-ASCII characters escaped, its digest and the detached signature over it; and
  the length of \<open>str(payload)\<close>, which the capture events record.
\<close>

section \<open>Canonical text\<close>

definition hex4 :: "nat \<Rightarrow> string" where
  "hex4 n = [CHR 0x5C, CHR ''u''] @ hex_fixed 4 n"

definition json_char :: "nat \<Rightarrow> string" where
  "json_char c =
     (if c = 34 then [CHR 0x5C, CHR 0x22] else if c = 92 then [CHR 0x5C, CHR 0x5C]
      else if c = 10 then [CHR 0x5C, CHR ''n''] else if c = 13 then [CHR 0x5C, CHR ''r'']
      else if c = 9 then [CHR 0x5C, CHR ''t''] else if c = 8 then [CHR 0x5C, CHR ''b'']
      else if c = 12 then [CHR 0x5C, CHR ''f'']
      else if 32 \<le> c \<and> c < 127 then [char_of c]
      else if c < 65536 then hex4 c
      else hex4 (55296 + (c - 65536) div 1024) @ hex4 (56320 + (c - 65536) mod 1024))"

definition json_quote :: "ustr \<Rightarrow> string" where
  "json_quote s = [CHR 0x22] @ concat (map json_char s) @ [CHR 0x22]"

definition json_key_order :: "string \<times> string \<Rightarrow> nat list" where
  "json_key_order kv = lit (fst kv)"

definition json_member :: "string \<Rightarrow> string \<times> string \<Rightarrow> string" where
  "json_member ksep kv = json_quote (lit (fst kv)) @ ksep @ snd kv"

text \<open>\<open>json.dumps(value, sort_keys=True, separators=(isep, ksep))\<close>.\<close>

fun dump_json :: "string \<Rightarrow> string \<Rightarrow> json \<Rightarrow> string" where
  "dump_json isep ksep JNull = ''null''"
| "dump_json isep ksep (JBool b) = (if b then ''true'' else ''false'')"
| "dump_json isep ksep (JInt i) = dec_int i"
| "dump_json isep ksep (JFloat x) = float_repr x"
| "dump_json isep ksep (JStr s) = json_quote (lit s)"
| "dump_json isep ksep (JText u) = json_quote u"
| "dump_json isep ksep (JList xs) = ''['' @ join isep (map (dump_json isep ksep) xs) @ '']''"
| "dump_json isep ksep (JObj kvs) = ''{'' @ join isep
     (map (json_member ksep)
       (sort_key json_key_order (map (\<lambda>kv. (fst kv, dump_json isep ksep (snd kv))) kvs))) @ ''}''"

definition canonical_json :: "json \<Rightarrow> string" where
  "canonical_json payload = dump_json '','' '':'' payload"

definition canonical_json_sha256 :: "json \<Rightarrow> string" where
  "canonical_json_sha256 payload = sha256_hex (lit (canonical_json payload))"

definition rstrip_eq :: "string \<Rightarrow> string" where
  "rstrip_eq s = rev (dropWhile (\<lambda>c. c = CHR ''='') (rev s))"

definition b64_url_alphabet :: string where
  "b64_url_alphabet = take 62 b64_alphabet @ ''-_''"

definition sign_payload :: "json \<Rightarrow> ustr \<Rightarrow> string" where
  "sign_payload payload key = rstrip_eq
     (b64encode b64_url_alphabet (hmac_sha256 (utf8_encode key) (utf8_encode (lit (canonical_json payload)))))"

definition verify_signature :: "json \<Rightarrow> ustr \<Rightarrow> string \<Rightarrow> bool" where
  "verify_signature payload key signature \<longleftrightarrow> sign_payload payload key = signature"

section \<open>The length of str(payload)\<close>

text \<open>
  \<open>repr\<close> of a string: single quotes unless it holds a single and no double quote, with
  backslash escapes for the quote in use, the backslash and unprintable characters.
\<close>

definition repr_char_len :: "unidb \<Rightarrow> nat \<Rightarrow> nat \<Rightarrow> int" where
  "repr_char_len ud q c =
     (if c = q \<or> c = 92 \<or> c = 9 \<or> c = 10 \<or> c = 13 then 2
      else if u_isprintable ud c then 1
      else if c < 256 then 4 else if c < 65536 then 6 else 10)"

definition repr_str_len :: "unidb \<Rightarrow> ustr \<Rightarrow> int" where
  "repr_str_len ud s =
     (let q = (if 39 \<in> set s \<and> 34 \<notin> set s then 34 else 39)
      in 2 + sum_list (map (repr_char_len ud q) s))"

definition seps_len :: "nat \<Rightarrow> int" where
  "seps_len n = (if n = 0 then 0 else 2 * int (n - 1))"

fun repr_len :: "unidb \<Rightarrow> json \<Rightarrow> int" where
  "repr_len ud JNull = 4"
| "repr_len ud (JBool b) = (if b then 4 else 5)"
| "repr_len ud (JInt i) = int (length (dec_int i))"
| "repr_len ud (JFloat x) = int (length (float_repr x))"
| "repr_len ud (JStr s) = repr_str_len ud (lit s)"
| "repr_len ud (JText u) = repr_str_len ud u"
| "repr_len ud (JList xs) = 2 + seps_len (length xs) + sum_list (map (repr_len ud) xs)"
| "repr_len ud (JObj kvs) = 2 + seps_len (length kvs)
     + sum_list (map (\<lambda>kv. repr_str_len ud (lit (fst kv)) + 2 + repr_len ud (snd kv)) kvs)"

definition str_len :: "unidb \<Rightarrow> json \<Rightarrow> int" where
  "str_len ud payload = (case payload of
       JStr s \<Rightarrow> int (length s) | JText u \<Rightarrow> int (length u) | _ \<Rightarrow> repr_len ud payload)"

lemma repr_str_len_nonneg [simp]: "0 \<le> repr_str_len ud s"
  by (auto simp: repr_str_len_def repr_char_len_def intro!: sum_list_nonneg add_nonneg_nonneg)

lemma repr_len_nonneg [simp]: "0 \<le> repr_len ud j"
  by (induction j) (auto simp: seps_len_def intro!: sum_list_nonneg add_nonneg_nonneg)

lemma str_len_nonneg [simp]: "0 \<le> str_len ud j"
  using repr_len_nonneg [of ud j] by (cases j) (auto simp: str_len_def simp del: repr_len.simps repr_len_nonneg)

text \<open>\<open>sorted(set(xs))\<close> on strings.\<close>

definition sorted_strings :: "string list \<Rightarrow> string list" where
  "sorted_strings xs = sort_key lit (remdups xs)"

section \<open>Canonicity\<close>

lemma distinct_key_order: "distinct (map fst xs) \<Longrightarrow> distinct (map json_key_order xs)"
  by (induction xs) (auto simp: json_key_order_def image_iff)

lemma sort_key_mset:
  assumes "distinct (map f xs)" "mset ys = mset xs"
  shows "sort_key f ys = sort_key f xs"
proof (rule properties_for_sort_key)
  show "mset (sort_key f xs) = mset ys" using assms(2) by simp
  show "sorted (map f (sort_key f xs))" by simp
  have "mset (map f (sort_key f xs)) = mset (map f xs)" "mset (map f ys) = mset (map f xs)"
    using assms(2) by simp_all
  then have ds: "distinct (map f (sort_key f xs))" "distinct (map f ys)"
    using assms(1) by (metis mset_eq_imp_distinct_iff)+
  fix k assume k: "k \<in> set (sort_key f xs)"
  then have k': "k \<in> set ys" using assms(2) by (metis set_mset_mset mset_sort)
  show "filter (\<lambda>x. f k = f x) (sort_key f xs) = filter (\<lambda>x. f k = f x) ys"
    using filter_key_unique [OF ds(1) k] filter_key_unique [OF ds(2) k'] by (simp add: eq_commute)
qed

text \<open>
  The canonical text of an object does not depend on the order of its keys, so its digest
  and its signature do not either.
\<close>

theorem canonical_json_key_order:
  assumes "distinct (map fst kvs)" "mset kvs' = mset kvs"
  shows "canonical_json (JObj kvs') = canonical_json (JObj kvs)
    \<and> sign_payload (JObj kvs') key = sign_payload (JObj kvs) key"
proof -
  let ?m = "map (\<lambda>kv. (fst kv, dump_json '','' '':'' (snd kv)))"
  have "distinct (map json_key_order (?m kvs))"
    using assms(1) by (intro distinct_key_order) (simp add: comp_def)
  then have "sort_key json_key_order (?m kvs') = sort_key json_key_order (?m kvs)"
    using assms(2) by (intro sort_key_mset) simp_all
  then show ?thesis by (simp add: canonical_json_def sign_payload_def)
qed

theorem canonical_json_key_order_witness:
  "canonical_json (JObj [(''b'', JInt 1), (''a'', JNull)]) = canonical_json (JObj [(''a'', JNull), (''b'', JInt 1)])"
  using canonical_json_key_order [of "[(''a'', JNull), (''b'', JInt 1)]" "[(''b'', JInt 1), (''a'', JNull)]"]
  by simp

end
