(* ===== verification/Schemas.thy ===== *)
theory Schemas
  imports Policy JsonText
begin

text \<open>
  The wire contract of the ingest endpoints (\<open>app/schemas/common.py\<close>, \<open>app/schemas/ingest.py\<close>):
  a record per model, the constraints of its fields with its validators as a predicate \<open>..._valid\<close>,
  and the JSON a model dumps to, which is what the raw capture events store.
\<close>

section \<open>Constrained primitives (common.py)\<close>

definition SCHEMA_VERSION :: string where "SCHEMA_VERSION = ''1.0''"
definition MAX_TEXT_BYTES :: nat where "MAX_TEXT_BYTES = 1000000"
definition MAX_HTML_BYTES :: nat where "MAX_HTML_BYTES = 2000000"

definition alnum_code :: "nat \<Rightarrow> bool" where
  "alnum_code c \<longleftrightarrow> (65 \<le> c \<and> c \<le> 90) \<or> (97 \<le> c \<and> c \<le> 122) \<or> (48 \<le> c \<and> c \<le> 57)"

definition char_in :: "string \<Rightarrow> char \<Rightarrow> bool" where
  "char_in extra c \<longleftrightarrow> alnum_code (of_char c) \<or> c \<in> set extra"

definition sha256_hex_ok :: "string \<Rightarrow> bool" where
  "sha256_hex_ok s \<longleftrightarrow> length s = 64 \<and> list_all (\<lambda>c. c \<in> set ''0123456789abcdef'') s"

definition idempotency_key_ok :: "string \<Rightarrow> bool" where
  "idempotency_key_ok s \<longleftrightarrow> 8 \<le> length s \<and> length s \<le> 128 \<and> list_all (char_in ''._:-'') s"

definition source_id_ok :: "string \<Rightarrow> bool" where
  "source_id_ok s \<longleftrightarrow> 1 \<le> length s \<and> length s \<le> 255 \<and> list_all (char_in ''._:@-'') s"

definition semverish_ok :: "string \<Rightarrow> bool" where
  "semverish_ok s \<longleftrightarrow> 1 \<le> length s \<and> length s \<le> 32 \<and> list_all (char_in ''._+-'') s"

definition opt_ok :: "('a \<Rightarrow> bool) \<Rightarrow> 'a option \<Rightarrow> bool" where
  "opt_ok p x = (case x of None \<Rightarrow> True | Some v \<Rightarrow> p v)"

definition max_len :: "nat \<Rightarrow> 'a list \<Rightarrow> bool" where
  "max_len n s \<longleftrightarrow> length s \<le> n"

record client_context =
  cc_extension_version :: string
  cc_adapter_version :: string
  cc_schema_version :: string
  cc_device_fingerprint :: "ustr option"
  cc_page_locale :: "ustr option"
  cc_captured_at :: time

definition client_context_valid :: "client_context \<Rightarrow> bool" where
  "client_context_valid c \<longleftrightarrow> semverish_ok (cc_extension_version c) \<and> semverish_ok (cc_adapter_version c)
     \<and> cc_schema_version c = SCHEMA_VERSION
     \<and> opt_ok (\<lambda>s. 16 \<le> length s \<and> length s \<le> 128) (cc_device_fingerprint c)
     \<and> opt_ok (max_len 16) (cc_page_locale c)"

definition workspace_ref_valid :: "workspace_ref \<Rightarrow> bool" where
  "workspace_ref_valid w \<longleftrightarrow> opt_ok source_id_ok (wr_source_workspace_id w)
     \<and> opt_ok (max_len 255) (wr_label w) \<and> length (wr_verification_signals w) \<le> 20
     \<and> list_all (max_len 64) (wr_verification_signals w)"

record item_result =
  ir_index :: nat
  ir_idempotency_key :: "string option"
  ir_status :: string
  ir_id :: "uuid option"
  ir_conversation_id :: "uuid option"
  ir_message_id :: "uuid option"
  ir_message_version_id :: "uuid option"
  ir_reason_code :: "string option"
  ir_reason :: "string option"

definition item_result0 :: "nat \<Rightarrow> string \<Rightarrow> string \<Rightarrow> item_result" where
  "item_result0 index key status = \<lparr>ir_index = index, ir_idempotency_key = Some key, ir_status = status,
     ir_id = None, ir_conversation_id = None, ir_message_id = None, ir_message_version_id = None,
     ir_reason_code = None, ir_reason = None\<rparr>"

record batch_response =
  bp_accepted :: nat
  bp_duplicate :: nat
  bp_rejected :: nat
  bp_retryable :: nat
  bp_results :: "item_result list"
  bp_queue_depth :: "int option"
  bp_backpressure :: bool
  bp_server_time :: time

section \<open>Ingest models (ingest.py)\<close>

record citation_in =
  ci_index :: int
  ci_title :: "ustr option"
  ci_url :: "ustr option"
  ci_source_id :: "string option"

record message_part_in =
  pi_index :: int
  pi_kind :: part_kind
  pi_language :: "ustr option"
  pi_text :: "ustr option"
  pi_structured :: json

definition message_part_valid :: "message_part_in \<Rightarrow> bool" where
  "message_part_valid p \<longleftrightarrow> 0 \<le> pi_index p \<and> opt_ok (max_len 64) (pi_language p)
     \<and> opt_ok (max_len MAX_TEXT_BYTES) (pi_text p) \<and> \<not> (pi_kind p = PartCode \<and> \<not> truthy (pi_text p))"

record conversation_upsert_in =
  cu_idempotency_key :: string
  cu_source_conversation_id :: string
  cu_source_url :: "ustr option"
  cu_title :: "ustr option"
  cu_model_slug :: "ustr option"
  cu_workspace :: workspace_ref
  cu_capture_completeness :: capture_completeness
  cu_capture_source :: capture_source
  cu_source_created_at :: "time option"
  cu_source_updated_at :: "time option"
  cu_observed_message_count :: "int option"
  cu_branch_hint :: "ustr option"
  cu_client :: client_context

definition conversation_upsert_valid :: "conversation_upsert_in \<Rightarrow> bool" where
  "conversation_upsert_valid u \<longleftrightarrow> idempotency_key_ok (cu_idempotency_key u)
     \<and> source_id_ok (cu_source_conversation_id u) \<and> opt_ok (max_len 2048) (cu_source_url u)
     \<and> opt_ok (max_len 2048) (cu_title u) \<and> opt_ok (max_len 128) (cu_model_slug u)
     \<and> workspace_ref_valid (cu_workspace u) \<and> opt_ok (\<lambda>n. 0 \<le> n) (cu_observed_message_count u)
     \<and> opt_ok (max_len 255) (cu_branch_hint u) \<and> client_context_valid (cu_client u)
     \<and> wr_kind (cu_workspace u) \<noteq> WsPersonal"

record message_in =
  mi_idempotency_key :: string
  mi_source_conversation_id :: string
  mi_source_message_id :: "string option"
  mi_role :: message_role
  mi_sequence_index :: int
  mi_text :: ustr
  mi_sanitized_html :: "ustr option"
  mi_parts :: "message_part_in list"
  mi_citations :: "citation_in list"
  mi_completion_status :: completion_status
  mi_is_edit :: bool
  mi_is_regeneration :: bool
  mi_parent_source_message_id :: "string option"
  mi_branch_key :: "ustr option"
  mi_branch_selected :: bool
  mi_source_created_at :: "time option"
  mi_content_sha256 :: string
  mi_attachment_client_ids :: "ustr list"
  mi_author_name :: "ustr option"

definition message_valid :: "message_in \<Rightarrow> bool" where
  "message_valid m \<longleftrightarrow> idempotency_key_ok (mi_idempotency_key m)
     \<and> source_id_ok (mi_source_conversation_id m) \<and> opt_ok source_id_ok (mi_source_message_id m)
     \<and> 0 \<le> mi_sequence_index m \<and> length (mi_text m) \<le> MAX_TEXT_BYTES
     \<and> opt_ok (max_len MAX_HTML_BYTES) (mi_sanitized_html m)
     \<and> length (mi_parts m) \<le> 500 \<and> list_all message_part_valid (mi_parts m)
     \<and> length (mi_citations m) \<le> 100
     \<and> list_all (\<lambda>c. 0 \<le> ci_index c \<and> opt_ok (max_len 1024) (ci_title c) \<and> opt_ok (max_len 2048) (ci_url c)
          \<and> opt_ok source_id_ok (ci_source_id c)) (mi_citations m)
     \<and> opt_ok source_id_ok (mi_parent_source_message_id m) \<and> opt_ok (max_len 64) (mi_branch_key m)
     \<and> sha256_hex_ok (mi_content_sha256 m) \<and> length (mi_attachment_client_ids m) \<le> 20
     \<and> list_all (max_len 128) (mi_attachment_client_ids m) \<and> opt_ok (max_len 128) (mi_author_name m)
     \<and> \<not> (mi_completion_status m = CompletionPartial \<and> mi_role m = RoleUser)"

record capture_event_in =
  ei_idempotency_key :: string
  ei_kind :: capture_event_kind
  ei_source_conversation_id :: "string option"
  ei_source_message_id :: "string option"
  ei_occurred_at :: time
  ei_payload :: json

definition capture_event_valid :: "unidb \<Rightarrow> capture_event_in \<Rightarrow> bool" where
  "capture_event_valid ud e \<longleftrightarrow> idempotency_key_ok (ei_idempotency_key e)
     \<and> ei_kind e \<noteq> EvComplianceEvent
     \<and> opt_ok source_id_ok (ei_source_conversation_id e) \<and> opt_ok source_id_ok (ei_source_message_id e)
     \<and> str_len ud (ei_payload e) \<le> 512000"

record feedback_in =
  fi_client_feedback_id :: ustr
  fi_source_conversation_id :: string
  fi_source_message_id :: "string option"
  fi_kind :: feedback_kind
  fi_rating :: "int option"
  fi_note :: "ustr option"
  fi_client :: client_context

definition feedback_valid :: "feedback_in \<Rightarrow> bool" where
  "feedback_valid f \<longleftrightarrow> 8 \<le> length (fi_client_feedback_id f) \<and> length (fi_client_feedback_id f) \<le> 128
     \<and> source_id_ok (fi_source_conversation_id f) \<and> opt_ok source_id_ok (fi_source_message_id f)
     \<and> opt_ok (\<lambda>n. 1 \<le> n \<and> n \<le> 5) (fi_rating f) \<and> opt_ok (max_len 4000) (fi_note f)
     \<and> client_context_valid (fi_client f)"

section \<open>model_dump(mode="json")\<close>

definition jopt :: "('a \<Rightarrow> json) \<Rightarrow> 'a option \<Rightarrow> json" where
  "jopt f x = (case x of None \<Rightarrow> JNull | Some v \<Rightarrow> f v)"

definition jtime :: "time \<Rightarrow> json" where
  "jtime t = JStr (isoformat_z t)"

definition dump_citation :: "citation_in \<Rightarrow> json" where
  "dump_citation c = JObj [(''index'', JInt (ci_index c)), (''title'', jopt JText (ci_title c)),
     (''url'', jopt JText (ci_url c)), (''source_id'', jopt JStr (ci_source_id c))]"

definition dump_part :: "message_part_in \<Rightarrow> json" where
  "dump_part p = JObj [(''index'', JInt (pi_index p)), (''kind'', JStr (part_kind_str (pi_kind p))),
     (''language'', jopt JText (pi_language p)), (''text'', jopt JText (pi_text p)),
     (''structured'', pi_structured p)]"

definition dump_client :: "client_context \<Rightarrow> json" where
  "dump_client c = JObj [(''extension_version'', JStr (cc_extension_version c)),
     (''adapter_version'', JStr (cc_adapter_version c)), (''schema_version'', JStr (cc_schema_version c)),
     (''device_fingerprint'', jopt JText (cc_device_fingerprint c)),
     (''page_locale'', jopt JText (cc_page_locale c)), (''captured_at'', jtime (cc_captured_at c))]"

definition dump_workspace_ref :: "workspace_ref \<Rightarrow> json" where
  "dump_workspace_ref w = JObj [(''source_workspace_id'', jopt JStr (wr_source_workspace_id w)),
     (''label'', jopt JText (wr_label w)), (''kind'', JStr (workspace_kind_str (wr_kind w))),
     (''verified'', JBool (wr_verified w)),
     (''verification_signals'', JList (map JStr (wr_verification_signals w)))]"

definition dump_upsert :: "conversation_upsert_in \<Rightarrow> json" where
  "dump_upsert u = JObj [(''idempotency_key'', JStr (cu_idempotency_key u)),
     (''source_conversation_id'', JStr (cu_source_conversation_id u)),
     (''source_url'', jopt JText (cu_source_url u)), (''title'', jopt JText (cu_title u)),
     (''model_slug'', jopt JText (cu_model_slug u)), (''workspace'', dump_workspace_ref (cu_workspace u)),
     (''capture_completeness'', JStr (capture_completeness_str (cu_capture_completeness u))),
     (''capture_source'', JStr (capture_source_str (cu_capture_source u))),
     (''source_created_at'', jopt jtime (cu_source_created_at u)),
     (''source_updated_at'', jopt jtime (cu_source_updated_at u)),
     (''observed_message_count'', jopt JInt (cu_observed_message_count u)),
     (''branch_hint'', jopt JText (cu_branch_hint u)), (''client'', dump_client (cu_client u))]"

definition dump_message :: "message_in \<Rightarrow> json" where
  "dump_message m = JObj [(''idempotency_key'', JStr (mi_idempotency_key m)),
     (''source_conversation_id'', JStr (mi_source_conversation_id m)),
     (''source_message_id'', jopt JStr (mi_source_message_id m)),
     (''role'', JStr (message_role_str (mi_role m))), (''sequence_index'', JInt (mi_sequence_index m)),
     (''text'', JText (mi_text m)), (''sanitized_html'', jopt JText (mi_sanitized_html m)),
     (''parts'', JList (map dump_part (mi_parts m))), (''citations'', JList (map dump_citation (mi_citations m))),
     (''completion_status'', JStr (completion_status_str (mi_completion_status m))),
     (''is_edit'', JBool (mi_is_edit m)), (''is_regeneration'', JBool (mi_is_regeneration m)),
     (''parent_source_message_id'', jopt JStr (mi_parent_source_message_id m)),
     (''branch_key'', jopt JText (mi_branch_key m)), (''branch_selected'', JBool (mi_branch_selected m)),
     (''source_created_at'', jopt jtime (mi_source_created_at m)),
     (''content_sha256'', JStr (mi_content_sha256 m)),
     (''attachment_client_ids'', JList (map JText (mi_attachment_client_ids m))),
     (''author_name'', jopt JText (mi_author_name m))]"

definition dump_capture_event :: "capture_event_in \<Rightarrow> json" where
  "dump_capture_event e = JObj [(''idempotency_key'', JStr (ei_idempotency_key e)),
     (''kind'', JStr (capture_event_kind_str (ei_kind e))),
     (''source_conversation_id'', jopt JStr (ei_source_conversation_id e)),
     (''source_message_id'', jopt JStr (ei_source_message_id e)),
     (''occurred_at'', jtime (ei_occurred_at e)), (''payload'', ei_payload e)]"

end
