(* ===== verification/Storage.thy ===== *)
theory Storage
  imports JsonText Config
begin

text \<open>
  \<open>app/services/storage.py\<close>: the object keys, the service wrapped around the S3 client, and the
  cached reachability probe.  S3 itself is the record \<open>s3\<close> of client calls on a bucket state
  \<open>'b\<close>: a call that raises \<open>ClientError\<close> or \<open>BotoCoreError\<close> is \<open>None\<close>.  \<open>gzip\<close> compression is an
  argument of the operation that uses it.
\<close>

section \<open>Keys\<close>

definition segment_char :: "nat \<Rightarrow> bool" where
  "segment_char c \<longleftrightarrow> (65 \<le> c \<and> c \<le> 90) \<or> (97 \<le> c \<and> c \<le> 122) \<or> (48 \<le> c \<and> c \<le> 57)
     \<or> c = 46 \<or> c = 95 \<or> c = 58 \<or> c = 64 \<or> c = 45"

definition trim_char :: "nat \<Rightarrow> bool" where
  "trim_char c \<longleftrightarrow> c = 46 \<or> c = 95 \<or> c = 45"

definition key_segment_max :: "nat \<Rightarrow> string \<Rightarrow> ustr \<Rightarrow> ustr" where
  "key_segment_max max_length fallback v =
     (let cleaned = take max_length (map (\<lambda>c. if segment_char c then c else 95) (py_strip v));
          stripped = strip_by trim_char cleaned
      in if stripped = [] then lit fallback else stripped)"

definition key_segment :: "ustr \<Rightarrow> ustr" where
  "key_segment v = key_segment_max 200 ''unknown'' v"

definition RAW_EVENT_PREFIX :: string where "RAW_EVENT_PREFIX = ''raw/events''"
definition NORMALIZED_PREFIX :: string where "NORMALIZED_PREFIX = ''normalized/conversations''"
definition ATTACHMENT_QUARANTINE_PREFIX :: string where "ATTACHMENT_QUARANTINE_PREFIX = ''attachments/quarantine''"
definition ATTACHMENT_CLEAN_PREFIX :: string where "ATTACHMENT_CLEAN_PREFIX = ''attachments/clean''"
definition ATTACHMENT_CURATED_PREFIX :: string where "ATTACHMENT_CURATED_PREFIX = ''attachments/curated''"
definition EXPORT_PREFIX :: string where "EXPORT_PREFIX = ''exports/jsonl''"
definition BACKUP_PREFIX :: string where "BACKUP_PREFIX = ''backups/postgres''"
definition BACKUP_MANIFEST_PREFIX :: string where "BACKUP_MANIFEST_PREFIX = ''backups/manifests''"
definition COMPLIANCE_RAW_PREFIX :: string where "COMPLIANCE_RAW_PREFIX = ''raw/compliance''"

definition year_month :: "time \<Rightarrow> ustr" where
  "year_month t = lit (''/year='' @ zpad_int 4 (dt_year (date_of t)) @ ''/month='' @ zpad_int 2 (dt_month (date_of t)))"

definition year_month_day :: "time \<Rightarrow> ustr" where
  "year_month_day t = year_month t @ lit (''/day='' @ zpad_int 2 (dt_day (date_of t)))"

definition raw_event_key :: "string \<Rightarrow> string \<Rightarrow> string \<Rightarrow> time \<Rightarrow> ustr" where
  "raw_event_key workspace_hash conversation_id event_id t =
     lit RAW_EVENT_PREFIX @ year_month_day t
     @ lit ''/workspace='' @ key_segment (lit workspace_hash)
     @ lit ''/conversation='' @ key_segment (lit conversation_id)
     @ lit ''/'' @ key_segment (lit event_id) @ lit ''.json''"

definition compliance_raw_key :: "string \<Rightarrow> ustr \<Rightarrow> time \<Rightarrow> ustr" where
  "compliance_raw_key workspace_hash source_event_id t =
     lit COMPLIANCE_RAW_PREFIX @ year_month_day t
     @ lit ''/workspace='' @ key_segment (lit workspace_hash)
     @ lit ''/'' @ key_segment_max 180 ''event'' source_event_id @ lit ''.json''"

definition snapshot_key :: "string \<Rightarrow> string \<Rightarrow> int \<Rightarrow> time \<Rightarrow> ustr" where
  "snapshot_key workspace_hash conversation_id version t =
     lit NORMALIZED_PREFIX @ year_month t
     @ lit ''/workspace='' @ key_segment (lit workspace_hash)
     @ lit ''/conversation='' @ key_segment (lit conversation_id)
     @ lit (''/snapshot-'' @ zpad_int 6 version @ ''.json'')"

datatype stage = Quarantine | Clean | Curated

definition stage_prefix :: "stage \<Rightarrow> string" where
  "stage_prefix s = (case s of Quarantine \<Rightarrow> ATTACHMENT_QUARANTINE_PREFIX
     | Clean \<Rightarrow> ATTACHMENT_CLEAN_PREFIX | Curated \<Rightarrow> ATTACHMENT_CURATED_PREFIX)"

definition attachment_key :: "unidb \<Rightarrow> stage \<Rightarrow> string \<Rightarrow> string \<Rightarrow> string \<Rightarrow> ustr \<Rightarrow> ustr" where
  "attachment_key ud stage workspace_hash conversation_id attachment_id filename =
     lit (stage_prefix stage) @ lit ''/workspace='' @ key_segment (lit workspace_hash)
     @ lit ''/conversation='' @ key_segment (lit conversation_id)
     @ lit ''/'' @ key_segment (lit attachment_id) @ lit ''/'' @ safe_filename ud filename"

definition export_part_key :: "string \<Rightarrow> int \<Rightarrow> string option \<Rightarrow> ustr" where
  "export_part_key export_id part_number split =
     (let suffix = (if truthy split then key_segment (lit (the split)) @ lit ''/'' else [])
      in lit EXPORT_PREFIX @ lit ''/'' @ key_segment (lit export_id) @ lit ''/'' @ suffix
         @ lit (''part-'' @ zpad_int 5 part_number @ ''.jsonl.gz''))"

definition export_manifest_key :: "string \<Rightarrow> ustr" where
  "export_manifest_key export_id = lit EXPORT_PREFIX @ lit ''/'' @ key_segment (lit export_id) @ lit ''/manifest.json''"

definition slash_date :: "time \<Rightarrow> string" where
  "slash_date t = zpad_int 4 (dt_year (date_of t)) @ ''/'' @ zpad_int 2 (dt_month (date_of t)) @ ''/''
     @ zpad_int 2 (dt_day (date_of t))"

definition backup_key :: "time \<Rightarrow> string \<Rightarrow> string" where
  "backup_key timestamp name = BACKUP_PREFIX @ ''/'' @ slash_date timestamp @ ''/'' @ name"

definition backup_manifest_key :: "time \<Rightarrow> string \<Rightarrow> string" where
  "backup_manifest_key timestamp name = BACKUP_MANIFEST_PREFIX @ ''/'' @ slash_date timestamp @ ''/'' @ name"

section \<open>The client and the service\<close>

record put_args =
  pa_bucket :: ustr
  pa_key :: ustr
  pa_body :: bytes
  pa_content_type :: string
  pa_metadata :: "(string \<times> string) list"
  pa_encryption :: "(string \<times> ustr) list"
  pa_checksum_sha256 :: string

record object_head =
  oh_exists :: bool
  oh_byte_size :: int
  oh_content_type :: "string option"
  oh_version_id :: "string option"
  oh_checksum_sha256_b64 :: "string option"
  oh_metadata :: "(string \<times> string) list"

text \<open>\<open>head_object\<close> answers with the head, a not-found code, or another error.\<close>

datatype head_reply = Head object_head | HeadNotFound | HeadFailed

record 'b s3 =
  s3_put :: "put_args \<Rightarrow> 'b \<Rightarrow> string option option \<times> 'b"
  s3_copy :: "ustr \<Rightarrow> ustr \<Rightarrow> ustr \<Rightarrow> (string \<times> ustr) list \<Rightarrow> 'b \<Rightarrow> string option option \<times> 'b"
  s3_delete :: "ustr \<Rightarrow> ustr \<Rightarrow> 'b \<Rightarrow> unit option \<times> 'b"
  s3_head :: "ustr \<Rightarrow> ustr \<Rightarrow> 'b \<Rightarrow> head_reply"
  s3_get :: "ustr \<Rightarrow> ustr \<Rightarrow> nat option \<Rightarrow> 'b \<Rightarrow> bytes option"
  s3_presign :: "ustr \<Rightarrow> (string \<times> ustr) list \<Rightarrow> int \<Rightarrow> ustr option"

record put_result =
  pr_key :: ustr
  pr_version_id :: "string option"
  pr_sha256 :: string
  pr_byte_size :: int

definition encryption_args :: "settings \<Rightarrow> (string \<times> ustr) list" where
  "encryption_args s =
     (if st_s3_encryption_mode s = lit ''SSE-KMS'' \<and> truthy (st_s3_kms_key_id s)
      then [(''ServerSideEncryption'', lit ''aws:kms''), (''SSEKMSKeyId'', the (st_s3_kms_key_id s))]
      else [(''ServerSideEncryption'', lit ''AES256'')])"

definition put_bytes ::
  "settings \<Rightarrow> 'b s3 \<Rightarrow> ustr \<Rightarrow> bytes \<Rightarrow> string \<Rightarrow> (string \<times> string) list \<Rightarrow> 'b \<Rightarrow> put_result res \<times> 'b" where
  "put_bytes s c key body content_type metadata b =
     (let digest = sha256_hex_bytes body;
          md = [(''sha256'', digest)] @ metadata
      in case hex_to_b64 digest of Inl e \<Rightarrow> (Inl e, b)
       | Inr checksum \<Rightarrow>
          (case s3_put c \<lparr>pa_bucket = st_s3_bucket s, pa_key = key, pa_body = body,
                pa_content_type = content_type, pa_metadata = md,
                pa_encryption = encryption_args s, pa_checksum_sha256 = checksum\<rparr> b of
             (None, b') \<Rightarrow> (Inl (UpstreamError ''Object storage write failed''), b')
           | (Some version_id, b') \<Rightarrow>
               (Inr \<lparr>pr_key = key, pr_version_id = version_id, pr_sha256 = digest,
                     pr_byte_size = int (length body)\<rparr>, b')))"

lemma put_bytes_Inr:
  assumes "put_bytes s c key body ct md b = (Inr r, b')"
  obtains v where "s3_put c \<lparr>pa_bucket = st_s3_bucket s, pa_key = key, pa_body = body,
      pa_content_type = ct, pa_metadata = (''sha256'', sha256_hex_bytes body) # md,
      pa_encryption = encryption_args s, pa_checksum_sha256 = b64encode b64_alphabet (sha256 body)\<rparr> b = (Some v, b')"
    "r = \<lparr>pr_key = key, pr_version_id = v, pr_sha256 = sha256_hex_bytes body, pr_byte_size = int (length body)\<rparr>"
  using assms by (auto simp: put_bytes_def Let_def split: sum.splits prod.splits option.splits)

definition put_json ::
  "settings \<Rightarrow> 'b s3 \<Rightarrow> ustr \<Rightarrow> json \<Rightarrow> (string \<times> string) list \<Rightarrow> 'b \<Rightarrow> put_result res \<times> 'b" where
  "put_json s c key payload metadata b =
     put_bytes s c key (utf8_encode (lit (canonical_json payload))) ''application/json'' metadata b"

definition put_jsonl_gz ::
  "settings \<Rightarrow> 'b s3 \<Rightarrow> (bytes \<Rightarrow> bytes) \<Rightarrow> ustr \<Rightarrow> json list
     \<Rightarrow> (string \<times> string) list \<Rightarrow> 'b \<Rightarrow> put_result res \<times> 'b" where
  "put_jsonl_gz s c gzip key records metadata b =
     put_bytes s c key (gzip (concat (map (\<lambda>r. utf8_encode (lit (dump_json '', '' '': '' r) @ [10])) records)))
       ''application/gzip'' metadata b"

definition copy_object :: "settings \<Rightarrow> 'b s3 \<Rightarrow> ustr \<Rightarrow> ustr \<Rightarrow> 'b \<Rightarrow> string option res \<times> 'b" where
  "copy_object s c source_key dest_key b =
     (case s3_copy c (st_s3_bucket s) source_key dest_key (encryption_args s) b of
        (None, b') \<Rightarrow> (Inl (UpstreamError ''Object storage copy failed''), b')
      | (Some v, b') \<Rightarrow> (Inr v, b'))"

definition delete_object :: "settings \<Rightarrow> 'b s3 \<Rightarrow> ustr \<Rightarrow> 'b \<Rightarrow> unit res \<times> 'b" where
  "delete_object s c key b =
     (case s3_delete c (st_s3_bucket s) key b of
        (None, b') \<Rightarrow> (Inl (UpstreamError ''Object storage delete failed''), b')
      | (Some _, b') \<Rightarrow> (Inr (), b'))"

definition head_object :: "settings \<Rightarrow> 'b s3 \<Rightarrow> ustr \<Rightarrow> 'b \<Rightarrow> object_head res" where
  "head_object s c key b =
     (case s3_head c (st_s3_bucket s) key b of
        HeadNotFound \<Rightarrow> Inr \<lparr>oh_exists = False, oh_byte_size = 0, oh_content_type = None,
          oh_version_id = None, oh_checksum_sha256_b64 = None, oh_metadata = []\<rparr>
      | HeadFailed \<Rightarrow> Inl (UpstreamError ''Object storage head failed'')
      | Head h \<Rightarrow> Inr (h\<lparr>oh_exists := True\<rparr>))"

text \<open>\<open>limit\<close> bytes and one more are requested; a falsy limit requests the whole object.\<close>

definition get_bytes :: "settings \<Rightarrow> 'b s3 \<Rightarrow> ustr \<Rightarrow> int option \<Rightarrow> 'b \<Rightarrow> bytes res" where
  "get_bytes s c key max_bytes b =
     (let limit = (case max_bytes of Some n \<Rightarrow> n | None \<Rightarrow> st_max_attachment_bytes s)
      in case s3_get c (st_s3_bucket s) key (if limit \<noteq> 0 then Some (nat limit) else None) b of
           None \<Rightarrow> Inl (UpstreamError ''Object storage read failed'')
         | Some data \<Rightarrow> if limit \<noteq> 0 \<and> int (length data) > limit
             then Inl (UpstreamError ''Stored object exceeds the configured maximum size'')
             else Inr data)"

definition presign_put ::
  "settings \<Rightarrow> 'b s3 \<Rightarrow> time \<Rightarrow> ustr \<Rightarrow> string \<Rightarrow> int \<Rightarrow> string option \<Rightarrow> int option
     \<Rightarrow> (ustr \<times> (string \<times> ustr) list \<times> time) res" where
  "presign_put s c now key content_type content_length sha256_hex_digest ttl_seconds =
     (let ttl = (case ttl_seconds of Some n \<Rightarrow> if n \<noteq> 0 then n else st_presigned_upload_ttl_seconds s
                 | None \<Rightarrow> st_presigned_upload_ttl_seconds s);
          enc = encryption_args s;
          base = [(''Bucket'', st_s3_bucket s), (''Key'', key), (''ContentType'', lit content_type),
                  (''ContentLength'', lit (dec_int content_length))] @ enc;
          headers = [(''Content-Type'', lit content_type), (''Content-Length'', lit (dec_int content_length))]
            @ (if map_of enc ''ServerSideEncryption'' = Some (lit ''aws:kms'')
               then [(''x-amz-server-side-encryption'', lit ''aws:kms''),
                     (''x-amz-server-side-encryption-aws-kms-key-id'', the (map_of enc ''SSEKMSKeyId''))]
               else if truthy (map_of enc ''ServerSideEncryption'')
               then [(''x-amz-server-side-encryption'', the (map_of enc ''ServerSideEncryption''))] else [])
      in bindE (if truthy sha256_hex_digest
                then bindE (hex_to_b64 (the sha256_hex_digest)) (\<lambda>b64.
                       Inr (base @ [(''ChecksumSHA256'', lit b64)], headers @ [(''x-amz-checksum-sha256'', lit b64)]))
                else Inr (base, headers))
           (\<lambda>(params, headers). case s3_presign c (lit ''put_object'') params ttl of
              None \<Rightarrow> Inl (UpstreamError ''Unable to create upload URL'')
            | Some url \<Rightarrow> Inr (url, headers, now + seconds ttl)))"

definition presign_get :: "settings \<Rightarrow> 'b s3 \<Rightarrow> ustr \<Rightarrow> int option \<Rightarrow> ustr res" where
  "presign_get s c key ttl_seconds =
     (let ttl = (case ttl_seconds of Some n \<Rightarrow> if n \<noteq> 0 then n else st_presigned_download_ttl_seconds s
                 | None \<Rightarrow> st_presigned_download_ttl_seconds s)
      in case s3_presign c (lit ''get_object'') [(''Bucket'', st_s3_bucket s), (''Key'', key)] ttl of
           None \<Rightarrow> Inl (UpstreamError ''Unable to create download URL'') | Some url \<Rightarrow> Inr url)"

section \<open>The cached probe\<close>

record health_cache =
  hc_result :: "bool option"
  hc_checked_at :: rat

definition reset_storage_health_cache :: "health_cache \<Rightarrow> health_cache" where
  "reset_storage_health_cache h = \<lparr>hc_result = None, hc_checked_at = 0\<rparr>"

text \<open>
  One call of \<open>check_storage\<close>: the value returned, whether a HeadBucket was issued, and the cache
  afterwards.  \<open>probe\<close> is what the HeadBucket would answer.
\<close>

definition check_storage :: "settings \<Rightarrow> rat \<Rightarrow> bool \<Rightarrow> health_cache \<Rightarrow> bool \<times> bool \<times> health_cache" where
  "check_storage s now probe h =
     (let ttl = of_int (st_s3_health_cache_seconds s)
      in case hc_result h of
           Some r \<Rightarrow> if ttl > 0 \<and> now - hc_checked_at h < ttl then (r, False, h)
             else (probe, True, \<lparr>hc_result = Some probe, hc_checked_at = now\<rparr>)
         | None \<Rightarrow> (probe, True, \<lparr>hc_result = Some probe, hc_checked_at = now\<rparr>))"

section \<open>No identifier escapes its place in a key\<close>

lemma trim_segment: "strip_by trim_char s \<noteq> [] \<Longrightarrow> \<not> trim_char (hd (strip_by trim_char s)) \<and> \<not> trim_char (last (strip_by trim_char s))"
  using strip_by_ends [of trim_char s] by auto

lemma key_segment_max_safe:
  assumes "fallback = ''unknown'' \<or> fallback = ''event''"
  shows "list_all segment_char (key_segment_max n fallback v) \<and> key_segment_max n fallback v \<noteq> []
    \<and> \<not> trim_char (hd (key_segment_max n fallback v))"
proof -
  let ?c = "take n (map (\<lambda>c. if segment_char c then c else 95) (py_strip v))"
  have u: "segment_char 95" by (simp add: segment_char_def)
  have "list_all segment_char ?c"
    using u by (auto simp: list_all_iff dest!: in_set_takeD split: if_splits)
  then have "list_all segment_char (strip_by trim_char ?c)"
    using set_strip_by [of trim_char ?c] unfolding list_all_iff by blast
  moreover have "list_all segment_char (lit fallback) \<and> lit fallback \<noteq> [] \<and> \<not> trim_char (hd (lit fallback))"
    using assms by (elim disjE) (simp_all add: segment_char_def trim_char_def)
  ultimately show ?thesis
    using trim_segment [of ?c] unfolding key_segment_max_def Let_def by (auto split: if_splits)
qed

definition safe_part :: "ustr \<Rightarrow> bool" where
  "safe_part p \<longleftrightarrow> p \<noteq> [] \<and> 47 \<notin> set p \<and> p \<noteq> [46] \<and> p \<noteq> [46, 46]"

lemma safe_part_segment: "safe_part (key_segment v)"
proof -
  have "list_all segment_char (key_segment v)" "key_segment v \<noteq> []" "\<not> trim_char (hd (key_segment v))"
    using key_segment_max_safe [of "''unknown''" 200 v] by (simp_all add: key_segment_def)
  then show ?thesis by (auto simp: safe_part_def list_all_iff segment_char_def trim_char_def)
qed

lemma safe_part_eq: "47 \<notin> set a \<Longrightarrow> 3 \<le> length a \<Longrightarrow> safe_part (a @ key_segment v)"
  using safe_part_segment [of v] by (auto simp: safe_part_def append_eq_Cons_conv)

lemma set_sub_runs': "set (sub_runs p c xs) \<subseteq> insert c (set xs)"
  by (induction p c xs rule: sub_runs.induct) (auto dest: set_dropWhileD split: if_splits)

lemma of_char_slash: "of_char c = (47 :: nat) \<Longrightarrow> c = CHR ''/''"
proof -
  assume "of_char c = (47 :: nat)"
  then have "c = char_of (47 :: nat)" by (metis char_of_char)
  moreover have "char_of (47 :: nat) = CHR ''/''" by code_simp
  ultimately show ?thesis by simp
qed

lemma split_on_simple: "c \<notin> set a \<Longrightarrow> split_on c (a @ c # b) = a # split_on c b"
  by (induction a) auto

lemma split_on_last: "c \<notin> set a \<Longrightarrow> split_on c a = [a]"
  by (induction a) auto

text \<open>What the file-name sanitiser relies on in the Unicode tables: lowering letters and digits yields neither a slash nor nothing.\<close>

definition unidb_ok :: "unidb \<Rightarrow> bool" where
  "unidb_ok ud \<longleftrightarrow> (\<forall>s. list_all (u_isalnum ud) s \<longrightarrow> 47 \<notin> set (u_lower ud s) \<and> 46 \<notin> set (u_lower ud s))"

lemma unidb_ok_ascii: "unidb_ok ascii_db"
  by (auto simp: unidb_ok_def ascii_db_def list_all_iff ascii_lower_code_def image_iff)

lemma safe_filename_max_shape:
  assumes "unidb_ok ud"
  shows "safe_filename_max ud n fallback name = fallback \<or>
    (\<exists>stem ext. safe_filename_max ud n fallback name = stem @ (if ext = [] then [] else 46 # ext)
      \<and> stem \<noteq> [] \<and> 47 \<notin> set stem \<and> 47 \<notin> set ext \<and> hd stem \<noteq> 46
      \<and> int (length (safe_filename_max ud n fallback name)) \<le> n)"
proof (cases "safe_filename_max ud n fallback name = fallback")
  case False
  define cand where "cand = filter (u_isprintable ud) (u_nfkd ud (after_last 47 (map (\<lambda>c. if c = 92 then 47 else c) name)))"
  obtain stem0 dot ext0 where rp: "rpartition 46 cand = (stem0, dot, ext0)" by (cases "rpartition 46 cand") auto
  define bad where "bad \<longleftrightarrow> \<not> dot \<or> \<not> (ext0 \<noteq> [] \<and> list_all (u_isalnum ud) ext0) \<or> length ext0 > 10"
  define ext where "ext = u_lower ud (if bad then [] else ext0)"
  define raw where "raw = map (\<lambda>c. if safe_char c then c else 95) (if bad then cand else stem0)"
  define stem where "stem = strip_by (\<lambda>c. c \<in> {46, 95, 45}) (sub_runs (\<lambda>c. c = 46) 46 raw)"
  define stem' where "stem' = (if stem = [] then lit ''file'' else stem)"
  define budget where "budget = n - (if ext \<noteq> [] then int (length ext) + 1 else 0)"
  have eq: "safe_filename_max ud n fallback name = (if name = [] then fallback else if budget < 1 then fallback
      else if ext \<noteq> [] then take (nat budget) stem' @ [46] @ ext else take (nat budget) stem')"
    unfolding safe_filename_max_def Let_def cand_def [symmetric] rp
    by (simp add: bad_def ext_def raw_def stem_def stem'_def budget_def)
  have b: "1 \<le> budget" using False eq by (auto split: if_splits)
  have r: "47 \<notin> set raw" by (auto simp: raw_def safe_char_def)
  have "set stem \<subseteq> insert 46 (set raw)"
    using set_strip_by [of "\<lambda>c. c \<in> {46, 95, 45}" "sub_runs (\<lambda>c. c = 46) 46 raw"]
    unfolding stem_def by (meson order_trans set_sub_runs' )
  then have s47: "47 \<notin> set stem" using r by auto
  have "stem \<noteq> [] \<Longrightarrow> hd stem \<noteq> 46"
    using strip_by_ends [of "\<lambda>c. c \<in> {46, 95, 45}"] unfolding stem_def by auto
  then have st: "stem' \<noteq> []" "hd stem' \<noteq> 46" "47 \<notin> set stem'" using s47 by (auto simp: stem'_def)
  let ?t = "take (nat budget) stem'"
  have t: "?t \<noteq> []" "hd ?t = hd stem'" "47 \<notin> set ?t" using st b by (auto dest: in_set_takeD)
  have e: "47 \<notin> set ext" using assms by (auto simp: ext_def bad_def unidb_ok_def)
  have len: "int (length ?t) \<le> budget" using b by simp
  show ?thesis
    using False eq b t e st len by (intro disjI2 exI [of _ ?t] exI [of _ ext]) (auto simp: budget_def)
qed simp

lemma safe_filename_safe:
  assumes "unidb_ok ud"
  shows "safe_part (safe_filename ud name) \<and> length (safe_filename ud name) \<le> 128"
proof -
  have f: "safe_part (lit ''attachment.bin'')" by (simp add: safe_part_def)
  consider "safe_filename ud name = lit ''attachment.bin''"
    | stem ext where "safe_filename ud name = stem @ (if ext = [] then [] else 46 # ext)"
      "stem \<noteq> []" "47 \<notin> set stem" "47 \<notin> set ext" "hd stem \<noteq> 46" "int (length (safe_filename ud name)) \<le> 128"
    using safe_filename_max_shape [OF assms, of 128 "lit ''attachment.bin''" name] unfolding safe_filename_def by blast
  then show ?thesis
  proof cases
    case 1
    then show ?thesis using f by simp
  next
    case 2
    then show ?thesis by (cases stem) (auto simp: safe_part_def)
  qed
qed

text \<open>
  Whatever identifiers and file name it is built from, an attachment's object key has exactly
  four parts below its stage prefix and none of them is empty, \<open>.\<close> or \<open>..\<close>: no client-chosen text
  can add a path component or climb out of the prefix.
\<close>

theorem attachment_key_parts:
  assumes "unidb_ok ud"
  shows "\<exists>ws cv ai fn. split_on 47 (attachment_key ud stage wh cid aid name)
       = split_on 47 (lit (stage_prefix stage)) @ [ws, cv, ai, fn]
     \<and> safe_part ws \<and> safe_part cv \<and> safe_part ai \<and> safe_part fn \<and> length fn \<le> 128"
proof -
  let ?ws = "lit ''workspace='' @ key_segment (lit wh)" and ?cv = "lit ''conversation='' @ key_segment (lit cid)"
  let ?at = "key_segment (lit aid)" and ?fn = "safe_filename ud name"
  have p: "safe_part ?ws" "safe_part ?cv" "safe_part ?at" "safe_part ?fn" "length ?fn \<le> 128"
    using safe_part_eq [of "lit ''workspace=''"] safe_part_eq [of "lit ''conversation=''"]
      safe_part_segment safe_filename_safe [OF assms] by simp_all
  have n: "47 \<notin> set ?ws" "47 \<notin> set ?cv" "47 \<notin> set ?at" "47 \<notin> set ?fn"
    using p(1-4) by (simp_all only: safe_part_def simp_thms)
  obtain a b where ab: "lit (stage_prefix stage) = a @ 47 # b" "47 \<notin> set a" "47 \<notin> set b"
  proof -
    have "\<exists>b. stage_prefix stage = ''attachments/'' @ b \<and> CHR ''/'' \<notin> set b"
      by (cases stage) (simp_all add: stage_prefix_def ATTACHMENT_QUARANTINE_PREFIX_def
          ATTACHMENT_CLEAN_PREFIX_def ATTACHMENT_CURATED_PREFIX_def)
    then obtain b where b: "stage_prefix stage = ''attachments/'' @ b" "CHR ''/'' \<notin> set b" by blast
    have "47 \<notin> set (lit b)"
      using b(2) by (auto simp: lit_def) (metis of_char_slash)
    then show thesis using that [of "lit ''attachments''" "lit b"] b(1) by simp
  qed
  have k: "attachment_key ud stage wh cid aid name = a @ 47 # b @ 47 # ?ws @ 47 # ?cv @ 47 # ?at @ 47 # ?fn"
    by (simp add: attachment_key_def ab)
  have "split_on 47 (attachment_key ud stage wh cid aid name) = [a, b, ?ws, ?cv, ?at, ?fn]"
    unfolding k using ab n by (simp only: split_on_simple split_on_last not_False_eq_True)
  moreover have "split_on 47 (lit (stage_prefix stage)) = [a, b]"
    unfolding ab(1) using ab by (simp only: split_on_simple split_on_last not_False_eq_True)
  ultimately show ?thesis using p by (intro exI [of _ ?ws] exI [of _ ?cv] exI [of _ ?at] exI [of _ ?fn]) simp
qed

theorem attachment_key_parts_witness:
  "\<exists>ws cv ai fn. split_on 47 (attachment_key ascii_db Quarantine ''h'' ''../c'' ''a'' (lit ''x/../y.txt''))
       = split_on 47 (lit (stage_prefix Quarantine)) @ [ws, cv, ai, fn]
     \<and> safe_part ws \<and> safe_part cv \<and> safe_part ai \<and> safe_part fn"
  using attachment_key_parts [OF unidb_ok_ascii] by blast

end
