(* ===== verification/Jobs.thy ===== *)
theory Jobs
  imports Config Rows "HOL-Library.Product_Lexorder"
begin

text \<open>
  The durable job queue of \<open>app/services/jobs.py\<close>.  Each operation is the effect of its
  statements on the \<open>jobs\<close> table; \<open>now\<close> is the clock.  \<open>claim_jobs\<close> takes the set of rows that
  other claiming transactions hold locked, which \<open>FOR UPDATE SKIP LOCKED\<close> passes over.  An
  \<open>UPDATE\<close> is shown to keep the constraints of the table, so only the \<open>INSERT\<close> can fail.
\<close>

section \<open>Backoff\<close>

definition BASE_BACKOFF_SECONDS :: int where
  "BASE_BACKOFF_SECONDS = 5"

definition MAX_BACKOFF_SECONDS :: int where
  "MAX_BACKOFF_SECONDS = 3600"

definition backoff_ceiling :: "int \<Rightarrow> int" where
  "backoff_ceiling attempts =
     (let exponent = min attempts 12
      in min (BASE_BACKOFF_SECONDS * 2 ^ nat exponent) MAX_BACKOFF_SECONDS)"

text \<open>
  \<open>rnd\<close> is the draw of \<open>random.random()\<close> in [0, 1) behind \<open>random.uniform\<close>.
\<close>

definition backoff_delay :: "rat \<Rightarrow> int \<Rightarrow> bool \<Rightarrow> rat" where
  "backoff_delay rnd attempts jitter =
     (let ceiling = of_int (backoff_ceiling attempts); base = of_int BASE_BACKOFF_SECONDS
      in if \<not> jitter then ceiling else base + (ceiling - base) * rnd)"

text \<open>\<open>timedelta(seconds=q)\<close>: rounded half to even to whole microseconds.\<close>

definition timedelta_seconds :: "rat \<Rightarrow> time" where
  "timedelta_seconds q =
     (let m = q * 1000000; f = floor m; r = m - of_int f
      in if r < 1 / 2 then f else if r > 1 / 2 then f + 1 else if even f then f else f + 1)"

section \<open>Operations\<close>

definition get_job :: "uuid \<Rightarrow> db \<Rightarrow> job option" where
  "get_job i d = find (\<lambda>j. jb_id j = i) (d_jobs d)"

definition enqueue_job ::
  "time \<Rightarrow> job_kind \<Rightarrow> json \<Rightarrow> uuid option \<Rightarrow> string option \<Rightarrow> int \<Rightarrow> time option \<Rightarrow> int
     \<Rightarrow> db \<Rightarrow> (job option \<times> db) res" where
  "enqueue_job now kind payload organization_id dedupe_key priority run_after max_attempts d =
     (let (jid, d1) = uuid4 d;
          row = \<lparr>jb_id = jid, jb_created_at = now, jb_organization_id = organization_id,
            jb_kind = kind, jb_status = JobPending, jb_priority = priority, jb_payload = payload,
            jb_dedupe_key = dedupe_key, jb_attempts = 0, jb_max_attempts = max_attempts,
            jb_run_after = (case run_after of Some t \<Rightarrow> t | None \<Rightarrow> now), jb_locked_at = None,
            jb_locked_by = None, jb_lock_token = None, jb_started_at = None, jb_finished_at = None,
            jb_error_summary = None, jb_result = JObj []\<rparr>
      in if max_attempts < 1 \<or> priority < 0 \<or> 1000 < priority then Inl IntegrityError
         else if truthy dedupe_key \<and> list_ex (\<lambda>j. live j \<and> jb_dedupe_key j = dedupe_key) (d_jobs d1)
           then Inr (None, d1)
         else bindE (flush (d1\<lparr>d_jobs := d_jobs d1 @ [row]\<rparr>)) (\<lambda>d2. Inr (get_job jid d2, d2)))"

definition runnable :: "time \<Rightarrow> job_kind list \<Rightarrow> uuid set \<Rightarrow> job \<Rightarrow> bool" where
  "runnable now kinds locked j \<longleftrightarrow> jb_status j = JobPending \<and> jb_run_after j \<le> now
     \<and> (kinds = [] \<or> jb_kind j \<in> set kinds) \<and> jb_id j \<notin> locked"

definition claim_key :: "job \<Rightarrow> int \<times> time \<times> time" where
  "claim_key j = (jb_priority j, jb_run_after j, jb_created_at j)"

definition claim_ids :: "time \<Rightarrow> nat \<Rightarrow> job_kind list \<Rightarrow> uuid set \<Rightarrow> db \<Rightarrow> uuid list" where
  "claim_ids now limit kinds locked d =
     map jb_id (take limit (sort_key claim_key (filter (runnable now kinds locked) (d_jobs d))))"

definition claimed_row :: "time \<Rightarrow> string \<Rightarrow> uuid \<Rightarrow> job \<Rightarrow> job" where
  "claimed_row now worker_id lock_token j =
     j\<lparr>jb_status := JobRunning, jb_locked_at := Some now, jb_locked_by := Some worker_id,
       jb_lock_token := Some lock_token, jb_started_at := Some now, jb_attempts := jb_attempts j + 1\<rparr>"

definition claimable :: "uuid \<Rightarrow> job \<Rightarrow> bool" where
  "claimable i j \<longleftrightarrow> jb_id j = i \<and> jb_status j = JobPending"

definition claim_update :: "time \<Rightarrow> string \<Rightarrow> uuid \<Rightarrow> uuid \<Rightarrow> db \<Rightarrow> db" where
  "claim_update now worker_id i lock_token d =
     d\<lparr>d_jobs := upd_where (claimable i) (claimed_row now worker_id lock_token) (d_jobs d)\<rparr>"

fun claim_each :: "time \<Rightarrow> string \<Rightarrow> uuid list \<Rightarrow> db \<Rightarrow> (job \<times> uuid) list \<times> db" where
  "claim_each now worker_id [] d = ([], d)"
| "claim_each now worker_id (i # ids) d =
     (let (lock_token, d1) = uuid4 d;
          d2 = claim_update now worker_id i lock_token d1;
          (claimed, d3) = claim_each now worker_id ids d2
      in if \<not> list_ex (claimable i) (d_jobs d1) then (claimed, d3)
         else case get_job i d2 of
                None \<Rightarrow> (claimed, d3)
              | Some j \<Rightarrow> ((j, lock_token) # claimed, d3))"

definition claim_jobs ::
  "time \<Rightarrow> string \<Rightarrow> nat \<Rightarrow> job_kind list \<Rightarrow> uuid set \<Rightarrow> db \<Rightarrow> (job \<times> uuid) list \<times> db" where
  "claim_jobs now worker_id limit kinds locked d =
     (let ids = claim_ids now limit kinds locked d
      in if ids = [] then ([], d) else claim_each now worker_id ids d)"

definition record_attempt_start ::
  "time \<Rightarrow> job \<Rightarrow> string \<Rightarrow> bool \<Rightarrow> db \<Rightarrow> job_attempt \<times> db" where
  "record_attempt_start now job worker_id recovered_stale_lock d =
     (let (aid, d1) = uuid4 d;
          attempt = \<lparr>ja_id = aid, ja_job_id = jb_id job, ja_attempt_number = jb_attempts job,
            ja_worker_id = worker_id, ja_started_at = now, ja_finished_at = None,
            ja_duration_ms = None, ja_succeeded = None, ja_error_type = None,
            ja_error_summary = None, ja_recovered_stale_lock = recovered_stale_lock\<rparr>
      in (attempt, d1\<lparr>d_job_attempts := d_job_attempts d1 @ [attempt]\<rparr>))"

definition holds_lock :: "uuid \<Rightarrow> uuid \<Rightarrow> job \<Rightarrow> bool" where
  "holds_lock job_id lock_token j \<longleftrightarrow> jb_id j = job_id \<and> jb_lock_token j = Some lock_token"

definition completed_row :: "time \<Rightarrow> json option \<Rightarrow> job \<Rightarrow> job" where
  "completed_row now result j =
     j\<lparr>jb_status := JobSucceeded, jb_finished_at := Some now, jb_locked_at := None,
       jb_locked_by := None, jb_lock_token := None, jb_error_summary := None,
       jb_result := (case result of Some r \<Rightarrow> r | None \<Rightarrow> JObj [])\<rparr>"

definition complete_job :: "time \<Rightarrow> uuid \<Rightarrow> uuid \<Rightarrow> json option \<Rightarrow> db \<Rightarrow> bool \<times> db" where
  "complete_job now job_id lock_token result d =
     (list_ex (holds_lock job_id lock_token) (d_jobs d),
      d\<lparr>d_jobs := upd_where (holds_lock job_id lock_token) (completed_row now result) (d_jobs d)\<rparr>)"

text \<open>
  \<open>fail_job\<close> reads the row, decides on the values read and writes the changed attributes with
  \<open>UPDATE ... WHERE id = ...\<close> at the next flush; \<open>failed_row\<close> is what it writes.
\<close>

definition failed_row :: "rat \<Rightarrow> time \<Rightarrow> ustr \<Rightarrow> bool \<Rightarrow> job \<Rightarrow> job \<Rightarrow> job" where
  "failed_row rnd now error_summary retryable seen j =
     (let j1 = (if retryable \<and> jb_attempts seen < jb_max_attempts seen
                then j\<lparr>jb_status := JobPending,
                       jb_run_after := now + timedelta_seconds (backoff_delay rnd (jb_attempts seen) True)\<rparr>
                else j\<lparr>jb_status := (if \<not> retryable then JobDead else JobFailed),
                       jb_finished_at := Some now\<rparr>)
      in j1\<lparr>jb_locked_at := None, jb_locked_by := None, jb_lock_token := None,
            jb_error_summary := Some (take 2000 error_summary)\<rparr>)"

definition fail_read :: "uuid \<Rightarrow> uuid \<Rightarrow> db \<Rightarrow> job option" where
  "fail_read job_id lock_token d = (case get_job job_id d of
       None \<Rightarrow> None
     | Some j \<Rightarrow> if jb_lock_token j \<noteq> Some lock_token then None else Some j)"

definition fail_write :: "rat \<Rightarrow> time \<Rightarrow> ustr \<Rightarrow> bool \<Rightarrow> job \<Rightarrow> db \<Rightarrow> db" where
  "fail_write rnd now error_summary retryable seen d =
     d\<lparr>d_jobs := upd_where (\<lambda>j. jb_id j = jb_id seen)
                  (failed_row rnd now error_summary retryable seen) (d_jobs d)\<rparr>"

definition fail_job ::
  "rat \<Rightarrow> time \<Rightarrow> uuid \<Rightarrow> uuid \<Rightarrow> ustr \<Rightarrow> bool \<Rightarrow> db \<Rightarrow> bool \<times> db" where
  "fail_job rnd now job_id lock_token error_summary retryable d =
     (case fail_read job_id lock_token d of
        None \<Rightarrow> (False, d)
      | Some j \<Rightarrow> (True, fail_write rnd now error_summary retryable j d))"

definition stale :: "time \<Rightarrow> job \<Rightarrow> bool" where
  "stale cutoff j \<longleftrightarrow> jb_status j = JobRunning
     \<and> (case jb_locked_at j of None \<Rightarrow> True | Some t \<Rightarrow> t < cutoff)"

definition recovered_row :: "time \<Rightarrow> job \<Rightarrow> job" where
  "recovered_row now j =
     j\<lparr>jb_status := JobPending, jb_locked_at := None, jb_locked_by := None, jb_lock_token := None,
       jb_run_after := now, jb_error_summary := Some (lit ''recovered from stale lock'')\<rparr>"

definition recover_stale_jobs :: "settings \<Rightarrow> time \<Rightarrow> int option \<Rightarrow> db \<Rightarrow> nat \<times> db" where
  "recover_stale_jobs s now stale_seconds d =
     (let threshold = (case stale_seconds of Some n \<Rightarrow> n | None \<Rightarrow> st_worker_stale_lock_seconds s);
          cutoff = now - seconds threshold
      in (length (filter (stale cutoff) (d_jobs d)),
          d\<lparr>d_jobs := upd_where (stale cutoff) (recovered_row now) (d_jobs d)\<rparr>))"

definition count_status :: "job_status \<Rightarrow> db \<Rightarrow> int" where
  "count_status st d = int (length (filter (\<lambda>j. jb_status j = st) (d_jobs d)))"

definition pending_job_count :: "db \<Rightarrow> int" where
  "pending_job_count d = count_status JobPending d"

record queue_stat =
  qs_pending :: int
  qs_running :: int
  qs_succeeded :: int
  qs_failed :: int
  qs_dead :: int
  qs_oldest_pending_age :: "time option"
  qs_stale_locks :: int
  qs_backpressure :: bool

definition queue_stats :: "settings \<Rightarrow> time \<Rightarrow> db \<Rightarrow> queue_stat" where
  "queue_stats s now d =
     (let run_afters = map jb_run_after (filter (\<lambda>j. jb_status j = JobPending) (d_jobs d));
          stale_cutoff = now - seconds (st_worker_stale_lock_seconds s);
          stale_count = int (length (filter (\<lambda>j. jb_status j = JobRunning
            \<and> (case jb_locked_at j of None \<Rightarrow> False | Some t \<Rightarrow> t < stale_cutoff)) (d_jobs d)));
          pending = count_status JobPending d
      in \<lparr>qs_pending = pending, qs_running = count_status JobRunning d,
          qs_succeeded = count_status JobSucceeded d, qs_failed = count_status JobFailed d,
          qs_dead = count_status JobDead d,
          qs_oldest_pending_age = (if run_afters = [] then None
             else Some (now - foldr min (tl run_afters) (hd run_afters))),
          qs_stale_locks = stale_count,
          qs_backpressure = (st_job_queue_backpressure_threshold s \<le> pending)\<rparr>)"

section \<open>The invariant of the queue\<close>

text \<open>
  \<open>locks_ok\<close>: exactly the running jobs hold a lock token, with a lock time, no two jobs hold
  the same one, and ids and tokens were handed out by the generator.
\<close>

definition lock_row_ok :: "uuid \<Rightarrow> job \<Rightarrow> bool" where
  "lock_row_ok n j \<longleftrightarrow> (jb_lock_token j \<noteq> None \<longleftrightarrow> jb_status j = JobRunning)
     \<and> (jb_locked_at j \<noteq> None \<longleftrightarrow> jb_status j = JobRunning)
     \<and> jb_id j < n \<and> (case jb_lock_token j of None \<Rightarrow> True | Some t \<Rightarrow> t < n)"

definition locks_ok :: "db \<Rightarrow> bool" where
  "locks_ok d \<longleftrightarrow> (\<forall>j\<in>set (d_jobs d). lock_row_ok (d_next_uuid d) j)
     \<and> (\<forall>j\<in>set (d_jobs d). \<forall>k\<in>set (d_jobs d). \<forall>t. jb_lock_token j = Some t \<longrightarrow> jb_lock_token k = Some t
          \<longrightarrow> jb_id j = jb_id k)"

lemma locks_okI:
  assumes "\<And>j. j \<in> set (d_jobs d) \<Longrightarrow> lock_row_ok (d_next_uuid d) j"
    and "\<And>j k t. j \<in> set (d_jobs d) \<Longrightarrow> k \<in> set (d_jobs d) \<Longrightarrow> jb_lock_token j = Some t
       \<Longrightarrow> jb_lock_token k = Some t \<Longrightarrow> jb_id j = jb_id k"
  shows "locks_ok d"
  unfolding locks_ok_def using assms by blast

lemma locks_ok_row: "locks_ok d \<Longrightarrow> j \<in> set (d_jobs d) \<Longrightarrow> lock_row_ok (d_next_uuid d) j"
  unfolding locks_ok_def by blast

lemma locks_ok_token:
  "locks_ok d \<Longrightarrow> j \<in> set (d_jobs d) \<Longrightarrow> k \<in> set (d_jobs d) \<Longrightarrow> jb_lock_token j = Some t
     \<Longrightarrow> jb_lock_token k = Some t \<Longrightarrow> jb_id j = jb_id k"
  unfolding locks_ok_def by blast

definition queue_inv :: "db \<Rightarrow> bool" where
  "queue_inv d \<longleftrightarrow> jobs_ok (d_jobs d) \<and> locks_ok d"

definition holds_token :: "uuid \<Rightarrow> db \<Rightarrow> bool" where
  "holds_token t d \<longleftrightarrow> (\<exists>j\<in>set (d_jobs d). jb_lock_token j = Some t)"

text \<open>
  A row rewrite that keeps the id, the key and the limits, and never makes a dead row live
  again, keeps the constraints of the table.
\<close>

definition row_safe :: "(job \<Rightarrow> job) \<Rightarrow> job \<Rightarrow> bool" where
  "row_safe f j \<longleftrightarrow> jb_id (f j) = jb_id j \<and> jb_dedupe_key (f j) = jb_dedupe_key j
     \<and> jb_max_attempts (f j) = jb_max_attempts j \<and> jb_priority (f j) = jb_priority j
     \<and> jb_attempts j \<le> jb_attempts (f j) \<and> (live (f j) \<longrightarrow> live j)"

lemma live_keys_upd:
  assumes "\<And>j. j \<in> set js \<Longrightarrow> p j \<Longrightarrow> row_safe f j"
    and "distinct (map jb_dedupe_key (filter live_keyed js))"
  shows "distinct (map jb_dedupe_key (filter live_keyed (upd_where p f js)))"
  using assms
proof (induction js)
  case Nil
  then show ?case by simp
next
  case (Cons a js)
  have sub: "jb_dedupe_key ` set (filter live_keyed (upd_where p f js)) \<subseteq> jb_dedupe_key ` set (filter live_keyed js)"
    using Cons.prems(1) by (force simp: set_upd_where row_safe_def live_keyed_def)
  have tl: "distinct (map jb_dedupe_key (filter live_keyed (upd_where p f js)))"
    using Cons by (auto split: if_splits)
  have hd: "live_keyed (if p a then f a else a) \<Longrightarrow> live_keyed a
      \<and> jb_dedupe_key (if p a then f a else a) = jb_dedupe_key a"
    using Cons.prems(1) [of a] by (auto simp: row_safe_def live_keyed_def split: if_splits)
  show ?case
  proof (cases "live_keyed (if p a then f a else a)")
    case True
    with hd have "live_keyed a" "jb_dedupe_key (if p a then f a else a) = jb_dedupe_key a" by auto
    then have "jb_dedupe_key (if p a then f a else a) \<notin> jb_dedupe_key ` set (filter live_keyed (upd_where p f js))"
      using Cons.prems(2) sub by auto
    with True tl show ?thesis by simp
  next
    case False
    with tl show ?thesis by simp
  qed
qed

lemma jobs_ok_upd:
  assumes "\<And>j. j \<in> set js \<Longrightarrow> p j \<Longrightarrow> row_safe f j" and "jobs_ok js"
  shows "jobs_ok (upd_where p f js)"
proof -
  have "map jb_id (upd_where p f js) = map jb_id js"
    by (rule map_upd_where_same) (use assms(1) in \<open>auto simp: row_safe_def\<close>)
  moreover have "0 \<le> jb_attempts j \<and> 1 \<le> jb_max_attempts j \<and> 0 \<le> jb_priority j \<and> jb_priority j \<le> 1000"
    if "j \<in> set (upd_where p f js)" for j
    using that
  proof (rule in_upd_whereE)
    fix j0 assume j0: "j0 \<in> set js" "j = (if p j0 then f j0 else j0)"
    then have "0 \<le> jb_attempts j0 \<and> 1 \<le> jb_max_attempts j0 \<and> 0 \<le> jb_priority j0 \<and> jb_priority j0 \<le> 1000"
      using assms(2) by (simp add: jobs_ok_def list_all_iff)
    then show ?thesis using assms(1) [OF j0(1)] j0(2) by (auto simp: row_safe_def)
  qed
  ultimately show ?thesis
    using assms live_keys_upd [of js p f] by (simp add: jobs_ok_def list_all_iff)
qed

lemma row_safe_claimed: "jb_status j = JobPending \<Longrightarrow> row_safe (claimed_row now w t) j"
  by (simp add: row_safe_def claimed_row_def live_def)

lemma row_safe_completed: "row_safe (completed_row now r) j"
  by (simp add: row_safe_def completed_row_def live_def)

lemma row_safe_failed: "live j \<Longrightarrow> row_safe (failed_row rnd now e r seen) j"
  by (simp add: row_safe_def failed_row_def Let_def)

lemma row_safe_recovered: "stale c j \<Longrightarrow> row_safe (recovered_row now) j"
  by (simp add: row_safe_def recovered_row_def live_def stale_def)

text \<open>A rewrite that gives up the lock and stops running keeps \<open>locks_ok\<close>.\<close>

definition row_releases :: "(job \<Rightarrow> job) \<Rightarrow> job \<Rightarrow> bool" where
  "row_releases f j \<longleftrightarrow> jb_id (f j) = jb_id j \<and> jb_lock_token (f j) = None \<and> jb_locked_at (f j) = None
     \<and> jb_status (f j) \<noteq> JobRunning"

lemma locks_ok_release:
  assumes rel: "\<And>j. j \<in> set (d_jobs d) \<Longrightarrow> p j \<Longrightarrow> row_releases f j" and l: "locks_ok d"
  shows "locks_ok (d\<lparr>d_jobs := upd_where p f (d_jobs d)\<rparr>)"
proof -
  have row: "lock_row_ok (d_next_uuid d) j \<and> (\<forall>t. jb_lock_token j = Some t
      \<longrightarrow> (\<exists>j0\<in>set (d_jobs d). jb_lock_token j0 = Some t \<and> jb_id j = jb_id j0))"
    if "j \<in> set (upd_where p f (d_jobs d))" for j
    using that
  proof (rule in_upd_whereE)
    fix j0 assume j0: "j0 \<in> set (d_jobs d)" "j = (if p j0 then f j0 else j0)"
    then have "lock_row_ok (d_next_uuid d) j0" using l by (blast dest: locks_ok_row)
    then show ?thesis using rel [OF j0(1)] j0 by (auto simp: lock_row_ok_def row_releases_def)
  qed
  have tok: "jb_id j = jb_id k"
    if j: "j \<in> set (upd_where p f (d_jobs d))" and k: "k \<in> set (upd_where p f (d_jobs d))"
      and t: "jb_lock_token j = Some t" "jb_lock_token k = Some t" for j k t
  proof -
    obtain j0 where j0: "j0 \<in> set (d_jobs d)" "jb_lock_token j0 = Some t" "jb_id j = jb_id j0"
      using row [OF j] t by blast
    obtain k0 where k0: "k0 \<in> set (d_jobs d)" "jb_lock_token k0 = Some t" "jb_id k = jb_id k0"
      using row [OF k] t by blast
    show ?thesis using locks_ok_token [OF l j0(1) k0(1) j0(2) k0(2)] j0(3) k0(3) by simp
  qed
  show ?thesis
    by (rule locks_okI, use row in simp, rule tok, simp_all)
qed

lemma row_releases [simp]:
  "row_releases (completed_row now r) j" "row_releases (failed_row rnd now e rt seen) j"
  "row_releases (recovered_row now) j"
  by (simp_all add: row_releases_def completed_row_def failed_row_def recovered_row_def Let_def)

lemma holds_token_release:
  assumes "\<And>j. j \<in> set (d_jobs d) \<Longrightarrow> p j \<Longrightarrow> row_releases f j" "\<not> holds_token t d"
  shows "\<not> holds_token t (d\<lparr>d_jobs := upd_where p f (d_jobs d)\<rparr>)"
  using assms by (auto simp: holds_token_def row_releases_def elim!: in_upd_whereE split: if_splits)

lemma lock_row_ok_mono: "lock_row_ok n j \<Longrightarrow> n \<le> m \<Longrightarrow> lock_row_ok m j"
  by (auto simp: lock_row_ok_def split: option.splits)

lemma locks_ok_next: "locks_ok d \<Longrightarrow> d_next_uuid d \<le> n \<Longrightarrow> locks_ok (d\<lparr>d_next_uuid := n\<rparr>)"
  by (rule locks_okI) (auto intro: locks_ok_token lock_row_ok_mono locks_ok_row)

lemma locks_ok_claim:
  assumes l: "locks_ok d" and t: "t = d_next_uuid d"
  shows "locks_ok (claim_update now w i t (d\<lparr>d_next_uuid := Suc t\<rparr>))"
proof -
  let ?js = "upd_where (claimable i) (claimed_row now w t) (d_jobs d)"
  have old: "lock_row_ok t j" "jb_lock_token j \<noteq> Some t" if "j \<in> set (d_jobs d)" for j
    using locks_ok_row [OF l that] t by (auto simp: lock_row_ok_def)
  have row: "lock_row_ok (Suc t) j" if "j \<in> set ?js" for j
    using that
  proof (rule in_upd_whereE)
    fix j0 assume j0: "j0 \<in> set (d_jobs d)" "j = (if claimable i j0 then claimed_row now w t j0 else j0)"
    with old(1) [OF j0(1)] show ?thesis
      by (auto simp: lock_row_ok_def claimed_row_def split: option.splits)
  qed
  have org: "if s = t then jb_id j = i else \<exists>j0\<in>set (d_jobs d). jb_lock_token j0 = Some s \<and> jb_id j = jb_id j0"
    if "j \<in> set ?js" "jb_lock_token j = Some s" for j s
    using that(1)
  proof (rule in_upd_whereE)
    fix j0 assume j0: "j0 \<in> set (d_jobs d)" "j = (if claimable i j0 then claimed_row now w t j0 else j0)"
    with old(2) [OF j0(1)] that(2) show ?thesis
      by (auto simp: claimed_row_def claimable_def split: if_splits)
  qed
  have tok: "jb_id j = jb_id k"
    if j: "j \<in> set ?js" and k: "k \<in> set ?js"
      and s: "jb_lock_token j = Some s" "jb_lock_token k = Some s" for j k s
    using org [OF j s(1)] org [OF k s(2)] locks_ok_token [OF l] by (metis (full_types))
  show ?thesis unfolding claim_update_def
    by (rule locks_okI, use row t in simp, rule tok, simp_all)
qed

lemma queue_inv_claim_update:
  assumes "queue_inv d" "t = d_next_uuid d"
  shows "queue_inv (claim_update now w i t (d\<lparr>d_next_uuid := Suc t\<rparr>))"
  using assms locks_ok_claim [of d t now w i]
    jobs_ok_upd [of "d_jobs d" "claimable i" "claimed_row now w t"]
  by (auto simp: queue_inv_def claim_update_def claimable_def row_safe_claimed)

lemma claim_update_token:
  "s \<noteq> t \<Longrightarrow> \<not> holds_token s d \<Longrightarrow> \<not> holds_token s (claim_update now w i t (d\<lparr>d_next_uuid := n\<rparr>))"
  by (auto simp: holds_token_def claim_update_def claimed_row_def elim!: in_upd_whereE split: if_splits)

lemma claim_each_inv:
  assumes "claim_each now w ids d = (cs, d')" "queue_inv d"
  shows "queue_inv d' \<and> d_next_uuid d \<le> d_next_uuid d'
    \<and> (\<forall>t < d_next_uuid d. \<not> holds_token t d \<longrightarrow> \<not> holds_token t d')"
  using assms
proof (induction ids arbitrary: d cs)
  case Nil
  then show ?case by simp
next
  case (Cons i ids)
  let ?t = "d_next_uuid d"
  let ?d2 = "claim_update now w i ?t (d\<lparr>d_next_uuid := Suc ?t\<rparr>)"
  obtain cs' where r: "claim_each now w ids ?d2 = (cs', d')"
    using Cons.prems(1) by (auto simp: uuid4_def Let_def split: prod.splits if_splits option.splits)
  have "queue_inv ?d2" using Cons.prems(2) by (rule queue_inv_claim_update) simp
  note IH = Cons.IH [OF r this]
  have n: "d_next_uuid ?d2 = Suc ?t" by (simp add: claim_update_def)
  have "\<not> holds_token s d'" if "s < ?t" "\<not> holds_token s d" for s
    using claim_update_token [of s ?t d now w i "Suc ?t"] that IH n by auto
  with IH n show ?case by auto
qed

lemma claim_jobs_inv:
  assumes "claim_jobs now w limit kinds locked d = (cs, d')" "queue_inv d"
  shows "queue_inv d' \<and> d_next_uuid d \<le> d_next_uuid d'
    \<and> (\<forall>t < d_next_uuid d. \<not> holds_token t d \<longrightarrow> \<not> holds_token t d')"
  using assms claim_each_inv by (auto simp: claim_jobs_def Let_def split: if_splits)

lemma queue_inv_release:
  assumes "\<And>j. j \<in> set (d_jobs d) \<Longrightarrow> p j \<Longrightarrow> row_safe f j \<and> row_releases f j" "queue_inv d"
  shows "queue_inv (d\<lparr>d_jobs := upd_where p f (d_jobs d)\<rparr>)"
  using assms jobs_ok_upd [of "d_jobs d" p f] locks_ok_release [of d p f] by (simp add: queue_inv_def)

lemma complete_job_inv:
  "queue_inv d \<Longrightarrow> queue_inv (snd (complete_job now i t r d))"
  by (simp add: complete_job_def queue_inv_release row_safe_completed)

lemma fail_read_Some:
  assumes "fail_read i t d = Some j" "queue_inv d"
  shows "j \<in> set (d_jobs d) \<and> jb_id j = i \<and> jb_lock_token j = Some t \<and> jb_status j = JobRunning"
  using assms locks_ok_row [of d j]
  by (auto simp: fail_read_def get_job_def queue_inv_def lock_row_ok_def split: option.splits if_splits
      dest!: find_Some_in)

lemma queue_ids_inj:
  "queue_inv d \<Longrightarrow> j \<in> set (d_jobs d) \<Longrightarrow> k \<in> set (d_jobs d) \<Longrightarrow> jb_id j = jb_id k \<Longrightarrow> j = k"
  by (auto simp: queue_inv_def jobs_ok_def dest: distinct_map_eq)

lemma fail_job_inv:
  assumes "queue_inv d"
  shows "queue_inv (snd (fail_job rnd now i t e rt d))"
proof (cases "fail_read i t d")
  case None
  then show ?thesis using assms by (simp add: fail_job_def)
next
  case (Some j)
  have j: "j \<in> set (d_jobs d)" "jb_status j = JobRunning" using fail_read_Some [OF Some assms] by auto
  have eq: "k = j" if "k \<in> set (d_jobs d)" "jb_id k = jb_id j" for k
    using queue_ids_inj [OF assms that(1) j(1) that(2)] .
  have "row_safe (failed_row rnd now e rt j) k"
    if "k \<in> set (d_jobs d)" "jb_id k = jb_id j" for k
    using eq [OF that] j(2) by (simp add: live_def row_safe_failed)
  then show ?thesis
    using Some assms by (simp add: fail_job_def fail_write_def queue_inv_release)
qed

lemma recover_inv: "queue_inv d \<Longrightarrow> queue_inv (snd (recover_stale_jobs s now n d))"
  by (simp add: recover_stale_jobs_def Let_def queue_inv_release row_safe_recovered)

lemma enqueue_Inr_cases:
  assumes "enqueue_job now kind payload oid key prio ra m d = Inr (r, d')"
  obtains (duplicate) "r = None" "d' = d\<lparr>d_next_uuid := Suc (d_next_uuid d)\<rparr>" "truthy key"
      "\<exists>j\<in>set (d_jobs d). live j \<and> jb_dedupe_key j = key"
  | (created) row where "d_jobs d' = d_jobs d @ [row]" "r = get_job (d_next_uuid d) d'"
      "jb_id row = d_next_uuid d" "jb_status row = JobPending" "jb_dedupe_key row = key"
      "jb_lock_token row = None" "jb_locked_at row = None" "jb_kind row = kind" "jb_payload row = payload"
      "d_next_uuid d' = Suc (d_next_uuid d)" "constraints d'"
      "\<not> (truthy key \<and> (\<exists>j\<in>set (d_jobs d). live j \<and> jb_dedupe_key j = key))"
proof -
  consider "r = None" "d' = d\<lparr>d_next_uuid := Suc (d_next_uuid d)\<rparr>" "truthy key"
      "\<exists>j\<in>set (d_jobs d). live j \<and> jb_dedupe_key j = key"
    | "\<exists>row. d_jobs d' = d_jobs d @ [row] \<and> r = get_job (d_next_uuid d) d'
      \<and> jb_id row = d_next_uuid d \<and> jb_status row = JobPending \<and> jb_dedupe_key row = key
      \<and> jb_lock_token row = None \<and> jb_locked_at row = None \<and> jb_kind row = kind \<and> jb_payload row = payload
      \<and> d_next_uuid d' = Suc (d_next_uuid d) \<and> constraints d'
      \<and> \<not> (truthy key \<and> (\<exists>j\<in>set (d_jobs d). live j \<and> jb_dedupe_key j = key))"
    using assms
    by (auto simp: enqueue_job_def uuid4_def Let_def bindE_eq_Inr list_ex_iff split: if_splits)
  then show ?thesis using that by cases blast+
qed

lemma enqueue_inv:
  assumes "enqueue_job now kind payload oid key prio ra m d = Inr (r, d')" "queue_inv d"
  shows "queue_inv d'"
  using assms(1)
proof (cases rule: enqueue_Inr_cases)
  case duplicate
  then show ?thesis using assms(2) locks_ok_next [of d] by (simp add: queue_inv_def)
next
  case (created row)
  have old: "lock_row_ok (Suc (d_next_uuid d)) j" if "j \<in> set (d_jobs d)" for j
    using assms(2) that by (auto simp: queue_inv_def intro: lock_row_ok_mono locks_ok_row)
  have tok: "jb_id j = jb_id k" if "j \<in> set (d_jobs d')" "k \<in> set (d_jobs d')"
      "jb_lock_token j = Some t" "jb_lock_token k = Some t" for j k t
  proof -
    have "j \<in> set (d_jobs d)" "k \<in> set (d_jobs d)" using that created by auto
    then show ?thesis using assms(2) that(3,4) unfolding queue_inv_def by (blast dest: locks_ok_token)
  qed
  have row: "lock_row_ok (d_next_uuid d') j" if "j \<in> set (d_jobs d')" for j
    using that old [of j] created by (auto simp: lock_row_ok_def)
  have "locks_ok d'" by (rule locks_okI, erule row, rule tok)
  then show ?thesis using created by (simp add: queue_inv_def constraints_def)
qed

section \<open>The queue as a system\<close>

inductive queue_step :: "db \<Rightarrow> db \<Rightarrow> bool" where
  qs_enqueue: "enqueue_job now kind payload oid key prio ra m d = Inr (r, d') \<Longrightarrow> queue_step d d'"
| qs_claim: "claim_jobs now w limit kinds locked d = (cs, d') \<Longrightarrow> queue_step d d'"
| qs_complete: "complete_job now i t res d = (b, d') \<Longrightarrow> queue_step d d'"
| qs_fail: "fail_job rnd now i t e retryable d = (b, d') \<Longrightarrow> queue_step d d'"
| qs_recover: "recover_stale_jobs s now n d = (k, d') \<Longrightarrow> queue_step d d'"

definition queue_init :: "db \<Rightarrow> bool" where
  "queue_init d \<longleftrightarrow> d_jobs d = []"

interpretation queue: inv_system queue_init queue_step queue_inv
proof
  show "queue_init s \<Longrightarrow> queue_inv s" for s
    by (simp add: queue_init_def queue_inv_def jobs_ok_def locks_ok_def)
  show "queue_step s t \<Longrightarrow> queue_inv s \<Longrightarrow> queue_inv t" for s t
    by (induction rule: queue_step.induct)
      (use claim_jobs_inv complete_job_inv fail_job_inv recover_inv enqueue_inv in \<open>blast | metis snd_conv\<close>)+
qed

lemma queue_step_revoked:
  assumes "queue_step d d'" "queue_inv d" "t < d_next_uuid d" "\<not> holds_token t d"
  shows "t < d_next_uuid d' \<and> \<not> holds_token t d'"
  using assms
proof (induction rule: queue_step.induct)
  case (qs_enqueue now kind payload oid key prio ra m d r d')
  from qs_enqueue(1) show ?case
    by (cases rule: enqueue_Inr_cases) (use qs_enqueue(3,4) in \<open>auto simp: holds_token_def\<close>)
next
  case (qs_claim now w limit kinds locked d cs d')
  then show ?case using claim_jobs_inv by fastforce
next
  case (qs_complete now i t' res d b d')
  then show ?case
    using holds_token_release [of d "holds_lock i t'" "completed_row now res" t]
    by (auto simp: complete_job_def)
next
  case (qs_fail rnd now i t' e retryable d b d')
  then show ?case
    using holds_token_release [of d _ "failed_row rnd now e retryable _" t]
    by (auto simp: fail_job_def fail_write_def split: option.splits)
next
  case (qs_recover s now n d k d')
  then show ?case
    using holds_token_release [of d _ "recovered_row now" t]
    by (auto simp: recover_stale_jobs_def Let_def)
qed

lemma queue_steps_revoked:
  assumes "queue_step\<^sup>*\<^sup>* d d'" "queue_inv d" "t < d_next_uuid d" "\<not> holds_token t d"
  shows "t < d_next_uuid d' \<and> \<not> holds_token t d' \<and> queue_inv d'"
  using assms
proof (induction rule: rtranclp_induct)
  case base
  then show ?case by simp
next
  case (step y z)
  then show ?case using queue_step_revoked queue.step_inv by blast
qed

lemma no_token_complete:
  assumes "\<not> holds_token t d"
  shows "complete_job now i t res d = (False, d)"
proof -
  have "\<not> holds_lock i t j" if "j \<in> set (d_jobs d)" for j
    using assms that by (auto simp: holds_token_def holds_lock_def)
  then show ?thesis by (auto simp: complete_job_def list_ex_iff upd_where_id)
qed

lemma no_token_fail:
  assumes "\<not> holds_token t d"
  shows "fail_job rnd now i t e retryable d = (False, d)"
  using assms
  by (auto simp: fail_job_def fail_read_def get_job_def holds_token_def split: option.splits
      dest!: find_Some_in)

text \<open>
  C3. In every state the queue reaches from an empty table, the constraints of the table hold and
  exactly the running jobs carry a lock token, each its own.
\<close>

theorem queue_invariant:
  assumes "reach queue_init queue_step d" "j \<in> set (d_jobs d)"
  shows "jobs_ok (d_jobs d) \<and> (jb_lock_token j \<noteq> None \<longleftrightarrow> jb_status j = JobRunning)
    \<and> (\<forall>k\<in>set (d_jobs d). jb_lock_token j \<noteq> None \<longrightarrow> jb_lock_token k = jb_lock_token j \<longrightarrow> k = j)"
proof -
  have inv: "queue_inv d" using assms(1) by (rule queue.reach_inv)
  then have l: "locks_ok d" by (simp add: queue_inv_def)
  have "k = j" if "k \<in> set (d_jobs d)" "jb_lock_token j \<noteq> None" "jb_lock_token k = jb_lock_token j" for k
    using locks_ok_token [OF l assms(2) that(1)] that queue_ids_inj [OF inv assms(2) that(1)] by auto
  then show ?thesis
    using inv locks_ok_row [OF l assms(2)] by (auto simp: queue_inv_def lock_row_ok_def)
qed


section \<open>Claiming\<close>

lemma sorted_take_drop:
  assumes "sorted (map f xs)" "a \<in> set (take n xs)" "b \<in> set (drop n xs)"
  shows "f a \<le> f b"
proof -
  have "sorted (map f (take n xs) @ map f (drop n xs))"
    using assms(1) by (simp flip: map_append)
  then show ?thesis using assms(2,3) by (auto simp: sorted_append)
qed

lemma claim_each_spec:
  assumes "claim_each now w (map jb_id js) d = (cs, d')" "queue_inv d" "distinct (map jb_id js)"
    and "\<forall>j\<in>set js. j \<in> set (d_jobs d) \<and> jb_status j = JobPending"
  shows "list_all2 (\<lambda>j (k, t). k = claimed_row now w t j \<and> d_next_uuid d \<le> t \<and> k \<in> set (d_jobs d')) js cs
    \<and> (\<forall>j\<in>set (d_jobs d). jb_id j \<notin> set (map jb_id js) \<longrightarrow> j \<in> set (d_jobs d'))"
  using assms
proof (induction js arbitrary: d cs)
  case Nil
  then show ?case by simp
next
  case (Cons j0 js)
  let ?t = "d_next_uuid d" and ?i = "jb_id j0"
  let ?d2 = "claim_update now w ?i ?t (d\<lparr>d_next_uuid := Suc ?t\<rparr>)"
  let ?j = "claimed_row now w ?t j0"
  have j0: "j0 \<in> set (d_jobs d)" "claimable ?i j0" using Cons.prems(4) by (auto simp: claimable_def)
  have inv2: "queue_inv ?d2" using Cons.prems(2) by (rule queue_inv_claim_update) simp
  have j: "?j \<in> set (d_jobs ?d2)" "jb_id ?j = ?i"
    using j0 by (auto simp: claim_update_def set_upd_where claimed_row_def)
  have "get_job ?i ?d2 = Some ?j"
    using find_unique [of jb_id "d_jobs ?d2" ?j] inv2 j by (simp add: get_job_def queue_inv_def jobs_ok_def)
  then obtain cs' where r: "claim_each now w (map jb_id js) ?d2 = (cs', d')" and cs: "cs = (?j, ?t) # cs'"
    using Cons.prems(1) j0 by (auto simp: uuid4_def Let_def list_ex_iff split: prod.splits if_splits)
  have keep: "k \<in> set (d_jobs ?d2)" if "k \<in> set (d_jobs d)" "jb_id k \<noteq> ?i" for k
    using that by (auto simp: claim_update_def set_upd_where claimable_def image_iff)
  have n: "d_next_uuid ?d2 = Suc ?t" by (simp add: claim_update_def)
  have ex: "\<forall>k\<in>set js. k \<in> set (d_jobs ?d2) \<and> jb_status k = JobPending"
    using Cons.prems(3,4) keep by (auto simp: image_iff)
  have "distinct (map jb_id js)" using Cons.prems(3) by simp
  note IH = Cons.IH [OF r inv2 this ex]
  have tl: "list_all2 (\<lambda>j (k, t). k = claimed_row now w t j \<and> ?t \<le> t \<and> k \<in> set (d_jobs d')) js cs'"
    by (rule list_all2_mono [OF conjunct1 [OF IH]]) (auto simp: n)
  have "?j \<in> set (d_jobs d')" using IH j Cons.prems(3) by auto
  then show ?case using tl IH cs keep by auto
qed

lemma list_all2_claimed:
  assumes "list_all2 (\<lambda>j (k, t). k = claimed_row now w t j \<and> n \<le> t \<and> k \<in> S) js cs"
  shows "map (claim_key \<circ> fst) cs = map claim_key js" "map (jb_id \<circ> fst) cs = map jb_id js"
    and "(k, t) \<in> set cs \<Longrightarrow> \<exists>j\<in>set js. k = claimed_row now w t j \<and> n \<le> t \<and> k \<in> S"
  using assms by (induction rule: list_all2_induct) (auto simp: claimed_row_def claim_key_def)

text \<open>
  C6. Claiming takes exactly as many jobs as are runnable and not locked by another claimer, up
  to the limit, in the order of priority, due time and age; every claimed row is now running
  under the worker's name with a fresh token and one more attempt, every other row is untouched,
  and no runnable job left behind precedes a claimed one.
\<close>

theorem claim_jobs_spec:
  assumes "reach queue_init queue_step d" "claim_jobs now w limit kinds locked d = (cs, d')"
  shows "length cs = min limit (length (filter (runnable now kinds locked) (d_jobs d)))
    \<and> distinct (map (jb_id \<circ> fst) cs) \<and> sorted (map (claim_key \<circ> fst) cs)
    \<and> (\<forall>(k, t)\<in>set cs. k \<in> set (d_jobs d') \<and> d_next_uuid d \<le> t
         \<and> (\<exists>j\<in>set (d_jobs d). runnable now kinds locked j \<and> k = claimed_row now w t j))
    \<and> (\<forall>j\<in>set (d_jobs d). jb_id j \<notin> set (map (jb_id \<circ> fst) cs) \<longrightarrow> j \<in> set (d_jobs d')
         \<and> (runnable now kinds locked j \<longrightarrow> (\<forall>(k, t)\<in>set cs. claim_key k \<le> claim_key j)))"
proof -
  have inv: "queue_inv d" using assms(1) by (rule queue.reach_inv)
  define rows where "rows = sort_key claim_key (filter (runnable now kinds locked) (d_jobs d))"
  let ?js = "take limit rows"
  have rows: "set rows = {j \<in> set (d_jobs d). runnable now kinds locked j}" "sorted (map claim_key rows)"
    "length rows = length (filter (runnable now kinds locked) (d_jobs d))"
    by (simp_all add: rows_def)
  have js: "set ?js \<subseteq> set rows" by (rule set_take_subset)
  have "distinct (d_jobs d)" using inv by (auto simp: queue_inv_def jobs_ok_def distinct_map)
  then have "distinct rows" by (simp add: rows_def)
  moreover have "inj_on jb_id (set rows)"
    using queue_ids_inj [OF inv] rows(1) by (auto simp: inj_on_def)
  ultimately have "distinct (map jb_id rows)" by (simp add: distinct_map)
  then have d: "distinct (map jb_id ?js)" by (simp add: take_map [symmetric])
  have c: "claim_each now w (map jb_id ?js) d = (cs, d')"
    using assms(2) by (auto simp: claim_jobs_def Let_def claim_ids_def rows_def split: if_splits)
  have "\<forall>j\<in>set ?js. j \<in> set (d_jobs d) \<and> jb_status j = JobPending"
    using rows(1) js by (auto simp: runnable_def)
  note spec = claim_each_spec [OF c inv d this]
  note cl = list_all2_claimed [OF conjunct1 [OF spec]]
  have len: "length cs = min limit (length (filter (runnable now kinds locked) (d_jobs d)))"
    using list_all2_lengthD [OF conjunct1 [OF spec]] rows(3) by simp
  have srt: "sorted (map (claim_key \<circ> fst) cs)"
    using sorted_wrt_take [OF rows(2), of limit] by (simp add: cl(1) take_map)
  have frm: "\<forall>(k, t)\<in>set cs. k \<in> set (d_jobs d') \<and> d_next_uuid d \<le> t
      \<and> (\<exists>j\<in>set (d_jobs d). runnable now kinds locked j \<and> k = claimed_row now w t j)"
    using cl(3) js rows(1) by fastforce
  have least: "claim_key k \<le> claim_key j"
    if a: "j \<in> set rows" "jb_id j \<notin> set (map jb_id ?js)" "(k, t) \<in> set cs" for j k t
  proof -
    have "j \<in> set (drop limit rows)"
      using a(1,2) by (metis Un_iff append_take_drop_id image_eqI list.set_map set_append)
    moreover obtain j1 where "j1 \<in> set ?js" "k = claimed_row now w t j1" using cl(3) [OF a(3)] by blast
    ultimately show ?thesis
      using sorted_take_drop [OF rows(2)] by (auto simp: claim_key_def claimed_row_def)
  qed
  show ?thesis
    using len srt frm spec least rows(1) d by (auto simp: cl(2))
qed

section \<open>Enqueueing\<close>

text \<open>
  C7. With a dedupe key the queue holds exactly one live job of that key after the call, which
  returns \<open>None\<close> and leaves the jobs alone exactly when one was already pending or running, and
  otherwise the new pending row.
\<close>

theorem enqueue_job_dedupe:
  assumes "reach queue_init queue_step d" "truthy key"
    and "enqueue_job now kind payload oid key prio ra m d = Inr (r, d')"
  shows "(r = None \<longleftrightarrow> (\<exists>j\<in>set (d_jobs d). live j \<and> jb_dedupe_key j = key))
    \<and> (r = None \<longrightarrow> d_jobs d' = d_jobs d)
    \<and> (\<forall>row. r = Some row \<longrightarrow> d_jobs d' = d_jobs d @ [row] \<and> jb_status row = JobPending
          \<and> jb_kind row = kind \<and> jb_payload row = payload)
    \<and> (\<exists>!j. j \<in> set (d_jobs d') \<and> live j \<and> jb_dedupe_key j = key)"
proof -
  have inv: "queue_inv d" using assms(1) by (rule queue.reach_inv)
  have inv': "queue_inv d'" using enqueue_inv [OF assms(3) inv] .
  have ex: "(r = None \<longleftrightarrow> (\<exists>j\<in>set (d_jobs d). live j \<and> jb_dedupe_key j = key))
    \<and> (r = None \<longrightarrow> d_jobs d' = d_jobs d)
    \<and> (\<forall>row. r = Some row \<longrightarrow> d_jobs d' = d_jobs d @ [row] \<and> jb_status row = JobPending
          \<and> jb_kind row = kind \<and> jb_payload row = payload)
    \<and> (\<exists>j. j \<in> set (d_jobs d') \<and> live j \<and> jb_dedupe_key j = key)"
    using assms(3)
  proof (cases rule: enqueue_Inr_cases)
    case duplicate
    then show ?thesis by auto
  next
    case (created row)
    then have "get_job (d_next_uuid d) d' = Some row"
      using find_unique [of jb_id "d_jobs d'" row] inv' by (simp add: get_job_def queue_inv_def jobs_ok_def)
    then show ?thesis using created assms(2) by (auto simp: live_def)
  qed
  have "j = k" if "j \<in> set (d_jobs d')" "live j" "jb_dedupe_key j = key"
      "k \<in> set (d_jobs d')" "live k" "jb_dedupe_key k = key" for j k
    using distinct_map_eq [of jb_dedupe_key "filter live_keyed (d_jobs d')" j k] inv' that assms(2)
    by (cases key) (simp_all add: queue_inv_def jobs_ok_def live_keyed_def)
  with ex show ?thesis by blast
qed

section \<open>Failure, backoff and recovery\<close>

lemma backoff_ceiling_bounds: "5 \<le> backoff_ceiling n \<and> backoff_ceiling n \<le> 3600"
proof -
  have "(1 :: int) \<le> 2 ^ nat (min n 12)" by simp
  then show ?thesis
    by (simp add: backoff_ceiling_def Let_def BASE_BACKOFF_SECONDS_def MAX_BACKOFF_SECONDS_def)
qed

lemma backoff_delay_bounds:
  assumes "0 \<le> rnd" "rnd < 1"
  shows "5 \<le> backoff_delay rnd n jitter \<and> backoff_delay rnd n jitter \<le> of_int (backoff_ceiling n)"
proof -
  let ?c = "of_int (backoff_ceiling n) :: rat"
  have "of_int 5 \<le> ?c" using backoff_ceiling_bounds [of n] by (simp only: of_int_le_iff)
  then have c: "5 \<le> ?c" by simp
  have "0 \<le> (?c - 5) * rnd" using c assms(1) by (intro mult_nonneg_nonneg) auto
  moreover have "(?c - 5) * rnd \<le> (?c - 5) * 1" using c assms by (intro mult_left_mono) auto
  ultimately show ?thesis
    using c by (simp add: backoff_delay_def Let_def BASE_BACKOFF_SECONDS_def)
qed

lemma timedelta_seconds_bounds:
  assumes "of_int a \<le> q" "q \<le> of_int b"
  shows "seconds a \<le> timedelta_seconds q \<and> timedelta_seconds q \<le> seconds b"
proof -
  let ?m = "q * 1000000"
  let ?f = "floor ?m"
  have lo: "a * 1000000 \<le> ?f" using assms(1) by (simp add: le_floor_iff)
  have hi: "?m \<le> of_int (b * 1000000)" using assms(2) by simp
  then have f: "?f \<le> b * 1000000" by (simp add: floor_le_iff le_less_trans)
  have "?f + 1 \<le> b * 1000000" if "1 / 2 \<le> ?m - of_int ?f"
  proof (rule ccontr)
    assume "\<not> ?f + 1 \<le> b * 1000000"
    with f have "?f = b * 1000000" by simp
    with hi that show False by simp
  qed
  then show ?thesis
    using lo f by (auto simp: timedelta_seconds_def Let_def seconds_def)
qed

text \<open>
  C8. Failing a job under its own lock always releases it: it is rescheduled between five
  seconds and the (doubling, capped) backoff ceiling ahead while retryable attempts remain,
  becomes failed when they are exhausted and dead when the error is not retryable; no other
  job changes.
\<close>

theorem fail_job_spec:
  assumes "reach queue_init queue_step d" "j \<in> set (d_jobs d)" "jb_lock_token j = Some t"
    and "0 \<le> rnd" "rnd < 1"
    and f: "fail_job rnd now (jb_id j) t e retryable d = (b, d')"
  shows "b \<and> d_jobs d' = map (\<lambda>k. if k = j then failed_row rnd now e retryable j j else k) (d_jobs d)
    \<and> (let k = failed_row rnd now e retryable j j
       in jb_lock_token k = None \<and> jb_attempts k = jb_attempts j
        \<and> (if retryable \<and> jb_attempts j < jb_max_attempts j
           then jb_status k = JobPending \<and> now + seconds 5 \<le> jb_run_after k
             \<and> jb_run_after k \<le> now + seconds (backoff_ceiling (jb_attempts j))
           else jb_status k = (if retryable then JobFailed else JobDead) \<and> jb_finished_at k = Some now))"
proof -
  have inv: "queue_inv d" using assms(1) by (rule queue.reach_inv)
  have "get_job (jb_id j) d = Some j"
    using find_unique [of jb_id "d_jobs d" j] inv assms(2) by (simp add: get_job_def queue_inv_def jobs_ok_def)
  then have r: "b \<and> d' = fail_write rnd now e retryable j d"
    using f assms(3) by (auto simp: fail_job_def fail_read_def)
  have eq: "jb_id k = jb_id j \<longleftrightarrow> k = j" if "k \<in> set (d_jobs d)" for k
    using queue_ids_inj [OF inv that assms(2)] by auto
  have "upd_where (\<lambda>k. jb_id k = jb_id j) (failed_row rnd now e retryable j) (d_jobs d)
      = map (\<lambda>k. if k = j then failed_row rnd now e retryable j j else k) (d_jobs d)"
    unfolding upd_where_def by (rule map_cong) (auto simp: eq)
  moreover have "seconds 5 \<le> timedelta_seconds (backoff_delay rnd (jb_attempts j) True)
      \<and> timedelta_seconds (backoff_delay rnd (jb_attempts j) True) \<le> seconds (backoff_ceiling (jb_attempts j))"
    using backoff_delay_bounds [OF assms(4,5), of "jb_attempts j" True] by (intro timedelta_seconds_bounds) auto
  ultimately show ?thesis
    using r by (auto simp: fail_write_def failed_row_def Let_def)
qed

text \<open>
  Stale recovery loses no work: every running job whose lock is older than the threshold is
  immediately runnable again by any claimer that does not skip it, the number returned is the
  number of such jobs, and all other jobs are untouched.  The attempts a job has used up play
  no part.
\<close>

theorem recover_stale_jobs_spec:
  assumes "recover_stale_jobs s now (Some n) d = (k, d')"
  shows "k = length (filter (stale (now - seconds n)) (d_jobs d))
    \<and> length (d_jobs d') = length (d_jobs d)
    \<and> (\<forall>i < length (d_jobs d).
         if stale (now - seconds n) (d_jobs d ! i)
         then runnable now [] {} (d_jobs d' ! i) \<and> jb_lock_token (d_jobs d' ! i) = None
           \<and> jb_id (d_jobs d' ! i) = jb_id (d_jobs d ! i) \<and> jb_attempts (d_jobs d' ! i) = jb_attempts (d_jobs d ! i)
           \<and> jb_payload (d_jobs d' ! i) = jb_payload (d_jobs d ! i)
         else d_jobs d' ! i = d_jobs d ! i)
    \<and> (\<forall>j\<in>set (d_jobs d'). \<not> stale (now - seconds n) j)"
  using assms
  by (auto simp: recover_stale_jobs_def Let_def upd_where_def recovered_row_def runnable_def stale_def)

text \<open>
  C9. Failing a job is not protected the way completing it is: the write of \<open>fail_job\<close> names only
  the id of the row it read.  When stale recovery and another worker's claim commit between its
  read and its write, the write takes the lock away from the new owner, whose completion is then
  refused although it is the only one running the job.
\<close>

theorem fail_write_steals_lock:
  assumes "fail_read i t d = Some j" and "queue_inv d'"
    and "k \<in> set (d_jobs d')" "jb_id k = i" "jb_lock_token k = Some t'"
  shows "let d'' = fail_write rnd now e retryable j d'
    in \<not> holds_token t' d'' \<and> complete_job now' i t' res d'' = (False, d'')"
proof -
  have j: "jb_id j = i"
    using assms(1) by (auto simp: fail_read_def get_job_def split: option.splits if_splits dest: find_Some_in)
  have own: "jb_id l = i" if "l \<in> set (d_jobs d')" "jb_lock_token l = Some t'" for l
    using assms(2-5) that by (auto simp: queue_inv_def dest: locks_ok_token)
  have "\<not> holds_token t' (fail_write rnd now e retryable j d')"
    using own j
    by (auto simp: holds_token_def fail_write_def failed_row_def Let_def elim!: in_upd_whereE split: if_splits)
  then show ?thesis using no_token_complete by (simp add: Let_def)
qed

section \<open>A run of the queue\<close>

text \<open>
  One job is enqueued, claimed by worker A, recovered as stale an hour later and claimed by
  worker B.
\<close>

definition run_enqueue :: "db \<Rightarrow> (job option \<times> db) res" where
  "run_enqueue d = enqueue_job 0 KindArchiveRawEvent (JObj []) None (Some ''k'') 100 None 8 d"

definition run0 :: db where
  "run0 = (case run_enqueue empty_db of Inr (r, d) \<Rightarrow> d | Inl e \<Rightarrow> empty_db)"

definition run1 :: db where
  "run1 = snd (claim_jobs 0 ''A'' 1 [] {} run0)"

definition run2 :: db where
  "run2 = snd (recover_stale_jobs default_settings (minutes 60) (Some 300) run1)"

definition run3 :: db where
  "run3 = snd (claim_jobs (minutes 60) ''B'' 1 [] {} run2)"

lemma run0_eq: "run_enqueue empty_db = Inr (get_job 1 run0, run0)"
  by (simp add: run0_def run_enqueue_def enqueue_job_def uuid4_def Let_def empty_db_def constraints_def
      table_ok_defs flush_def live_def live_keyed_def)

lemma run_steps:
  "queue_step empty_db run0" "queue_step run0 run1" "queue_step run1 run2" "queue_step run2 run3"
proof -
  show "queue_step empty_db run0" using run0_eq unfolding run_enqueue_def by (rule qs_enqueue)
  show "queue_step run0 run1" unfolding run1_def by (rule qs_claim) (rule prod.collapse [symmetric])
  show "queue_step run1 run2" unfolding run2_def by (rule qs_recover) (rule prod.collapse [symmetric])
  show "queue_step run2 run3" unfolding run3_def by (rule qs_claim) (rule prod.collapse [symmetric])
qed

lemma run_reach: "reach queue_init queue_step run0" "reach queue_init queue_step run1"
  "reach queue_init queue_step run2" "reach queue_init queue_step run3"
proof -
  have "reach queue_init queue_step empty_db" by (rule reach_init) (simp add: queue_init_def empty_db_def)
  then show r0: "reach queue_init queue_step run0" using run_steps(1) by (rule reach_step)
  then show r1: "reach queue_init queue_step run1" using run_steps(2) by (rule reach_step)
  then show r2: "reach queue_init queue_step run2" using run_steps(3) by (rule reach_step)
  then show "reach queue_init queue_step run3" using run_steps(4) by (rule reach_step)
qed

lemma run_facts:
  "map (\<lambda>j. (jb_id j, jb_status j, jb_lock_token j, jb_attempts j)) (d_jobs run0) = [(1, JobPending, None, 0)]"
  "map (\<lambda>j. (jb_id j, jb_status j, jb_lock_token j, jb_attempts j)) (d_jobs run1) = [(1, JobRunning, Some 2, 1)]"
  "map (\<lambda>j. (jb_id j, jb_status j, jb_lock_token j, jb_attempts j)) (d_jobs run2) = [(1, JobPending, None, 1)]"
  "map (\<lambda>j. (jb_id j, jb_status j, jb_lock_token j, jb_attempts j)) (d_jobs run3) = [(1, JobRunning, Some 3, 2)]"
  "d_next_uuid run2 = 3" "filter (runnable 0 [] {}) (d_jobs run0) = d_jobs run0"
  "filter (stale (minutes 60 - seconds 300)) (d_jobs run1) = d_jobs run1"
  by code_simp+

theorem queue_invariant_witness:
  "jobs_ok (d_jobs run1) \<and> jb_status (hd (d_jobs run1)) = JobRunning \<and> jb_lock_token (hd (d_jobs run1)) \<noteq> None"
proof -
  have "hd (d_jobs run1) \<in> set (d_jobs run1)" "jb_status (hd (d_jobs run1)) = JobRunning"
    using run_facts(2) by auto
  then show ?thesis using queue_invariant [OF run_reach(2), of "hd (d_jobs run1)"] by simp
qed


theorem claim_jobs_spec_witness:
  "length (fst (claim_jobs 0 ''A'' 1 [] {} run0)) = 1
   \<and> list_all (\<lambda>(k, t). k \<in> set (d_jobs run1)) (fst (claim_jobs 0 ''A'' 1 [] {} run0))"
  using claim_jobs_spec [OF run_reach(1), of 0 "''A''" 1 "[]" "{}" "fst (claim_jobs 0 ''A'' 1 [] {} run0)" run1]
    run_facts(1,6) by (fastforce simp: run1_def list_all_iff)

theorem enqueue_job_dedupe_witness:
  "\<exists>d'. run_enqueue run0 = Inr (None, d') \<and> d_jobs d' = d_jobs run0"
proof -
  have "list_ex (\<lambda>j. live j \<and> jb_dedupe_key j = Some ''k'') (d_jobs run0)" by code_simp
  then obtain d' where e: "run_enqueue run0 = Inr (None, d')"
    by (auto simp: run_enqueue_def enqueue_job_def uuid4_def Let_def)
  show ?thesis
    using enqueue_job_dedupe [OF run_reach(1) _ e [unfolded run_enqueue_def]] e by auto
qed

theorem fail_job_spec_witness:
  "\<exists>j d'. j \<in> set (d_jobs run1) \<and> fail_job 0 7 1 2 [] True run1 = (True, d')
     \<and> d_jobs d' = [failed_row 0 7 [] True j j] \<and> jb_status (failed_row 0 7 [] False j j) = JobDead"
proof -
  obtain j where j: "d_jobs run1 = [j]" "jb_id j = 1" "jb_lock_token j = Some 2"
    using run_facts(2) by (auto simp: Cons_eq_map_conv map_eq_Cons_conv)
  obtain b d' where f: "fail_job 0 7 1 2 [] True run1 = (b, d')" by fastforce
  show ?thesis
    using fail_job_spec [OF run_reach(2), of j 2 0 7 "[]" True b d'] f j
    by (auto simp: Let_def failed_row_def)
qed

theorem recover_stale_jobs_spec_witness:
  "\<exists>k. recover_stale_jobs default_settings (minutes 60) (Some 300) run1 = (k, run2) \<and> k = 1"
proof -
  obtain k where e: "recover_stale_jobs default_settings (minutes 60) (Some 300) run1 = (k, run2)"
    by (metis prod.collapse run2_def)
  show ?thesis
    using recover_stale_jobs_spec [OF e] e run_facts(2,7) by auto
qed

theorem fail_write_steals_lock_witness:
  "\<exists>j. fail_read 1 2 run1 = Some j \<and> \<not> holds_token 3 (fail_write 0 9 [] True j run3) \<and> holds_token 3 run3"
proof -
  obtain j where j: "d_jobs run1 = [j]" "jb_id j = 1" "jb_lock_token j = Some 2"
    using run_facts(2) by (auto simp: map_eq_Cons_conv)
  obtain k where k: "d_jobs run3 = [k]" "jb_id k = 1" "jb_lock_token k = Some 3"
    using run_facts(4) by (auto simp: map_eq_Cons_conv)
  have r: "fail_read 1 2 run1 = Some j" using j by (simp add: fail_read_def get_job_def)
  have "queue_inv run3" using run_reach(4) by (rule queue.reach_inv)
  then show ?thesis
    using fail_write_steals_lock [OF r, of run3 k 3 0 9 "[]" True 0 None] r k
    by (auto simp: holds_token_def Let_def)
qed

end
