(* ===== verification/Ingest.thy ===== *)
theory Ingest
  imports Schemas Sanitize Storage Jobs
begin

text \<open>
  \<open>app/services/ingest.py\<close>: conversations, message versions, capture events and feedback coming
  from the extension.  An operation maps the database of the session to its result or to the
  exception it raises; a pending change reaches the constraints at the next \<open>flush\<close>.  \<open>env\<close> holds
  what the code takes from outside: the Unicode tables, the HTML cleaner and the clock.
\<close>

record env =
  e_ud :: unidb
  e_bleach :: "ustr \<Rightarrow> ustr"
  e_now :: time

definition CHARS_PER_TOKEN :: int where
  "CHARS_PER_TOKEN = 4"

record ingest_context =
  ic_organization :: organization
  ic_user :: user
  ic_device :: "device option"
  ic_workspace :: workspace
  ic_workspace_hash :: string
  ic_settings :: settings

definition ic_device_id :: "ingest_context \<Rightarrow> uuid option" where
  "ic_device_id ctx = map_option dev_id (ic_device ctx)"

definition ic_org :: "ingest_context \<Rightarrow> uuid" where
  "ic_org ctx = org_id (ic_organization ctx)"

definition build_context ::
  "env \<Rightarrow> settings \<Rightarrow> organization \<Rightarrow> user \<Rightarrow> device option \<Rightarrow> workspace_ref \<Rightarrow> db
     \<Rightarrow> (ingest_context \<times> db) res" where
  "build_context env s org usr dev ref d =
     bindE (assert_browser_capture_allowed s) (\<lambda>_.
     bindE (resolve_workspace (e_ud env) (e_now env) org ref s d) (\<lambda>(decision, d1).
       Inr (\<lparr>ic_organization = org, ic_user = usr, ic_device = dev, ic_workspace = wd_workspace decision,
             ic_workspace_hash = wd_workspace_hash decision, ic_settings = s\<rparr>, d1)))"

section \<open>Idempotency keys\<close>

definition key_of :: "idempotency_key \<Rightarrow> uuid \<times> string" where
  "key_of r = (ik_organization_id r, ik_idempotency_key r)"

text \<open>
  \<open>claim_idempotency\<close> inserts the key unless it exists (\<open>ON CONFLICT DO NOTHING\<close>); the result is
  \<open>None\<close> for a new key and the stored reference for a replay.
\<close>

definition claim_idempotency ::
  "time \<Rightarrow> uuid \<Rightarrow> string \<Rightarrow> uuid \<Rightarrow> time \<Rightarrow> json \<Rightarrow> db \<Rightarrow> (json option \<times> db) res" where
  "claim_idempotency now organization_id key capture_event_id capture_event_created_at result_ref d =
     (if list_ex (\<lambda>r. key_of r = (organization_id, key)) (d_idempotency_keys d)
      then bindE (scalar_one_or_none (filter (\<lambda>r. key_of r = (organization_id, key)) (d_idempotency_keys d)))
             (\<lambda>existing. Inr (Some (case existing of Some r \<Rightarrow> ik_result_ref r | None \<Rightarrow> JObj []), d))
      else bindE (flush (d\<lparr>d_idempotency_keys := d_idempotency_keys d @
             [\<lparr>ik_organization_id = organization_id, ik_idempotency_key = key,
               ik_capture_event_id = capture_event_id,
               ik_capture_event_created_at = capture_event_created_at,
               ik_result_ref = result_ref, ik_created_at = now\<rparr>]\<rparr>))
             (\<lambda>d'. Inr (None, d')))"

definition update_idempotency_result :: "uuid \<Rightarrow> string \<Rightarrow> json \<Rightarrow> db \<Rightarrow> db" where
  "update_idempotency_result organization_id key result_ref d =
     d\<lparr>d_idempotency_keys := upd_where (\<lambda>r. key_of r = (organization_id, key))
         (\<lambda>r. r\<lparr>ik_result_ref := result_ref\<rparr>) (d_idempotency_keys d)\<rparr>"

section \<open>Capture events\<close>

definition capture_event_row ::
  "env \<Rightarrow> ingest_context \<Rightarrow> capture_event_kind \<Rightarrow> json \<Rightarrow> string \<Rightarrow> uuid option \<Rightarrow> uuid option
     \<Rightarrow> time option \<Rightarrow> string option \<Rightarrow> string option \<Rightarrow> ingest_status \<Rightarrow> uuid \<Rightarrow> capture_event" where
  "capture_event_row env ctx kind payload idempotency_key conversation_id message_id
       client_captured_at adapter_version extension_version status event_id =
     \<lparr>ce_id = event_id, ce_created_at = e_now env, ce_organization_id = ic_org ctx,
      ce_workspace_id = Some (ws_id (ic_workspace ctx)), ce_user_id = Some (usr_id (ic_user ctx)),
      ce_device_id = ic_device_id ctx, ce_conversation_id = conversation_id,
      ce_message_id = message_id, ce_kind = kind, ce_idempotency_key = idempotency_key,
      ce_status = status, ce_schema_version = ''1.0'', ce_adapter_version = adapter_version,
      ce_extension_version = extension_version, ce_client_captured_at = client_captured_at,
      ce_payload = payload, ce_payload_sha256 = canonical_json_sha256 payload,
      ce_payload_bytes = str_len (e_ud env) payload, ce_raw_s3_key = None,
      ce_raw_s3_version_id = None, ce_archived_at = None\<rparr>"

definition archive_payload ::
  "env \<Rightarrow> ingest_context \<Rightarrow> string option \<Rightarrow> uuid option \<Rightarrow> uuid \<Rightarrow> json" where
  "archive_payload env ctx source_conversation_id conversation_id event_id =
     (let key = raw_event_key (ic_workspace_hash ctx)
            (case str_or source_conversation_id (map_option uuid_str conversation_id) of
               Some c \<Rightarrow> c | None \<Rightarrow> ''unknown'')
            (uuid_str event_id) (e_now env)
      in JObj [(''capture_event_id'', JStr (uuid_str event_id)),
               (''capture_event_created_at'', JStr (isoformat (e_now env))),
               (''s3_key'', JText key)])"

definition record_capture_event ::
  "env \<Rightarrow> ingest_context \<Rightarrow> capture_event_kind \<Rightarrow> json \<Rightarrow> string \<Rightarrow> uuid option \<Rightarrow> uuid option
     \<Rightarrow> string option \<Rightarrow> time option \<Rightarrow> string option \<Rightarrow> string option \<Rightarrow> ingest_status \<Rightarrow> bool
     \<Rightarrow> db \<Rightarrow> (capture_event \<times> db) res" where
  "record_capture_event env ctx kind payload idempotency_key conversation_id message_id
       source_conversation_id client_captured_at adapter_version extension_version status enqueue_archive d =
     (let (event_id, d1) = uuid4 d;
          event = capture_event_row env ctx kind payload idempotency_key conversation_id message_id
                    client_captured_at adapter_version extension_version status event_id
      in bindE (flush (d1\<lparr>d_capture_events := d_capture_events d1 @ [event]\<rparr>)) (\<lambda>d2.
         if enqueue_archive \<and> status = IngestAccepted
         then bindE (enqueue_job (e_now env) KindArchiveRawEvent
                       (archive_payload env ctx source_conversation_id conversation_id event_id)
                       (Some (ic_org ctx)) (Some (''archive_raw_event:'' @ uuid_str event_id)) 50 None 8 d2)
                    (\<lambda>(_, d3). Inr (event, d3))
         else Inr (event, d2)))"

section \<open>Conversations\<close>

definition completeness_rank :: "capture_completeness \<Rightarrow> nat" where
  "completeness_rank c = (case c of CcUnknown \<Rightarrow> 0 | CcLiveOnly \<Rightarrow> 1 | CcPartialScrollLimit \<Rightarrow> 2
     | CcCompleteCurrentPage \<Rightarrow> 3 | CcReconciled \<Rightarrow> 4 | CcComplianceVerified \<Rightarrow> 5)"

definition merge_completeness :: "capture_completeness \<Rightarrow> capture_completeness \<Rightarrow> capture_completeness" where
  "merge_completeness current incoming =
     (if incoming = CcComplianceVerified then current
      else if completeness_rank incoming > completeness_rank current then incoming
      else current)"

definition add_capture_source :: "string \<Rightarrow> conversation \<Rightarrow> conversation" where
  "add_capture_source source c =
     (if source \<notin> set (cv_capture_sources c)
      then c\<lparr>cv_capture_sources := cv_capture_sources c @ [source]\<rparr> else c)"

text \<open>What a request says about a conversation.\<close>

record conversation_hint =
  h_title :: "ustr option"
  h_source_url :: "ustr option"
  h_model_slug :: "ustr option"
  h_completeness :: "capture_completeness option"
  h_source_created_at :: "time option"
  h_source_updated_at :: "time option"

definition no_hint :: conversation_hint where
  "no_hint = \<lparr>h_title = None, h_source_url = None, h_model_slug = None, h_completeness = None,
     h_source_created_at = None, h_source_updated_at = None\<rparr>"

definition refresh_conversation :: "env \<Rightarrow> ingest_context \<Rightarrow> conversation_hint \<Rightarrow> conversation \<Rightarrow> conversation" where
  "refresh_conversation env ctx h c0 =
     (let c1 = (if truthy (h_title h) then c0\<lparr>cv_title := Some (clean_plain_text_max 2048 (h_title h))\<rparr> else c0);
          c2 = (if truthy (h_source_url h) then c1\<lparr>cv_source_url := map_option (take 2048) (h_source_url h)\<rparr> else c1);
          c3 = (if truthy (h_model_slug h) then c2\<lparr>cv_model_slug := h_model_slug h\<rparr> else c2);
          c4 = (if h_source_updated_at h \<noteq> None then c3\<lparr>cv_source_updated_at := h_source_updated_at h\<rparr> else c3);
          c5 = (case h_completeness h of None \<Rightarrow> c4
                | Some k \<Rightarrow> c4\<lparr>cv_capture_completeness := merge_completeness (cv_capture_completeness c4) k\<rparr>);
          c6 = (if cv_user_id c5 = None then c5\<lparr>cv_user_id := Some (usr_id (ic_user ctx))\<rparr> else c5);
          c7 = c6\<lparr>cv_last_captured_at := Some (e_now env)\<rparr>
      in add_capture_source ''chrome_extension'' c7)"

definition new_conversation ::
  "env \<Rightarrow> ingest_context \<Rightarrow> uuid \<Rightarrow> string \<Rightarrow> conversation_hint \<Rightarrow> conversation" where
  "new_conversation env ctx cid source_conversation_id h =
     \<lparr>cv_id = cid, cv_created_at = e_now env, cv_deleted_at = None, cv_deletion_reason = None,
      cv_legal_hold = False, cv_organization_id = ic_org ctx, cv_workspace_id = ws_id (ic_workspace ctx),
      cv_user_id = Some (usr_id (ic_user ctx)), cv_source_conversation_id = source_conversation_id,
      cv_source_url = (if truthy (h_source_url h) then map_option (take 2048) (h_source_url h) else None),
      cv_title = (if truthy (h_title h) then Some (clean_plain_text_max 2048 (h_title h)) else None),
      cv_model_slug = h_model_slug h, cv_capture_sources = [''chrome_extension''],
      cv_capture_completeness = merge_completeness CcUnknown
        (case h_completeness h of Some k \<Rightarrow> k | None \<Rightarrow> CcUnknown),
      cv_employee_id_hash = Some (pseudonymize (e_ud env) (usr_email (ic_user ctx))),
      cv_source_created_at = h_source_created_at h, cv_source_updated_at = h_source_updated_at h,
      cv_first_captured_at = Some (e_now env), cv_last_captured_at = Some (e_now env),
      cv_message_count = 0, cv_snapshot_version = 0, cv_snapshot_s3_key = None, cv_snapshot_sha256 = None,
      cv_snapshot_stale = True, cv_retention_policy_id = None, cv_metadata_json = JObj []\<rparr>"

definition upd_conversation :: "uuid \<Rightarrow> (conversation \<Rightarrow> conversation) \<Rightarrow> db \<Rightarrow> db" where
  "upd_conversation cid f d = d\<lparr>d_conversations := upd_where (\<lambda>c. cv_id c = cid) f (d_conversations d)\<rparr>"

definition conversation_key :: "conversation \<Rightarrow> uuid \<times> uuid \<times> string" where
  "conversation_key c = (cv_organization_id c, cv_workspace_id c, cv_source_conversation_id c)"

definition get_or_create_conversation ::
  "env \<Rightarrow> ingest_context \<Rightarrow> string \<Rightarrow> conversation_hint \<Rightarrow> db \<Rightarrow> (conversation \<times> bool \<times> db) res" where
  "get_or_create_conversation env ctx source_conversation_id h d =
     bindE (scalar_one_or_none (filter (\<lambda>c. conversation_key c =
              (ic_org ctx, ws_id (ic_workspace ctx), source_conversation_id)) (d_conversations d))) (\<lambda>existing.
     case existing of
       Some c0 \<Rightarrow> let c = refresh_conversation env ctx h c0
                  in Inr (c, False, upd_conversation (cv_id c0) (refresh_conversation env ctx h) d)
     | None \<Rightarrow> (let (cid, d1) = uuid4 d; c = new_conversation env ctx cid source_conversation_id h
                in bindE (flush (d1\<lparr>d_conversations := d_conversations d1 @ [c]\<rparr>)) (\<lambda>d2. Inr (c, True, d2))))"

definition mark_snapshot_stale :: "env \<Rightarrow> ingest_context \<Rightarrow> uuid \<Rightarrow> db \<Rightarrow> db res" where
  "mark_snapshot_stale env ctx cid d =
     (let d1 = upd_conversation cid (\<lambda>c. c\<lparr>cv_snapshot_stale := True\<rparr>) d
      in bindE (enqueue_job (e_now env) KindBuildConversationSnapshot
           (JObj [(''conversation_id'', JStr (uuid_str cid)), (''workspace_hash'', JStr (ic_workspace_hash ctx))])
           (Some (ic_org ctx)) (Some (''snapshot:'' @ uuid_str cid)) 200 None 8 d1)
         (\<lambda>(_, d2). Inr d2))"

definition upsert_conversation ::
  "env \<Rightarrow> ingest_context \<Rightarrow> conversation_upsert_in \<Rightarrow> db \<Rightarrow> (uuid \<times> bool \<times> bool \<times> db) res" where
  "upsert_conversation env ctx payload d =
     (let (eid, d0) = uuid4 d
      in bindE (claim_idempotency (e_now env) (ic_org ctx) (cu_idempotency_key payload) eid (e_now env)
                  (JObj []) d0) (\<lambda>(replay, d1).
         bindE (get_or_create_conversation env ctx (cu_source_conversation_id payload)
                  \<lparr>h_title = cu_title payload, h_source_url = cu_source_url payload,
                   h_model_slug = cu_model_slug payload,
                   h_completeness = Some (cu_capture_completeness payload),
                   h_source_created_at = cu_source_created_at payload,
                   h_source_updated_at = cu_source_updated_at payload\<rparr> d1) (\<lambda>(c, created, d2).
         if replay \<noteq> None then Inr (cv_id c, False, True, d2)
         else
           let d3 = update_idempotency_result (ic_org ctx) (cu_idempotency_key payload)
                      (JObj [(''conversation_id'', JStr (uuid_str (cv_id c)))]) d2
           in bindE (record_capture_event env ctx EvConversationUpsert (dump_upsert payload)
                  (cu_idempotency_key payload) (Some (cv_id c)) None
                  (Some (cu_source_conversation_id payload)) (Some (cc_captured_at (cu_client payload)))
                  (Some (cc_adapter_version (cu_client payload)))
                  (Some (cc_extension_version (cu_client payload))) IngestAccepted True d3) (\<lambda>(_, d4).
              bindE (mark_snapshot_stale env ctx (cv_id c) d4) (\<lambda>d5.
                Inr (cv_id c, created, False, d5))))))"

section \<open>Messages\<close>

definition has_version :: "db \<Rightarrow> string \<Rightarrow> message \<Rightarrow> bool" where
  "has_version d normalized_hash m \<longleftrightarrow>
     list_ex (\<lambda>v. mv_message_id v = msg_id m \<and> mv_normalized_sha256 v = normalized_hash) (d_versions d)"

definition find_message ::
  "uuid \<Rightarrow> message_in \<Rightarrow> string \<Rightarrow> string \<Rightarrow> db \<Rightarrow> message option res" where
  "find_message cid payload fingerprint normalized_hash d =
     bindE (if truthy (mi_source_message_id payload)
            then scalar_one_or_none (filter (\<lambda>m. msg_conversation_id m = cid
                   \<and> msg_source_message_id m = mi_source_message_id payload) (d_messages d))
            else Inr None) (\<lambda>by_id.
     if by_id \<noteq> None then Inr by_id
     else bindE (scalar_one_or_none (filter (\<lambda>m. msg_conversation_id m = cid
                   \<and> msg_fingerprint m = fingerprint) (d_messages d))) (\<lambda>by_print.
     if by_print \<noteq> None then Inr by_print
     else Inr (case sort_key msg_sequence_index (filter (\<lambda>m. msg_conversation_id m = cid
                   \<and> msg_role m = mi_role payload \<and> has_version d normalized_hash m) (d_messages d)) of
                 [] \<Rightarrow> None | m # _ \<Rightarrow> Some m)))"

definition resolve_branch :: "env \<Rightarrow> uuid \<Rightarrow> message_in \<Rightarrow> db \<Rightarrow> (uuid option \<times> db) res" where
  "resolve_branch env cid payload d =
     (if \<not> truthy (mi_branch_key payload) then Inr (None, d)
      else bindE (scalar_one_or_none (filter (\<lambda>b. br_conversation_id b = cid
                    \<and> Some (br_branch_key b) = mi_branch_key payload) (d_branches d))) (\<lambda>existing.
        case existing of
          Some b \<Rightarrow> Inr (Some (br_id b), d\<lparr>d_branches := upd_where (\<lambda>r. br_id r = br_id b)
                      (\<lambda>r. r\<lparr>br_is_selected := mi_branch_selected payload\<rparr>) (d_branches d)\<rparr>)
        | None \<Rightarrow> (let (bid, d1) = uuid4 d;
                      b = \<lparr>br_id = bid, br_created_at = e_now env, br_conversation_id = cid,
                           br_parent_branch_id = None, br_source_branch_id = mi_branch_key payload,
                           br_branch_key = the (mi_branch_key payload), br_branch_index = 0,
                           br_is_selected = mi_branch_selected payload, br_detected_at = Some (e_now env)\<rparr>
                  in bindE (flush (d1\<lparr>d_branches := d_branches d1 @ [b]\<rparr>)) (\<lambda>d2. Inr (Some bid, d2)))))"

definition upd_message :: "uuid \<Rightarrow> (message \<Rightarrow> message) \<Rightarrow> db \<Rightarrow> db" where
  "upd_message mid f d = d\<lparr>d_messages := upd_where (\<lambda>m. msg_id m = mid) f (d_messages d)\<rparr>"

definition upd_version :: "uuid \<Rightarrow> (message_version \<Rightarrow> message_version) \<Rightarrow> db \<Rightarrow> db" where
  "upd_version vid f d = d\<lparr>d_versions := upd_where (\<lambda>v. mv_id v = vid) f (d_versions d)\<rparr>"

definition new_message ::
  "env \<Rightarrow> ingest_context \<Rightarrow> uuid \<Rightarrow> uuid \<Rightarrow> uuid option \<Rightarrow> string \<Rightarrow> message_in \<Rightarrow> message" where
  "new_message env ctx mid cid branch_id fingerprint payload =
     \<lparr>msg_id = mid, msg_created_at = e_now env, msg_deleted_at = None, msg_deletion_reason = None,
      msg_legal_hold = False, msg_conversation_id = cid, msg_organization_id = ic_org ctx,
      msg_branch_id = branch_id, msg_parent_message_id = None,
      msg_source_message_id = mi_source_message_id payload, msg_fingerprint = fingerprint,
      msg_role = mi_role payload, msg_author_name = mi_author_name payload,
      msg_sequence_index = mi_sequence_index payload, msg_source_created_at = mi_source_created_at payload,
      msg_current_version_id = None, msg_version_count = 0,
      msg_completion_status = mi_completion_status payload,
      msg_has_attachments = (mi_attachment_client_ids payload \<noteq> [])\<rparr>"

definition improve_message :: "uuid option \<Rightarrow> message_in \<Rightarrow> message \<Rightarrow> message" where
  "improve_message branch_id payload m0 =
     (let m1 = (if truthy (mi_source_message_id payload) \<and> \<not> truthy (msg_source_message_id m0)
                then m0\<lparr>msg_source_message_id := mi_source_message_id payload\<rparr> else m0);
          m2 = (if branch_id \<noteq> None \<and> msg_branch_id m1 = None then m1\<lparr>msg_branch_id := branch_id\<rparr> else m1);
          m3 = (if mi_source_created_at payload \<noteq> None \<and> msg_source_created_at m2 = None
                then m2\<lparr>msg_source_created_at := mi_source_created_at payload\<rparr> else m2);
          m4 = (if mi_sequence_index payload \<noteq> msg_sequence_index m3
                then m3\<lparr>msg_sequence_index := mi_sequence_index payload\<rparr> else m3)
      in if mi_attachment_client_ids payload \<noteq> [] then m4\<lparr>msg_has_attachments := True\<rparr> else m4)"

text \<open>The message row a payload belongs to: found and improved, or inserted.\<close>

definition place_message ::
  "env \<Rightarrow> ingest_context \<Rightarrow> uuid \<Rightarrow> string \<Rightarrow> string \<Rightarrow> message_in \<Rightarrow> db \<Rightarrow> (message \<times> db) res" where
  "place_message env ctx cid fingerprint normalized_hash payload d =
     bindE (find_message cid payload fingerprint normalized_hash d) (\<lambda>found.
     bindE (resolve_branch env cid payload d) (\<lambda>(branch_id, d1).
     case found of
       None \<Rightarrow> (let (mid, d2) = uuid4 d1; m = new_message env ctx mid cid branch_id fingerprint payload
                in bindE (flush (d2\<lparr>d_messages := d_messages d2 @ [m]\<rparr>)) (\<lambda>d3. Inr (m, d3)))
     | Some m0 \<Rightarrow> let m = improve_message branch_id payload m0
                 in bindE (flush (upd_message (msg_id m0) (improve_message branch_id payload) d1)) (\<lambda>d2. Inr (m, d2))))"

definition id_refs :: "uuid \<Rightarrow> uuid \<Rightarrow> uuid \<Rightarrow> json" where
  "id_refs cid mid vid = JObj [(''conversation_id'', JStr (uuid_str cid)), (''message_id'', JStr (uuid_str mid)),
     (''message_version_id'', JStr (uuid_str vid))]"

definition reconcile_version :: "time \<Rightarrow> message_version \<Rightarrow> message_version" where
  "reconcile_version now v = v\<lparr>mv_completion_status := CompletionReconciled,
     mv_metadata_json := jmerge (mv_metadata_json v)
       [(''reconciled_at'', JStr (isoformat now)), (''reconciled_from'', JStr ''partial'')]\<rparr>"

definition known_version ::
  "env \<Rightarrow> ingest_context \<Rightarrow> nat \<Rightarrow> message_in \<Rightarrow> uuid \<Rightarrow> message \<Rightarrow> message_version \<Rightarrow> db
     \<Rightarrow> (item_result \<times> db) res" where
  "known_version env ctx index payload cid m v d =
     (let reconciled = (mv_completion_status v = CompletionPartial
            \<and> mi_completion_status payload = CompletionComplete);
          d1 = (if reconciled then upd_message (msg_id m) (\<lambda>r. r\<lparr>msg_completion_status := CompletionComplete\<rparr>)
                  (upd_version (mv_id v) (reconcile_version (e_now env)) d) else d);
          d2 = update_idempotency_result (ic_org ctx) (mi_idempotency_key payload) (id_refs cid (msg_id m) (mv_id v)) d1
      in bindE (if reconciled then mark_snapshot_stale env ctx cid d2 else Inr d2) (\<lambda>d3.
           Inr ((item_result0 index (mi_idempotency_key payload) ''duplicate'')
             \<lparr>ir_conversation_id := Some cid, ir_message_id := Some (msg_id m),
              ir_message_version_id := Some (mv_id v),
              ir_reason_code := Some (if reconciled then ''reconciled_partial'' else ''identical_content'')\<rparr>, d3)))"

definition new_version ::
  "env \<Rightarrow> ingest_context \<Rightarrow> uuid \<Rightarrow> uuid \<Rightarrow> message \<Rightarrow> string \<Rightarrow> string \<Rightarrow> message_in \<Rightarrow> message_version" where
  "new_version env ctx vid cid m actual normalized_hash payload =
     (let n = msg_version_count m + 1
      in \<lparr>mv_id = vid, mv_created_at = e_now env, mv_deleted_at = None, mv_deletion_reason = None,
          mv_legal_hold = False, mv_message_id = msg_id m, mv_conversation_id = cid,
          mv_organization_id = ic_org ctx, mv_version_number = n,
          mv_is_edit = (mi_is_edit payload \<or> (n > 1 \<and> mi_role payload = RoleUser)),
          mv_is_regeneration = (mi_is_regeneration payload \<or> (n > 1 \<and> mi_role payload = RoleAssistant)),
          mv_completion_status = mi_completion_status payload,
          mv_plain_text = clean_plain_text (Some (mi_text payload)),
          mv_sanitized_html = sanitize_html (e_bleach env) (mi_sanitized_html payload),
          mv_content_sha256 = actual, mv_normalized_sha256 = normalized_hash,
          mv_char_count = int (length (mi_text payload)),
          mv_token_estimate = max 1 (int (length (mi_text payload)) div CHARS_PER_TOKEN),
          mv_captured_at = e_now env, mv_source_created_at = mi_source_created_at payload,
          mv_capture_source = ''chrome_extension'', mv_device_id = ic_device_id ctx,
          mv_capture_event_id = None, mv_raw_s3_key = None, mv_raw_s3_version_id = None,
          mv_citations = JList (map dump_citation (mi_citations payload)),
          mv_metadata_json = JObj [(''branch_selected'', JBool (mi_branch_selected payload))]\<rparr>)"

fun add_parts :: "uuid \<Rightarrow> uuid \<Rightarrow> message_part_in list \<Rightarrow> db \<Rightarrow> db" where
  "add_parts vid cid [] d = d"
| "add_parts vid cid (p # ps) d =
     (let (pid, d1) = uuid4 d;
          row = \<lparr>mp_id = pid, mp_message_version_id = vid, mp_conversation_id = cid,
            mp_part_index = pi_index p, mp_kind = pi_kind p, mp_language = pi_language p,
            mp_text_content = (if truthy (pi_text p) then Some (clean_plain_text (pi_text p)) else None),
            mp_structured = pi_structured p,
            mp_byte_size = int (length (case pi_text p of Some t \<Rightarrow> t | None \<Rightarrow> []))\<rparr>
      in add_parts vid cid ps (d1\<lparr>d_parts := d_parts d1 @ [row]\<rparr>))"

definition advance_message :: "uuid \<Rightarrow> message_in \<Rightarrow> message \<Rightarrow> message" where
  "advance_message vid payload m =
     (let m1 = m\<lparr>msg_current_version_id := Some vid, msg_version_count := msg_version_count m + 1\<rparr>
      in if mi_completion_status payload = CompletionComplete
           then m1\<lparr>msg_completion_status := CompletionComplete\<rparr>
         else if msg_completion_status m1 \<noteq> CompletionComplete
           then m1\<lparr>msg_completion_status := mi_completion_status payload\<rparr> else m1)"

definition bump_conversation :: "time \<Rightarrow> bool \<Rightarrow> conversation \<Rightarrow> conversation" where
  "bump_conversation now is_first c =
     c\<lparr>cv_message_count := (if is_first then cv_message_count c + 1 else cv_message_count c),
       cv_last_captured_at := Some now\<rparr>"

text \<open>The parts, the message's pointer and count, and the conversation's counters.\<close>

definition store_version :: "time \<Rightarrow> uuid \<Rightarrow> uuid \<Rightarrow> message \<Rightarrow> message_in \<Rightarrow> db \<Rightarrow> db" where
  "store_version now vid cid m payload d =
     (let d1 = add_parts vid cid (take 500 (mi_parts payload)) d;
          d2 = upd_message (msg_id m) (advance_message vid payload) d1
      in upd_conversation cid (bump_conversation now (msg_version_count m + 1 = 1)) d2)"

definition request_reconcile :: "env \<Rightarrow> ingest_context \<Rightarrow> message_in \<Rightarrow> uuid \<Rightarrow> db \<Rightarrow> db res" where
  "request_reconcile env ctx payload mid d =
     (if mi_completion_status payload = CompletionPartial
      then bindE (enqueue_job (e_now env) KindReconcilePartial
             (JObj [(''message_id'', JStr (uuid_str mid))]) (Some (ic_org ctx))
             (Some (''reconcile:'' @ uuid_str mid)) 400 None 8 d) (\<lambda>(_, d'). Inr d')
      else Inr d)"

definition append_version ::
  "env \<Rightarrow> ingest_context \<Rightarrow> nat \<Rightarrow> message_in \<Rightarrow> client_context option \<Rightarrow> uuid \<Rightarrow> string \<Rightarrow> string \<Rightarrow> message
     \<Rightarrow> db \<Rightarrow> (item_result \<times> db) res" where
  "append_version env ctx index payload client cid actual normalized_hash m d =
     (let (vid, d1) = uuid4 d; v = new_version env ctx vid cid m actual normalized_hash payload
      in bindE (flush (d1\<lparr>d_versions := d_versions d1 @ [v]\<rparr>)) (\<lambda>d2.
         bindE (record_capture_event env ctx EvMessageVersion (dump_message payload)
                (mi_idempotency_key payload) (Some cid) (Some (msg_id m))
                (Some (mi_source_conversation_id payload)) (map_option cc_captured_at client)
                (map_option cc_adapter_version client) (map_option cc_extension_version client)
                IngestAccepted True (store_version (e_now env) vid cid m payload d2)) (\<lambda>(event, d6).
         let d7 = upd_version vid (\<lambda>r. r\<lparr>mv_capture_event_id := Some (ce_id event)\<rparr>) d6;
             d8 = update_idempotency_result (ic_org ctx) (mi_idempotency_key payload)
                    (id_refs cid (msg_id m) vid) d7
         in bindE (mark_snapshot_stale env ctx cid d8) (\<lambda>d9.
            bindE (request_reconcile env ctx payload (msg_id m) d9) (\<lambda>d10.
              Inr ((item_result0 index (mi_idempotency_key payload) ''accepted'')
                   \<lparr>ir_conversation_id := Some cid, ir_message_id := Some (msg_id m),
                    ir_message_version_id := Some vid\<rparr>, d10))))))"

definition maybe_uuid :: "json option \<Rightarrow> uuid option" where
  "maybe_uuid v = (case v of
       Some (JStr s) \<Rightarrow> if s = [] then None else uuid_parse s
     | _ \<Rightarrow> None)"

definition find_version :: "uuid \<Rightarrow> string \<Rightarrow> db \<Rightarrow> message_version option res" where
  "find_version mid normalized_hash d = scalar_one_or_none
     (filter (\<lambda>v. mv_message_id v = mid \<and> mv_normalized_sha256 v = normalized_hash) (d_versions d))"

definition ingest_message ::
  "env \<Rightarrow> ingest_context \<Rightarrow> message_in \<Rightarrow> nat \<Rightarrow> client_context option \<Rightarrow> db \<Rightarrow> (item_result \<times> db) res" where
  "ingest_message env ctx payload index client d =
     (let actual = sha256_hex (mi_text payload)
      in if mi_content_sha256 payload \<noteq> actual
         then Inr ((item_result0 index (mi_idempotency_key payload) ''rejected'')
                \<lparr>ir_reason_code := Some ''checksum_mismatch'',
                 ir_reason := Some ''content_sha256 does not match the supplied text''\<rparr>, d)
         else
           bindE (get_or_create_conversation env ctx (mi_source_conversation_id payload)
                    (no_hint\<lparr>h_completeness := Some CcLiveOnly\<rparr>) d) (\<lambda>(c, _, d1).
           let cid = cv_id c;
               normalized_hash = content_hash (e_ud env) (mi_text payload);
               fingerprint = message_fingerprint (e_ud env) cid (message_role_str (mi_role payload))
                 (mi_text payload) (Some (mi_sequence_index payload)) (mi_source_created_at payload);
               (eid, d2) = uuid4 d1
           in bindE (claim_idempotency (e_now env) (ic_org ctx) (mi_idempotency_key payload) eid (e_now env)
                       (JObj [(''conversation_id'', JStr (uuid_str cid))]) d2) (\<lambda>(replay, d3).
              case replay of
                Some ref \<Rightarrow> Inr ((item_result0 index (mi_idempotency_key payload) ''duplicate'')
                    \<lparr>ir_conversation_id := Some cid, ir_message_id := maybe_uuid (jget ref ''message_id''),
                     ir_message_version_id := maybe_uuid (jget ref ''message_version_id''),
                     ir_reason_code := Some ''idempotent_replay''\<rparr>, d3)
              | None \<Rightarrow>
                  bindE (place_message env ctx cid fingerprint normalized_hash payload d3) (\<lambda>(m, d4).
                  bindE (find_version (msg_id m) normalized_hash d4) (\<lambda>existing.
                  case existing of
                    Some v \<Rightarrow> known_version env ctx index payload cid m v d4
                  | None \<Rightarrow> append_version env ctx index payload client cid actual normalized_hash m d4)))))"

text \<open>
  A batch runs each item inside a savepoint.  \<open>PolicyError\<close> aborts the batch; any other exception
  rolls the item back and becomes its result.
\<close>

definition failed_item :: "nat \<Rightarrow> string \<Rightarrow> exn \<Rightarrow> item_result" where
  "failed_item index key e = (case e of
       IntegrityError \<Rightarrow> (item_result0 index key ''retryable'')\<lparr>ir_reason_code := Some ''write_conflict'',
         ir_reason := Some ''Concurrent write conflict; retry this item''\<rparr>
     | ValidationError code \<Rightarrow> (item_result0 index key ''rejected'')\<lparr>ir_reason_code := Some code\<rparr>
     | _ \<Rightarrow> (item_result0 index key ''retryable'')\<lparr>ir_reason_code := Some ''internal_error'',
         ir_reason := Some ''Temporary failure; retry this item''\<rparr>)"

fun ingest_messages_from ::
  "env \<Rightarrow> ingest_context \<Rightarrow> client_context option \<Rightarrow> nat \<Rightarrow> message_in list \<Rightarrow> db
     \<Rightarrow> (item_result list \<times> db) res" where
  "ingest_messages_from env ctx client index [] d = Inr ([], d)"
| "ingest_messages_from env ctx client index (payload # rest) d =
     (case bindE (ingest_message env ctx payload index client d)
             (\<lambda>(r, d'). bindE (flush d') (\<lambda>d''. Inr (r, d''))) of
        Inr (r, d') \<Rightarrow> bindE (ingest_messages_from env ctx client (Suc index) rest d')
                        (\<lambda>(rs, d''). Inr (r # rs, d''))
      | Inl (PolicyError code) \<Rightarrow> Inl (PolicyError code)
      | Inl e \<Rightarrow> bindE (ingest_messages_from env ctx client (Suc index) rest d)
                  (\<lambda>(rs, d''). Inr (failed_item index (mi_idempotency_key payload) e # rs, d'')))"

definition ingest_message_batch ::
  "env \<Rightarrow> ingest_context \<Rightarrow> message_in list \<Rightarrow> client_context option \<Rightarrow> db \<Rightarrow> (item_result list \<times> db) res" where
  "ingest_message_batch env ctx messages client d = ingest_messages_from env ctx client 0 messages d"

section \<open>Generic events, feedback, status\<close>

definition event_conversation ::
  "env \<Rightarrow> ingest_context \<Rightarrow> capture_event_in \<Rightarrow> db \<Rightarrow> (uuid option \<times> db) res" where
  "event_conversation env ctx item d =
     (if truthy (ei_source_conversation_id item)
      then bindE (get_or_create_conversation env ctx (the (ei_source_conversation_id item))
                    (no_hint\<lparr>h_completeness := Some CcLiveOnly\<rparr>) d) (\<lambda>(c, _, d1). Inr (Some (cv_id c), d1))
      else Inr (None, d))"

definition store_capture_event ::
  "env \<Rightarrow> ingest_context \<Rightarrow> client_context option \<Rightarrow> nat \<Rightarrow> capture_event_in \<Rightarrow> uuid option \<Rightarrow> db
     \<Rightarrow> (item_result \<times> db) res" where
  "store_capture_event env ctx client index item cid d =
     bindE (record_capture_event env ctx (ei_kind item) (dump_capture_event item)
              (ei_idempotency_key item) cid None (ei_source_conversation_id item)
              (Some (ei_occurred_at item)) (map_option cc_adapter_version client)
              (map_option cc_extension_version client) IngestAccepted True d) (\<lambda>(event, d1).
       Inr ((item_result0 index (ei_idempotency_key item) ''accepted'')
              \<lparr>ir_id := Some (ce_id event), ir_conversation_id := cid\<rparr>,
            update_idempotency_result (ic_org ctx) (ei_idempotency_key item)
              (JObj [(''capture_event_id'', JStr (uuid_str (ce_id event)))]) d1))"

definition ingest_capture_event ::
  "env \<Rightarrow> ingest_context \<Rightarrow> client_context option \<Rightarrow> nat \<Rightarrow> capture_event_in \<Rightarrow> db \<Rightarrow> (item_result \<times> db) res" where
  "ingest_capture_event env ctx client index item d =
     bindE (event_conversation env ctx item d) (\<lambda>(cid, d1).
     let (eid, d2) = uuid4 d1
     in bindE (claim_idempotency (e_now env) (ic_org ctx) (ei_idempotency_key item) eid (e_now env)
                 (JObj []) d2) (\<lambda>(replay, d3).
        if replay \<noteq> None
        then Inr ((item_result0 index (ei_idempotency_key item) ''duplicate'')
                    \<lparr>ir_reason_code := Some ''idempotent_replay''\<rparr>, d3)
        else store_capture_event env ctx client index item cid d3))"

fun ingest_capture_events_from ::
  "env \<Rightarrow> ingest_context \<Rightarrow> client_context option \<Rightarrow> nat \<Rightarrow> capture_event_in list \<Rightarrow> db \<Rightarrow> item_result list \<times> db" where
  "ingest_capture_events_from env ctx client index [] d = ([], d)"
| "ingest_capture_events_from env ctx client index (item # rest) d =
     (case bindE (ingest_capture_event env ctx client index item d)
             (\<lambda>(r, d'). bindE (flush d') (\<lambda>d''. Inr (r, d''))) of
        Inr (r, d') \<Rightarrow> (let (rs, d'') = ingest_capture_events_from env ctx client (Suc index) rest d'
                       in (r # rs, d''))
      | Inl e \<Rightarrow> (let (rs, d'') = ingest_capture_events_from env ctx client (Suc index) rest d
                 in ((item_result0 index (ei_idempotency_key item) ''retryable'')
                       \<lparr>ir_reason_code := Some ''internal_error''\<rparr> # rs, d'')))"

definition ingest_capture_events ::
  "env \<Rightarrow> ingest_context \<Rightarrow> capture_event_in list \<Rightarrow> client_context option \<Rightarrow> db \<Rightarrow> item_result list \<times> db" where
  "ingest_capture_events env ctx events client d = ingest_capture_events_from env ctx client 0 events d"

definition ingest_feedback ::
  "env \<Rightarrow> ingest_context \<Rightarrow> feedback_in \<Rightarrow> db \<Rightarrow> (feedback \<times> bool \<times> db) res" where
  "ingest_feedback env ctx payload d =
     bindE (get_or_create_conversation env ctx (fi_source_conversation_id payload) no_hint d) (\<lambda>(c, _, d1).
     bindE (scalar_one_or_none (filter (\<lambda>f. (fb_organization_id f, fb_client_feedback_id f)
              = (ic_org ctx, fi_client_feedback_id payload)) (d_feedback d1))) (\<lambda>existing.
     case existing of
       Some f \<Rightarrow> Inr (f, True, d1)
     | None \<Rightarrow>
         bindE (if truthy (fi_source_message_id payload)
                then scalar_one_or_none (map msg_id (filter (\<lambda>m. msg_conversation_id m = cv_id c
                       \<and> msg_source_message_id m = fi_source_message_id payload) (d_messages d1)))
                else Inr None) (\<lambda>message_id.
         let (fid, d2) = uuid4 d1;
             row = \<lparr>fb_id = fid, fb_created_at = e_now env, fb_organization_id = ic_org ctx,
               fb_conversation_id = cv_id c, fb_message_id = message_id, fb_message_version_id = None,
               fb_user_id = Some (usr_id (ic_user ctx)), fb_kind = fi_kind payload,
               fb_rating = fi_rating payload,
               fb_note = (if truthy (fi_note payload) then Some (clean_plain_text_max 4000 (fi_note payload)) else None),
               fb_client_feedback_id = fi_client_feedback_id payload\<rparr>
         in bindE (flush (d2\<lparr>d_feedback := d_feedback d2 @ [row]\<rparr>)) (\<lambda>d3. Inr (row, False, d3)))))"

record sync_summary =
  ss_known_conversation_ids :: "string list"
  ss_conversation_count :: int
  ss_message_count :: int

text \<open>\<open>ORDER BY last_captured_at DESC NULLS LAST\<close>.\<close>

definition recency_key :: "conversation \<Rightarrow> bool \<times> int" where
  "recency_key c = (case cv_last_captured_at c of None \<Rightarrow> (True, 0) | Some t \<Rightarrow> (False, - t))"

definition sync_summary_of :: "uuid \<Rightarrow> uuid \<Rightarrow> nat \<Rightarrow> db \<Rightarrow> sync_summary" where
  "sync_summary_of organization_id user_id limit d =
     (let mine = filter (\<lambda>c. cv_organization_id c = organization_id \<and> cv_user_id c = Some user_id
                    \<and> cv_deleted_at c = None) (d_conversations d)
      in \<lparr>ss_known_conversation_ids = map cv_source_conversation_id (take limit (sort_key recency_key mine)),
          ss_conversation_count = int (length mine),
          ss_message_count = sum_list (map cv_message_count mine)\<rparr>)"

text \<open>An environment for the concrete runs.\<close>

definition sample_env :: env where
  "sample_env = \<lparr>e_ud = ascii_db, e_bleach = id, e_now = 7\<rparr>"

end
