(* ===== verification/Ingest_History.thy ===== *)
theory Ingest_History
  imports Ingest
begin

text \<open>
  What the ingest endpoints never do: rows that were stored are kept, and a stored version is
  never overwritten.  Also the outcomes of \<open>ingest_message\<close> as elimination rules and the step
  relation of the endpoints.
\<close>

section \<open>Nothing is overwritten\<close>

text \<open>
  How the history may evolve: every row of the archive survives.  A version keeps everything but
  its completion status (which only moves from partial to reconciled), its metadata and the link
  to its capture event; a message keeps its identity and never loses a version; a conversation
  keeps its identity, its completeness rank never falls and never becomes compliance-verified;
  raw events and parts are immutable.
\<close>

definition version_evolves :: "message_version \<Rightarrow> message_version \<Rightarrow> bool" where
  "version_evolves v v' \<longleftrightarrow>
     v' = v\<lparr>mv_completion_status := mv_completion_status v', mv_metadata_json := mv_metadata_json v',
            mv_capture_event_id := mv_capture_event_id v'\<rparr>
     \<and> (mv_completion_status v' = mv_completion_status v
        \<or> mv_completion_status v = CompletionPartial \<and> mv_completion_status v' = CompletionReconciled)"

definition message_evolves :: "message \<Rightarrow> message \<Rightarrow> bool" where
  "message_evolves m m' \<longleftrightarrow> msg_id m' = msg_id m \<and> msg_conversation_id m' = msg_conversation_id m
     \<and> msg_fingerprint m' = msg_fingerprint m \<and> msg_role m' = msg_role m
     \<and> msg_organization_id m' = msg_organization_id m \<and> msg_version_count m \<le> msg_version_count m'
     \<and> (truthy (msg_source_message_id m) \<longrightarrow> msg_source_message_id m' = msg_source_message_id m)"

definition conversation_evolves :: "conversation \<Rightarrow> conversation \<Rightarrow> bool" where
  "conversation_evolves c c' \<longleftrightarrow> cv_id c' = cv_id c \<and> conversation_key c' = conversation_key c
     \<and> cv_deleted_at c' = cv_deleted_at c \<and> cv_legal_hold c' = cv_legal_hold c
     \<and> completeness_rank (cv_capture_completeness c) \<le> completeness_rank (cv_capture_completeness c')
     \<and> (cv_capture_completeness c' = CcComplianceVerified \<longrightarrow> cv_capture_completeness c = CcComplianceVerified)
     \<and> cv_message_count c \<le> cv_message_count c'"

definition key_evolves :: "idempotency_key \<Rightarrow> idempotency_key \<Rightarrow> bool" where
  "key_evolves k k' \<longleftrightarrow> k' = k\<lparr>ik_result_ref := ik_result_ref k'\<rparr>"

definition kept :: "('r \<Rightarrow> 'r \<Rightarrow> bool) \<Rightarrow> 'r list \<Rightarrow> 'r list \<Rightarrow> bool" where
  "kept R xs ys \<longleftrightarrow> (\<forall>x\<in>set xs. \<exists>y\<in>set ys. R x y)"

definition evolves :: "db \<Rightarrow> db \<Rightarrow> bool" where
  "evolves d d' \<longleftrightarrow> kept version_evolves (d_versions d) (d_versions d')
     \<and> kept message_evolves (d_messages d) (d_messages d')
     \<and> kept conversation_evolves (d_conversations d) (d_conversations d')
     \<and> kept key_evolves (d_idempotency_keys d) (d_idempotency_keys d')
     \<and> set (d_parts d) \<subseteq> set (d_parts d') \<and> set (d_capture_events d) \<subseteq> set (d_capture_events d')"

lemma kept_refl: "(\<And>x. R x x) \<Longrightarrow> kept R xs xs"
  by (auto simp: kept_def)

lemma kept_append: "(\<And>x. R x x) \<Longrightarrow> kept R xs (xs @ ys)"
  by (auto simp: kept_def)

lemma kept_upd_where:
  assumes "\<And>x. R x x" "\<And>x. x \<in> set xs \<Longrightarrow> p x \<Longrightarrow> R x (f x)"
  shows "kept R xs (upd_where p f xs)"
  unfolding kept_def
proof
  fix x assume x: "x \<in> set xs"
  then have "(if p x then f x else x) \<in> set (upd_where p f xs)" by (auto simp: set_upd_where)
  moreover have "R x (if p x then f x else x)" using assms x by simp
  ultimately show "\<exists>y\<in>set (upd_where p f xs). R x y" by blast
qed

lemma kept_trans:
  assumes "kept R xs ys" "kept R ys zs" "\<And>x y z. R x y \<Longrightarrow> R y z \<Longrightarrow> R x z"
  shows "kept R xs zs"
  using assms unfolding kept_def by blast

lemma version_evolves_refl [simp]: "version_evolves v v"
  by (simp add: version_evolves_def)

lemma message_evolves_refl [simp]: "message_evolves m m"
  by (simp add: message_evolves_def)

lemma conversation_evolves_refl [simp]: "conversation_evolves c c"
  by (simp add: conversation_evolves_def)

lemma key_evolves_refl [simp]: "key_evolves k k"
  by (simp add: key_evolves_def)

lemma version_evolves_trans: "version_evolves u v \<Longrightarrow> version_evolves v w \<Longrightarrow> version_evolves u w"
  unfolding version_evolves_def
  by (cases u; cases v; cases w) auto

lemma message_evolves_trans: "message_evolves u v \<Longrightarrow> message_evolves v w \<Longrightarrow> message_evolves u w"
  unfolding message_evolves_def by auto

lemma conversation_evolves_trans: "conversation_evolves u v \<Longrightarrow> conversation_evolves v w \<Longrightarrow> conversation_evolves u w"
  unfolding conversation_evolves_def by auto

lemma key_evolves_trans: "key_evolves u v \<Longrightarrow> key_evolves v w \<Longrightarrow> key_evolves u w"
  unfolding key_evolves_def by (cases u; cases v; cases w) auto

lemma evolves_refl [simp]: "evolves d d"
  by (simp add: evolves_def kept_refl)

lemma evolves_trans [trans]: "evolves a b \<Longrightarrow> evolves b c \<Longrightarrow> evolves a c"
  unfolding evolves_def
  by (blast intro: kept_trans version_evolves_trans message_evolves_trans conversation_evolves_trans
      key_evolves_trans)

lemma evolves_same:
  assumes "d_versions d' = d_versions d" "d_messages d' = d_messages d"
    "d_conversations d' = d_conversations d" "d_idempotency_keys d' = d_idempotency_keys d"
    "d_parts d' = d_parts d" "d_capture_events d' = d_capture_events d"
  shows "evolves d d'"
  using assms by (simp add: evolves_def kept_refl)

lemma merge_rank: "completeness_rank c \<le> completeness_rank (merge_completeness c k)"
  by (simp add: merge_completeness_def)

lemma merge_verified: "merge_completeness c k = CcComplianceVerified \<Longrightarrow> c = CcComplianceVerified"
  by (auto simp: merge_completeness_def split: if_splits)

lemma refresh_fields [simp]:
  "cv_id (refresh_conversation env ctx h c) = cv_id c"
  "conversation_key (refresh_conversation env ctx h c) = conversation_key c"
  "cv_deleted_at (refresh_conversation env ctx h c) = cv_deleted_at c"
  "cv_legal_hold (refresh_conversation env ctx h c) = cv_legal_hold c"
  "cv_message_count (refresh_conversation env ctx h c) = cv_message_count c"
  "cv_capture_completeness (refresh_conversation env ctx h c) = (case h_completeness h of
     None \<Rightarrow> cv_capture_completeness c | Some k \<Rightarrow> merge_completeness (cv_capture_completeness c) k)"
  by (simp_all add: refresh_conversation_def add_capture_source_def Let_def conversation_key_def
      split: option.splits)

lemma refresh_evolves: "conversation_evolves c (refresh_conversation env ctx h c)"
  using merge_rank merge_verified by (auto simp: conversation_evolves_def split: option.splits)

lemma improve_evolves: "message_evolves m (improve_message b p m)"
  by (simp add: improve_message_def message_evolves_def Let_def)

lemma advance_evolves: "message_evolves m (advance_message vid p m)"
  by (simp add: advance_message_def message_evolves_def Let_def)

lemma reconcile_evolves:
  "mv_completion_status v = CompletionPartial \<Longrightarrow> version_evolves v (reconcile_version now v)"
  by (simp add: reconcile_version_def version_evolves_def)

lemma enqueue_frame:
  assumes "enqueue_job now kind payload oid key prio ra m d = Inr (r, d')"
  shows "\<exists>js. d' = d\<lparr>d_next_uuid := Suc (d_next_uuid d), d_jobs := js\<rparr>"
proof -
  let ?dup = "truthy key \<and> list_ex (\<lambda>j. live j \<and> jb_dedupe_key j = key) (d_jobs d)"
  show ?thesis
  proof (cases ?dup)
    case True
    then have "d' = d\<lparr>d_next_uuid := Suc (d_next_uuid d)\<rparr>"
      using assms by (auto simp: enqueue_job_def uuid4_def Let_def split: if_splits)
    then have "d' = d\<lparr>d_next_uuid := Suc (d_next_uuid d), d_jobs := d_jobs d\<rparr>" by simp
    then show ?thesis ..
  next
    case False
    then show ?thesis
      using assms by (auto simp: enqueue_job_def uuid4_def Let_def bindE_eq_Inr split: if_splits)
  qed
qed

lemma evolves_enqueue:
  "enqueue_job now kind payload oid key prio ra m d = Inr (r, d') \<Longrightarrow> evolves d d'"
  using enqueue_frame by (fastforce intro: evolves_same)

lemma evolves_upd_conversation:
  "(\<And>c. conversation_evolves c (f c)) \<Longrightarrow> evolves d (upd_conversation cid f d)"
  by (simp add: evolves_def kept_refl kept_upd_where upd_conversation_def)

lemma evolves_upd_message:
  "(\<And>m. message_evolves m (f m)) \<Longrightarrow> evolves d (upd_message mid f d)"
  by (simp add: evolves_def kept_refl kept_upd_where upd_message_def)

lemma evolves_upd_version:
  "(\<And>v. v \<in> set (d_versions d) \<Longrightarrow> mv_id v = vid \<Longrightarrow> version_evolves v (f v)) \<Longrightarrow> evolves d (upd_version vid f d)"
  by (simp add: evolves_def kept_refl kept_upd_where upd_version_def)

lemma evolves_update_idempotency: "evolves d (update_idempotency_result oid k ref d)"
  by (simp add: evolves_def kept_refl kept_upd_where update_idempotency_result_def key_evolves_def)

lemma evolves_next [simp]: "evolves d (d\<lparr>d_next_uuid := n\<rparr>)"
  by (rule evolves_same) simp_all

lemma evolves_claim:
  "claim_idempotency now oid k eid ea ref d = Inr (r, d') \<Longrightarrow> evolves d d'"
  by (auto simp: claim_idempotency_def bindE_eq_Inr evolves_def kept_refl kept_append split: if_splits)

lemma record_capture_event_Inr:
  assumes "record_capture_event env ctx kind payload ik cid mid scid cca av ev st q d = Inr (e, d')"
  defines "d2 \<equiv> d\<lparr>d_next_uuid := Suc (d_next_uuid d), d_capture_events := d_capture_events d @ [e]\<rparr>"
  shows "e = capture_event_row env ctx kind payload ik cid mid cca av ev st (d_next_uuid d)
    \<and> constraints d2
    \<and> (if q \<and> st = IngestAccepted
       then \<exists>r. enqueue_job (e_now env) KindArchiveRawEvent (archive_payload env ctx scid cid (d_next_uuid d))
              (Some (ic_org ctx)) (Some (''archive_raw_event:'' @ uuid_str (d_next_uuid d))) 50 None 8 d2 = Inr (r, d')
       else d' = d2)"
  using assms by (auto simp: record_capture_event_def uuid4_def Let_def bindE_eq_Inr split: if_splits)

lemma evolves_record_event:
  assumes "record_capture_event env ctx kind payload ik cid mid scid cca av ev st q d = Inr (e, d')"
  shows "evolves d d'"
proof -
  let ?d2 = "d\<lparr>d_next_uuid := Suc (d_next_uuid d), d_capture_events := d_capture_events d @ [e]\<rparr>"
  have "evolves d ?d2" by (auto simp: evolves_def kept_refl)
  moreover have "evolves ?d2 d'"
    using record_capture_event_Inr [OF assms] by (auto intro: evolves_enqueue split: if_splits)
  ultimately show ?thesis by (rule evolves_trans)
qed

lemma get_or_create_Inr:
  assumes "get_or_create_conversation env ctx scid h d = Inr (c, b, d')"
  obtains (existing) c0 where "\<not> b" "c0 \<in> set (d_conversations d)"
      "conversation_key c0 = (ic_org ctx, ws_id (ic_workspace ctx), scid)"
      "c = refresh_conversation env ctx h c0"
      "d' = upd_conversation (cv_id c0) (refresh_conversation env ctx h) d"
  | (created) "b" "c = new_conversation env ctx (d_next_uuid d) scid h" "constraints d'"
      "\<forall>c0\<in>set (d_conversations d). conversation_key c0 \<noteq> (ic_org ctx, ws_id (ic_workspace ctx), scid)"
      "d' = d\<lparr>d_next_uuid := Suc (d_next_uuid d), d_conversations := d_conversations d @ [c]\<rparr>"
proof -
  let ?k = "\<lambda>c. conversation_key c = (ic_org ctx, ws_id (ic_workspace ctx), scid)"
  let ?f = "filter ?k (d_conversations d)"
  consider "?f = []" | c0 where "?f = [c0]"
    using assms by (cases ?f rule: scalar_one_or_none.cases) (auto simp: get_or_create_conversation_def)
  then show ?thesis
  proof cases
    case 1
    then show ?thesis
      using assms created
      by (auto simp: get_or_create_conversation_def uuid4_def Let_def bindE_eq_Inr filter_empty_conv)
  next
    case (2 c0)
    then have "c0 \<in> set ?f" by simp
    then have "c0 \<in> set (d_conversations d)" "?k c0" by auto
    then show ?thesis
      using assms existing 2 by (simp add: get_or_create_conversation_def Let_def)
  qed
qed

lemma evolves_get_or_create:
  assumes "get_or_create_conversation env ctx scid h d = Inr (c, b, d')"
  shows "evolves d d'"
  using assms
proof (cases rule: get_or_create_Inr)
  case (existing c0)
  then show ?thesis by (simp add: evolves_upd_conversation refresh_evolves)
next
  case created
  then show ?thesis by (simp add: evolves_def kept_refl kept_append)
qed

lemma evolves_mark_stale:
  assumes "mark_snapshot_stale env ctx cid d = Inr d'"
  shows "evolves d d'"
proof -
  let ?d1 = "upd_conversation cid (\<lambda>c. c\<lparr>cv_snapshot_stale := True\<rparr>) d"
  have "evolves d ?d1"
    by (rule evolves_upd_conversation) (simp add: conversation_evolves_def conversation_key_def)
  moreover have "evolves ?d1 d'"
    using assms by (auto simp: mark_snapshot_stale_def bindE_eq_Inr Let_def intro: evolves_enqueue)
  ultimately show ?thesis by (rule evolves_trans)
qed

lemma evolves_resolve_branch:
  "resolve_branch env cid p d = Inr (b, d') \<Longrightarrow> evolves d d'"
  by (auto simp: resolve_branch_def uuid4_def Let_def bindE_eq_Inr split: if_splits option.splits
      intro!: evolves_same)

lemma place_message_Inr:
  assumes "place_message env ctx cid fp nh p d = Inr (m, d')"
  obtains b d1 where "resolve_branch env cid p d = Inr (b, d1)" "constraints d'"
      "m = new_message env ctx (d_next_uuid d1) cid b fp p" "find_message cid p fp nh d = Inr None"
      "d' = d1\<lparr>d_next_uuid := Suc (d_next_uuid d1), d_messages := d_messages d1 @ [m]\<rparr>"
  | b d1 m0 where "resolve_branch env cid p d = Inr (b, d1)" "constraints d'"
      "find_message cid p fp nh d = Inr (Some m0)" "m = improve_message b p m0"
      "d' = upd_message (msg_id m0) (improve_message b p) d1"
proof -
  obtain found b d1 where f: "find_message cid p fp nh d = Inr found"
    and r: "resolve_branch env cid p d = Inr (b, d1)"
    using assms by (auto simp: place_message_def bindE_eq_Inr)
  show thesis
  proof (cases found)
    case None
    show ?thesis
      by (rule that(1) [OF r]) (use assms f r None in \<open>auto simp: place_message_def bindE_eq_Inr uuid4_def Let_def\<close>)
  next
    case (Some m0)
    show ?thesis
      by (rule that(2) [OF r]) (use assms f r Some in \<open>auto simp: place_message_def bindE_eq_Inr Let_def\<close>)
  qed
qed

lemma evolves_place_message:
  assumes "place_message env ctx cid fp nh p d = Inr (m, d')"
  shows "evolves d d'"
  using assms
proof (cases rule: place_message_Inr)
  case (1 b d1)
  have "evolves d1 d'" using 1 by (simp add: evolves_def kept_refl kept_append)
  with evolves_resolve_branch [OF 1(1)] show ?thesis by (rule evolves_trans)
next
  case (2 b d1 m0)
  have "evolves d1 d'" using 2 by (simp add: evolves_upd_message improve_evolves)
  with evolves_resolve_branch [OF 2(1)] show ?thesis by (rule evolves_trans)
qed

lemma add_parts_frame:
  "\<exists>n ps'. d_next_uuid d \<le> n \<and> add_parts vid cid ps d = d\<lparr>d_next_uuid := n, d_parts := d_parts d @ ps'\<rparr>"
proof (induction ps arbitrary: d)
  case Nil
  have "add_parts vid cid [] d = d\<lparr>d_next_uuid := d_next_uuid d, d_parts := d_parts d @ []\<rparr>" by simp
  then show ?case by blast
next
  case (Cons p ps)
  obtain row where r: "add_parts vid cid (p # ps) d
      = add_parts vid cid ps (d\<lparr>d_next_uuid := Suc (d_next_uuid d), d_parts := d_parts d @ [row]\<rparr>)"
    by (simp add: uuid4_def Let_def)
  obtain n ps' where n: "Suc (d_next_uuid d) \<le> n" "add_parts vid cid (p # ps) d
      = d\<lparr>d_next_uuid := n, d_parts := d_parts d @ row # ps'\<rparr>"
    using Cons.IH [of "d\<lparr>d_next_uuid := Suc (d_next_uuid d), d_parts := d_parts d @ [row]\<rparr>"] r by auto
  then have "d_next_uuid d \<le> n" by simp
  then show ?case using n(2) by blast
qed

lemma evolves_add_parts: "evolves d (add_parts vid cid ps d)"
  using add_parts_frame [of d vid cid ps] by (auto simp: evolves_def kept_refl)

lemma evolves_known_version:
  assumes k: "known_version env ctx i p cid m v d = Inr (r, d')" and u: "distinct (map mv_id (d_versions d))"
    and v: "v \<in> set (d_versions d)"
  shows "evolves d d'"
proof -
  let ?rec = "mv_completion_status v = CompletionPartial \<and> mi_completion_status p = CompletionComplete"
  let ?d1 = "if ?rec then upd_message (msg_id m) (\<lambda>r. r\<lparr>msg_completion_status := CompletionComplete\<rparr>)
               (upd_version (mv_id v) (reconcile_version (e_now env)) d) else d"
  let ?d2 = "update_idempotency_result (ic_org ctx) (mi_idempotency_key p) (id_refs cid (msg_id m) (mv_id v)) ?d1"
  have "evolves d (upd_version (mv_id v) (reconcile_version (e_now env)) d)" if ?rec
    using that u v by (intro evolves_upd_version) (metis distinct_map_eq reconcile_evolves)
  then have "evolves d ?d1"
    by (auto intro!: evolves_trans [OF _ evolves_upd_message] simp: message_evolves_def)
  also have "evolves ?d1 ?d2" by (rule evolves_update_idempotency)
  also have "evolves ?d2 d'"
    using k by (auto simp: known_version_def Let_def bindE_eq_Inr split: if_splits intro: evolves_mark_stale)
  finally show ?thesis .
qed

lemma append_version_Inr:
  assumes "append_version env ctx i p client cid actual nh m d = Inr (r, d')"
  obtains v d2 event d6 d9 where
    "v = new_version env ctx (d_next_uuid d) cid m actual nh p"
    "d2 = d\<lparr>d_next_uuid := Suc (d_next_uuid d), d_versions := d_versions d @ [v]\<rparr>" "constraints d2"
    "record_capture_event env ctx EvMessageVersion (dump_message p) (mi_idempotency_key p) (Some cid)
       (Some (msg_id m)) (Some (mi_source_conversation_id p)) (map_option cc_captured_at client)
       (map_option cc_adapter_version client) (map_option cc_extension_version client) IngestAccepted True
       (store_version (e_now env) (mv_id v) cid m p d2) = Inr (event, d6)"
    "mark_snapshot_stale env ctx cid (update_idempotency_result (ic_org ctx) (mi_idempotency_key p)
       (id_refs cid (msg_id m) (mv_id v)) (upd_version (mv_id v)
          (\<lambda>r. r\<lparr>mv_capture_event_id := Some (ce_id event)\<rparr>) d6)) = Inr d9"
    "request_reconcile env ctx p (msg_id m) d9 = Inr d'"
    "r = (item_result0 i (mi_idempotency_key p) ''accepted'')\<lparr>ir_conversation_id := Some cid,
       ir_message_id := Some (msg_id m), ir_message_version_id := Some (mv_id v)\<rparr>"
proof -
  let ?v = "new_version env ctx (d_next_uuid d) cid m actual nh p"
  have vid: "mv_id ?v = d_next_uuid d" by (simp add: new_version_def Let_def)
  from assms obtain event d6 d9 where
    "record_capture_event env ctx EvMessageVersion (dump_message p) (mi_idempotency_key p) (Some cid)
       (Some (msg_id m)) (Some (mi_source_conversation_id p)) (map_option cc_captured_at client)
       (map_option cc_adapter_version client) (map_option cc_extension_version client) IngestAccepted True
       (store_version (e_now env) (d_next_uuid d) cid m p
          (d\<lparr>d_next_uuid := Suc (d_next_uuid d), d_versions := d_versions d @ [?v]\<rparr>)) = Inr (event, d6)"
    "mark_snapshot_stale env ctx cid (update_idempotency_result (ic_org ctx) (mi_idempotency_key p)
       (id_refs cid (msg_id m) (d_next_uuid d)) (upd_version (d_next_uuid d)
          (\<lambda>r. r\<lparr>mv_capture_event_id := Some (ce_id event)\<rparr>) d6)) = Inr d9"
    "request_reconcile env ctx p (msg_id m) d9 = Inr d'"
    "constraints (d\<lparr>d_next_uuid := Suc (d_next_uuid d), d_versions := d_versions d @ [?v]\<rparr>)"
    "r = (item_result0 i (mi_idempotency_key p) ''accepted'')\<lparr>ir_conversation_id := Some cid,
       ir_message_id := Some (msg_id m), ir_message_version_id := Some (d_next_uuid d)\<rparr>"
    by (auto simp: append_version_def uuid4_def Let_def bindE_eq_Inr)
  then show thesis
    by (intro that [of ?v, OF refl refl]) (simp_all only: vid)
qed

lemma evolves_store_version: "evolves d (store_version now vid cid m p d)"
proof -
  have "evolves d (add_parts vid cid (take 500 (mi_parts p)) d)" by (rule evolves_add_parts)
  also have "evolves \<dots> (upd_message (msg_id m) (advance_message vid p) (add_parts vid cid (take 500 (mi_parts p)) d))"
    by (rule evolves_upd_message) (rule advance_evolves)
  also have "evolves \<dots> (store_version now vid cid m p d)"
    unfolding store_version_def Let_def
    by (rule evolves_upd_conversation) (simp add: conversation_evolves_def conversation_key_def bump_conversation_def)
  finally show ?thesis .
qed

lemma evolves_append_version:
  assumes "append_version env ctx i p client cid actual nh m d = Inr (r, d')"
  shows "evolves d d'"
  using assms
proof (cases rule: append_version_Inr)
  case (1 v d2 event d6 d9)
  let ?d7 = "upd_version (mv_id v) (\<lambda>r. r\<lparr>mv_capture_event_id := Some (ce_id event)\<rparr>) d6"
  let ?d8 = "update_idempotency_result (ic_org ctx) (mi_idempotency_key p) (id_refs cid (msg_id m) (mv_id v)) ?d7"
  have "evolves d d2" by (simp add: 1(2) evolves_def kept_refl kept_append)
  also have "evolves d2 (store_version (e_now env) (mv_id v) cid m p d2)" by (rule evolves_store_version)
  also have "evolves \<dots> d6" using 1(4) by (rule evolves_record_event)
  also have "evolves d6 ?d7" by (rule evolves_upd_version) (simp add: version_evolves_def)
  also have "evolves ?d7 ?d8" by (rule evolves_update_idempotency)
  also have "evolves ?d8 d9" using 1(5) by (rule evolves_mark_stale)
  also have "evolves d9 d'"
    using 1(6) by (auto simp: request_reconcile_def bindE_eq_Inr split: if_splits intro: evolves_enqueue)
  finally show ?thesis .
qed

text \<open>The outcomes of \<open>ingest_message\<close>.\<close>

lemma ingest_message_Inr:
  assumes "ingest_message env ctx p i client d = Inr (r, d')"
  obtains (mismatch) "mi_content_sha256 p \<noteq> sha256_hex (mi_text p)" "d' = d" "ir_status r = ''rejected''"
      "ir_reason_code r = Some ''checksum_mismatch''"
  | (replay) c b d1 ref where "mi_content_sha256 p = sha256_hex (mi_text p)"
      "get_or_create_conversation env ctx (mi_source_conversation_id p) (no_hint\<lparr>h_completeness := Some CcLiveOnly\<rparr>) d
         = Inr (c, b, d1)"
      "claim_idempotency (e_now env) (ic_org ctx) (mi_idempotency_key p) (d_next_uuid d1) (e_now env)
         (JObj [(''conversation_id'', JStr (uuid_str (cv_id c)))]) (d1\<lparr>d_next_uuid := Suc (d_next_uuid d1)\<rparr>)
         = Inr (Some ref, d')"
      "r = (item_result0 i (mi_idempotency_key p) ''duplicate'')\<lparr>ir_conversation_id := Some (cv_id c),
         ir_message_id := maybe_uuid (jget ref ''message_id''),
         ir_message_version_id := maybe_uuid (jget ref ''message_version_id''),
         ir_reason_code := Some ''idempotent_replay''\<rparr>"
  | (stored) c b d1 d3 m d4 nh ex where "mi_content_sha256 p = sha256_hex (mi_text p)"
      "get_or_create_conversation env ctx (mi_source_conversation_id p) (no_hint\<lparr>h_completeness := Some CcLiveOnly\<rparr>) d
         = Inr (c, b, d1)"
      "claim_idempotency (e_now env) (ic_org ctx) (mi_idempotency_key p) (d_next_uuid d1) (e_now env)
         (JObj [(''conversation_id'', JStr (uuid_str (cv_id c)))]) (d1\<lparr>d_next_uuid := Suc (d_next_uuid d1)\<rparr>)
         = Inr (None, d3)"
      "nh = content_hash (e_ud env) (mi_text p)"
      "place_message env ctx (cv_id c) (message_fingerprint (e_ud env) (cv_id c) (message_role_str (mi_role p))
         (mi_text p) (Some (mi_sequence_index p)) (mi_source_created_at p)) nh p d3 = Inr (m, d4)"
      "find_version (msg_id m) nh d4 = Inr ex"
      "(case ex of Some v \<Rightarrow> known_version env ctx i p (cv_id c) m v d4
        | None \<Rightarrow> append_version env ctx i p client (cv_id c) (sha256_hex (mi_text p)) nh m d4) = Inr (r, d')"
proof (cases "mi_content_sha256 p = sha256_hex (mi_text p)")
  case False
  then show ?thesis using assms mismatch by (auto simp: ingest_message_def Let_def item_result0_def)
next
  case True
  obtain c b d1 where g: "get_or_create_conversation env ctx (mi_source_conversation_id p)
      (no_hint\<lparr>h_completeness := Some CcLiveOnly\<rparr>) d = Inr (c, b, d1)"
    using assms True by (auto simp: ingest_message_def Let_def bindE_eq_Inr)
  obtain rp d3 where k: "claim_idempotency (e_now env) (ic_org ctx) (mi_idempotency_key p) (d_next_uuid d1) (e_now env)
      (JObj [(''conversation_id'', JStr (uuid_str (cv_id c)))]) (d1\<lparr>d_next_uuid := Suc (d_next_uuid d1)\<rparr>) = Inr (rp, d3)"
    using assms True g by (auto simp: ingest_message_def Let_def bindE_eq_Inr uuid4_def)
  show ?thesis
  proof (cases rp)
    case (Some ref)
    then show ?thesis
      using assms True g k replay by (auto simp: ingest_message_def Let_def bindE_eq_Inr uuid4_def)
  next
    case None
    then show ?thesis
      using assms g k stored [OF True g] by (auto simp: True ingest_message_def Let_def bindE_eq_Inr uuid4_def)
  qed
qed

lemma find_version_Some:
  assumes "find_version mid nh d = Inr (Some v)"
  shows "v \<in> set (d_versions d) \<and> mv_message_id v = mid \<and> mv_normalized_sha256 v = nh"
proof -
  let ?f = "filter (\<lambda>v. mv_message_id v = mid \<and> mv_normalized_sha256 v = nh) (d_versions d)"
  have "?f = [v]"
    using assms by (cases ?f rule: scalar_one_or_none.cases) (auto simp: find_version_def)
  then have "v \<in> set ?f" by simp
  then show ?thesis by simp
qed

lemma place_message_constraints: "place_message env ctx cid fp nh p d = Inr (m, d') \<Longrightarrow> constraints d'"
  by (erule place_message_Inr)

lemma constraints_versions: "constraints d \<Longrightarrow> distinct (map mv_id (d_versions d))"
  by (simp add: constraints_def versions_ok_def)

lemma evolves_ingest_message:
  assumes "ingest_message env ctx p i client d = Inr (r, d')"
  shows "evolves d d'"
  using assms
proof (cases rule: ingest_message_Inr)
  case mismatch
  then show ?thesis by simp
next
  case (replay c b d1 ref)
  have "evolves d d1" using replay(2) by (rule evolves_get_or_create)
  also have "evolves d1 (d1\<lparr>d_next_uuid := Suc (d_next_uuid d1)\<rparr>)" by simp
  also have "evolves \<dots> d'" using replay(3) by (rule evolves_claim)
  finally show ?thesis .
next
  case (stored c b d1 d3 m d4 nh ex)
  have "evolves d d1" using stored(2) by (rule evolves_get_or_create)
  also have "evolves d1 (d1\<lparr>d_next_uuid := Suc (d_next_uuid d1)\<rparr>)" by simp
  also have "evolves \<dots> d3" using stored(3) by (rule evolves_claim)
  also have "evolves d3 d4" using stored(5) by (rule evolves_place_message)
  also have "evolves d4 d'"
  proof (cases ex)
    case None
    then show ?thesis using stored(7) by (auto intro: evolves_append_version)
  next
    case (Some v)
    then show ?thesis
      using stored(5-7) evolves_known_version constraints_versions [OF place_message_constraints]
      by (fastforce dest: find_version_Some)
  qed
  finally show ?thesis .
qed

lemma ingest_messages_from_Cons:
  assumes "ingest_messages_from env ctx client i (p # ps) d = Inr (rs, d')"
  obtains (stored) r d1 rs' where "ingest_message env ctx p i client d = Inr (r, d1)" "constraints d1"
      "ingest_messages_from env ctx client (Suc i) ps d1 = Inr (rs', d')" "rs = r # rs'"
  | (failed) e rs' where "bindE (ingest_message env ctx p i client d) (\<lambda>(r, d'). bindE (flush d') (\<lambda>d''. Inr (r, d'')))
         = Inl e" "\<forall>code. e \<noteq> PolicyError code"
      "ingest_messages_from env ctx client (Suc i) ps d = Inr (rs', d')"
      "rs = failed_item i (mi_idempotency_key p) e # rs'"
proof (cases "bindE (ingest_message env ctx p i client d) (\<lambda>(r, d'). bindE (flush d') (\<lambda>d''. Inr (r, d'')))")
  case (Inl e)
  then show ?thesis using assms failed by (cases e) (auto simp: bindE_eq_Inr)
next
  case (Inr x)
  then show ?thesis using assms stored by (auto simp: bindE_eq_Inr)
qed

lemma evolves_ingest_messages:
  "ingest_messages_from env ctx client i ps d = Inr (rs, d') \<Longrightarrow> evolves d d'"
proof (induction ps arbitrary: i d rs)
  case Nil
  then show ?case by simp
next
  case (Cons p ps)
  from Cons.prems show ?case
  proof (cases rule: ingest_messages_from_Cons)
    case (stored r d1 rs')
    then show ?thesis using Cons.IH evolves_ingest_message evolves_trans by blast
  next
    case (failed e rs')
    then show ?thesis using Cons.IH by blast
  qed
qed

lemma evolves_store_capture_event:
  assumes "store_capture_event env ctx client i item cid d = Inr (r, d')"
  shows "evolves d d'"
proof -
  obtain event d1 where "record_capture_event env ctx (ei_kind item) (dump_capture_event item)
              (ei_idempotency_key item) cid None (ei_source_conversation_id item)
              (Some (ei_occurred_at item)) (map_option cc_adapter_version client)
              (map_option cc_extension_version client) IngestAccepted True d = Inr (event, d1)"
    and d': "d' = update_idempotency_result (ic_org ctx) (ei_idempotency_key item)
      (JObj [(''capture_event_id'', JStr (uuid_str (ce_id event)))]) d1"
    using assms by (auto simp: store_capture_event_def bindE_eq_Inr)
  then have "evolves d d1" by (blast intro: evolves_record_event)
  then show ?thesis unfolding d' using evolves_update_idempotency by (rule evolves_trans)
qed

lemma evolves_ingest_capture_event:
  assumes "ingest_capture_event env ctx client i item d = Inr (r, d')"
  shows "evolves d d'"
proof -
  obtain cid d1 rp d3 where e: "event_conversation env ctx item d = Inr (cid, d1)"
    and k: "claim_idempotency (e_now env) (ic_org ctx) (ei_idempotency_key item) (d_next_uuid d1) (e_now env)
      (JObj []) (d1\<lparr>d_next_uuid := Suc (d_next_uuid d1)\<rparr>) = Inr (rp, d3)"
    and st: "d' = d3 \<or> store_capture_event env ctx client i item cid d3 = Inr (r, d')"
    using assms by (auto simp: ingest_capture_event_def uuid4_def Let_def bindE_eq_Inr split: if_splits)
  have "evolves d d1"
    using e by (auto simp: event_conversation_def bindE_eq_Inr split: if_splits intro: evolves_get_or_create)
  also have "evolves d1 (d1\<lparr>d_next_uuid := Suc (d_next_uuid d1)\<rparr>)" by simp
  also have "evolves \<dots> d3" using k by (rule evolves_claim)
  also have "evolves d3 d'" using st evolves_store_capture_event by auto
  finally show ?thesis .
qed

lemma evolves_ingest_capture_events:
  "evolves d (snd (ingest_capture_events_from env ctx client i items d))"
proof (induction items arbitrary: i d)
  case Nil
  then show ?case by simp
next
  case (Cons item items)
  show ?case
  proof (cases "bindE (ingest_capture_event env ctx client i item d) (\<lambda>(r, d'). bindE (flush d') (\<lambda>d''. Inr (r, d'')))")
    case (Inl e)
    then show ?thesis using Cons [of d "Suc i"] by (simp add: case_prod_beta Let_def)
  next
    case (Inr x)
    obtain r d1 where x: "x = (r, d1)" by fastforce
    then have "evolves d d1" using Inr by (auto simp: bindE_eq_Inr intro: evolves_ingest_capture_event)
    then show ?thesis using Cons [of d1 "Suc i"] Inr x evolves_trans
      by (auto simp: case_prod_beta Let_def)
  qed
qed

lemma ingest_feedback_Inr:
  assumes "ingest_feedback env ctx p d = Inr (f, b, d')"
  obtains c b0 d1 where
    "get_or_create_conversation env ctx (fi_source_conversation_id p) no_hint d = Inr (c, b0, d1)"
    "d' = d1 \<or> (\<exists>n fs. d_next_uuid d1 \<le> n \<and> d' = d1\<lparr>d_next_uuid := n, d_feedback := fs\<rparr>)"
proof -
  obtain c b0 d1 where g: "get_or_create_conversation env ctx (fi_source_conversation_id p) no_hint d = Inr (c, b0, d1)"
    and d': "d' = d1 \<or> d' = d1\<lparr>d_next_uuid := Suc (d_next_uuid d1), d_feedback := d_feedback d1 @ [f]\<rparr>"
    using assms by (auto simp: ingest_feedback_def uuid4_def Let_def bindE_eq_Inr split: option.splits)
  have "d' = d1 \<or> (\<exists>n fs. d_next_uuid d1 \<le> n \<and> d' = d1\<lparr>d_next_uuid := n, d_feedback := fs\<rparr>)"
    using d' le_SucI by blast
  then show ?thesis using g that by blast
qed

lemma evolves_ingest_feedback:
  assumes "ingest_feedback env ctx p d = Inr (f, b, d')"
  shows "evolves d d'"
  using assms
proof (rule ingest_feedback_Inr)
  fix c b0 d1
  assume g: "get_or_create_conversation env ctx (fi_source_conversation_id p) no_hint d = Inr (c, b0, d1)"
    and d': "d' = d1 \<or> (\<exists>n fs. d_next_uuid d1 \<le> n \<and> d' = d1\<lparr>d_next_uuid := n, d_feedback := fs\<rparr>)"
  have "evolves d d1" using g by (rule evolves_get_or_create)
  moreover have "evolves d1 d'" using d' by (auto intro: evolves_same)
  ultimately show ?thesis by (rule evolves_trans)
qed

lemma evolves_upsert:
  assumes "upsert_conversation env ctx p d = Inr (cid, created, dup, d')"
  shows "evolves d d'"
proof -
  obtain rp d1 c b d2 where k: "claim_idempotency (e_now env) (ic_org ctx) (cu_idempotency_key p) (d_next_uuid d)
      (e_now env) (JObj []) (d\<lparr>d_next_uuid := Suc (d_next_uuid d)\<rparr>) = Inr (rp, d1)"
    and g: "get_or_create_conversation env ctx (cu_source_conversation_id p)
                  \<lparr>h_title = cu_title p, h_source_url = cu_source_url p,
                   h_model_slug = cu_model_slug p, h_completeness = Some (cu_capture_completeness p),
                   h_source_created_at = cu_source_created_at p,
                   h_source_updated_at = cu_source_updated_at p\<rparr> d1 = Inr (c, b, d2)"
    using assms by (auto simp: upsert_conversation_def uuid4_def Let_def bindE_eq_Inr)
  let ?d3 = "update_idempotency_result (ic_org ctx) (cu_idempotency_key p)
                      (JObj [(''conversation_id'', JStr (uuid_str (cv_id c)))]) d2"
  have "evolves d (d\<lparr>d_next_uuid := Suc (d_next_uuid d)\<rparr>)" by simp
  also have "evolves \<dots> d1" using k by (rule evolves_claim)
  also have "evolves d1 d2" using g by (rule evolves_get_or_create)
  also have "evolves d2 d'"
  proof (cases rp)
    case None
    then obtain e d4 where "record_capture_event env ctx EvConversationUpsert (dump_upsert p)
                  (cu_idempotency_key p) (Some (cv_id c)) None
                  (Some (cu_source_conversation_id p)) (Some (cc_captured_at (cu_client p)))
                  (Some (cc_adapter_version (cu_client p)))
                  (Some (cc_extension_version (cu_client p))) IngestAccepted True ?d3 = Inr (e, d4)"
      and "mark_snapshot_stale env ctx (cv_id c) d4 = Inr d'"
      using assms k g by (auto simp: upsert_conversation_def uuid4_def Let_def bindE_eq_Inr)
    note e = evolves_record_event [OF this(1)] evolves_mark_stale [OF this(2)]
    have "evolves d2 ?d3" by (rule evolves_update_idempotency)
    also note e(1)
    also note e(2)
    finally show ?thesis .
  next
    case (Some ref)
    then show ?thesis
      using assms k g by (simp add: upsert_conversation_def uuid4_def Let_def)
  qed
  finally show ?thesis .
qed

text \<open>The requests of the ingest endpoints, each committed with the constraints satisfied.\<close>

inductive ingest_step :: "db \<Rightarrow> db \<Rightarrow> bool" where
  is_upsert: "upsert_conversation env ctx p d = Inr (cid, created, dup, d') \<Longrightarrow> constraints d' \<Longrightarrow> ingest_step d d'"
| is_messages: "ingest_message_batch env ctx msgs client d = Inr (rs, d') \<Longrightarrow> constraints d' \<Longrightarrow> ingest_step d d'"
| is_events: "ingest_capture_events env ctx events client d = (rs, d') \<Longrightarrow> constraints d' \<Longrightarrow> ingest_step d d'"
| is_feedback: "ingest_feedback env ctx fb d = Inr (f, b, d') \<Longrightarrow> constraints d' \<Longrightarrow> ingest_step d d'"

lemma evolves_step: "ingest_step d d' \<Longrightarrow> evolves d d'"
proof (induction rule: ingest_step.induct)
  case (is_events env ctx events client d rs d')
  then show ?case
    using evolves_ingest_capture_events [of d env ctx client 0 events] by (simp add: ingest_capture_events_def)
qed (auto simp: ingest_message_batch_def
    intro: evolves_upsert evolves_ingest_messages evolves_ingest_feedback)

text \<open>
  C1. No sequence of ingest requests overwrites or loses history: every message version keeps its
  text, hashes, number and message, raw events and parts never change, messages and
  conversations persist under their identity, and no conversation's completeness is downgraded
  or raised to compliance-verified by the browser.
\<close>

theorem history_kept:
  assumes "ingest_step\<^sup>*\<^sup>* d d'"
  shows "evolves d d'"
  using assms by (induction rule: rtranclp_induct) (auto intro: evolves_trans evolves_step)

text \<open>A concrete request: an empty archive and one message.\<close>

definition sample_user :: user where
  "sample_user = \<lparr>usr_id = 2, usr_created_at = 0, usr_organization_id = 1, usr_email = lit ''a@b.c'',
     usr_email_hash = '''', usr_display_name = None, usr_roles = [''employee''], usr_is_active = True,
     usr_notice_acknowledged_at = None, usr_last_seen_at = None\<rparr>"

definition sample_workspace :: workspace where
  "sample_workspace = \<lparr>ws_id = 3, ws_created_at = 0, ws_organization_id = 1, ws_source_workspace_id = None,
     ws_label = Some (lit ''acme''), ws_workspace_hash = ''w'', ws_kind = WsManagedCompany,
     ws_verified_at = None, ws_capture_enabled = True\<rparr>"

definition sample_ctx :: ingest_context where
  "sample_ctx = \<lparr>ic_organization = sample_org, ic_user = sample_user, ic_device = None,
     ic_workspace = sample_workspace, ic_workspace_hash = ''w'', ic_settings = sample_settings\<rparr>"

definition sample_message :: message_in where
  "sample_message = \<lparr>mi_idempotency_key = ''k1'', mi_source_conversation_id = ''c1'', mi_source_message_id = None,
     mi_role = RoleUser, mi_sequence_index = 0, mi_text = lit ''Hi'', mi_sanitized_html = None, mi_parts = [],
     mi_citations = [], mi_completion_status = CompletionComplete, mi_is_edit = False,
     mi_is_regeneration = False, mi_parent_source_message_id = None, mi_branch_key = None,
     mi_branch_selected = False, mi_source_created_at = None, mi_content_sha256 = sha256_hex (lit ''Hi''),
     mi_attachment_client_ids = [], mi_author_name = None\<rparr>"

lemmas sample_defs = sample_env_def sample_user_def sample_workspace_def sample_ctx_def sample_message_def
  sample_org_def

lemmas sample_exec = sample_defs Let_def no_hint_def
  ingest_message_batch_def ingest_message_def get_or_create_conversation_def new_conversation_def
  uuid4_def ic_org_def truthy_def claim_idempotency_def key_of_def
  place_message_def find_message_def resolve_branch_def has_version_def new_message_def
  find_version_def append_version_def new_version_def record_capture_event_def capture_event_row_def
  archive_payload_def store_version_def enqueue_job_def upd_message_def upd_version_def
  update_idempotency_result_def upd_conversation_def upd_where_def mark_snapshot_stale_def
  request_reconcile_def advance_message_def bump_conversation_def get_job_def live_def
  item_result0_def flush_def constraints_upd constraints_empty table_ok_defs
  conversation_key_def refresh_conversation_def ic_device_id_def add_capture_source_def

lemma sample_run:
  "case ingest_message_batch sample_env sample_ctx [sample_message] None empty_db of
     Inr (rs, d) \<Rightarrow> constraints d \<and> map ir_status rs = [''accepted'']
       \<and> (case d_messages d of
             [m] \<Rightarrow> map mv_version_number (filter (\<lambda>v. mv_message_id v = msg_id m) (d_versions d)) = [1]
           | _ \<Rightarrow> False)
       \<and> (case ingest_message_batch (sample_env\<lparr>e_now := 9\<rparr>) sample_ctx [sample_message] None d of
             Inr (rs', d') \<Rightarrow> constraints d' \<and> map ir_reason_code rs' = [Some ''idempotent_replay''] \<and> d_versions d \<noteq> []
           | Inl e \<Rightarrow> False)
   | Inl e \<Rightarrow> False"
  by (simp add: sample_exec del: One_nat_def)

text \<open>The same run as steps: the message is stored, then sent again.\<close>

lemma sample_steps:
  obtains d d' m where "ingest_step empty_db d" "ingest_step d d'" "d_versions d \<noteq> []" "m \<in> set (d_messages d)"
    "map mv_version_number (filter (\<lambda>v. mv_message_id v = msg_id m) (d_versions d)) = [1]"
proof -
  obtain rs d where r: "ingest_message_batch sample_env sample_ctx [sample_message] None empty_db = Inr (rs, d)"
    using sample_run by (cases "ingest_message_batch sample_env sample_ctx [sample_message] None empty_db") auto
  obtain rs' d' where r': "ingest_message_batch (sample_env\<lparr>e_now := 9\<rparr>) sample_ctx [sample_message] None d = Inr (rs', d')"
    using sample_run r
    by (cases "ingest_message_batch (sample_env\<lparr>e_now := 9\<rparr>) sample_ctx [sample_message] None d") auto
  have c: "constraints d" "constraints d'" "d_versions d \<noteq> []" using sample_run r r' by simp_all
  obtain m where m: "m \<in> set (d_messages d)"
    "map mv_version_number (filter (\<lambda>v. mv_message_id v = msg_id m) (d_versions d)) = [1]"
    using sample_run r by (auto split: list.splits)
  show ?thesis using that [OF is_messages [OF r c(1)] is_messages [OF r' c(2)] c(3) m] .
qed

theorem history_kept_witness:
  "\<exists>d d'. ingest_step\<^sup>*\<^sup>* d d' \<and> d_versions d \<noteq> [] \<and> evolves d d'"
proof -
  obtain d d' where s: "ingest_step d d'" "d_versions d \<noteq> []"
    by (rule sample_steps)
  then have "ingest_step\<^sup>*\<^sup>* d d'" by simp
  with history_kept [OF this] s show ?thesis by blast
qed

end
