(* ===== verification/Ingest_Numbering.thy ===== *)
theory Ingest_Numbering
  imports Ingest_History
begin

text \<open>
  The versions of a message are numbered without gaps, in every state the ingest endpoints reach.
\<close>

section \<open>Versions are numbered without gaps\<close>

definition versions_of :: "db \<Rightarrow> uuid \<Rightarrow> message_version list" where
  "versions_of d mid = filter (\<lambda>v. mv_message_id v = mid) (d_versions d)"

definition message_numbered :: "db \<Rightarrow> message \<Rightarrow> bool" where
  "message_numbered d m \<longleftrightarrow> msg_id m < d_next_uuid d \<and> 0 \<le> msg_version_count m
     \<and> map mv_version_number (versions_of d (msg_id m)) = [1..msg_version_count m]
     \<and> msg_current_version_id m = (if versions_of d (msg_id m) = [] then None
          else Some (mv_id (last (versions_of d (msg_id m)))))"

definition numbered :: "db \<Rightarrow> bool" where
  "numbered d \<longleftrightarrow> (\<forall>m\<in>set (d_messages d). message_numbered d m)
     \<and> (\<forall>v\<in>set (d_versions d). mv_message_id v \<in> msg_id ` set (d_messages d))"

text \<open>Operations that do not touch messages and versions.\<close>

definition same_mv :: "db \<Rightarrow> db \<Rightarrow> bool" where
  "same_mv d d' \<longleftrightarrow> d_messages d' = d_messages d \<and> d_versions d' = d_versions d \<and> d_next_uuid d \<le> d_next_uuid d'"

lemma same_mv_trans [trans]: "same_mv a b \<Longrightarrow> same_mv b c \<Longrightarrow> same_mv a c"
  by (auto simp: same_mv_def)

lemma same_mv_next [simp]: "d_next_uuid d \<le> n \<Longrightarrow> same_mv d (d\<lparr>d_next_uuid := n\<rparr>)"
  by (simp add: same_mv_def)

lemma numbered_same_mv: "same_mv d d' \<Longrightarrow> numbered d \<Longrightarrow> numbered d'"
  by (auto simp: numbered_def same_mv_def message_numbered_def versions_of_def intro: less_le_trans)

lemma same_mv_enqueue: "enqueue_job now kind payload oid key prio ra m d = Inr (r, d') \<Longrightarrow> same_mv d d'"
  by (drule enqueue_frame) (auto simp: same_mv_def)

lemma same_mv_claim: "claim_idempotency now oid k eid ea ref d = Inr (r, d') \<Longrightarrow> same_mv d d'"
  by (auto simp: claim_idempotency_def bindE_eq_Inr same_mv_def split: if_splits)

lemma same_mv_update_idempotency: "same_mv d (update_idempotency_result oid k ref d)"
  by (simp add: update_idempotency_result_def same_mv_def)

lemma same_mv_upd_conversation: "same_mv d (upd_conversation cid f d)"
  by (simp add: upd_conversation_def same_mv_def)

lemma same_mv_record_event:
  assumes "record_capture_event env ctx kind payload ik cid mid scid cca av ev st q d = Inr (e, d')"
  shows "same_mv d d'"
proof -
  let ?d2 = "d\<lparr>d_next_uuid := Suc (d_next_uuid d), d_capture_events := d_capture_events d @ [e]\<rparr>"
  have "same_mv d ?d2" by (simp add: same_mv_def)
  moreover have "same_mv ?d2 d'"
    using record_capture_event_Inr [OF assms] same_mv_enqueue [of _ _ _ _ _ _ _ _ ?d2 _ d']
    by (cases "q \<and> st = IngestAccepted") (auto simp: same_mv_def)
  ultimately show ?thesis by (rule same_mv_trans)
qed

lemma same_mv_get_or_create:
  "get_or_create_conversation env ctx scid h d = Inr (c, b, d') \<Longrightarrow> same_mv d d'"
  by (erule get_or_create_Inr) (auto simp: upd_conversation_def same_mv_def)

lemma mark_snapshot_stale_Inr:
  assumes "mark_snapshot_stale env ctx cid d = Inr d'"
  obtains r where "enqueue_job (e_now env) KindBuildConversationSnapshot
           (JObj [(''conversation_id'', JStr (uuid_str cid)), (''workspace_hash'', JStr (ic_workspace_hash ctx))])
           (Some (ic_org ctx)) (Some (''snapshot:'' @ uuid_str cid)) 200 None 8
           (upd_conversation cid (\<lambda>c. c\<lparr>cv_snapshot_stale := True\<rparr>) d) = Inr (r, d')"
  using assms by (auto simp: mark_snapshot_stale_def bindE_eq_Inr Let_def)

lemma same_mv_mark_stale:
  assumes "mark_snapshot_stale env ctx cid d = Inr d'"
  shows "same_mv d d'"
  using assms
proof (rule mark_snapshot_stale_Inr)
  fix r assume "enqueue_job (e_now env) KindBuildConversationSnapshot
           (JObj [(''conversation_id'', JStr (uuid_str cid)), (''workspace_hash'', JStr (ic_workspace_hash ctx))])
           (Some (ic_org ctx)) (Some (''snapshot:'' @ uuid_str cid)) 200 None 8
           (upd_conversation cid (\<lambda>c. c\<lparr>cv_snapshot_stale := True\<rparr>) d) = Inr (r, d')"
  then show ?thesis using same_mv_trans [OF same_mv_upd_conversation same_mv_enqueue] by blast
qed

lemma same_mv_resolve_branch: "resolve_branch env cid p d = Inr (b, d') \<Longrightarrow> same_mv d d'"
  by (auto simp: resolve_branch_def uuid4_def Let_def bindE_eq_Inr same_mv_def split: if_splits option.splits)

lemma same_mv_request_reconcile: "request_reconcile env ctx p mid d = Inr d' \<Longrightarrow> same_mv d d'"
  by (auto simp: request_reconcile_def bindE_eq_Inr same_mv_def split: if_splits dest!: same_mv_enqueue)

text \<open>Rewrites of rows that keep what the numbering depends on.\<close>

lemma numbered_upd_message:
  assumes n: "numbered d" and f: "\<And>m. msg_id (f m) = msg_id m \<and> msg_version_count (f m) = msg_version_count m
    \<and> msg_current_version_id (f m) = msg_current_version_id m"
  shows "numbered (upd_message mid f d)"
proof -
  have "map msg_id (d_messages (upd_message mid f d)) = map msg_id (d_messages d)"
    unfolding upd_message_def by (simp add: map_upd_where_same f)
  then have ids: "msg_id ` set (d_messages (upd_message mid f d)) = msg_id ` set (d_messages d)"
    by (metis set_map)
  have "message_numbered (upd_message mid f d) m" if "m \<in> set (d_messages (upd_message mid f d))" for m
  proof -
    have "m \<in> set (upd_where (\<lambda>m. msg_id m = mid) f (d_messages d))"
      using that by (simp add: upd_message_def)
    then obtain m0 where m0: "m0 \<in> set (d_messages d)" "m = (if msg_id m0 = mid then f m0 else m0)"
      by (rule in_upd_whereE)
    then have "message_numbered d m0" using n by (simp add: numbered_def)
    moreover have "versions_of (upd_message mid f d) = versions_of d" "d_next_uuid (upd_message mid f d) = d_next_uuid d"
      by (simp_all add: versions_of_def fun_eq_iff upd_message_def)
    moreover have "msg_id m = msg_id m0" "msg_version_count m = msg_version_count m0"
      "msg_current_version_id m = msg_current_version_id m0"
      using m0(2) f [of m0] by auto
    ultimately show ?thesis by (simp add: message_numbered_def)
  qed
  then show ?thesis using n ids by (simp add: numbered_def upd_message_def)
qed

lemma versions_of_upd:
  assumes "\<And>v. mv_id (f v) = mv_id v \<and> mv_message_id (f v) = mv_message_id v \<and> mv_version_number (f v) = mv_version_number v"
  shows "map (\<lambda>v. (mv_id v, mv_version_number v)) (versions_of (upd_version vid f d) mid)
       = map (\<lambda>v. (mv_id v, mv_version_number v)) (versions_of d mid)"
proof -
  have "map (\<lambda>v. (mv_id v, mv_version_number v)) (filter (\<lambda>v. mv_message_id v = mid) (upd_where p f vs))
      = map (\<lambda>v. (mv_id v, mv_version_number v)) (filter (\<lambda>v. mv_message_id v = mid) vs)" for p vs
    using assms by (induction vs) auto
  then show ?thesis by (simp add: versions_of_def upd_version_def)
qed

lemma message_numbered_iff:
  "message_numbered d m \<longleftrightarrow> msg_id m < d_next_uuid d \<and> 0 \<le> msg_version_count m
     \<and> map snd (map (\<lambda>v. (mv_id v, mv_version_number v)) (versions_of d (msg_id m))) = [1..msg_version_count m]
     \<and> msg_current_version_id m = (if map (\<lambda>v. (mv_id v, mv_version_number v)) (versions_of d (msg_id m)) = [] then None
          else Some (fst (last (map (\<lambda>v. (mv_id v, mv_version_number v)) (versions_of d (msg_id m))))))"
  by (auto simp: message_numbered_def comp_def last_map)

lemma numbered_upd_version:
  assumes "numbered d"
    "\<And>v. mv_id (f v) = mv_id v \<and> mv_message_id (f v) = mv_message_id v \<and> mv_version_number (f v) = mv_version_number v"
  shows "numbered (upd_version vid f d)"
proof -
  have "message_numbered (upd_version vid f d) m" if "message_numbered d m" for m
    using that unfolding message_numbered_iff versions_of_upd [OF assms(2)]
    by (simp add: upd_version_def)
  moreover have "mv_message_id v \<in> msg_id ` set (d_messages d)" if "v \<in> set (d_versions (upd_version vid f d))" for v
    using that assms by (auto simp: upd_version_def numbered_def elim!: in_upd_whereE)
  ultimately show ?thesis using assms(1) by (auto simp: numbered_def upd_version_def)
qed

lemma numbered_new_message:
  assumes "numbered d" "msg_id m = d_next_uuid d" "msg_version_count m = 0" "msg_current_version_id m = None"
  shows "numbered (d\<lparr>d_next_uuid := Suc (d_next_uuid d), d_messages := d_messages d @ [m]\<rparr>)"
proof -
  have "mv_message_id v \<noteq> d_next_uuid d" if "v \<in> set (d_versions d)" for v
  proof -
    have "mv_message_id v \<in> msg_id ` set (d_messages d)" using assms(1) that by (simp add: numbered_def)
    then obtain k where k: "k \<in> set (d_messages d)" "mv_message_id v = msg_id k" by blast
    then have "message_numbered d k" using assms(1) by (simp add: numbered_def)
    then show ?thesis using k(2) by (simp add: message_numbered_def)
  qed
  then have "versions_of d (d_next_uuid d) = []" by (auto simp: versions_of_def filter_empty_conv)
  then show ?thesis
    using assms by (auto simp: numbered_def message_numbered_def versions_of_def less_Suc_eq)
qed

lemma numbered_new_version:
  assumes n: "numbered d" and m: "m \<in> set (d_messages d)" and u: "distinct (map msg_id (d_messages d))"
    and v: "mv_message_id v = msg_id m" "mv_version_number v = msg_version_count m + 1"
    and d': "d_versions d' = d_versions d @ [v]"
      "d_messages d' = upd_where (\<lambda>k. msg_id k = msg_id m) (advance_message (mv_id v) p) (d_messages d)"
      "d_next_uuid d \<le> d_next_uuid d'"
  shows "numbered d'"
proof -
  have adv: "msg_id (advance_message vid p k) = msg_id k" "msg_version_count (advance_message vid p k) = msg_version_count k + 1"
    "msg_current_version_id (advance_message vid p k) = Some vid" for vid k
    by (simp_all add: advance_message_def Let_def)
  have "map msg_id (d_messages d') = map msg_id (d_messages d)"
    unfolding d' by (rule map_upd_where_same) (simp add: adv)
  then have ids: "msg_id ` set (d_messages d') = msg_id ` set (d_messages d)" by (metis set_map)
  have vs: "versions_of d' mid = versions_of d mid @ (if mid = msg_id m then [v] else [])" for mid
    using d' v by (auto simp: versions_of_def)
  have "message_numbered d' k" if mem: "k \<in> set (d_messages d')" for k
  proof -
    obtain k0 where k0: "k0 \<in> set (d_messages d)"
      "k = (if msg_id k0 = msg_id m then advance_message (mv_id v) p k0 else k0)"
      using mem unfolding d'(2) by (rule in_upd_whereE)
    have nk: "message_numbered d k0" using n k0 by (simp add: numbered_def)
    show ?thesis
    proof (cases "msg_id k0 = msg_id m")
      case True
      then have "k0 = m" using distinct_map_eq [OF u k0(1) m] by simp
      moreover have "[1..msg_version_count m + 1] = [1..msg_version_count m] @ [msg_version_count m + 1]"
        using nk \<open>k0 = m\<close> by (simp add: message_numbered_def upto_rec2)
      ultimately show ?thesis using nk k0 d'(3) v by (simp add: message_numbered_def vs adv)
    next
      case False
      then show ?thesis using nk k0 d'(3) by (simp add: message_numbered_def vs)
    qed
  qed
  moreover have "\<forall>w\<in>set (d_versions d'). mv_message_id w \<in> msg_id ` set (d_messages d')"
    using n m v unfolding ids d'(1) by (auto simp: numbered_def)
  ultimately show ?thesis by (simp add: numbered_def)
qed

lemma store_version_tables:
  "d_versions (store_version now vid cid m p d) = d_versions d"
  "d_messages (store_version now vid cid m p d)
     = upd_where (\<lambda>k. msg_id k = msg_id m) (advance_message vid p) (d_messages d)"
proof -
  obtain n ps where "add_parts vid cid (take 500 (mi_parts p)) d = d\<lparr>d_next_uuid := n, d_parts := d_parts d @ ps\<rparr>"
    using add_parts_frame by blast
  then show "d_versions (store_version now vid cid m p d) = d_versions d"
    "d_messages (store_version now vid cid m p d)
     = upd_where (\<lambda>k. msg_id k = msg_id m) (advance_message vid p) (d_messages d)"
    by (simp_all add: store_version_def Let_def upd_conversation_def upd_message_def)
qed

lemma add_parts_next: "d_next_uuid d \<le> d_next_uuid (add_parts vid cid ps d)"
  using add_parts_frame [of d vid cid ps] by auto

lemma store_version_next: "d_next_uuid d \<le> d_next_uuid (store_version now vid cid m p d)"
  using add_parts_next by (simp add: store_version_def Let_def upd_conversation_def upd_message_def)

lemma numbered_append_version:
  assumes a: "append_version env ctx i p client cid actual nh m d = Inr (r, d')"
    and n: "numbered d" and m: "m \<in> set (d_messages d)" and u: "distinct (map msg_id (d_messages d))"
  shows "numbered d'"
  using a
proof (cases rule: append_version_Inr)
  case (1 v d2 event d6 d9)
  let ?s = "store_version (e_now env) (mv_id v) cid m p d2"
  have "numbered ?s"
  proof (rule numbered_new_version [OF n m u])
    show "mv_message_id v = msg_id m" "mv_version_number v = msg_version_count m + 1"
      by (simp_all add: 1(1) new_version_def Let_def)
    show "d_versions ?s = d_versions d @ [v]" "d_messages ?s
        = upd_where (\<lambda>k. msg_id k = msg_id m) (advance_message (mv_id v) p) (d_messages d)"
      by (simp_all add: store_version_tables 1(2))
    show "d_next_uuid d \<le> d_next_uuid ?s"
      using store_version_next [of d2 "e_now env" "mv_id v" cid m p] by (simp add: 1(2))
  qed
  then have "numbered d6" using same_mv_record_event [OF 1(4)] numbered_same_mv by blast
  then have "numbered (upd_version (mv_id v) (\<lambda>r. r\<lparr>mv_capture_event_id := Some (ce_id event)\<rparr>) d6)"
    by (rule numbered_upd_version) simp
  then have "numbered (update_idempotency_result (ic_org ctx) (mi_idempotency_key p) (id_refs cid (msg_id m) (mv_id v))
      (upd_version (mv_id v) (\<lambda>r. r\<lparr>mv_capture_event_id := Some (ce_id event)\<rparr>) d6))"
    by (rule numbered_same_mv [OF same_mv_update_idempotency])
  then have "numbered d9" by (rule numbered_same_mv [OF same_mv_mark_stale [OF 1(5)]])
  then show ?thesis by (rule numbered_same_mv [OF same_mv_request_reconcile [OF 1(6)]])
qed

lemma scalar_one_filter_in: "scalar_one_or_none (filter P xs) = Inr (Some x) \<Longrightarrow> x \<in> set xs \<and> P x"
proof -
  assume a: "scalar_one_or_none (filter P xs) = Inr (Some x)"
  have "filter P xs = [x]" using a by (cases "filter P xs" rule: scalar_one_or_none.cases) auto
  then have "x \<in> set (filter P xs)" by simp
  then show ?thesis by simp
qed

lemma find_message_in:
  assumes "find_message cid p fp nh d = Inr (Some m)"
  shows "m \<in> set (d_messages d) \<and> msg_conversation_id m = cid"
proof -
  define c where "c = sort_key msg_sequence_index (filter (\<lambda>m. msg_conversation_id m = cid
                   \<and> msg_role m = mi_role p \<and> has_version d nh m) (d_messages d))"
  have c: "m \<in> set (d_messages d) \<and> msg_conversation_id m = cid" if "c = m # x" for m x
  proof -
    have "m \<in> set c" using that by simp
    then show ?thesis by (simp add: c_def)
  qed
  show ?thesis
    using assms unfolding find_message_def c_def [symmetric]
    by (auto simp: bindE_eq_Inr split: if_splits list.splits dest: scalar_one_filter_in c)
qed

lemma place_message_in:
  assumes "place_message env ctx cid fp nh p d = Inr (m, d')"
  shows "m \<in> set (d_messages d') \<and> msg_conversation_id m = cid"
  using assms
proof (cases rule: place_message_Inr)
  case (1 b d1)
  then show ?thesis by (simp add: new_message_def)
next
  case (2 b d1 m0)
  have "m0 \<in> set (d_messages d1)" "msg_conversation_id m0 = cid"
    using find_message_in [OF 2(3)] same_mv_resolve_branch [OF 2(1)] by (simp_all add: same_mv_def)
  moreover have "msg_conversation_id (improve_message b p m0) = msg_conversation_id m0"
    using improve_evolves [of m0 b p] by (simp add: message_evolves_def)
  ultimately show ?thesis using 2 by (auto simp: upd_message_def set_upd_where)
qed

lemma numbered_place_message:
  assumes "place_message env ctx cid fp nh p d = Inr (m, d')" "numbered d"
  shows "numbered d'"
  using assms(1)
proof (cases rule: place_message_Inr)
  case (1 b d1)
  have "numbered d1" using same_mv_resolve_branch [OF 1(1)] assms(2) by (rule numbered_same_mv)
  then show ?thesis unfolding 1(5) by (rule numbered_new_message) (simp_all add: 1(3) new_message_def)
next
  case (2 b d1 m0)
  have "numbered d1" using same_mv_resolve_branch [OF 2(1)] assms(2) by (rule numbered_same_mv)
  then show ?thesis unfolding 2(5)
    by (rule numbered_upd_message) (simp add: improve_message_def Let_def)
qed

lemma numbered_known_version:
  assumes "known_version env ctx i p cid m v d = Inr (r, d')" "numbered d"
  shows "numbered d'"
proof -
  let ?rec = "mv_completion_status v = CompletionPartial \<and> mi_completion_status p = CompletionComplete"
  let ?d1 = "if ?rec then upd_message (msg_id m) (\<lambda>r. r\<lparr>msg_completion_status := CompletionComplete\<rparr>)
               (upd_version (mv_id v) (reconcile_version (e_now env)) d) else d"
  let ?d2 = "update_idempotency_result (ic_org ctx) (mi_idempotency_key p) (id_refs cid (msg_id m) (mv_id v)) ?d1"
  have "numbered (upd_version (mv_id v) (reconcile_version (e_now env)) d)"
    using assms(2) by (rule numbered_upd_version) (simp add: reconcile_version_def)
  then have "numbered (upd_message (msg_id m) (\<lambda>r. r\<lparr>msg_completion_status := CompletionComplete\<rparr>)
               (upd_version (mv_id v) (reconcile_version (e_now env)) d))"
    by (rule numbered_upd_message) simp
  then have "numbered ?d1" using assms(2) by simp
  then have "numbered ?d2" by (rule numbered_same_mv [OF same_mv_update_idempotency])
  moreover have "same_mv ?d2 d'"
    using assms(1) by (auto simp: known_version_def Let_def bindE_eq_Inr same_mv_def split: if_splits
        dest!: same_mv_mark_stale)
  ultimately show ?thesis using numbered_same_mv by blast
qed

lemma numbered_ingest_message:
  assumes "ingest_message env ctx p i client d = Inr (r, d')" "numbered d"
  shows "numbered d'"
  using assms(1)
proof (cases rule: ingest_message_Inr)
  case mismatch
  then show ?thesis using assms(2) by simp
next
  case (replay c b d1 ref)
  have "same_mv d d'"
    using same_mv_trans [OF same_mv_get_or_create [OF replay(2)] same_mv_trans [OF same_mv_next same_mv_claim [OF replay(3)]]]
    by simp
  then show ?thesis using assms(2) by (rule numbered_same_mv)
next
  case (stored c b d1 d3 m d4 nh ex)
  have "same_mv d d3"
    using same_mv_trans [OF same_mv_get_or_create [OF stored(2)] same_mv_trans [OF same_mv_next same_mv_claim [OF stored(3)]]]
    by simp
  then have "numbered d3" using assms(2) by (rule numbered_same_mv)
  then have n4: "numbered d4" by (rule numbered_place_message [OF stored(5)])
  show ?thesis
  proof (cases ex)
    case (Some v)
    then have "known_version env ctx i p (cv_id c) m v d4 = Inr (r, d')" using stored(7) by simp
    then show ?thesis using n4 by (rule numbered_known_version)
  next
    case None
    then have a: "append_version env ctx i p client (cv_id c) (sha256_hex (mi_text p)) nh m d4 = Inr (r, d')"
      using stored(7) by simp
    have "distinct (map msg_id (d_messages d4))"
      using place_message_constraints [OF stored(5)] by (simp add: constraints_def messages_ok_def)
    then show ?thesis
      using numbered_append_version [OF a n4] place_message_in [OF stored(5)] by blast
  qed
qed

lemma numbered_ingest_messages:
  "ingest_messages_from env ctx client i ps d = Inr (rs, d') \<Longrightarrow> numbered d \<Longrightarrow> numbered d'"
proof (induction ps arbitrary: i d rs)
  case Nil
  then show ?case by simp
next
  case (Cons p ps)
  from Cons.prems(1) show ?case
  proof (cases rule: ingest_messages_from_Cons)
    case (stored r d1 rs')
    then show ?thesis using Cons.IH Cons.prems(2) numbered_ingest_message by blast
  next
    case (failed e rs')
    then show ?thesis using Cons.IH Cons.prems(2) by blast
  qed
qed

lemma same_mv_capture_event:
  assumes "ingest_capture_event env ctx client i item d = Inr (r, d')"
  shows "same_mv d d'"
proof -
  obtain cid d1 rp d3 where e: "event_conversation env ctx item d = Inr (cid, d1)"
    and k: "claim_idempotency (e_now env) (ic_org ctx) (ei_idempotency_key item) (d_next_uuid d1) (e_now env)
      (JObj []) (d1\<lparr>d_next_uuid := Suc (d_next_uuid d1)\<rparr>) = Inr (rp, d3)"
    and st: "d' = d3 \<or> store_capture_event env ctx client i item cid d3 = Inr (r, d')"
    using assms by (auto simp: ingest_capture_event_def uuid4_def Let_def bindE_eq_Inr split: if_splits)
  have "same_mv d d1"
    using e by (auto simp: event_conversation_def bindE_eq_Inr same_mv_def split: if_splits dest!: same_mv_get_or_create)
  also have "same_mv d1 (d1\<lparr>d_next_uuid := Suc (d_next_uuid d1)\<rparr>)" by simp
  also have "same_mv \<dots> d3" using k by (rule same_mv_claim)
  also have "same_mv d3 d'"
    using st same_mv_trans [OF same_mv_record_event same_mv_update_idempotency]
    by (auto simp: store_capture_event_def bindE_eq_Inr same_mv_def)
  finally show ?thesis .
qed

lemma same_mv_capture_events: "same_mv d (snd (ingest_capture_events_from env ctx client i items d))"
proof (induction items arbitrary: i d)
  case Nil
  then show ?case by (simp add: same_mv_def)
next
  case (Cons item items)
  show ?case
  proof (cases "bindE (ingest_capture_event env ctx client i item d) (\<lambda>(r, d'). bindE (flush d') (\<lambda>d''. Inr (r, d'')))")
    case (Inl e)
    then show ?thesis using Cons [of d "Suc i"] by (simp add: case_prod_beta Let_def)
  next
    case (Inr x)
    obtain r d1 where x: "x = (r, d1)" by fastforce
    then have "same_mv d d1" using Inr by (auto simp: bindE_eq_Inr intro: same_mv_capture_event)
    then show ?thesis using Cons [of d1 "Suc i"] Inr x same_mv_trans
      by (auto simp: case_prod_beta Let_def)
  qed
qed

lemma same_mv_upsert:
  assumes "upsert_conversation env ctx p d = Inr (cid, created, dup, d')"
  shows "same_mv d d'"
proof -
  obtain rp d1 c b d2 where k: "claim_idempotency (e_now env) (ic_org ctx) (cu_idempotency_key p) (d_next_uuid d)
      (e_now env) (JObj []) (d\<lparr>d_next_uuid := Suc (d_next_uuid d)\<rparr>) = Inr (rp, d1)"
    and g: "get_or_create_conversation env ctx (cu_source_conversation_id p)
                  \<lparr>h_title = cu_title p, h_source_url = cu_source_url p,
                   h_model_slug = cu_model_slug p, h_completeness = Some (cu_capture_completeness p),
                   h_source_created_at = cu_source_created_at p,
                   h_source_updated_at = cu_source_updated_at p\<rparr> d1 = Inr (c, b, d2)"
    using assms by (auto simp: upsert_conversation_def uuid4_def Let_def bindE_eq_Inr)
  have "same_mv d (d\<lparr>d_next_uuid := Suc (d_next_uuid d)\<rparr>)" by simp
  also have "same_mv \<dots> d1" using k by (rule same_mv_claim)
  also have "same_mv d1 d2" using g by (rule same_mv_get_or_create)
  also have "same_mv d2 d'"
    using assms k g
    by (auto simp: upsert_conversation_def uuid4_def Let_def bindE_eq_Inr update_idempotency_result_def same_mv_def
        split: if_splits dest!: same_mv_record_event same_mv_mark_stale)
  finally show ?thesis .
qed

lemma same_mv_feedback:
  assumes "ingest_feedback env ctx p d = Inr (f, b, d')"
  shows "same_mv d d'"
  using assms
proof (rule ingest_feedback_Inr)
  fix c b0 d1
  assume g: "get_or_create_conversation env ctx (fi_source_conversation_id p) no_hint d = Inr (c, b0, d1)"
    and d': "d' = d1 \<or> (\<exists>n fs. d_next_uuid d1 \<le> n \<and> d' = d1\<lparr>d_next_uuid := n, d_feedback := fs\<rparr>)"
  have "same_mv d1 d'" using d' by (auto simp: same_mv_def)
  then show ?thesis by (rule same_mv_trans [OF same_mv_get_or_create [OF g]])
qed

definition ingest_init :: "db \<Rightarrow> bool" where
  "ingest_init d \<longleftrightarrow> constraints d \<and> d_messages d = [] \<and> d_versions d = []"

interpretation ingest: inv_system ingest_init ingest_step "\<lambda>d. constraints d \<and> numbered d"
proof
  show "ingest_init s \<Longrightarrow> constraints s \<and> numbered s" for s
    by (simp add: ingest_init_def numbered_def)
  show "ingest_step s t \<Longrightarrow> constraints s \<and> numbered s \<Longrightarrow> constraints t \<and> numbered t" for s t
  proof (induction rule: ingest_step.induct)
    case (is_events env ctx events client d rs d')
    then show ?case
      using same_mv_capture_events [of d env ctx client 0 events] numbered_same_mv
      by (simp add: ingest_capture_events_def)
  qed (auto simp: ingest_message_batch_def intro: numbered_ingest_messages
      numbered_same_mv [OF same_mv_upsert] numbered_same_mv [OF same_mv_feedback])
qed

text \<open>
  C2. In every state the ingest endpoints reach from an empty archive, the versions of a message
  are numbered 1, 2, ... in the order they were stored, its version count is their number and
  its current version is the last of them.
\<close>

theorem version_numbering:
  assumes "reach ingest_init ingest_step d" "m \<in> set (d_messages d)"
  shows "map mv_version_number (versions_of d (msg_id m)) = [1..msg_version_count m]
    \<and> int (length (versions_of d (msg_id m))) = msg_version_count m
    \<and> msg_current_version_id m = (if versions_of d (msg_id m) = [] then None
         else Some (mv_id (last (versions_of d (msg_id m)))))"
proof -
  have "message_numbered d m" using ingest.reach_inv [OF assms(1)] assms(2) by (simp add: numbered_def)
  moreover from this have "length (versions_of d (msg_id m)) = nat (msg_version_count m)"
    unfolding message_numbered_def by (metis length_map length_upto diff_add_cancel add_diff_cancel_right')
  ultimately show ?thesis by (simp add: message_numbered_def)
qed

theorem version_numbering_witness:
  "\<exists>d m. reach ingest_init ingest_step d \<and> m \<in> set (d_messages d) \<and> versions_of d (msg_id m) \<noteq> []
     \<and> map mv_version_number (versions_of d (msg_id m)) = [1..msg_version_count m]"
proof -
  obtain d m where s: "ingest_step empty_db d" and m: "m \<in> set (d_messages d)"
    "map mv_version_number (filter (\<lambda>v. mv_message_id v = msg_id m) (d_versions d)) = [1]"
    by (rule sample_steps)
  have "ingest_init empty_db" by (simp add: ingest_init_def constraints_empty)
  then have r: "reach ingest_init ingest_step d" using s reach.intros by metis
  have "versions_of d (msg_id m) \<noteq> []" using m(2) unfolding versions_of_def by auto
  then show ?thesis using version_numbering [OF r m(1)] r m(1) by blast
qed

end
