(* ===== verification/Audit_Trail.thy ===== *)
theory Audit_Trail
  imports Rows Crypto
begin

text \<open>
  \<open>app/services/audit.py\<close>: the writer of the append-only audit trail.  The row is only added to
  the session; it meets the constraints at the next flush.  The correlation id of the request
  context is an argument.
\<close>

definition FORBIDDEN_DETAIL_KEYS :: "string list" where
  "FORBIDDEN_DETAIL_KEYS = [''text'', ''plain_text'', ''sanitized_html'', ''content'', ''payload'', ''body'',
     ''note'', ''title'']"

definition safe_details :: "(string \<times> json) list \<Rightarrow> (string \<times> json) list" where
  "safe_details details = filter (\<lambda>(k, v). ascii_lower k \<notin> set FORBIDDEN_DETAIL_KEYS) details"

text \<open>The keyword arguments of \<open>record_audit\<close> with their defaults.\<close>

record audit_args =
  au_organization_id :: "uuid option"
  au_actor_user_id :: "uuid option"
  au_actor_email :: "ustr option"
  au_actor_roles :: "string list"
  au_device_id :: "uuid option"
  au_resource_type :: "string option"
  au_resource_id :: "ustr option"
  au_outcome :: string
  au_client_ip :: "ustr option"
  au_user_agent :: "ustr option"
  au_details :: "(string \<times> json) list"

definition no_audit_args :: audit_args where
  "no_audit_args = \<lparr>au_organization_id = None, au_actor_user_id = None, au_actor_email = None,
     au_actor_roles = [], au_device_id = None, au_resource_type = None, au_resource_id = None,
     au_outcome = ''success'', au_client_ip = None, au_user_agent = None, au_details = []\<rparr>"

definition audit_row :: "unidb \<Rightarrow> string option \<Rightarrow> audit_action \<Rightarrow> audit_args \<Rightarrow> uuid \<Rightarrow> audit_event" where
  "audit_row ud correlation action a eid =
     \<lparr>ae_id = eid, ae_organization_id = au_organization_id a, ae_actor_user_id = au_actor_user_id a,
      ae_actor_email = au_actor_email a, ae_actor_roles = au_actor_roles a, ae_device_id = au_device_id a,
      ae_action = action, ae_resource_type = au_resource_type a, ae_resource_id = au_resource_id a,
      ae_outcome = au_outcome a,
      ae_ip_hash = (if truthy (au_client_ip a) then map_option (pseudonymize ud) (au_client_ip a) else None),
      ae_source_ip = au_client_ip a,
      ae_user_agent_hash = (if truthy (au_user_agent a) then map_option (pseudonymize ud) (au_user_agent a)
                            else None),
      ae_correlation_id = correlation, ae_details = safe_details (au_details a)\<rparr>"

definition record_audit ::
  "unidb \<Rightarrow> string option \<Rightarrow> audit_action \<Rightarrow> audit_args \<Rightarrow> db \<Rightarrow> audit_event \<times> db" where
  "record_audit ud correlation action a d =
     (let (eid, d1) = uuid4 d; row = audit_row ud correlation action a eid
      in (row, d1\<lparr>d_audit_events := d_audit_events d1 @ [row]\<rparr>))"

text \<open>The trail grows at its end, no row ever carries a content key, and nothing else changes.\<close>

definition content_free :: "audit_event \<Rightarrow> bool" where
  "content_free r \<longleftrightarrow> list_all (\<lambda>(k, v). ascii_lower k \<notin> set FORBIDDEN_DETAIL_KEYS) (ae_details r)"

lemma audit_row_content_free: "content_free (audit_row ud c action a eid)"
  by (auto simp: content_free_def audit_row_def safe_details_def list_all_iff)

lemma record_audit_eq:
  "snd (record_audit ud c action a d) = d\<lparr>d_next_uuid := Suc (d_next_uuid d),
     d_audit_events := d_audit_events d @ [audit_row ud c action a (d_next_uuid d)]\<rparr>"
  by (simp add: record_audit_def uuid4_def Let_def)

lemma record_audit_result: "fst (record_audit ud c action a d) = audit_row ud c action a (d_next_uuid d)"
  by (simp add: record_audit_def uuid4_def Let_def)

text \<open>
  Whatever details a caller passes, the audit trail keeps every earlier row and gains one
  row that carries none of the content keys (in any letter case), with every other detail kept.
\<close>

theorem audit_append_only:
  "\<exists>r. d_audit_events (snd (record_audit ud c action a d)) = d_audit_events d @ [r] \<and> content_free r
     \<and> ae_outcome r = au_outcome a \<and> ae_action r = action
     \<and> (\<forall>k v. (k, v) \<in> set (ae_details r) \<longleftrightarrow>
          (k, v) \<in> set (au_details a) \<and> ascii_lower k \<notin> set FORBIDDEN_DETAIL_KEYS)"
proof -
  have "content_free (audit_row ud c action a (d_next_uuid d))" by (rule audit_row_content_free)
  moreover have "\<forall>k v. (k, v) \<in> set (ae_details (audit_row ud c action a (d_next_uuid d))) \<longleftrightarrow>
      (k, v) \<in> set (au_details a) \<and> ascii_lower k \<notin> set FORBIDDEN_DETAIL_KEYS"
    by (auto simp: audit_row_def safe_details_def)
  ultimately show ?thesis by (simp add: record_audit_eq audit_row_def)
qed

end
