(* ===== verification/Retention.thy ===== *)
theory Retention
  imports Audit_Trail Config JsonText
begin

text \<open>
  \<open>app/services/retention.py\<close>: legal holds, the soft deletion of expired conversations, the
  physical deletion after the grace period and the pruning of keys.  An UPDATE or DELETE is
  issued at once, so the constraints are met after each of them.
\<close>

definition IDEMPOTENCY_RETENTION_MULTIPLIER :: int where
  "IDEMPOTENCY_RETENTION_MULTIPLIER = 4"

text \<open>\<open>utcnow() - timedelta(days=n)\<close>: Python refuses deltas and instants out of range.\<close>

definition minus_days :: "time \<Rightarrow> int \<Rightarrow> time res" where
  "minus_days now n = (if 999999999 < \<bar>n\<bar> \<or> now - days n < -62135596800000000 \<or> 253402300799999999 < now - days n
     then Inl (OtherException ''OverflowError'') else Inr (now - days n))"

section \<open>Legal hold\<close>

definition new_hold :: "time \<Rightarrow> uuid \<Rightarrow> uuid \<Rightarrow> ustr \<Rightarrow> ustr option \<Rightarrow> uuid option \<Rightarrow> uuid list \<Rightarrow> legal_hold" where
  "new_hold now hid organization_id hold_name matter actor conversation_ids =
     \<lparr>lh_id = hid, lh_created_at = now, lh_organization_id = organization_id, lh_name = hold_name,
      lh_matter_reference = matter, lh_scope_conversation_ids = map uuid_str conversation_ids,
      lh_created_by_user_id = actor, lh_released_at = None, lh_released_by_user_id = None\<rparr>"

definition widen_hold :: "uuid list \<Rightarrow> legal_hold \<Rightarrow> legal_hold" where
  "widen_hold conversation_ids h =
     h\<lparr>lh_scope_conversation_ids := sorted_strings (lh_scope_conversation_ids h @ map uuid_str conversation_ids),
       lh_released_at := None\<rparr>"

definition find_hold :: "uuid \<Rightarrow> ustr \<Rightarrow> db \<Rightarrow> legal_hold option res" where
  "find_hold organization_id hold_name d = scalar_one_or_none
     (filter (\<lambda>h. lh_organization_id h = organization_id \<and> lh_name h = hold_name) (d_legal_holds d))"

definition record_hold ::
  "time \<Rightarrow> uuid \<Rightarrow> uuid list \<Rightarrow> ustr \<Rightarrow> uuid option \<Rightarrow> ustr option \<Rightarrow> db \<Rightarrow> (legal_hold \<times> db) res" where
  "record_hold now organization_id conversation_ids hold_name actor matter d =
     bindE (find_hold organization_id hold_name d) (\<lambda>found.
     case found of
       None \<Rightarrow> (let (hid, d1) = uuid4 d;
                    h = new_hold now hid organization_id hold_name matter actor conversation_ids
                in Inr (h, d1\<lparr>d_legal_holds := d_legal_holds d1 @ [h]\<rparr>))
     | Some h0 \<Rightarrow> let h = widen_hold conversation_ids h0
                  in Inr (h, d\<lparr>d_legal_holds := upd_where (\<lambda>r. lh_id r = lh_id h0) (\<lambda>_. h) (d_legal_holds d)\<rparr>))"

definition hold_conversations :: "uuid \<Rightarrow> uuid list \<Rightarrow> db \<Rightarrow> db res" where
  "hold_conversations organization_id conversation_ids d =
     flush (d\<lparr>d_conversations := upd_where (\<lambda>c. cv_organization_id c = organization_id \<and> cv_id c \<in> set conversation_ids)
                (\<lambda>c. c\<lparr>cv_legal_hold := True\<rparr>) (d_conversations d)\<rparr>)"

definition hold_messages :: "uuid list \<Rightarrow> db \<Rightarrow> db res" where
  "hold_messages conversation_ids d =
     flush (d\<lparr>d_messages := upd_where (\<lambda>m. msg_conversation_id m \<in> set conversation_ids)
                (\<lambda>m. m\<lparr>msg_legal_hold := True\<rparr>) (d_messages d)\<rparr>)"

definition apply_legal_hold ::
  "unidb \<Rightarrow> string option \<Rightarrow> time \<Rightarrow> uuid \<Rightarrow> uuid list \<Rightarrow> ustr \<Rightarrow> uuid option \<Rightarrow> ustr option \<Rightarrow> db
     \<Rightarrow> (legal_hold \<times> db) res" where
  "apply_legal_hold ud corr now organization_id conversation_ids hold_name actor matter d =
     bindE (record_hold now organization_id conversation_ids hold_name actor matter d) (\<lambda>(h, d1).
     bindE (if conversation_ids \<noteq> []
            then bindE (hold_conversations organization_id conversation_ids d1) (hold_messages conversation_ids)
            else Inr d1) (\<lambda>d2.
     Inr (h, snd (record_audit ud corr AuditLegalHoldSet
       (no_audit_args\<lparr>au_organization_id := Some organization_id, au_actor_user_id := actor,
          au_resource_type := Some ''legal_hold'', au_resource_id := Some hold_name,
          au_details := [(''conversation_count'', JInt (int (length conversation_ids)))]\<rparr>) d2))))"

section \<open>Soft deletion\<close>

definition expired :: "retention_policy \<Rightarrow> time \<Rightarrow> conversation \<Rightarrow> bool" where
  "expired policy cutoff c \<longleftrightarrow> cv_organization_id c = rp_organization_id policy \<and> cv_deleted_at c = None
     \<and> \<not> cv_legal_hold c \<and> cv_created_at c < cutoff"

definition mark_deleted :: "time \<Rightarrow> ustr \<Rightarrow> uuid set \<Rightarrow> db \<Rightarrow> db" where
  "mark_deleted now reason ids d =
     d\<lparr>d_conversations := upd_where (\<lambda>c. cv_id c \<in> ids \<and> \<not> cv_legal_hold c)
           (\<lambda>c. c\<lparr>cv_deleted_at := Some now, cv_deletion_reason := Some reason\<rparr>) (d_conversations d),
       d_messages := upd_where (\<lambda>m. msg_conversation_id m \<in> ids \<and> \<not> msg_legal_hold m)
           (\<lambda>m. m\<lparr>msg_deleted_at := Some now, msg_deletion_reason := Some reason\<rparr>) (d_messages d),
       d_versions := upd_where (\<lambda>v. mv_conversation_id v \<in> ids \<and> \<not> mv_legal_hold v)
           (\<lambda>v. v\<lparr>mv_deleted_at := Some now, mv_deletion_reason := Some reason\<rparr>) (d_versions d)\<rparr>"

definition soft_delete_audit :: "retention_policy \<Rightarrow> nat \<Rightarrow> audit_args" where
  "soft_delete_audit policy n = no_audit_args\<lparr>au_organization_id := Some (rp_organization_id policy),
     au_resource_type := Some ''conversation'', au_resource_id := Some (lit (''batch:'' @ dec_nat n)),
     au_details := [(''policy'', JText (rp_name policy)), (''count'', JInt (int n)),
       (''retain_days'', JInt (rp_retain_days policy))]\<rparr>"

definition touch_policy :: "time \<Rightarrow> retention_policy \<Rightarrow> db \<Rightarrow> db" where
  "touch_policy now policy d = d\<lparr>d_retention_policies := upd_where (\<lambda>p. rp_id p = rp_id policy)
     (\<lambda>p. p\<lparr>rp_last_run_at := Some now\<rparr>) (d_retention_policies d)\<rparr>"

definition soft_delete_ids ::
  "unidb \<Rightarrow> string option \<Rightarrow> time \<Rightarrow> retention_policy \<Rightarrow> uuid list \<Rightarrow> db \<Rightarrow> db res" where
  "soft_delete_ids ud corr now policy ids d =
     bindE (flush (mark_deleted now (lit ''retention_policy:'' @ rp_name policy) (set ids) d)) (\<lambda>d1.
       Inr (touch_policy now policy (snd (record_audit ud corr AuditRetentionSoftDelete
         (soft_delete_audit policy (length ids)) d1))))"

definition soft_delete_expired ::
  "unidb \<Rightarrow> string option \<Rightarrow> time \<Rightarrow> retention_policy \<Rightarrow> nat \<Rightarrow> db \<Rightarrow> (nat \<times> db) res" where
  "soft_delete_expired ud corr now policy limit d =
     bindE (minus_days now (rp_retain_days policy)) (\<lambda>cutoff.
     let ids = take limit (map cv_id (filter (expired policy cutoff) (d_conversations d)))
     in if ids = [] then Inr (0, d)
        else bindE (soft_delete_ids ud corr now policy ids d) (\<lambda>d1. Inr (length ids, d1)))"

section \<open>Physical deletion\<close>

text \<open>DELETE FROM conversations with the foreign keys' cascades and SET NULLs.\<close>

definition gone_messages :: "uuid set \<Rightarrow> db \<Rightarrow> uuid set" where
  "gone_messages ids d = msg_id ` set (filter (\<lambda>m. msg_conversation_id m \<in> ids) (d_messages d))"

definition gone_versions :: "uuid set \<Rightarrow> db \<Rightarrow> uuid set" where
  "gone_versions ids d = mv_id ` set (filter (\<lambda>v. mv_conversation_id v \<in> ids
     \<or> mv_message_id v \<in> gone_messages ids d) (d_versions d))"

definition gone_branches :: "uuid set \<Rightarrow> db \<Rightarrow> uuid set" where
  "gone_branches ids d = br_id ` set (filter (\<lambda>b. br_conversation_id b \<in> ids) (d_branches d))"

definition gone_attachments :: "uuid set \<Rightarrow> db \<Rightarrow> uuid set" where
  "gone_attachments ids d = at_id ` set (filter (\<lambda>a. at_conversation_id a \<in> ids) (d_attachments d))"

definition unless_in :: "uuid set \<Rightarrow> uuid option \<Rightarrow> uuid option" where
  "unless_in gone r = (case r of Some k \<Rightarrow> if k \<in> gone then None else Some k | None \<Rightarrow> None)"

definition delete_conversations :: "uuid set \<Rightarrow> db \<Rightarrow> db" where
  "delete_conversations ids d =
     (let gm = gone_messages ids d; gv = gone_versions ids d; gb = gone_branches ids d;
          ga = gone_attachments ids d
      in d\<lparr>d_conversations := del_where (\<lambda>c. cv_id c \<in> ids) (d_conversations d),
           d_branches := map (\<lambda>b. b\<lparr>br_parent_branch_id := unless_in gb (br_parent_branch_id b)\<rparr>)
             (del_where (\<lambda>b. br_conversation_id b \<in> ids) (d_branches d)),
           d_messages := map (\<lambda>m. m\<lparr>msg_branch_id := unless_in gb (msg_branch_id m),
               msg_parent_message_id := unless_in gm (msg_parent_message_id m)\<rparr>)
             (del_where (\<lambda>m. msg_conversation_id m \<in> ids) (d_messages d)),
           d_versions := del_where (\<lambda>v. mv_conversation_id v \<in> ids \<or> mv_message_id v \<in> gm) (d_versions d),
           d_parts := del_where (\<lambda>p. mp_conversation_id p \<in> ids \<or> mp_message_version_id p \<in> gv) (d_parts d),
           d_attachments := del_where (\<lambda>a. at_conversation_id a \<in> ids) (d_attachments d),
           d_message_attachments := map (\<lambda>l. l\<lparr>ma_message_version_id := unless_in gv (ma_message_version_id l)\<rparr>)
             (del_where (\<lambda>l. ma_conversation_id l \<in> ids \<or> ma_message_id l \<in> gm \<or> ma_attachment_id l \<in> ga)
               (d_message_attachments d)),
           d_feedback := map (\<lambda>f. f\<lparr>fb_message_version_id := unless_in gv (fb_message_version_id f)\<rparr>)
             (del_where (\<lambda>f. fb_conversation_id f \<in> ids \<or> (\<exists>k\<in>gm. fb_message_id f = Some k)) (d_feedback d)),
           d_training_approvals := del_where (\<lambda>t. ta_conversation_id t \<in> ids \<or> (\<exists>k\<in>gm. ta_message_id t = Some k))
             (d_training_approvals d)\<rparr>)"

definition grace_expired :: "retention_policy \<Rightarrow> time \<Rightarrow> conversation \<Rightarrow> bool" where
  "grace_expired policy cutoff c \<longleftrightarrow> cv_organization_id c = rp_organization_id policy
     \<and> (case cv_deleted_at c of None \<Rightarrow> False | Some t \<Rightarrow> t < cutoff) \<and> \<not> cv_legal_hold c"

definition hard_delete_audit :: "retention_policy \<Rightarrow> nat \<Rightarrow> audit_args" where
  "hard_delete_audit policy n = no_audit_args\<lparr>au_organization_id := Some (rp_organization_id policy),
     au_resource_type := Some ''conversation'', au_resource_id := Some (lit (''batch:'' @ dec_nat n)),
     au_details := [(''policy'', JText (rp_name policy)), (''count'', JInt (int n)),
       (''grace_days'', JInt (rp_grace_days policy))]\<rparr>"

definition hard_delete_ids ::
  "unidb \<Rightarrow> string option \<Rightarrow> retention_policy \<Rightarrow> uuid list \<Rightarrow> db \<Rightarrow> db res" where
  "hard_delete_ids ud corr policy ids d =
     bindE (flush (delete_conversations
         (cv_id ` set (filter (\<lambda>c. cv_id c \<in> set ids \<and> \<not> cv_legal_hold c) (d_conversations d))) d)) (\<lambda>d1.
       Inr (snd (record_audit ud corr AuditRetentionHardDelete (hard_delete_audit policy (length ids)) d1)))"

definition hard_delete_grace_expired ::
  "unidb \<Rightarrow> string option \<Rightarrow> time \<Rightarrow> retention_policy \<Rightarrow> nat \<Rightarrow> db \<Rightarrow> (nat \<times> db) res" where
  "hard_delete_grace_expired ud corr now policy limit d =
     (if rp_action policy \<noteq> RetentionHardDelete then Inr (0, d)
      else bindE (minus_days now (rp_grace_days policy)) (\<lambda>cutoff.
      let ids = take limit (map cv_id (filter (grace_expired policy cutoff) (d_conversations d)))
      in if ids = [] then Inr (0, d)
         else bindE (hard_delete_ids ud corr policy ids d) (\<lambda>d1. Inr (length ids, d1))))"

section \<open>Keys, default policy, summary\<close>

definition prune_idempotency_keys :: "time \<Rightarrow> settings \<Rightarrow> db \<Rightarrow> (nat \<times> db) res" where
  "prune_idempotency_keys now s d =
     bindE (minus_days now (max (st_offline_queue_max_age_days s * IDEMPOTENCY_RETENTION_MULTIPLIER) 30)) (\<lambda>cutoff.
       Inr (length (filter (\<lambda>k. ik_created_at k < cutoff) (d_idempotency_keys d))
            + length (filter (\<lambda>k. sk_created_at k < cutoff) (d_source_event_keys d)),
          d\<lparr>d_idempotency_keys := del_where (\<lambda>k. ik_created_at k < cutoff) (d_idempotency_keys d),
            d_source_event_keys := del_where (\<lambda>k. sk_created_at k < cutoff) (d_source_event_keys d)\<rparr>))"

definition ensure_default_policy :: "time \<Rightarrow> uuid \<Rightarrow> settings \<Rightarrow> db \<Rightarrow> (retention_policy \<times> db) res" where
  "ensure_default_policy now organization_id s d =
     bindE (scalar_one_or_none (filter (\<lambda>p. rp_organization_id p = organization_id \<and> rp_is_default p)
              (d_retention_policies d))) (\<lambda>found.
     case found of
       Some p \<Rightarrow> Inr (p, d)
     | None \<Rightarrow>
         (let (pid, d1) = uuid4 d;
              p = \<lparr>rp_id = pid, rp_created_at = now, rp_organization_id = organization_id,
                rp_name = lit ''default'',
                rp_description = Some (lit ''Default retention: soft delete after RAW_RETENTION_DAYS, no automatic purge.''),
                rp_applies_to = ''conversations'', rp_retain_days = st_raw_retention_days s, rp_grace_days = 30,
                rp_action = RetentionSoftDelete, rp_is_default = True, rp_is_active = True,
                rp_legal_hold_exempt = False, rp_last_run_at = None\<rparr>
          in bindE (flush (d1\<lparr>d_retention_policies := d_retention_policies d1 @ [p]\<rparr>)) (\<lambda>d2. Inr (p, d2))))"

definition retention_summary :: "db \<Rightarrow> (string \<times> json) list" where
  "retention_summary d =
     [(''soft_deleted_conversations'', JInt (int (length (filter (\<lambda>c. cv_deleted_at c \<noteq> None) (d_conversations d))))),
      (''legal_hold_conversations'', JInt (int (length (filter cv_legal_hold (d_conversations d)))))]"

end
