(* ===== verification/Retention_Hold.thy ===== *)
theory Retention_Hold
  imports Retention
begin

text \<open>
  What retention may and may not do: the requests as a step relation, the conversations under
  legal hold, the spec of the two deletions and the consequences of the constraint that forbids
  a hold on a deleted row.
\<close>

inductive retention_step :: "db \<Rightarrow> db \<Rightarrow> bool" where
  rt_hold: "apply_legal_hold ud corr now oid cids name actor matter d = Inr (h, d') \<Longrightarrow> retention_step d d'"
| rt_soft: "soft_delete_expired ud corr now policy limit d = Inr (n, d') \<Longrightarrow> retention_step d d'"
| rt_hard: "hard_delete_grace_expired ud corr now policy limit d = Inr (n, d') \<Longrightarrow> retention_step d d'"
| rt_prune: "prune_idempotency_keys now s d = Inr (n, d') \<Longrightarrow> retention_step d d'"
| rt_default: "ensure_default_policy now oid s d = Inr (p, d') \<Longrightarrow> retention_step d d'"

section \<open>Held conversations\<close>

text \<open>The conversation is under hold, and its versions belong to its own messages.\<close>

definition held :: "uuid \<Rightarrow> db \<Rightarrow> bool" where
  "held cid d \<longleftrightarrow> distinct (map cv_id (d_conversations d))
     \<and> (\<exists>c\<in>set (d_conversations d). cv_id c = cid \<and> cv_legal_hold c)"

definition linked :: "uuid \<Rightarrow> db \<Rightarrow> bool" where
  "linked cid d \<longleftrightarrow> (\<forall>v\<in>set (d_versions d). mv_conversation_id v = cid \<longrightarrow>
     (\<forall>m\<in>set (d_messages d). msg_id m = mv_message_id v \<longrightarrow> msg_conversation_id m = cid))"

definition same_message :: "message \<Rightarrow> message \<Rightarrow> bool" where
  "same_message m m' \<longleftrightarrow> (\<exists>h b p. m' = m\<lparr>msg_legal_hold := h, msg_branch_id := b, msg_parent_message_id := p\<rparr>)"

definition intact :: "uuid \<Rightarrow> db \<Rightarrow> db \<Rightarrow> bool" where
  "intact cid d d' \<longleftrightarrow>
     (\<forall>c\<in>set (d_conversations d). cv_id c = cid \<longrightarrow> c \<in> set (d_conversations d'))
     \<and> (\<forall>m\<in>set (d_messages d). msg_conversation_id m = cid \<longrightarrow> (\<exists>m'\<in>set (d_messages d'). same_message m m'))
     \<and> (\<forall>v\<in>set (d_versions d). mv_conversation_id v = cid \<longrightarrow> v \<in> set (d_versions d'))
     \<and> (\<forall>a\<in>set (d_attachments d). at_conversation_id a = cid \<longrightarrow> a \<in> set (d_attachments d'))"

text \<open>No row appears: what is there afterwards was there before, under the same links.\<close>

definition shrinks :: "uuid \<Rightarrow> db \<Rightarrow> db \<Rightarrow> bool" where
  "shrinks cid d d' \<longleftrightarrow>
     (\<forall>m'\<in>set (d_messages d'). \<exists>m\<in>set (d_messages d).
        msg_id m = msg_id m' \<and> msg_conversation_id m = msg_conversation_id m')
     \<and> (\<forall>v'\<in>set (d_versions d'). \<exists>v\<in>set (d_versions d).
        mv_message_id v = mv_message_id v' \<and> mv_conversation_id v = mv_conversation_id v')"

lemma same_message_refl [simp]: "same_message m m"
  unfolding same_message_def
  by (rule exI [of _ "msg_legal_hold m"], rule exI [of _ "msg_branch_id m"],
      rule exI [of _ "msg_parent_message_id m"]) simp

lemma same_message_trans: "same_message a b \<Longrightarrow> same_message b c \<Longrightarrow> same_message a c"
  unfolding same_message_def by (elim exE) (simp, blast)

lemma same_message_conv: "same_message a b \<Longrightarrow> msg_conversation_id b = msg_conversation_id a"
  by (auto simp: same_message_def)

lemma intact_same:
  "d_conversations d' = d_conversations d \<Longrightarrow> d_messages d' = d_messages d \<Longrightarrow> d_versions d' = d_versions d
    \<Longrightarrow> d_attachments d' = d_attachments d \<Longrightarrow> intact cid d d' \<and> shrinks cid d d'"
  by (auto simp: intact_def shrinks_def intro: same_message_refl)

lemma intact_trans:
  assumes "intact cid a b" "intact cid b c"
  shows "intact cid a c"
  unfolding intact_def
proof (intro conjI ballI impI)
  fix m assume m: "m \<in> set (d_messages a)" "msg_conversation_id m = cid"
  obtain m1 where m1: "m1 \<in> set (d_messages b)" "same_message m m1"
    using assms(1) m by (auto simp: intact_def)
  then have "msg_conversation_id m1 = cid" using m(2) by (simp add: same_message_conv)
  then obtain m2 where "m2 \<in> set (d_messages c)" "same_message m1 m2"
    using assms(2) m1(1) by (auto simp: intact_def)
  then show "\<exists>m'\<in>set (d_messages c). same_message m m'" using m1(2) same_message_trans by blast
qed (use assms in \<open>auto simp: intact_def\<close>)

lemma linked_shrinks: "shrinks cid d d' \<Longrightarrow> linked cid d \<Longrightarrow> linked cid d'"
  unfolding shrinks_def linked_def by metis

text \<open>The conversations that a deletion picks are not the held one.\<close>

lemma held_row:
  assumes "held cid d" "c \<in> set (d_conversations d)" "cv_id c = cid"
  shows "cv_legal_hold c"
proof -
  obtain c' where c': "c' \<in> set (d_conversations d)" "cv_id c' = cid" "cv_legal_hold c'"
    and u: "distinct (map cv_id (d_conversations d))"
    using assms(1) by (auto simp: held_def)
  have "c' = c" by (rule distinct_map_eq [OF u c'(1) assms(2)]) (simp add: c'(2) assms(3))
  then show ?thesis using c'(3) by simp
qed

lemma held_not_picked:
  assumes "held cid d" "\<And>c. p c \<Longrightarrow> \<not> cv_legal_hold c"
  shows "cid \<notin> set (take k (map cv_id (filter p (d_conversations d))))"
proof
  assume "cid \<in> set (take k (map cv_id (filter p (d_conversations d))))"
  then have "cid \<in> set (map cv_id (filter p (d_conversations d)))" by (rule in_set_takeD)
  then obtain c where "c \<in> set (d_conversations d)" "cv_id c = cid" "\<not> cv_legal_hold c"
    using assms(2) by auto
  then show False using held_row [OF assms(1)] by blast
qed

lemma mark_deleted_intact:
  assumes "cid \<notin> ids"
  shows "intact cid d (mark_deleted now reason ids d) \<and> shrinks cid d (mark_deleted now reason ids d)"
proof
  have "m \<in> set (d_messages (mark_deleted now reason ids d))" if "m \<in> set (d_messages d)" "msg_conversation_id m = cid" for m
    using in_upd_where [OF that(1), of "\<lambda>m. msg_conversation_id m \<in> ids \<and> \<not> msg_legal_hold m"] that(2) assms
    by (simp add: mark_deleted_def)
  moreover have "c \<in> set (d_conversations (mark_deleted now reason ids d))" if "c \<in> set (d_conversations d)" "cv_id c = cid" for c
    using in_upd_where [OF that(1), of "\<lambda>c. cv_id c \<in> ids \<and> \<not> cv_legal_hold c"] that(2) assms
    by (simp add: mark_deleted_def)
  moreover have "v \<in> set (d_versions (mark_deleted now reason ids d))" if "v \<in> set (d_versions d)" "mv_conversation_id v = cid" for v
    using in_upd_where [OF that(1), of "\<lambda>v. mv_conversation_id v \<in> ids \<and> \<not> mv_legal_hold v"] that(2) assms
    by (simp add: mark_deleted_def)
  ultimately show "intact cid d (mark_deleted now reason ids d)"
    unfolding intact_def by (auto simp: mark_deleted_def intro: same_message_refl)
  show "shrinks cid d (mark_deleted now reason ids d)"
    unfolding shrinks_def mark_deleted_def by (auto elim!: in_upd_whereE split: if_splits)
qed

lemma delete_intact:
  assumes "cid \<notin> ids" "linked cid d"
  shows "intact cid d (delete_conversations ids d) \<and> shrinks cid d (delete_conversations ids d)"
proof
  have "mv_message_id v \<notin> gone_messages ids d" if "v \<in> set (d_versions d)" "mv_conversation_id v = cid" for v
    using that assms unfolding gone_messages_def linked_def by auto
  moreover have "same_message m (m\<lparr>msg_branch_id := b, msg_parent_message_id := p\<rparr>)" for m b p
    unfolding same_message_def by (rule exI [of _ "msg_legal_hold m"], rule exI [of _ b], rule exI [of _ p]) simp
  ultimately show "intact cid d (delete_conversations ids d)"
    using assms(1) unfolding intact_def by (auto simp: delete_conversations_def Let_def)
  show "shrinks cid d (delete_conversations ids d)"
    unfolding shrinks_def by (auto simp: delete_conversations_def Let_def)
qed

lemma record_hold_tables:
  assumes "record_hold now oid cids name actor matter d = Inr (h, d')"
  shows "d_conversations d' = d_conversations d \<and> d_messages d' = d_messages d \<and> d_versions d' = d_versions d
    \<and> d_attachments d' = d_attachments d"
  using assms by (auto simp: record_hold_def bindE_eq_Inr uuid4_def Let_def split: option.splits)

lemma apply_legal_hold_Inr:
  assumes "apply_legal_hold ud corr now oid cids name actor matter d = Inr (h, d')"
  obtains d1 d3 a where "record_hold now oid cids name actor matter d = Inr (h, d1)"
    "(if cids \<noteq> [] then bindE (hold_conversations oid cids d1) (hold_messages cids) else Inr d1) = Inr d3"
    "d' = snd (record_audit ud corr AuditLegalHoldSet a d3)"
  using assms unfolding apply_legal_hold_def by (auto simp: bindE_eq_Inr)

lemma intact_audit:
  "intact cid d d1 \<and> shrinks cid d d1
    \<Longrightarrow> intact cid d (snd (record_audit ud c k a d1)) \<and> shrinks cid d (snd (record_audit ud c k a d1))"
  by (simp add: intact_def shrinks_def record_audit_eq)

lemma same_message_hold: "same_message m (if b then m\<lparr>msg_legal_hold := True\<rparr> else m)"
proof -
  have "same_message m (m\<lparr>msg_legal_hold := True\<rparr>)"
    unfolding same_message_def by (rule exI [of _ True], rule exI [of _ "msg_branch_id m"],
        rule exI [of _ "msg_parent_message_id m"]) simp
  then show ?thesis by simp
qed

lemma held_rows_intact:
  assumes "held cid d"
    and d3: "d_conversations d3 = upd_where (\<lambda>c. cv_organization_id c = oid \<and> cv_id c \<in> set cids)
        (\<lambda>c. c\<lparr>cv_legal_hold := True\<rparr>) (d_conversations d)"
      "d_messages d3 = upd_where (\<lambda>m. msg_conversation_id m \<in> set cids) (\<lambda>m. m\<lparr>msg_legal_hold := True\<rparr>) (d_messages d)"
      "d_versions d3 = d_versions d" "d_attachments d3 = d_attachments d"
  shows "intact cid d d3 \<and> shrinks cid d d3"
proof
  have c: "c \<in> set (d_conversations d3)" if "c \<in> set (d_conversations d)" "cv_id c = cid" for c
  proof -
    have "cv_legal_hold c" by (rule held_row [OF assms(1) that])
    then have "c\<lparr>cv_legal_hold := True\<rparr> = c" by (cases c) simp
    then show ?thesis using in_upd_where [OF that(1), of "\<lambda>c. cv_organization_id c = oid \<and> cv_id c \<in> set cids"
        "\<lambda>c. c\<lparr>cv_legal_hold := True\<rparr>"] by (auto simp: d3(1) split: if_splits)
  qed
  have m: "\<exists>m'\<in>set (d_messages d3). same_message m m'" if "m \<in> set (d_messages d)" for m
  proof
    show "same_message m (if msg_conversation_id m \<in> set cids then m\<lparr>msg_legal_hold := True\<rparr> else m)"
      by (rule same_message_hold)
    show "(if msg_conversation_id m \<in> set cids then m\<lparr>msg_legal_hold := True\<rparr> else m) \<in> set (d_messages d3)"
      unfolding d3(2) by (rule in_upd_where [OF that])
  qed
  show "intact cid d d3" unfolding intact_def d3(3,4) using c m by blast
  have "\<exists>m\<in>set (d_messages d). msg_id m = msg_id m' \<and> msg_conversation_id m = msg_conversation_id m'"
    if "m' \<in> set (d_messages d3)" for m'
    using that unfolding d3(2) by (auto elim!: in_upd_whereE)
  then show "shrinks cid d d3" unfolding shrinks_def d3(3) by blast
qed

lemma hold_intact:
  assumes "held cid d" "apply_legal_hold ud corr now oid cids name actor matter d = Inr (h, d')"
  shows "intact cid d d' \<and> shrinks cid d d'"
  using assms(2)
proof (rule apply_legal_hold_Inr)
  fix d1 d3 a
  assume r: "record_hold now oid cids name actor matter d = Inr (h, d1)"
    and b: "(if cids \<noteq> [] then bindE (hold_conversations oid cids d1) (hold_messages cids) else Inr d1) = Inr d3"
    and d': "d' = snd (record_audit ud corr AuditLegalHoldSet a d3)"
  note t = record_hold_tables [OF r]
  have "intact cid d d3 \<and> shrinks cid d d3"
  proof (cases "cids = []")
    case True
    then show ?thesis using b t intact_same [of d3 d] by simp
  next
    case False
    then obtain d2 where h: "hold_conversations oid cids d1 = Inr d2" "hold_messages cids d2 = Inr d3"
      using b by (auto simp: bindE_eq_Inr)
    show ?thesis
      by (rule held_rows_intact [OF assms(1), of _ oid cids])
        (use h t in \<open>simp_all add: hold_conversations_def hold_messages_def\<close>)
  qed
  then show ?thesis unfolding d' by (rule intact_audit)
qed

lemma soft_delete_Inr:
  assumes "soft_delete_expired ud corr now policy limit d = Inr (n, d')"
  obtains cutoff ids where "minus_days now (rp_retain_days policy) = Inr cutoff"
    "ids = take limit (map cv_id (filter (expired policy cutoff) (d_conversations d)))" "n = length ids"
    "(if ids = [] then Inr d else soft_delete_ids ud corr now policy ids d) = Inr d'"
  using assms unfolding soft_delete_expired_def
  by (auto simp: bindE_eq_Inr Let_def split: if_splits)

lemma hard_delete_Inr:
  assumes "hard_delete_grace_expired ud corr now policy limit d = Inr (n, d')"
  obtains "d' = d" "n = 0" "rp_action policy \<noteq> RetentionHardDelete"
  | cutoff ids where "rp_action policy = RetentionHardDelete" "minus_days now (rp_grace_days policy) = Inr cutoff"
    "ids = take limit (map cv_id (filter (grace_expired policy cutoff) (d_conversations d)))" "n = length ids"
    "(if ids = [] then Inr d else hard_delete_ids ud corr policy ids d) = Inr d'"
  using assms unfolding hard_delete_grace_expired_def
  by (auto simp: bindE_eq_Inr Let_def split: if_splits)

lemma soft_delete_intact:
  assumes "held cid d" "soft_delete_expired ud corr now policy limit d = Inr (n, d')"
  shows "intact cid d d' \<and> shrinks cid d d'"
  using assms(2)
proof (rule soft_delete_Inr)
  fix cutoff ids
  assume i: "ids = take limit (map cv_id (filter (expired policy cutoff) (d_conversations d)))"
    and r: "(if ids = [] then Inr d else soft_delete_ids ud corr now policy ids d) = Inr d'"
  have c: "cid \<notin> set ids" unfolding i by (rule held_not_picked [OF assms(1)]) (simp add: expired_def)
  show ?thesis
  proof (cases "ids = []")
    case True
    then show ?thesis using r intact_same [of d d] by simp
  next
    case False
    then obtain a reason where d': "d' = touch_policy now policy (snd (record_audit ud corr AuditRetentionSoftDelete a
        (mark_deleted now reason (set ids) d)))"
      using r by (auto simp: soft_delete_ids_def bindE_eq_Inr)
    show ?thesis using intact_audit [OF mark_deleted_intact [OF c]]
      by (simp add: d' touch_policy_def intact_def shrinks_def)
  qed
qed

lemma hard_delete_intact:
  assumes "held cid d" "linked cid d" "hard_delete_grace_expired ud corr now policy limit d = Inr (n, d')"
  shows "intact cid d d' \<and> shrinks cid d d'"
  using assms(3)
proof (rule hard_delete_Inr)
  show "d' = d \<Longrightarrow> intact cid d d' \<and> shrinks cid d d'" using intact_same [of d d] by simp
next
  fix cutoff ids
  assume i: "ids = take limit (map cv_id (filter (grace_expired policy cutoff) (d_conversations d)))"
    and r: "(if ids = [] then Inr d else hard_delete_ids ud corr policy ids d) = Inr d'"
  have c: "cid \<notin> set ids" unfolding i by (rule held_not_picked [OF assms(1)]) (simp add: grace_expired_def)
  show "intact cid d d' \<and> shrinks cid d d'"
  proof (cases "ids = []")
    case True
    then show ?thesis using r intact_same [of d d] by simp
  next
    case False
    let ?v = "cv_id ` set (filter (\<lambda>c. cv_id c \<in> set ids \<and> \<not> cv_legal_hold c) (d_conversations d))"
    obtain a where d': "d' = snd (record_audit ud corr AuditRetentionHardDelete a (delete_conversations ?v d))"
      using r False by (auto simp: hard_delete_ids_def bindE_eq_Inr)
    have "cid \<notin> ?v" using c by auto
    then show ?thesis unfolding d' by (rule intact_audit [OF delete_intact [OF _ assms(2)]])
  qed
qed

lemma distinct_ids_step:
  assumes "retention_step d d'" "distinct (map cv_id (d_conversations d))"
  shows "distinct (map cv_id (d_conversations d'))"
  using assms
proof (induction rule: retention_step.induct)
  case (rt_hold ud corr now oid cids name actor matter d h d')
  from rt_hold(1) show ?case
  proof (rule apply_legal_hold_Inr)
    fix d1 d3 a
    assume r: "record_hold now oid cids name actor matter d = Inr (h, d1)"
      and b: "(if cids \<noteq> [] then bindE (hold_conversations oid cids d1) (hold_messages cids) else Inr d1) = Inr d3"
      and d': "d' = snd (record_audit ud corr AuditLegalHoldSet a d3)"
    have "map cv_id (d_conversations d3) = map cv_id (d_conversations d)"
      using b record_hold_tables [OF r]
      by (auto simp: hold_conversations_def hold_messages_def bindE_eq_Inr map_upd_where_same split: if_splits)
    then show ?thesis using rt_hold(2) by (simp add: d' record_audit_eq)
  qed
next
  case (rt_soft ud corr now policy limit d n d')
  from rt_soft(1) show ?case
  proof (rule soft_delete_Inr)
    fix cutoff ids
    assume r: "(if ids = [] then Inr d else soft_delete_ids ud corr now policy ids d) = Inr d'"
    have "map cv_id (d_conversations d') = map cv_id (d_conversations d)"
      using r by (auto simp: soft_delete_ids_def bindE_eq_Inr touch_policy_def record_audit_eq mark_deleted_def
          map_upd_where_same split: if_splits)
    then show ?thesis using rt_soft(2) by simp
  qed
next
  case (rt_hard ud corr now policy limit d n d')
  from rt_hard(1) show ?case
  proof (rule hard_delete_Inr)
    fix cutoff ids
    assume r: "(if ids = [] then Inr d else hard_delete_ids ud corr policy ids d) = Inr d'"
    then show ?thesis using rt_hard(2)
      by (auto simp: hard_delete_ids_def bindE_eq_Inr record_audit_eq delete_conversations_def Let_def
          del_where_def distinct_map_filterI split: if_splits)
  qed (use rt_hard(2) in simp)
next
  case (rt_prune now s d n d')
  then show ?case by (auto simp: prune_idempotency_keys_def bindE_eq_Inr)
next
  case (rt_default now oid s d p d')
  then show ?case by (auto simp: ensure_default_policy_def bindE_eq_Inr uuid4_def Let_def split: option.splits)
qed

lemma step_intact:
  assumes "retention_step d d'" "held cid d" "linked cid d"
  shows "intact cid d d' \<and> shrinks cid d d'"
  using assms
proof (induction rule: retention_step.induct)
  case (rt_prune now s d n d')
  show ?case by (rule intact_same) (use rt_prune(1) in \<open>auto simp: prune_idempotency_keys_def bindE_eq_Inr\<close>)
next
  case (rt_default now oid s d p d')
  show ?case by (rule intact_same)
    (use rt_default(1) in \<open>auto simp: ensure_default_policy_def bindE_eq_Inr uuid4_def Let_def split: option.splits\<close>)
qed ((rule hold_intact soft_delete_intact hard_delete_intact; assumption)+)

lemma step_held:
  assumes "retention_step d d'" "held cid d" "linked cid d"
  shows "held cid d' \<and> linked cid d'"
proof
  note s = step_intact [OF assms]
  show "linked cid d'" using s assms(3) linked_shrinks by blast
  have "distinct (map cv_id (d_conversations d'))"
    using distinct_ids_step [OF assms(1)] assms(2) by (simp add: held_def)
  then show "held cid d'" using s assms(2) unfolding held_def intact_def by blast
qed


section \<open>A hold on a deleted conversation\<close>

text \<open>
  A legal hold cannot be placed on a conversation that is already soft deleted: the
  constraint refuses the row and the whole request fails, so the other conversations of the
  request are not held either, and the deleted one goes on to its physical deletion.
\<close>

theorem hold_on_deleted_fails:
  assumes "c \<in> set (d_conversations d)" "cv_id c \<in> set cids" "cv_organization_id c = oid" "cv_deleted_at c \<noteq> None"
    and "legal_holds_ok (d_legal_holds d)"
  shows "apply_legal_hold ud corr now oid cids name actor matter d = Inl IntegrityError"
proof -
  let ?p = "\<lambda>h. lh_organization_id h = oid \<and> lh_name h = name"
  have "distinct (map (\<lambda>h. (lh_organization_id h, lh_name h)) (d_legal_holds d))"
    using assms(5) by (simp add: legal_holds_ok_def)
  then have "find_hold oid name d = Inr (find ?p (d_legal_holds d))"
    using scalar_one_or_none_filter [of "\<lambda>h. (lh_organization_id h, lh_name h)" _ "(oid, name)"]
    by (simp add: find_hold_def)
  then obtain h d1 where r: "record_hold now oid cids name actor matter d = Inr (h, d1)"
    by (cases "find ?p (d_legal_holds d)") (simp_all add: record_hold_def uuid4_def Let_def)
  have cv: "d_conversations d1 = d_conversations d" using record_hold_tables [OF r] by simp
  let ?rows = "upd_where (\<lambda>c. cv_organization_id c = oid \<and> cv_id c \<in> set cids) (\<lambda>c. c\<lparr>cv_legal_hold := True\<rparr>)
    (d_conversations d)"
  have "c\<lparr>cv_legal_hold := True\<rparr> \<in> set ?rows"
    using in_upd_where [OF assms(1), of "\<lambda>c. cv_organization_id c = oid \<and> cv_id c \<in> set cids"
        "\<lambda>c. c\<lparr>cv_legal_hold := True\<rparr>"] assms(2,3) by simp
  then have "\<not> conversations_ok ?rows" using assms(4) unfolding conversations_ok_def list_all_iff by fastforce
  then have "hold_conversations oid cids d1 = Inl IntegrityError"
    by (simp add: hold_conversations_def flush_def constraints_def cv)
  then show ?thesis using r assms(2) by (auto simp: apply_legal_hold_def)
qed

section \<open>What the deletions select\<close>

lemma ids_of_rows:
  assumes "distinct (map cv_id rows)" "set xs \<subseteq> set rows" "c \<in> set rows"
  shows "cv_id c \<in> set (map cv_id xs) \<longleftrightarrow> c \<in> set xs"
proof
  assume "cv_id c \<in> set (map cv_id xs)"
  then obtain x where x: "x \<in> set xs" "cv_id x = cv_id c" by auto
  have "x = c" by (rule distinct_map_eq [OF assms(1) _ assms(3)]) (use x assms(2) in auto)
  then show "c \<in> set xs" using x(1) by simp
qed simp

lemma upd_where_cong: "(\<And>r. r \<in> set rows \<Longrightarrow> p r = q r) \<Longrightarrow> upd_where p f rows = upd_where q f rows"
  by (induction rows) simp_all

lemma mark_deleted_constraints:
  assumes "constraints d"
  shows "constraints (mark_deleted now reason ids d)"
proof -
  have c: "conversations_ok (upd_where (\<lambda>c. cv_id c \<in> ids \<and> \<not> cv_legal_hold c)
      (\<lambda>c. c\<lparr>cv_deleted_at := Some now, cv_deletion_reason := Some reason\<rparr>) (d_conversations d))"
    using assms by (auto simp: constraints_def conversations_ok_def map_upd_where_same list_all_iff set_upd_where)
  have k: "filter has_source_id (upd_where p f (d_messages d)) = upd_where p f (filter has_source_id (d_messages d))"
    if "\<And>m. has_source_id (f m) = has_source_id m" for p f
    using that by (induction "d_messages d" arbitrary: d) (auto simp: upd_where_def comp_def filter_map)
  have m: "messages_ok (upd_where (\<lambda>m. msg_conversation_id m \<in> ids \<and> \<not> msg_legal_hold m)
      (\<lambda>m. m\<lparr>msg_deleted_at := Some now, msg_deletion_reason := Some reason\<rparr>) (d_messages d))"
    using assms
    by (subst messages_ok_def, subst k)
      (auto simp: has_source_id_def constraints_def messages_ok_def map_upd_where_same list_all_iff set_upd_where)
  have v: "versions_ok (upd_where (\<lambda>v. mv_conversation_id v \<in> ids \<and> \<not> mv_legal_hold v)
      (\<lambda>v. v\<lparr>mv_deleted_at := Some now, mv_deletion_reason := Some reason\<rparr>) (d_versions d))"
    using assms by (auto simp: constraints_def versions_ok_def map_upd_where_same list_all_iff set_upd_where)
  show ?thesis using assms c m v by (simp add: mark_deleted_def constraints_def)
qed


text \<open>
  C19. Physical deletion removes only conversations of a hard-delete policy's organisation that
  have been soft deleted for longer than the grace period and are not under hold; the others
  stay as they were.
\<close>

theorem hard_delete_after_grace:
  assumes "hard_delete_grace_expired ud corr now policy limit d = Inr (n, d')" "constraints d"
    and "c \<in> set (d_conversations d)" "c \<notin> set (d_conversations d')"
  shows "rp_action policy = RetentionHardDelete \<and> cv_organization_id c = rp_organization_id policy
     \<and> \<not> cv_legal_hold c \<and> (\<exists>t. cv_deleted_at c = Some t \<and> t < now - days (rp_grace_days policy))"
  using assms(1)
proof (rule hard_delete_Inr)
  show ?thesis if "d' = d" using that assms(3,4) by simp
next
  fix cutoff ids
  assume a: "rp_action policy = RetentionHardDelete" and m: "minus_days now (rp_grace_days policy) = Inr cutoff"
    and i: "ids = take limit (map cv_id (filter (grace_expired policy cutoff) (d_conversations d)))"
    and r: "(if ids = [] then Inr d else hard_delete_ids ud corr policy ids d) = Inr d'"
  have ne: "ids \<noteq> []" using r assms(3,4) by (auto split: if_splits)
  let ?v = "cv_id ` set (filter (\<lambda>c. cv_id c \<in> set ids \<and> \<not> cv_legal_hold c) (d_conversations d))"
  have d': "d_conversations d' = del_where (\<lambda>c. cv_id c \<in> ?v) (d_conversations d)"
    using r ne by (auto simp: hard_delete_ids_def bindE_eq_Inr record_audit_eq delete_conversations_def Let_def)
  have "cv_id c \<in> ?v" using assms(3,4) by (auto simp: d')
  then have "cv_id c \<in> set ids" by auto
  then have "cv_id c \<in> set (map cv_id (filter (grace_expired policy cutoff) (d_conversations d)))"
    unfolding i by (rule in_set_takeD)
  then obtain c' where c': "c' \<in> set (d_conversations d)" "grace_expired policy cutoff c'" "cv_id c' = cv_id c" by auto
  have u: "distinct (map cv_id (d_conversations d))" using assms(2) by (simp add: constraints_def conversations_ok_def)
  have "c' = c" by (rule distinct_map_eq [OF u c'(1) assms(3) c'(3)])
  then show ?thesis
    using c'(2) a m by (auto simp: grace_expired_def minus_days_def split: option.splits if_splits)
qed

section \<open>Concrete runs\<close>

definition sample_policy :: retention_policy where
  "sample_policy = \<lparr>rp_id = 9, rp_created_at = 0, rp_organization_id = 1, rp_name = lit ''p'', rp_description = None,
     rp_applies_to = ''conversations'', rp_retain_days = 30, rp_grace_days = 1, rp_action = RetentionHardDelete,
     rp_is_default = False, rp_is_active = True, rp_legal_hold_exempt = False, rp_last_run_at = None\<rparr>"

text \<open>One conversation under hold, one deleted, one live.\<close>

definition sample_archive :: db where
  "sample_archive = empty_db\<lparr>d_next_uuid := 20,
     d_conversations := [sample_conversation 1 True None, sample_conversation 2 False (Some 0),
       sample_conversation 3 False None]\<rparr>"

lemma sample_archive_ok: "constraints sample_archive"
  unfolding sample_archive_def by code_simp

lemma sample_hard_delete:
  obtains d' where "hard_delete_grace_expired ascii_db None (days 100) sample_policy 200 sample_archive = Inr (1, d')"
    "map cv_id (d_conversations d') = [1, 3]"
proof -
  have "case hard_delete_grace_expired ascii_db None (days 100) sample_policy 200 sample_archive of
    Inr (n, d') \<Rightarrow> n = 1 \<and> map cv_id (d_conversations d') = [1, 3] | Inl _ \<Rightarrow> False"
    by code_simp
  then show ?thesis using that by (auto split: sum.splits)
qed


theorem hold_on_deleted_fails_witness:
  "apply_legal_hold ascii_db None 5 1 [2, 3] (lit ''case'') None None sample_archive = Inl IntegrityError"
  by (rule hold_on_deleted_fails [of "sample_conversation 2 False (Some 0)"])
    (simp_all add: sample_archive_def sample_conversation_def legal_holds_ok_def)


theorem hard_delete_after_grace_witness:
  "\<exists>d'. hard_delete_grace_expired ascii_db None (days 100) sample_policy 200 sample_archive = Inr (1, d')
     \<and> cv_deleted_at (sample_conversation 2 False (Some 0)) = Some 0 \<and> (0 :: time) < days 100 - days (rp_grace_days sample_policy)"
proof -
  obtain d' where h: "hard_delete_grace_expired ascii_db None (days 100) sample_policy 200 sample_archive = Inr (1, d')"
    and e: "map cv_id (d_conversations d') = [1, 3]"
    by (rule sample_hard_delete)
  have "cv_id (sample_conversation 2 False (Some 0)) \<notin> set (map cv_id (d_conversations d'))"
    by (simp add: e sample_conversation_def)
  then have n: "sample_conversation 2 False (Some 0) \<notin> set (d_conversations d')" by (metis image_eqI list.set_map)
  have m: "sample_conversation 2 False (Some 0) \<in> set (d_conversations sample_archive)"
    by (simp add: sample_archive_def)
  have t: "cv_deleted_at (sample_conversation 2 False (Some 0)) = Some 0" by (simp add: sample_conversation_def)
  show ?thesis using hard_delete_after_grace [OF h sample_archive_ok m n] h unfolding t by auto
qed

end
