(* ===== verification/Security.thy ===== *)
theory Security
  imports Config JsonText Enums
begin

text \<open>
  \<open>app/core/security.py\<close>: roles, the backend's access tokens, refresh tokens, the claim checks of an
  external ID token and the discovery of the provider's endpoints.  PyJWT is the record \<open>jwt\<close> (its
  \<open>encode\<close> and \<open>decode\<close>), the identity provider is reached through \<open>http_get\<close> and \<open>http_post\<close>, whose
  replies are a status code and a JSON body.
\<close>

section \<open>Roles\<close>

datatype role = Employee | Support | ComplianceAdmin | SecurityReviewer | DataCurator

definition role_values :: "role list" where
  "role_values = [Employee, Support, ComplianceAdmin, SecurityReviewer, DataCurator]"

primrec role_str :: "role \<Rightarrow> string" where
  "role_str Employee = ''employee''"
| "role_str Support = ''support''"
| "role_str ComplianceAdmin = ''compliance_admin''"
| "role_str SecurityReviewer = ''security_reviewer''"
| "role_str DataCurator = ''data_curator''"

interpretation role: str_enum role_values role_str
proof
  show "e \<in> set role_values" for e
    by (cases e) (simp_all add: role_values_def)
  show "role_str e = role_str e' \<Longrightarrow> e = e'" for e e'
    by (cases e; cases e') simp_all
qed

definition parse_role :: "unidb \<Rightarrow> ustr \<Rightarrow> role res" where
  "parse_role ud v = (case find (\<lambda>r. lit (role_str r) = u_lower ud (py_strip v)) role_values of
       Some r \<Rightarrow> Inr r | None \<Rightarrow> Inl (AuthorizationError ''Unknown role''))"

fun parse_roles :: "unidb \<Rightarrow> ustr list \<Rightarrow> role list res" where
  "parse_roles ud [] = Inr []"
| "parse_roles ud (v # vs) = bindE (parse_role ud v) (\<lambda>r. bindE (parse_roles ud vs) (\<lambda>rs. Inr (r # rs)))"

definition ADMIN_ROLES :: "role list" where
  "ADMIN_ROLES = [ComplianceAdmin, SecurityReviewer, Support, DataCurator]"
definition CONTENT_READ_ROLES :: "role list" where
  "CONTENT_READ_ROLES = [ComplianceAdmin, SecurityReviewer]"
definition EXPORT_ROLES :: "role list" where
  "EXPORT_ROLES = [DataCurator, ComplianceAdmin]"
definition APPROVAL_ROLES :: "role list" where
  "APPROVAL_ROLES = [DataCurator, ComplianceAdmin]"
definition DELETION_ROLES :: "role list" where
  "DELETION_ROLES = [ComplianceAdmin]"

section \<open>Values taken from a claims dictionary\<close>

definition json_truthy :: "json \<Rightarrow> bool" where
  "json_truthy j = (case j of JNull \<Rightarrow> False | JBool b \<Rightarrow> b | JInt i \<Rightarrow> i \<noteq> 0 | JFloat x \<Rightarrow> x \<noteq> 0
     | JStr s \<Rightarrow> s \<noteq> [] | JText u \<Rightarrow> u \<noteq> [] | JList xs \<Rightarrow> xs \<noteq> [] | JObj kvs \<Rightarrow> kvs \<noteq> [])"

definition repr_char :: "unidb \<Rightarrow> nat \<Rightarrow> nat \<Rightarrow> ustr" where
  "repr_char ud q c =
     (if c = q \<or> c = 92 then [92, c] else if c = 9 then lit [CHR 0x5C, CHR ''t'']
      else if c = 10 then lit [CHR 0x5C, CHR ''n''] else if c = 13 then lit [CHR 0x5C, CHR ''r'']
      else if u_isprintable ud c then [c]
      else if c < 256 then lit ([CHR 0x5C, CHR ''x''] @ hex_fixed 2 c)
      else if c < 65536 then lit ([CHR 0x5C, CHR ''u''] @ hex_fixed 4 c)
      else lit ([CHR 0x5C, CHR ''U''] @ hex_fixed 8 c))"

definition repr_str :: "unidb \<Rightarrow> ustr \<Rightarrow> ustr" where
  "repr_str ud s = (let q = (if 39 \<in> set s \<and> 34 \<notin> set s then 34 else 39)
     in [q] @ concat (map (repr_char ud q) s) @ [q])"

fun commas :: "ustr list \<Rightarrow> ustr" where
  "commas [] = []"
| "commas [x] = x"
| "commas (x # y # xs) = x @ lit '', '' @ commas (y # xs)"

fun py_repr :: "unidb \<Rightarrow> json \<Rightarrow> ustr" where
  "py_repr ud JNull = lit ''None''"
| "py_repr ud (JBool b) = (if b then lit ''True'' else lit ''False'')"
| "py_repr ud (JInt i) = lit (dec_int i)"
| "py_repr ud (JFloat x) = lit (float_repr x)"
| "py_repr ud (JStr s) = repr_str ud (lit s)"
| "py_repr ud (JText u) = repr_str ud u"
| "py_repr ud (JList xs) = lit ''['' @ commas (map (py_repr ud) xs) @ lit '']''"
| "py_repr ud (JObj kvs) = lit ''{'' @ commas (map (\<lambda>kv. repr_str ud (lit (fst kv)) @ lit '': '' @ py_repr ud (snd kv)) kvs)
     @ lit ''}''"

definition py_str :: "unidb \<Rightarrow> json \<Rightarrow> ustr" where
  "py_str ud j = (case j of JStr s \<Rightarrow> lit s | JText u \<Rightarrow> u | _ \<Rightarrow> py_repr ud j)"

text \<open>\<open>uuid.UUID(payload[key])\<close>: a missing key or a malformed text is caught by the caller, a value that is not text is not.\<close>

definition claim_uuid :: "string \<Rightarrow> json \<Rightarrow> uuid res" where
  "claim_uuid key payload = (case jget payload key of
       Some (JStr s) \<Rightarrow> (case uuid_parse s of Some u \<Rightarrow> Inr u
         | None \<Rightarrow> Inl (AuthenticationError ''Malformed access token claims''))
     | None \<Rightarrow> Inl (AuthenticationError ''Malformed access token claims'')
     | Some _ \<Rightarrow> Inl (OtherException ''AttributeError''))"

section \<open>Access tokens\<close>

datatype jwt_reply = JwtExpired | JwtInvalid | JwtClaims json

record jwt =
  jw_encode :: "json \<Rightarrow> ustr \<Rightarrow> ustr"
  jw_decode :: "ustr \<Rightarrow> ustr \<Rightarrow> ustr \<Rightarrow> ustr \<Rightarrow> int \<Rightarrow> jwt_reply"

record access_claims =
  ac_user_id :: uuid
  ac_organization_id :: uuid
  ac_device_id :: "uuid option"
  ac_email :: ustr
  ac_roles :: "role set"
  ac_session_id :: uuid
  ac_expires_at :: int

definition ACCESS_TOKEN_TYPE :: string where
  "ACCESS_TOKEN_TYPE = ''access''"

definition token_audience :: "settings \<Rightarrow> ustr" where
  "token_audience s = st_app_name s @ lit '':extension''"

text \<open>\<open>now\<close> is \<open>int(time.time())\<close>, \<open>jti\<close> the random identifier of the token.\<close>

definition access_payload ::
  "settings \<Rightarrow> int \<Rightarrow> string \<Rightarrow> uuid \<Rightarrow> uuid \<Rightarrow> uuid option \<Rightarrow> ustr \<Rightarrow> role list \<Rightarrow> uuid \<Rightarrow> int option \<Rightarrow> json" where
  "access_payload s now jti user_id organization_id device_id email roles session_id ttl_seconds =
     (let ttl = (case ttl_seconds of Some n \<Rightarrow> n | None \<Rightarrow> st_access_token_ttl_seconds s)
      in JObj [(''sub'', JStr (uuid_str user_id)), (''org'', JStr (uuid_str organization_id)),
               (''did'', case device_id of Some d \<Rightarrow> JStr (uuid_str d) | None \<Rightarrow> JNull),
               (''email'', JText email), (''roles'', JList (map JStr (sorted_strings (map role_str roles)))),
               (''sid'', JStr (uuid_str session_id)), (''typ'', JStr ACCESS_TOKEN_TYPE), (''iat'', JInt now),
               (''nbf'', JInt now), (''exp'', JInt (now + ttl)), (''iss'', JText (st_app_name s)),
               (''aud'', JText (token_audience s)), (''jti'', JStr jti)])"

definition create_access_token ::
  "jwt \<Rightarrow> settings \<Rightarrow> int \<Rightarrow> string \<Rightarrow> uuid \<Rightarrow> uuid \<Rightarrow> uuid option \<Rightarrow> ustr \<Rightarrow> role list \<Rightarrow> uuid \<Rightarrow> int option \<Rightarrow> ustr \<times> int" where
  "create_access_token w s now jti user_id organization_id device_id email roles session_id ttl_seconds =
     (jw_encode w (access_payload s now jti user_id organization_id device_id email roles session_id ttl_seconds) (st_jwt_secret s),
      case ttl_seconds of Some n \<Rightarrow> n | None \<Rightarrow> st_access_token_ttl_seconds s)"

definition role_texts :: "json \<Rightarrow> ustr list res" where
  "role_texts payload = (case jget payload ''roles'' of
       None \<Rightarrow> Inr []
     | Some (JList xs) \<Rightarrow> if list_all (\<lambda>x. case x of JStr _ \<Rightarrow> True | JText _ \<Rightarrow> True | _ \<Rightarrow> False) xs
         then Inr (map (\<lambda>x. case x of JStr s \<Rightarrow> lit s | JText u \<Rightarrow> u | _ \<Rightarrow> []) xs)
         else Inl (OtherException ''AttributeError'')
     | Some _ \<Rightarrow> Inl (OtherException ''TypeError''))"

definition claims_of :: "unidb \<Rightarrow> json \<Rightarrow> access_claims res" where
  "claims_of ud payload =
     bindE (role_texts payload) (\<lambda>texts. bindE (parse_roles ud texts) (\<lambda>roles.
     bindE (claim_uuid ''sub'' payload) (\<lambda>user_id. bindE (claim_uuid ''org'' payload) (\<lambda>organization_id.
     bindE (if (case jget payload ''did'' of Some j \<Rightarrow> json_truthy j | None \<Rightarrow> False)
            then bindE (claim_uuid ''did'' payload) (\<lambda>u. Inr (Some u)) else Inr None) (\<lambda>device_id.
     bindE (claim_uuid ''sid'' payload) (\<lambda>session_id.
     bindE (case jget payload ''exp'' of Some (JInt e) \<Rightarrow> Inr e | Some (JFloat x) \<Rightarrow> Inr (floor x)
              | _ \<Rightarrow> Inl (AuthenticationError ''Malformed access token claims'')) (\<lambda>expires_at.
       Inr \<lparr>ac_user_id = user_id, ac_organization_id = organization_id, ac_device_id = device_id,
            ac_email = (case jget payload ''email'' of Some j \<Rightarrow> py_str ud j | None \<Rightarrow> []),
            ac_roles = (if roles = [] then {Employee} else set roles),
            ac_session_id = session_id, ac_expires_at = expires_at\<rparr>)))))))"

definition decode_access_token :: "unidb \<Rightarrow> jwt \<Rightarrow> settings \<Rightarrow> int \<Rightarrow> ustr \<Rightarrow> access_claims res" where
  "decode_access_token ud w s now token =
     (case jw_decode w token (st_jwt_secret s) (token_audience s) (st_app_name s) now of
        JwtExpired \<Rightarrow> Inl (AuthenticationError ''token_expired'')
      | JwtInvalid \<Rightarrow> Inl (AuthenticationError ''Invalid access token'')
      | JwtClaims payload \<Rightarrow>
          if jget payload ''typ'' \<noteq> Some (JStr ACCESS_TOKEN_TYPE) then Inl (AuthenticationError ''Wrong token type'')
          else claims_of ud payload)"

definition has_any :: "role list \<Rightarrow> access_claims \<Rightarrow> bool" where
  "has_any allowed c \<longleftrightarrow> list_ex (\<lambda>r. r \<in> ac_roles c) allowed"

definition require_any :: "role list \<Rightarrow> access_claims \<Rightarrow> unit res" where
  "require_any allowed c = (if has_any allowed c then Inr () else Inl (AuthorizationError ''Insufficient role for this operation''))"

text \<open>\<open>token\<close> is the draw of \<open>secrets.token_urlsafe\<close>.\<close>

definition generate_refresh_token :: "ustr \<Rightarrow> ustr \<times> string" where
  "generate_refresh_token token = (token, sha256_hex token)"

definition hash_refresh_token :: "ustr \<Rightarrow> string" where
  "hash_refresh_token token = sha256_hex token"

section \<open>Identity of an ID token\<close>

record verified_identity =
  vi_subject :: ustr
  vi_issuer :: ustr
  vi_email :: ustr
  vi_email_verified :: bool
  vi_hosted_domain :: "ustr option"
  vi_name :: json
  vi_raw_claims :: "(string \<times> json) list"

definition email_domain :: "ustr \<Rightarrow> ustr" where
  "email_domain email = after_last 64 email"

definition vi_domain :: "unidb \<Rightarrow> verified_identity \<Rightarrow> ustr" where
  "vi_domain ud v = u_lower ud (email_domain (vi_email v))"

definition claim_text :: "unidb \<Rightarrow> string \<Rightarrow> ustr \<Rightarrow> json \<Rightarrow> ustr" where
  "claim_text ud key dflt claims = (case jget claims key of Some j \<Rightarrow> py_str ud j | None \<Rightarrow> dflt)"

definition claim_true :: "string \<Rightarrow> json \<Rightarrow> bool" where
  "claim_true key claims \<longleftrightarrow> (case jget claims key of Some j \<Rightarrow> json_truthy j | None \<Rightarrow> False)"

definition json_text_is :: "ustr \<Rightarrow> json option \<Rightarrow> bool" where
  "json_text_is t j \<longleftrightarrow> (case j of Some (JStr s) \<Rightarrow> lit s = t | Some (JText u) \<Rightarrow> u = t | _ \<Rightarrow> False)"

definition hosted_domain_of :: "unidb \<Rightarrow> json \<Rightarrow> ustr option" where
  "hosted_domain_of ud claims = (if claim_true ''hd'' claims then Some (u_lower ud (claim_text ud ''hd'' [] claims)) else None)"

definition identity_from_claims :: "unidb \<Rightarrow> settings \<Rightarrow> json \<Rightarrow> ustr option \<Rightarrow> verified_identity res" where
  "identity_from_claims ud s claims expected_nonce =
     (let email = u_lower ud (py_strip (claim_text ud ''email'' [] claims));
          hosted_domain = hosted_domain_of ud claims
      in if (case expected_nonce of Some n \<Rightarrow> \<not> json_text_is n (jget claims ''nonce'') | None \<Rightarrow> False)
           then Inl (AuthenticationError ''ID token nonce mismatch'')
         else if email = [] \<or> 64 \<notin> set email then Inl (AuthenticationError ''ID token has no usable email claim'')
         else if \<not> claim_true ''email_verified'' claims
           then Inl (AuthenticationError ''Company identity provider reports the email as unverified'')
         else if truthy (st_oidc_required_hd s) \<and> hosted_domain \<noteq> map_option (u_lower ud) (st_oidc_required_hd s)
           then Inl (AuthenticationError ''ID token hosted domain is not the configured company workspace domain'')
         else if allowed_domains ud s \<noteq> [] \<and> email_domain email \<notin> set (allowed_domains ud s)
           then Inl (AuthorizationError ''Email domain is not allowlisted for this deployment'')
         else case jget claims ''sub'' of
             None \<Rightarrow> Inl (OtherException ''KeyError'')
           | Some sub \<Rightarrow> Inr \<lparr>vi_subject = py_str ud sub, vi_issuer = claim_text ud ''iss'' (st_oidc_issuer s) claims,
               vi_email = email, vi_email_verified = True, vi_hosted_domain = hosted_domain,
               vi_name = (case jget claims ''name'' of Some n \<Rightarrow> n | None \<Rightarrow> JNull),
               vi_raw_claims = (case claims of JObj kvs \<Rightarrow>
                 filter (\<lambda>kv. fst kv \<in> {''sub'', ''iss'', ''aud'', ''hd'', ''email_verified''}) kvs | _ \<Rightarrow> [])\<rparr>)"

section \<open>Discovery and verification\<close>

definition JWKS_CACHE_TTL_SECONDS :: rat where "JWKS_CACHE_TTL_SECONDS = 3600"
definition MAX_ID_TOKEN_BYTES :: nat where "MAX_ID_TOKEN_BYTES = 8192"

text \<open>The metadata documents seen so far with the monotonic time of the request, newest first.\<close>

type_synonym discovery_cache = "(ustr \<times> rat \<times> json) list"
type_synonym http_get = "ustr \<Rightarrow> (int \<times> json) option"

definition cached_discovery :: "rat \<Rightarrow> ustr \<Rightarrow> discovery_cache \<Rightarrow> json option" where
  "cached_discovery now issuer cache = (case map_of cache issuer of
       Some (t, doc) \<Rightarrow> if now - t < JWKS_CACHE_TTL_SECONDS then Some doc else None | None \<Rightarrow> None)"

definition issuer_url :: "settings \<Rightarrow> ustr" where
  "issuer_url s = rstrip_by (\<lambda>c. c = 47) (st_oidc_issuer s)"

definition metadata_url :: "settings \<Rightarrow> ustr" where
  "metadata_url s = issuer_url s @ lit ''/.well-known/openid-configuration''"

definition load_metadata :: "http_get \<Rightarrow> settings \<Rightarrow> json res" where
  "load_metadata get s = (case get (metadata_url s) of
       None \<Rightarrow> Inl (OtherException ''HTTPError'')
     | Some (status, doc) \<Rightarrow> if 400 \<le> status then Inl (AuthenticationError ''Unable to load identity provider metadata'')
         else Inr doc)"

definition metadata_of :: "http_get \<Rightarrow> settings \<Rightarrow> rat \<Rightarrow> discovery_cache \<Rightarrow> json res \<times> discovery_cache" where
  "metadata_of get s now cache = (case cached_discovery now (issuer_url s) cache of
       Some doc \<Rightarrow> (Inr doc, cache)
     | None \<Rightarrow> (case load_metadata get s of Inl e \<Rightarrow> (Inl e, cache)
         | Inr doc \<Rightarrow> (Inr doc, (issuer_url s, now, doc) # cache)))"

definition discover_jwks_uri ::
  "unidb \<Rightarrow> http_get \<Rightarrow> settings \<Rightarrow> rat \<Rightarrow> discovery_cache \<Rightarrow> ustr res \<times> discovery_cache" where
  "discover_jwks_uri ud get s now cache =
     (if truthy (st_oidc_jwks_url s) then (Inr (the (st_oidc_jwks_url s)), cache)
      else let (found, cache1) = metadata_of get s now cache
           in (bindE found (\<lambda>doc. if claim_true ''jwks_uri'' doc then Inr (claim_text ud ''jwks_uri'' [] doc)
                 else Inl (AuthenticationError ''Identity provider metadata has no jwks_uri'')), cache1))"

text \<open>Here a document without the endpoint is not cached.\<close>

definition discover_token_endpoint ::
  "unidb \<Rightarrow> http_get \<Rightarrow> settings \<Rightarrow> rat \<Rightarrow> discovery_cache \<Rightarrow> ustr res \<times> discovery_cache" where
  "discover_token_endpoint ud get s now cache =
     (case cached_discovery now (issuer_url s) cache of
        Some doc \<Rightarrow> (case jget doc ''token_endpoint'' of None \<Rightarrow> Inl (OtherException ''KeyError'') | Some j \<Rightarrow> Inr (py_str ud j), cache)
      | None \<Rightarrow> (case load_metadata get s of Inl e \<Rightarrow> (Inl e, cache)
          | Inr doc \<Rightarrow> (case jget doc ''token_endpoint'' of
                None \<Rightarrow> (Inl (AuthenticationError ''Identity provider metadata has no token endpoint''), cache)
              | Some j \<Rightarrow> (Inr (py_str ud j), (issuer_url s, now, doc) # cache))))"

definition clear_oidc_caches :: "discovery_cache \<Rightarrow> discovery_cache" where
  "clear_oidc_caches cache = []"

definition exchange_authorization_code ::
  "unidb \<Rightarrow> http_get \<Rightarrow> (ustr \<Rightarrow> (string \<times> ustr) list \<Rightarrow> (int \<times> json) option) \<Rightarrow> settings \<Rightarrow> rat
     \<Rightarrow> ustr \<Rightarrow> ustr \<Rightarrow> ustr \<Rightarrow> discovery_cache \<Rightarrow> json res \<times> discovery_cache" where
  "exchange_authorization_code ud get post s now code code_verifier redirect_uri cache =
     (let (endpoint, cache1) = discover_token_endpoint ud get s now cache
      in (bindE endpoint (\<lambda>url.
           let data = [(''grant_type'', lit ''authorization_code''), (''code'', code), (''code_verifier'', code_verifier),
                 (''redirect_uri'', redirect_uri), (''client_id'', st_oidc_client_id s)]
               @ (if truthy (st_oidc_client_secret s) then [(''client_secret'', the (st_oidc_client_secret s))] else [])
           in case post url data of
                None \<Rightarrow> Inl (OtherException ''HTTPError'')
              | Some (status, body) \<Rightarrow>
                  if 400 \<le> status then Inl (AuthenticationError ''Identity provider rejected the authorization code'')
                  else Inr body), cache1))"

text \<open>
  The verifier: \<open>oi_key\<close> resolves the signing key of a token with the client built for a JWKS
  address, \<open>oi_decode\<close> is \<open>jwt.decode\<close> with that key, the audience and the issuer.
\<close>

record 'k oidc =
  oi_key :: "ustr \<Rightarrow> ustr \<Rightarrow> 'k option"
  oi_decode :: "ustr \<Rightarrow> 'k \<Rightarrow> ustr \<Rightarrow> ustr \<Rightarrow> jwt_reply"

type_synonym jwks_client = "(ustr \<times> rat) option"

definition oidc_client ::
  "unidb \<Rightarrow> http_get \<Rightarrow> settings \<Rightarrow> rat \<Rightarrow> jwks_client \<Rightarrow> discovery_cache \<Rightarrow> ustr res \<times> jwks_client \<times> discovery_cache" where
  "oidc_client ud get s now client cache =
     (if (case client of None \<Rightarrow> True | Some (_, created) \<Rightarrow> JWKS_CACHE_TTL_SECONDS < now - created)
      then (case discover_jwks_uri ud get s now cache of
          (Inl e, cache1) \<Rightarrow> (Inl e, client, cache1)
        | (Inr uri, cache1) \<Rightarrow> (Inr uri, Some (uri, now), cache1))
      else (Inr (fst (the client)), client, cache))"

definition oidc_verify ::
  "unidb \<Rightarrow> http_get \<Rightarrow> 'k oidc \<Rightarrow> settings \<Rightarrow> rat \<Rightarrow> ustr \<Rightarrow> ustr option \<Rightarrow> jwks_client \<Rightarrow> discovery_cache
     \<Rightarrow> verified_identity res \<times> jwks_client \<times> discovery_cache" where
  "oidc_verify ud get oi s now id_token expected_nonce client cache =
     (if id_token = [] \<or> MAX_ID_TOKEN_BYTES < length id_token
      then (Inl (AuthenticationError ''Malformed ID token''), client, cache)
      else let (uri, client1, cache1) = oidc_client ud get s now client cache
           in (case uri of Inl _ \<Rightarrow> Inl (AuthenticationError ''Unable to resolve ID token signing key'')
               | Inr u \<Rightarrow> (case oi_key oi u id_token of
                     None \<Rightarrow> Inl (AuthenticationError ''Unable to resolve ID token signing key'')
                   | Some key \<Rightarrow> (case oi_decode oi id_token key (st_oidc_client_id s) (st_oidc_issuer s) of
                         JwtExpired \<Rightarrow> Inl (AuthenticationError ''ID token expired'')
                       | JwtInvalid \<Rightarrow> Inl (AuthenticationError ''ID token verification failed'')
                       | JwtClaims claims \<Rightarrow> identity_from_claims ud s claims expected_nonce)), client1, cache1))"

section \<open>The development identity provider (app/core/devauth.py)\<close>

definition assert_dev_auth_allowed :: "settings \<Rightarrow> unit res" where
  "assert_dev_auth_allowed s =
     (if is_production s then Inl (AuthorizationError ''The development identity provider is permanently disabled in production'')
      else if \<not> st_dev_auth_enabled s then Inl (AuthorizationError ''DEV_AUTH_ENABLED is false'')
      else Inr ())"

text \<open>\<open>decode\<close> and \<open>encode\<close> are PyJWT's with the key pair generated at start.\<close>

definition dev_verify ::
  "unidb \<Rightarrow> (ustr \<Rightarrow> ustr \<Rightarrow> ustr \<Rightarrow> jwt_reply) \<Rightarrow> settings \<Rightarrow> ustr \<Rightarrow> ustr option \<Rightarrow> verified_identity res" where
  "dev_verify ud decode s id_token expected_nonce =
     bindE (assert_dev_auth_allowed s) (\<lambda>_.
       case decode id_token (st_oidc_client_id s) (st_oidc_issuer s) of
         JwtExpired \<Rightarrow> Inl (AuthenticationError ''ID token expired'')
       | JwtInvalid \<Rightarrow> Inl (AuthenticationError ''ID token verification failed'')
       | JwtClaims claims \<Rightarrow> identity_from_claims ud s claims expected_nonce)"

record dev_token_args =
  da_email :: ustr
  da_subject :: "ustr option"
  da_nonce :: "ustr option"
  da_hosted_domain :: "ustr option"
  da_email_verified :: bool
  da_expires_in :: int
  da_audience :: "ustr option"
  da_issuer :: "ustr option"
  da_extra_claims :: "(string \<times> json) list"

definition before_first :: "nat \<Rightarrow> ustr \<Rightarrow> ustr" where
  "before_first c s = takeWhile (\<lambda>x. x \<noteq> c) s"

text \<open>\<open>uuid5\<close> and \<open>title\<close> are the functions of the standard library of that name.\<close>

definition dev_claims :: "(ustr \<Rightarrow> ustr) \<Rightarrow> (ustr \<Rightarrow> ustr) \<Rightarrow> settings \<Rightarrow> int \<Rightarrow> dev_token_args \<Rightarrow> json" where
  "dev_claims uuid5 title s now a =
     (let hd = (case da_hosted_domain a of Some h \<Rightarrow> Some h | None \<Rightarrow> st_oidc_required_hd s);
          claims = [(''iss'', JText (the (str_or (da_issuer a) (Some (st_oidc_issuer s))))),
            (''aud'', JText (the (str_or (da_audience a) (Some (st_oidc_client_id s))))),
            (''sub'', JText (the (str_or (da_subject a) (Some (uuid5 (lit ''dev-idp:'' @ da_email a)))))),
            (''email'', JText (da_email a)), (''email_verified'', JBool (da_email_verified a)),
            (''iat'', JInt now), (''nbf'', JInt now), (''exp'', JInt (now + da_expires_in a)),
            (''name'', JText (title (map (\<lambda>c. if c = 46 then 32 else c) (before_first 64 (da_email a)))))]
           @ (if truthy hd then [(''hd'', JText (the hd))] else [])
           @ (if truthy (da_nonce a) then [(''nonce'', JText (the (da_nonce a)))] else [])
      in jmerge (JObj claims) (da_extra_claims a))"

definition issue_id_token ::
  "(ustr \<Rightarrow> ustr) \<Rightarrow> (ustr \<Rightarrow> ustr) \<Rightarrow> (json \<Rightarrow> ustr) \<Rightarrow> settings \<Rightarrow> int \<Rightarrow> dev_token_args \<Rightarrow> ustr res" where
  "issue_id_token uuid5 title encode s now a =
     bindE (assert_dev_auth_allowed s) (\<lambda>_. Inr (encode (dev_claims uuid5 title s now a)))"

end
