(* ===== verification/Accounts.thy ===== *)
theory Accounts
  imports Security Audit_Trail
begin

text \<open>
  \<open>app/services/accounts.py\<close>: provisioning of the organisation, users and devices, and the sessions:
  access tokens with rotating refresh tokens of which only the hash is stored.  The drawn refresh
  token and the token identifier are arguments.
\<close>

definition DEFAULT_ORG_SLUG :: string where
  "DEFAULT_ORG_SLUG = ''techsara''"

section \<open>Organisation and users\<close>

definition new_organization :: "unidb \<Rightarrow> settings \<Rightarrow> time \<Rightarrow> uuid \<Rightarrow> organization" where
  "new_organization ud s now oid =
     (let domains = (if allowed_domains ud s = [] then [lit ''example.com''] else allowed_domains ud s)
      in \<lparr>org_id = oid, org_created_at = now, org_slug = DEFAULT_ORG_SLUG,
          org_display_name = (if st_managed_workspace_label s = [] then lit ''TechSara'' else st_managed_workspace_label s),
          org_primary_domain = hd domains, org_allowed_domains = domains, org_is_active = True, org_settings = JObj []\<rparr>)"

definition get_or_create_organization :: "unidb \<Rightarrow> settings \<Rightarrow> time \<Rightarrow> db \<Rightarrow> (organization \<times> db) res" where
  "get_or_create_organization ud s now d =
     bindE (scalar_one_or_none (filter (\<lambda>o'. org_slug o' = DEFAULT_ORG_SLUG) (d_organizations d))) (\<lambda>found.
     case found of
       Some o1 \<Rightarrow>
         if sort (org_allowed_domains o1) \<noteq> sort (allowed_domains ud s)
         then let o2 = o1\<lparr>org_allowed_domains := allowed_domains ud s\<rparr>
              in Inr (o2, d\<lparr>d_organizations := upd_where (\<lambda>r. org_id r = org_id o1) (\<lambda>_. o2) (d_organizations d)\<rparr>)
         else Inr (o1, d)
     | None \<Rightarrow> (let (oid, d1) = uuid4 d; o1 = new_organization ud s now oid
                in bindE (flush (d1\<lparr>d_organizations := d_organizations d1 @ [o1]\<rparr>)) (\<lambda>d2. Inr (o1, d2))))"

definition upd_user :: "uuid \<Rightarrow> (user \<Rightarrow> user) \<Rightarrow> db \<Rightarrow> db" where
  "upd_user uid f d = d\<lparr>d_users := upd_where (\<lambda>u. usr_id u = uid) f (d_users d)\<rparr>"

definition seen_user :: "unidb \<Rightarrow> time \<Rightarrow> ustr \<Rightarrow> user \<Rightarrow> user" where
  "seen_user ud now email u =
     (let u1 = u\<lparr>usr_last_seen_at := Some now\<rparr>
      in if usr_email u \<noteq> email then u1\<lparr>usr_email := email, usr_email_hash := pseudonymize ud email\<rparr> else u1)"

definition linked_user :: "unidb \<Rightarrow> time \<Rightarrow> verified_identity \<Rightarrow> user_identity \<Rightarrow> db \<Rightarrow> (user \<times> db) res" where
  "linked_user ud now identity link d =
     (case find (\<lambda>u. usr_id u = ui_user_id link) (d_users d) of
        None \<Rightarrow> Inl (AuthenticationError ''Identity is not attached to a user'')
      | Some u \<Rightarrow>
          if \<not> usr_is_active u then Inl (AuthorizationError ''user_deactivated'')
          else let u' = seen_user ud now (vi_email identity) u;
                   d1 = d\<lparr>d_user_identities := upd_where (\<lambda>i. ui_id i = ui_id link)
                            (\<lambda>i. i\<lparr>ui_last_authenticated_at := Some now\<rparr>) (d_user_identities d)\<rparr>
               in Inr (u', upd_user (usr_id u) (\<lambda>_. u') d1))"

text \<open>The name claim goes to a text column: the driver refuses any other value.\<close>

definition name_text :: "json \<Rightarrow> ustr option res" where
  "name_text j = (case j of JNull \<Rightarrow> Inr None | JStr s \<Rightarrow> Inr (Some (lit s)) | JText u \<Rightarrow> Inr (Some u)
     | _ \<Rightarrow> Inl (OtherException ''DBAPIError''))"

definition new_user :: "unidb \<Rightarrow> time \<Rightarrow> organization \<Rightarrow> verified_identity \<Rightarrow> ustr option \<Rightarrow> uuid \<Rightarrow> user" where
  "new_user ud now org identity nm uid =
     \<lparr>usr_id = uid, usr_created_at = now, usr_organization_id = org_id org, usr_email = vi_email identity,
      usr_email_hash = pseudonymize ud (vi_email identity), usr_display_name = nm,
      usr_roles = [role_str Employee], usr_is_active = True, usr_notice_acknowledged_at = None,
      usr_last_seen_at = Some now\<rparr>"

definition find_or_add_user :: "unidb \<Rightarrow> time \<Rightarrow> organization \<Rightarrow> verified_identity \<Rightarrow> db \<Rightarrow> (user \<times> db) res" where
  "find_or_add_user ud now org identity d =
     bindE (scalar_one_or_none (filter (\<lambda>u. usr_organization_id u = org_id org \<and> usr_email u = vi_email identity) (d_users d)))
       (\<lambda>found. case found of
          Some u \<Rightarrow> Inr (u, d)
        | None \<Rightarrow> bindE (name_text (vi_name identity)) (\<lambda>nm.
            let (uid, d1) = uuid4 d; u = new_user ud now org identity nm uid
            in bindE (flush (d1\<lparr>d_users := d_users d1 @ [u]\<rparr>)) (\<lambda>d2. Inr (u, d2))))"

definition new_identity :: "time \<Rightarrow> uuid \<Rightarrow> verified_identity \<Rightarrow> uuid \<Rightarrow> user_identity" where
  "new_identity now uid identity iid =
     \<lparr>ui_id = iid, ui_created_at = now, ui_user_id = uid,
      ui_provider = (if contains (lit ''google'') (vi_issuer identity) then ''google'' else ''oidc''),
      ui_issuer = vi_issuer identity, ui_subject = vi_subject identity,
      ui_hosted_domain = vi_hosted_domain identity, ui_last_authenticated_at = Some now\<rparr>"

definition domain_allowed :: "unidb \<Rightarrow> settings \<Rightarrow> organization \<Rightarrow> verified_identity \<Rightarrow> bool" where
  "domain_allowed ud s org identity \<longleftrightarrow>
     (let allowed = (if allowed_domains ud s \<noteq> [] then allowed_domains ud s else org_allowed_domains org)
      in allowed = [] \<or> vi_domain ud identity \<in> set (map (u_lower ud) allowed))"

definition get_or_create_user ::
  "unidb \<Rightarrow> settings \<Rightarrow> time \<Rightarrow> organization \<Rightarrow> verified_identity \<Rightarrow> db \<Rightarrow> (user \<times> db) res" where
  "get_or_create_user ud s now org identity d =
     (if \<not> domain_allowed ud s org identity then Inl (AuthorizationError ''domain_not_allowed'')
      else bindE (scalar_one_or_none (filter (\<lambda>i. ui_issuer i = vi_issuer identity \<and> ui_subject i = vi_subject identity)
             (d_user_identities d))) (\<lambda>link.
      case link of
        Some l \<Rightarrow> linked_user ud now identity l d
      | None \<Rightarrow> bindE (find_or_add_user ud now org identity d) (\<lambda>(u, d1).
          let (iid, d2) = uuid4 d1
          in bindE (flush (d2\<lparr>d_user_identities := d_user_identities d2 @ [new_identity now (usr_id u) identity iid]\<rparr>))
               (\<lambda>d3. Inr (u, d3)))))"

section \<open>Devices\<close>

record device_info =
  di_device_fingerprint :: ustr
  di_extension_id :: "ustr option"
  di_extension_version :: "ustr option"
  di_adapter_version :: "ustr option"
  di_browser_version :: "ustr option"
  di_platform :: "ustr option"
  di_managed_by_policy :: bool
  di_client_ip :: "ustr option"

definition blank_device :: "time \<Rightarrow> uuid \<Rightarrow> organization \<Rightarrow> ustr \<Rightarrow> uuid \<Rightarrow> device" where
  "blank_device now uid org fp did =
     \<lparr>dev_id = did, dev_created_at = now, dev_user_id = uid, dev_organization_id = org_id org,
      dev_device_fingerprint = fp, dev_extension_id = None, dev_extension_version = None,
      dev_adapter_version = None, dev_browser_version = None, dev_platform = None, dev_managed_by_policy = False,
      dev_session_id = None, dev_refresh_token_hash = None, dev_refresh_token_expires_at = None,
      dev_refresh_rotation_counter = 0, dev_last_seen_at = None, dev_last_sync_at = None, dev_last_ip_hash = None,
      dev_revoked_at = None, dev_revoked_reason = None\<rparr>"

definition refreshed_device :: "unidb \<Rightarrow> time \<Rightarrow> device_info \<Rightarrow> device \<Rightarrow> device" where
  "refreshed_device ud now i v =
     v\<lparr>dev_extension_id := str_or (di_extension_id i) (dev_extension_id v),
       dev_extension_version := str_or (di_extension_version i) (dev_extension_version v),
       dev_adapter_version := str_or (di_adapter_version i) (dev_adapter_version v),
       dev_browser_version := str_or (di_browser_version i) (dev_browser_version v),
       dev_platform := str_or (di_platform i) (dev_platform v),
       dev_managed_by_policy := (di_managed_by_policy i \<or> dev_managed_by_policy v),
       dev_last_seen_at := Some now,
       dev_last_ip_hash := (if truthy (di_client_ip i) then Some (pseudonymize ud (the (di_client_ip i)))
                            else dev_last_ip_hash v)\<rparr>"

definition upd_device :: "uuid \<Rightarrow> (device \<Rightarrow> device) \<Rightarrow> db \<Rightarrow> db" where
  "upd_device did f d = d\<lparr>d_devices := upd_where (\<lambda>v. dev_id v = did) f (d_devices d)\<rparr>"

definition get_or_create_device ::
  "unidb \<Rightarrow> time \<Rightarrow> uuid \<Rightarrow> organization \<Rightarrow> device_info \<Rightarrow> db \<Rightarrow> (device \<times> db) res" where
  "get_or_create_device ud now uid org i d =
     bindE (scalar_one_or_none (filter (\<lambda>v. dev_user_id v = uid \<and> dev_device_fingerprint v = di_device_fingerprint i)
              (d_devices d))) (\<lambda>found.
     case found of
       Some v \<Rightarrow> bindE (flush (upd_device (dev_id v) (refreshed_device ud now i) d)) (\<lambda>d1.
         Inr (refreshed_device ud now i v, d1))
     | None \<Rightarrow> (let (did, d1) = uuid4 d;
                    v = refreshed_device ud now i (blank_device now uid org (di_device_fingerprint i) did)
                in bindE (flush (d1\<lparr>d_devices := d_devices d1 @ [v]\<rparr>)) (\<lambda>d2. Inr (v, d2))))"

section \<open>Sessions\<close>

record issued_session =
  is_access_token :: ustr
  is_access_ttl :: int
  is_refresh_token :: ustr
  is_refresh_ttl :: int
  is_session_id :: uuid

definition session_device :: "time \<Rightarrow> settings \<Rightarrow> uuid \<Rightarrow> string \<Rightarrow> device \<Rightarrow> device" where
  "session_device now s session_id refresh_hash v =
     v\<lparr>dev_session_id := Some session_id, dev_refresh_token_hash := Some refresh_hash,
       dev_refresh_token_expires_at := Some (now + seconds (st_refresh_token_ttl_seconds s)),
       dev_refresh_rotation_counter := dev_refresh_rotation_counter v + 1\<rparr>"

definition user_roles :: "unidb \<Rightarrow> user \<Rightarrow> role list res" where
  "user_roles ud u = parse_roles ud (map lit (if usr_roles u = [] then [role_str Employee] else usr_roles u))"

definition issue_session ::
  "unidb \<Rightarrow> jwt \<Rightarrow> settings \<Rightarrow> time \<Rightarrow> string \<Rightarrow> ustr \<Rightarrow> user \<Rightarrow> organization \<Rightarrow> device option \<Rightarrow> db
     \<Rightarrow> (issued_session \<times> db) res" where
  "issue_session ud w s now jti drawn usr org dev d =
     (if (case dev of Some v \<Rightarrow> dev_revoked_at v \<noteq> None | None \<Rightarrow> False)
      then Inl (AuthorizationError ''device_revoked'')
      else let (session_id, d1) = uuid4 d
           in bindE (user_roles ud usr) (\<lambda>roles.
              let (access_token, access_ttl) = create_access_token w s (now div 1000000) jti (usr_id usr) (org_id org)
                    (map_option dev_id dev) (usr_email usr) roles session_id None;
                  (refresh_token, refresh_hash) = generate_refresh_token drawn;
                  d2 = (case dev of Some v \<Rightarrow> upd_device (dev_id v) (session_device now s session_id refresh_hash) d1
                        | None \<Rightarrow> d1)
              in Inr (\<lparr>is_access_token = access_token, is_access_ttl = access_ttl, is_refresh_token = refresh_token,
                       is_refresh_ttl = st_refresh_token_ttl_seconds s, is_session_id = session_id\<rparr>, d2)))"

definition rotate_refresh_token :: "time \<Rightarrow> ustr \<Rightarrow> db \<Rightarrow> (user \<times> organization \<times> device \<times> db) res" where
  "rotate_refresh_token now refresh_token d =
     bindE (scalar_one_or_none (filter (\<lambda>v. dev_refresh_token_hash v = Some (hash_refresh_token refresh_token)) (d_devices d)))
       (\<lambda>found. case found of
          None \<Rightarrow> Inl (AuthenticationError ''refresh_invalid'')
        | Some v \<Rightarrow>
            if dev_revoked_at v \<noteq> None then Inl (AuthorizationError ''device_revoked'')
            else if (case dev_refresh_token_expires_at v of Some t \<Rightarrow> t < now | None \<Rightarrow> False)
              then Inl (AuthenticationError ''refresh_expired'')
            else case (find (\<lambda>u. usr_id u = dev_user_id v) (d_users d),
                       find (\<lambda>r. org_id r = dev_organization_id v) (d_organizations d)) of
                (Some u, Some r) \<Rightarrow>
                  if \<not> usr_is_active u then Inl (AuthenticationError ''Refresh token no longer maps to an active user'')
                  else Inr (u, r, v\<lparr>dev_refresh_token_hash := None\<rparr>,
                    upd_device (dev_id v) (\<lambda>v. v\<lparr>dev_refresh_token_hash := None\<rparr>) d)
              | _ \<Rightarrow> Inl (AuthenticationError ''Refresh token no longer maps to an active user''))"

definition revoked_device :: "time \<Rightarrow> ustr option \<Rightarrow> device \<Rightarrow> device" where
  "revoked_device now reason v =
     v\<lparr>dev_revoked_at := Some now,
       dev_revoked_reason := Some (take 1000 (if truthy reason then the reason else lit ''revoked by administrator'')),
       dev_refresh_token_hash := None, dev_session_id := None\<rparr>"

definition revoke_device :: "time \<Rightarrow> uuid \<Rightarrow> ustr option \<Rightarrow> db \<Rightarrow> (device \<times> db) res" where
  "revoke_device now device_id reason d =
     (case find (\<lambda>v. dev_id v = device_id) (d_devices d) of
        None \<Rightarrow> Inl (AuthenticationError ''device_not_found'')
      | Some v \<Rightarrow> Inr (revoked_device now reason v, upd_device device_id (revoked_device now reason) d))"

section \<open>Refresh tokens are single use\<close>

lemma rotate_Inr:
  assumes "rotate_refresh_token now tok d = Inr (u, r, v', d')"
  obtains v where "filter (\<lambda>v. dev_refresh_token_hash v = Some (hash_refresh_token tok)) (d_devices d) = [v]"
    "dev_revoked_at v = None" "case dev_refresh_token_expires_at v of Some t \<Rightarrow> now \<le> t | None \<Rightarrow> True"
    "find (\<lambda>u. usr_id u = dev_user_id v) (d_users d) = Some u" "usr_is_active u"
    "v' = v\<lparr>dev_refresh_token_hash := None\<rparr>"
    "d' = upd_device (dev_id v) (\<lambda>v. v\<lparr>dev_refresh_token_hash := None\<rparr>) d"
proof -
  obtain v where s: "scalar_one_or_none (filter (\<lambda>v. dev_refresh_token_hash v = Some (hash_refresh_token tok)) (d_devices d)) = Inr (Some v)"
    using assms by (auto simp: rotate_refresh_token_def bindE_eq_Inr split: option.splits)
  then have f: "filter (\<lambda>v. dev_refresh_token_hash v = Some (hash_refresh_token tok)) (d_devices d) = [v]"
    by (cases rule: scalar_one_or_none.cases [of "filter (\<lambda>v. dev_refresh_token_hash v = Some (hash_refresh_token tok)) (d_devices d)"]) auto
  show ?thesis
    using assms s by (intro that [OF f]) (auto simp: rotate_refresh_token_def split: option.splits if_splits)
qed

lemma rotate_unknown:
  "filter (\<lambda>v. dev_refresh_token_hash v = Some (hash_refresh_token tok)) (d_devices d) = []
     \<Longrightarrow> rotate_refresh_token now tok d = Inl (AuthenticationError ''refresh_invalid'')"
  by (simp add: rotate_refresh_token_def)

lemma no_hash_upd:
  assumes "\<And>v. v \<in> set (d_devices d) \<Longrightarrow> dev_id v = i \<Longrightarrow> dev_refresh_token_hash (f v) \<noteq> Some h"
    and "\<And>v. v \<in> set (d_devices d) \<Longrightarrow> dev_id v \<noteq> i \<Longrightarrow> dev_refresh_token_hash v \<noteq> Some h"
  shows "filter (\<lambda>v. dev_refresh_token_hash v = Some h) (d_devices (upd_device i f d)) = []"
  using assms by (auto simp: upd_device_def filter_empty_conv elim!: in_upd_whereE split: if_splits)


section \<open>A concrete rotation\<close>

definition sample_organization :: organization where
  "sample_organization = \<lparr>org_id = 1, org_created_at = 0, org_slug = DEFAULT_ORG_SLUG, org_display_name = [],
     org_primary_domain = [], org_allowed_domains = [], org_is_active = True, org_settings = JObj []\<rparr>"

definition sample_device :: device where
  "sample_device = (blank_device 0 2 sample_organization (lit ''fingerprint'') 3)
     \<lparr>dev_refresh_token_hash := Some (hash_refresh_token (lit ''t'')), dev_session_id := Some 9\<rparr>"

definition sample_account :: user where
  "sample_account = \<lparr>usr_id = 2, usr_created_at = 0, usr_organization_id = 1, usr_email = lit ''a@b'', usr_email_hash = [],
     usr_display_name = None, usr_roles = [''employee''], usr_is_active = True, usr_notice_acknowledged_at = None,
     usr_last_seen_at = None\<rparr>"

definition sample_accounts_db :: db where
  "sample_accounts_db = empty_db\<lparr>d_users := [sample_account], d_devices := [sample_device],
     d_organizations := [sample_organization]\<rparr>"

lemma sample_rotation:
  obtains u r v d' where "rotate_refresh_token 0 (lit ''t'') sample_accounts_db = Inr (u, r, v, d')"
proof -
  have "\<exists>x. rotate_refresh_token 0 (lit ''t'') sample_accounts_db = Inr x"
    by (simp add: rotate_refresh_token_def sample_accounts_db_def sample_device_def sample_account_def
        blank_device_def sample_organization_def)
  then show ?thesis using that by (metis prod_cases4)
qed


end
