(* ===== verification/Ipaddr.thy ===== *)
theory Ipaddr
  imports Config
begin

text \<open>
  Standard library: \<open>str(ipaddress.ip_address(text))\<close>, the canonical form of a textual address, as
  \<open>client_ip\<close> of \<open>app/api/deps.py\<close> uses it.  An address that does not parse is \<open>None\<close>
  (\<open>ValueError\<close>).  The form is that of Python 3.12, the version the images run.
\<close>

section \<open>IPv4\<close>

definition dec_digits :: "ustr \<Rightarrow> nat" where
  "dec_digits s = foldl (\<lambda>a c. 10 * a + (c - 48)) 0 s"

definition octet :: "ustr \<Rightarrow> nat option" where
  "octet s = (if s = [] \<or> \<not> list_all (\<lambda>c. 48 \<le> c \<and> c \<le> 57) s \<or> 3 < length s \<or> (s \<noteq> [48] \<and> hd s = 48)
     \<or> 255 < dec_digits s then None else Some (dec_digits s))"

fun all_some :: "'a option list \<Rightarrow> 'a list option" where
  "all_some [] = Some []"
| "all_some (None # xs) = None"
| "all_some (Some x # xs) = map_option (Cons x) (all_some xs)"

definition ipv4_octets :: "ustr \<Rightarrow> nat list option" where
  "ipv4_octets s = (let parts = split_on 46 s in if length parts \<noteq> 4 then None else all_some (map octet parts))"

definition ipv4_str :: "nat list \<Rightarrow> string" where
  "ipv4_str os = concat (map dec_nat (take 1 os) @ map (\<lambda>n. CHR ''.'' # dec_nat n) (drop 1 os))"

section \<open>IPv6\<close>

definition hextet :: "ustr \<Rightarrow> nat option" where
  "hextet s = (if s = [] \<or> 4 < length s \<or> \<not> list_all (\<lambda>c. c < 128) s then None
     else unhex_acc 0 (map char_of s))"

text \<open>A dotted quad at the end stands for the last two groups.\<close>

definition expand_quad :: "ustr list \<Rightarrow> ustr list option" where
  "expand_quad parts =
     (if 46 \<notin> set (last parts) then Some parts
      else case ipv4_octets (last parts) of
          Some [a, b, c, d] \<Rightarrow> Some (butlast parts
            @ [lit (hex_fixed 4 (256 * a + b)), lit (hex_fixed 4 (256 * c + d))])
        | _ \<Rightarrow> None)"

definition empty_places :: "ustr list \<Rightarrow> nat list" where
  "empty_places parts = filter (\<lambda>i. parts ! i = []) [1 ..< length parts - 1]"

definition ipv6_groups :: "ustr list \<Rightarrow> nat list option" where
  "ipv6_groups parts =
     (case empty_places parts of
        [] \<Rightarrow> if length parts \<noteq> 8 then None else all_some (map hextet parts)
      | [i] \<Rightarrow>
          (let hi = (if hd parts = [] then i - 1 else i);
               n = length parts - i - 1;
               lo = (if last parts = [] then n - 1 else n)
           in if (hd parts = [] \<and> hi \<noteq> 0) \<or> (last parts = [] \<and> lo \<noteq> 0) \<or> 8 \<le> hi + lo then None
              else case (all_some (map hextet (take hi parts)), all_some (map hextet (drop (length parts - lo) parts))) of
                  (Some a, Some b) \<Rightarrow> Some (a @ replicate (8 - (hi + lo)) 0 @ b)
                | _ \<Rightarrow> None)
      | _ \<Rightarrow> None)"

definition ipv6_parse :: "ustr \<Rightarrow> nat list option" where
  "ipv6_parse s =
     (if s = [] then None
      else let parts = split_on 58 s
           in if length parts < 3 then None
              else case expand_quad parts of None \<Rightarrow> None
                | Some parts' \<Rightarrow> if 9 < length parts' then None else ipv6_groups parts')"

text \<open>\<open>'%x'\<close>, and the first longest run of at least two zero groups written as two colons.\<close>

fun hex_nat :: "nat \<Rightarrow> string" where
  "hex_nat n = (if n < 16 then [hex_digit n] else hex_nat (n div 16) @ [hex_digit (n mod 16)])"

declare hex_nat.simps [simp del]

fun longest_run :: "nat list \<Rightarrow> nat \<Rightarrow> nat \<Rightarrow> nat \<Rightarrow> nat \<Rightarrow> nat \<times> nat" where
  "longest_run [] i cur best_at best = (best_at, best)"
| "longest_run (g # gs) i cur best_at best =
     (if g = 0 then if best < cur + 1 then longest_run gs (i + 1) (cur + 1) (i - cur) (cur + 1)
                    else longest_run gs (i + 1) (cur + 1) best_at best
      else longest_run gs (i + 1) 0 best_at best)"

fun colon_join :: "string list \<Rightarrow> string" where
  "colon_join [] = []"
| "colon_join [x] = x"
| "colon_join (x # y # xs) = x @ '':'' @ colon_join (y # xs)"

definition ipv6_str :: "nat list \<Rightarrow> string" where
  "ipv6_str gs =
     (let (start, n) = longest_run gs 0 0 0 0; hs = map hex_nat gs
      in if n \<le> 1 then colon_join hs
         else colon_join (take start hs) @ ''::'' @ colon_join (drop (start + n) hs))"

section \<open>Either\<close>

definition before_percent :: "ustr \<Rightarrow> ustr" where
  "before_percent s = takeWhile (\<lambda>c. c \<noteq> 37) s"

definition scope_of :: "ustr \<Rightarrow> ustr" where
  "scope_of s = drop (length (before_percent s) + 1) s"

definition scope_ok :: "ustr \<Rightarrow> bool" where
  "scope_ok s \<longleftrightarrow> 37 \<notin> set s \<or> (scope_of s \<noteq> [] \<and> 37 \<notin> set (scope_of s))"

definition ip_address :: "ustr \<Rightarrow> ustr option" where
  "ip_address s =
     (if 47 \<in> set s then None
      else case ipv4_octets s of
          Some os \<Rightarrow> Some (lit (ipv4_str os))
        | None \<Rightarrow> if \<not> scope_ok s then None
            else map_option (\<lambda>gs. lit (ipv6_str gs) @ (if 37 \<in> set s then 37 # scope_of s else []))
                   (ipv6_parse (before_percent s)))"

text \<open>Addresses are compared by their canonical text: several spellings give one.\<close>

lemma ip_address_examples:
  "ip_address (lit ''203.0.113.9'') = Some (lit ''203.0.113.9'')"
  "ip_address (lit ''203.0.113.09'') = None"
  "ip_address (lit ''2001:DB8:0:0:1:0:0:1'') = Some (lit ''2001:db8::1:0:0:1'')"
  "ip_address (lit ''::ffff:1.2.3.4'') = Some (lit ''::ffff:102:304'')"
  "ip_address (lit ''fe80::1%eth0'') = Some (lit ''fe80::1%eth0'')"
  "ip_address (lit ''::'') = Some (lit ''::'')"
  "ip_address (lit ''1::2::3'') = None"
  "ip_address (lit ''10.0.0.0/8'') = None"
  by code_simp+

end
