(* ===== verification/Deps.thy ===== *)
theory Deps
  imports Accounts RateLimit Ipaddr
begin

text \<open>
  \<open>app/api/deps.py\<close>: what every request goes through before its handler runs.  The limiter is the
  process's; a refused request has still spent its budget.  The parts of a request the
  dependencies read are a record; a token is verified at the second \<open>now div 1000000\<close>.
\<close>

record http_request =
  rq_cf_connecting_ip :: "ustr option"
  rq_client_host :: "ustr option"
  rq_authorization :: "ustr option"

record principal =
  pl_claims :: access_claims
  pl_user :: user
  pl_organization :: organization
  pl_device :: "device option"

text \<open>What a request sees of the process: the tokens, the settings, the clocks.\<close>

record api =
  a_ud :: unidb
  a_jwt :: jwt
  a_settings :: settings
  a_now :: time
  a_clock :: rat
  a_correlation :: "string option"

section \<open>The limiter of the process\<close>

definition get_rate_limiter :: "settings \<Rightarrow> composite" where
  "get_rate_limiter s = new_composite (st_rate_limit_requests_per_minute s) (max 1 (st_api_workers s)) (st_rate_limit_burst s)"

definition reset_rate_limiter :: "settings \<Rightarrow> composite \<Rightarrow> composite" where
  "reset_rate_limiter s c = get_rate_limiter s"

section \<open>The caller\<close>

definition client_ip :: "settings \<Rightarrow> http_request \<Rightarrow> ustr option" where
  "client_ip s r =
     (let candidate = (if is_production s then rq_cf_connecting_ip r else rq_client_host r)
      in if \<not> truthy candidate then None else ip_address (py_strip (the candidate)))"

definition ip_key :: "settings \<Rightarrow> http_request \<Rightarrow> string option" where
  "ip_key s r = map_option (map char_of) (client_ip s r)"

definition is_bearer :: "unidb \<Rightarrow> ustr option \<Rightarrow> bool" where
  "is_bearer ud a \<longleftrightarrow> truthy a \<and> startswith (lit ''bearer '') (u_lower ud (the a))"

definition get_bearer_token :: "unidb \<Rightarrow> ustr option \<Rightarrow> ustr res" where
  "get_bearer_token ud a =
     (if \<not> is_bearer ud a then Inl (AuthenticationError ''Missing bearer token'')
      else let token = py_strip (drop 7 (the a))
           in if token = [] \<or> 8192 < length token then Inl (AuthenticationError ''Malformed bearer token'')
              else Inr token)"

definition get_user :: "uuid \<Rightarrow> db \<Rightarrow> user option" where
  "get_user i d = find (\<lambda>u. usr_id u = i) (d_users d)"

definition get_organization :: "uuid \<Rightarrow> db \<Rightarrow> organization option" where
  "get_organization i d = find (\<lambda>r. org_id r = i) (d_organizations d)"

definition get_device :: "uuid \<Rightarrow> db \<Rightarrow> device option" where
  "get_device i d = find (\<lambda>v. dev_id v = i) (d_devices d)"

definition principal_device :: "access_claims \<Rightarrow> user \<Rightarrow> db \<Rightarrow> device option res" where
  "principal_device c u d =
     (case ac_device_id c of
        None \<Rightarrow> Inr None
      | Some did \<Rightarrow> (case get_device did d of
            None \<Rightarrow> Inl (AuthenticationError ''device_not_found'')
          | Some v \<Rightarrow>
              if dev_revoked_at v \<noteq> None then Inl (AuthorizationError ''device_revoked'')
              else if dev_user_id v \<noteq> usr_id u then Inl (AuthorizationError ''Device does not belong to this user'')
              else if dev_session_id v \<noteq> None \<and> dev_session_id v \<noteq> Some (ac_session_id c)
                then Inl (AuthenticationError ''session_superseded'')
              else Inr (Some v)))"

definition authenticate :: "api \<Rightarrow> ustr \<Rightarrow> db \<Rightarrow> principal res" where
  "authenticate a token d =
     bindE (decode_access_token (a_ud a) (a_jwt a) (a_settings a) (a_now a div 1000000) token) (\<lambda>c.
     case get_user (ac_user_id c) d of
       None \<Rightarrow> Inl (AuthenticationError ''Token does not map to an active user'')
     | Some u \<Rightarrow>
         if \<not> usr_is_active u then Inl (AuthenticationError ''Token does not map to an active user'')
         else if usr_organization_id u \<noteq> ac_organization_id c then Inl (AuthorizationError ''Token organization mismatch'')
         else case get_organization (ac_organization_id c) d of
             None \<Rightarrow> Inl (AuthorizationError ''Organization is not active'')
           | Some r \<Rightarrow>
               if \<not> org_is_active r then Inl (AuthorizationError ''Organization is not active'')
               else bindE (principal_device c u d) (\<lambda>v.
                 Inr \<lparr>pl_claims = c, pl_user = u, pl_organization = r, pl_device = v\<rparr>))"

definition get_principal :: "api \<Rightarrow> http_request \<Rightarrow> db \<Rightarrow> composite \<Rightarrow> principal res \<times> composite" where
  "get_principal a r d lm =
     (case bindE (get_bearer_token (a_ud a) (rq_authorization r)) (\<lambda>token. authenticate a token d) of
        Inl e \<Rightarrow> (Inl e, lm)
      | Inr p \<Rightarrow> (let (verdict, lm') = composite_check (Some (uuid_str (usr_id (pl_user p))))
              (map_option (\<lambda>v. uuid_str (dev_id v)) (pl_device p)) (ip_key (a_settings a) r) 1 (a_clock a) lm
          in (if rl_allowed verdict then Inr p else Inl (RateLimitError (rl_retry_after verdict)), lm')))"

definition require_roles :: "role list \<Rightarrow> principal \<Rightarrow> principal res" where
  "require_roles allowed p = bindE (require_any allowed (pl_claims p)) (\<lambda>_. Inr p)"

definition rate_limit_anonymous :: "api \<Rightarrow> http_request \<Rightarrow> composite \<Rightarrow> unit res \<times> composite" where
  "rate_limit_anonymous a r lm =
     (let (verdict, lm') = composite_check None None (ip_key (a_settings a) r) 1 (a_clock a) lm
      in (if rl_allowed verdict then Inr () else Inl (RateLimitError (rl_retry_after verdict)), lm'))"

section \<open>Revoked devices stay out\<close>

lemma authenticate_Inr:
  assumes "authenticate a token d = Inr p"
  obtains "decode_access_token (a_ud a) (a_jwt a) (a_settings a) (a_now a div 1000000) token = Inr (pl_claims p)"
    "get_user (ac_user_id (pl_claims p)) d = Some (pl_user p)" "usr_is_active (pl_user p)"
    "usr_organization_id (pl_user p) = ac_organization_id (pl_claims p)"
    "get_organization (ac_organization_id (pl_claims p)) d = Some (pl_organization p)"
    "org_is_active (pl_organization p)"
    "principal_device (pl_claims p) (pl_user p) d = Inr (pl_device p)"
proof -
  obtain c where c: "decode_access_token (a_ud a) (a_jwt a) (a_settings a) (a_now a div 1000000) token = Inr c"
    using assms by (auto simp: authenticate_def bindE_eq_Inr)
  obtain u where u: "get_user (ac_user_id c) d = Some u"
    using assms c by (cases "get_user (ac_user_id c) d") (auto simp: authenticate_def)
  have ok: "usr_is_active u" "usr_organization_id u = ac_organization_id c"
    using assms c u by (auto simp: authenticate_def split: if_splits)
  obtain r where r: "get_organization (ac_organization_id c) d = Some r"
    using assms c u ok by (cases "get_organization (ac_organization_id c) d") (auto simp: authenticate_def)
  have act: "org_is_active r" using assms c u ok r by (auto simp: authenticate_def split: if_splits)
  obtain v where v: "principal_device c u d = Inr v"
    using assms c u ok r act by (cases "principal_device c u d") (auto simp: authenticate_def)
  then have p: "p = \<lparr>pl_claims = c, pl_user = u, pl_organization = r, pl_device = v\<rparr>"
    using assms c u ok r act by (simp add: authenticate_def)
  show ?thesis by (rule that) (use c u ok r act v p in simp_all)
qed

lemma principal_device_Some:
  assumes "principal_device c u d = Inr v" "ac_device_id c = Some did"
  obtains w where "v = Some w" "get_device did d = Some w" "dev_revoked_at w = None" "dev_user_id w = usr_id u"
    "dev_session_id w = None \<or> dev_session_id w = Some (ac_session_id c)"
proof -
  obtain w where w: "get_device did d = Some w" using assms by (auto simp: principal_device_def split: option.splits)
  then have "v = Some w \<and> dev_revoked_at w = None \<and> dev_user_id w = usr_id u
      \<and> (dev_session_id w = None \<or> dev_session_id w = Some (ac_session_id c))"
    using assms by (auto simp: principal_device_def split: if_splits)
  then show ?thesis using that w by blast
qed

definition device_revoked :: "uuid \<Rightarrow> db \<Rightarrow> bool" where
  "device_revoked did d \<longleftrightarrow> did < d_next_uuid d \<and> (\<exists>v\<in>set (d_devices d). dev_id v = did)
     \<and> (\<forall>v\<in>set (d_devices d). dev_id v = did \<longrightarrow> dev_revoked_at v \<noteq> None)"

lemma device_revoked_get: "device_revoked did d \<Longrightarrow> \<exists>v. get_device did d = Some v \<and> dev_revoked_at v \<noteq> None"
  unfolding device_revoked_def get_device_def
  by (cases "find (\<lambda>v. dev_id v = did) (d_devices d)") (auto simp: find_None_iff find_Some_iff)

lemma device_revoked_refused:
  assumes "device_revoked did d" "decode_access_token (a_ud a) (a_jwt a) (a_settings a) (a_now a div 1000000) token = Inr c"
    and "ac_device_id c = Some did"
  shows "authenticate a token d \<noteq> Inr p"
proof
  assume p: "authenticate a token d = Inr p"
  then have "principal_device (pl_claims p) (pl_user p) d = Inr (pl_device p)" "pl_claims p = c"
    using assms(2) by (auto elim: authenticate_Inr)
  then obtain w where "get_device did d = Some w" "dev_revoked_at w = None"
    using principal_device_Some [of c "pl_user p" d] assms(3) by metis
  with device_revoked_get [OF assms(1)] show False by auto
qed

text \<open>A statement on the devices that keeps every identifier and every revocation keeps a device revoked.\<close>

lemma device_revoked_same:
  "device_revoked did d \<Longrightarrow> d_devices d' = d_devices d \<Longrightarrow> d_next_uuid d \<le> d_next_uuid d' \<Longrightarrow> device_revoked did d'"
  by (simp add: device_revoked_def)

lemma device_revoked_upd:
  assumes "device_revoked did d" "d_devices d' = upd_where p f (d_devices d)" "d_next_uuid d \<le> d_next_uuid d'"
    and f: "\<And>v. dev_id (f v) = dev_id v" "\<And>v. dev_revoked_at v \<noteq> None \<Longrightarrow> dev_revoked_at (f v) \<noteq> None"
  shows "device_revoked did d'"
proof -
  let ?g = "\<lambda>v. if p v then f v else v"
  have g: "dev_id (?g v) = dev_id v" "dev_revoked_at v \<noteq> None \<Longrightarrow> dev_revoked_at (?g v) \<noteq> None" for v
    using f [of v] by simp_all
  obtain v where v: "v \<in> set (d_devices d)" "dev_id v = did" using assms(1) by (auto simp: device_revoked_def)
  have "?g v \<in> set (d_devices d')" using v(1) unfolding assms(2) set_upd_where by blast
  moreover have "dev_revoked_at x \<noteq> None" if "x \<in> set (d_devices d')" "dev_id x = did" for x
    using that(1) unfolding assms(2)
  proof (rule in_upd_whereE)
    fix y assume y: "y \<in> set (d_devices d)" "x = ?g y"
    then have "dev_id y = did" using that(2) g(1) [of y] by simp
    then show ?thesis using assms(1) y g(2) [of y] unfolding device_revoked_def by blast
  qed
  ultimately show ?thesis
    using assms(1,3) g(1) [of v] v(2) unfolding device_revoked_def by fastforce
qed

lemma device_revoked_add:
  assumes "device_revoked did d" "d_devices d' = d_devices d @ [v]" "dev_id v \<noteq> did" "d_next_uuid d \<le> d_next_uuid d'"
  shows "device_revoked did d'"
  using assms by (auto simp: device_revoked_def)

text \<open>The statements of the account services, each with the database it leaves when it succeeds.\<close>

inductive account_step :: "db \<Rightarrow> db \<Rightarrow> bool" where
  step_organization: "get_or_create_organization ud s now d = Inr (r, d') \<Longrightarrow> account_step d d'"
| step_user: "get_or_create_user ud s now r identity d = Inr (u, d') \<Longrightarrow> account_step d d'"
| step_device: "get_or_create_device ud now uid r i d = Inr (v, d') \<Longrightarrow> account_step d d'"
| step_session: "issue_session ud w s now jti drawn u r v d = Inr (ses, d') \<Longrightarrow> account_step d d'"
| step_rotate: "rotate_refresh_token now tok d = Inr (u, r, v, d') \<Longrightarrow> account_step d d'"
| step_revoke: "revoke_device now did reason d = Inr (v, d') \<Longrightarrow> account_step d d'"
| step_audit: "record_audit ud corr action args d = (row, d') \<Longrightarrow> account_step d d'"
| step_user_row: "account_step d (upd_user uid f d)"

lemma organization_keeps_devices:
  "get_or_create_organization ud s now d = Inr (r, d') \<Longrightarrow> d_devices d' = d_devices d \<and> d_next_uuid d \<le> d_next_uuid d'"
  by (auto simp: get_or_create_organization_def bindE_eq_Inr uuid4_def Let_def split: option.splits if_splits)

lemma user_keeps_devices:
  assumes "get_or_create_user ud s now r identity d = Inr (u, d')"
  shows "d_devices d' = d_devices d \<and> d_next_uuid d \<le> d_next_uuid d'"
proof -
  have l: "d_devices d1 = d_devices d \<and> d_next_uuid d1 = d_next_uuid d"
    if "linked_user ud now identity l d = Inr (u1, d1)" for l u1 d1
    using that by (auto simp: linked_user_def upd_user_def Let_def split: option.splits if_splits)
  have f: "d_devices d1 = d_devices d \<and> d_next_uuid d \<le> d_next_uuid d1"
    if "find_or_add_user ud now r identity d = Inr (u1, d1)" for u1 d1
    using that by (auto simp: find_or_add_user_def bindE_eq_Inr uuid4_def Let_def split: option.splits)
  show ?thesis
    using assms l f by (fastforce simp: get_or_create_user_def bindE_eq_Inr uuid4_def Let_def split: option.splits if_splits prod.splits)
qed

lemma device_ids [simp]:
  "dev_id (refreshed_device ud now i v) = dev_id v" "dev_revoked_at (refreshed_device ud now i v) = dev_revoked_at v"
  "dev_id (blank_device now uid r fp did) = did"
  by (simp_all add: refreshed_device_def blank_device_def)

lemma device_step_revoked:
  assumes "get_or_create_device ud now uid r i d = Inr (v, d')" "device_revoked did d"
  shows "device_revoked did d'"
proof -
  obtain found where f: "scalar_one_or_none (filter (\<lambda>v. dev_user_id v = uid
      \<and> dev_device_fingerprint v = di_device_fingerprint i) (d_devices d)) = Inr found"
    using assms(1) by (auto simp: get_or_create_device_def bindE_eq_Inr)
  show ?thesis
  proof (cases found)
    case (Some w)
    then have "d' = upd_device (dev_id w) (refreshed_device ud now i) d"
      using assms(1) f by (auto simp: get_or_create_device_def bindE_eq_Inr)
    then show ?thesis
      by (intro device_revoked_upd [OF assms(2), where f = "refreshed_device ud now i"]) (auto simp: upd_device_def)
  next
    case None
    let ?w = "refreshed_device ud now i (blank_device now uid r (di_device_fingerprint i) (d_next_uuid d))"
    have d': "d_devices d' = d_devices d @ [?w]" "d_next_uuid d' = Suc (d_next_uuid d)"
      using assms(1) f None by (auto simp: get_or_create_device_def bindE_eq_Inr uuid4_def Let_def)
    show ?thesis
      using assms(2) d'(2) by (intro device_revoked_add [OF assms(2) d'(1)]) (auto simp: device_revoked_def)
  qed
qed

lemma session_step_revoked:
  assumes "issue_session ud w s now jti drawn u r v d = Inr (ses, d')" "device_revoked did d"
  shows "device_revoked did d'"
proof -
  have "d' = snd (uuid4 d) \<or> (\<exists>i sid h. d' = upd_device i (session_device now s sid h) (snd (uuid4 d)))"
  proof (cases v)
    case None
    then show ?thesis
      using assms(1) by (auto simp: issue_session_def bindE_eq_Inr Let_def case_prod_beta)
  next
    case (Some x)
    then have "d' = upd_device (dev_id x) (session_device now s (fst (uuid4 d)) (snd (generate_refresh_token drawn))) (snd (uuid4 d))"
      using assms(1) by (auto simp: issue_session_def bindE_eq_Inr Let_def case_prod_beta split: if_splits)
    then show ?thesis
      by (intro disjI2 exI [of _ "dev_id x"] exI [of _ "fst (uuid4 d)"] exI [of _ "snd (generate_refresh_token drawn)"])
  qed
  then show ?thesis
  proof (elim disjE exE)
    assume "d' = snd (uuid4 d)"
    then show ?thesis by (intro device_revoked_same [OF assms(2)]) (auto simp: uuid4_def)
  next
    fix i sid h assume "d' = upd_device i (session_device now s sid h) (snd (uuid4 d))"
    then show ?thesis
      by (intro device_revoked_upd [OF assms(2), where f = "session_device now s sid h"])
        (auto simp: upd_device_def uuid4_def session_device_def)
  qed
qed

lemma revoke_step_revoked:
  assumes "revoke_device now i reason d = Inr (v, d')" "device_revoked did d"
  shows "device_revoked did d'"
proof -
  have "d' = upd_device i (revoked_device now reason) d"
    using assms(1) by (auto simp: revoke_device_def split: option.splits)
  then show ?thesis
    by (intro device_revoked_upd [OF assms(2), where f = "revoked_device now reason"])
      (auto simp: upd_device_def revoked_device_def)
qed

lemma rotate_step_revoked:
  assumes "rotate_refresh_token now tok d = Inr (u, r, v, d')" "device_revoked did d"
  shows "device_revoked did d'" "dev_id v \<noteq> did"
proof -
  obtain w where w: "filter (\<lambda>v. dev_refresh_token_hash v = Some (hash_refresh_token tok)) (d_devices d) = [w]"
    "dev_revoked_at w = None" "v = w\<lparr>dev_refresh_token_hash := None\<rparr>"
    "d' = upd_device (dev_id w) (\<lambda>v. v\<lparr>dev_refresh_token_hash := None\<rparr>) d"
    by (rule rotate_Inr [OF assms(1)])
  show "device_revoked did d'"
    by (intro device_revoked_upd [OF assms(2), where f = "\<lambda>v. v\<lparr>dev_refresh_token_hash := None\<rparr>"])
      (auto simp: w(4) upd_device_def)
  have "w \<in> set (filter (\<lambda>v. dev_refresh_token_hash v = Some (hash_refresh_token tok)) (d_devices d))" unfolding w(1) by simp
  then show "dev_id v \<noteq> did" using assms(2) w(2,3) by (auto simp: device_revoked_def)
qed

lemma account_step_revoked: "account_step d d' \<Longrightarrow> device_revoked did d \<Longrightarrow> device_revoked did d'"
proof (induction rule: account_step.induct)
  case step_organization
  then show ?case using organization_keeps_devices device_revoked_same by metis
next
  case step_user
  then show ?case using user_keeps_devices device_revoked_same by metis
next
  case step_audit
  then show ?case
    by (intro device_revoked_same [OF step_audit(2)]) (auto simp: record_audit_def uuid4_def Let_def)
next
  case (step_user_row d uid f)
  then show ?case by (simp add: device_revoked_def upd_user_def)
qed (auto intro: device_step_revoked session_step_revoked revoke_step_revoked rotate_step_revoked)

lemma account_steps_revoked: "account_step\<^sup>*\<^sup>* d d' \<Longrightarrow> device_revoked did d \<Longrightarrow> device_revoked did d'"
  by (induction rule: rtranclp_induct) (auto intro: account_step_revoked)

lemma revoke_revokes:
  assumes "revoke_device now did reason d = Inr (v, d')" "did < d_next_uuid d"
  shows "device_revoked did d'"
proof -
  have d': "d' = upd_device did (revoked_device now reason) d" and "\<exists>v. find (\<lambda>v. dev_id v = did) (d_devices d) = Some v"
    using assms(1) by (auto simp: revoke_device_def split: option.splits)
  then obtain x where "x \<in> set (d_devices d)" "dev_id x = did" by (metis (mono_tags) find_Some_iff nth_mem)
  moreover have "revoked_device now reason x \<in> set (d_devices d')"
    using calculation by (auto simp: d' upd_device_def set_upd_where)
  moreover have r: "dev_id (revoked_device now reason y) = dev_id y" "dev_revoked_at (revoked_device now reason y) \<noteq> None"
    for y by (simp_all add: revoked_device_def)
  moreover have "dev_revoked_at y \<noteq> None" if "y \<in> set (d_devices d')" "dev_id y = did" for y
  proof -
    have "y \<in> set (upd_where (\<lambda>v. dev_id v = did) (revoked_device now reason) (d_devices d))"
      using that(1) by (simp add: d' upd_device_def)
    then obtain z where "z \<in> set (d_devices d)" "y = (if dev_id z = did then revoked_device now reason z else z)"
      by (rule in_upd_whereE)
    then show ?thesis using that(2) r(2) [of z] by (cases "dev_id z = did") simp_all
  qed
  moreover have "d_next_uuid d' = d_next_uuid d" by (simp add: d' upd_device_def)
  ultimately show ?thesis using assms(2) unfolding device_revoked_def by metis
qed

text \<open>
  C37. Revoking a device is final: whatever the account services do afterwards (sign-ins,
  registrations, new sessions, rotations, further revocations), a token bound to the device is
  refused and no refresh token brings the device back.
\<close>

theorem revoked_device_locked_out:
  assumes "revoke_device now did reason d = Inr (v, d1)" "did < d_next_uuid d" "account_step\<^sup>*\<^sup>* d1 d2"
    and "decode_access_token (a_ud a) (a_jwt a) (a_settings a) (a_now a div 1000000) token = Inr c"
    and "ac_device_id c = Some did"
  shows "(\<exists>e. authenticate a token d2 = Inl e)
    \<and> (\<forall>now' tok u r v' d3. rotate_refresh_token now' tok d2 = Inr (u, r, v', d3) \<longrightarrow> dev_id v' \<noteq> did)"
proof -
  have r: "device_revoked did d2"
    using account_steps_revoked [OF assms(3)] revoke_revokes [OF assms(1,2)] by blast
  have "authenticate a token d2 \<noteq> Inr p" for p by (rule device_revoked_refused [OF r assms(4,5)])
  then have "\<exists>e. authenticate a token d2 = Inl e" by (cases "authenticate a token d2") auto
  then show ?thesis using rotate_step_revoked(2) [OF _ r] by blast
qed

text \<open>A session of the sample device, accepted before the revocation and refused after it.\<close>

definition sample_payload :: json where
  "sample_payload = access_payload default_settings 0 ''j'' 2 1 (Some 3) (lit ''a@b'') [Employee] 9 None"

definition sample_api :: api where
  "sample_api = \<lparr>a_ud = ascii_db, a_jwt = \<lparr>jw_encode = (\<lambda>_ _. []), jw_decode = (\<lambda>_ _ _ _ _. JwtClaims sample_payload)\<rparr>,
     a_settings = default_settings, a_now = 7, a_clock = 0, a_correlation = None\<rparr>"

definition sample_live_db :: db where
  "sample_live_db = sample_accounts_db\<lparr>d_next_uuid := 10\<rparr>"

lemma sample_claims:
  "decode_access_token ascii_db (a_jwt sample_api) default_settings 0 []
    = Inr \<lparr>ac_user_id = 2, ac_organization_id = 1, ac_device_id = Some 3, ac_email = lit ''a@b'', ac_roles = {Employee},
        ac_session_id = 9, ac_expires_at = st_access_token_ttl_seconds default_settings\<rparr>"
  by code_simp

theorem revoked_device_locked_out_witness:
  "\<exists>v d1. (\<exists>p. authenticate sample_api [] sample_live_db = Inr p) \<and> revoke_device 5 3 None sample_live_db = Inr (v, d1)
     \<and> (\<exists>e. authenticate sample_api [] d1 = Inl e)"
proof -
  have c: "decode_access_token (a_ud sample_api) (a_jwt sample_api) (a_settings sample_api) (a_now sample_api div 1000000) []
      = Inr \<lparr>ac_user_id = 2, ac_organization_id = 1, ac_device_id = Some 3, ac_email = lit ''a@b'', ac_roles = {Employee},
        ac_session_id = 9, ac_expires_at = st_access_token_ttl_seconds default_settings\<rparr>"
    using sample_claims by (simp add: sample_api_def)
  have rows: "d_users sample_live_db = [sample_account]" "d_devices sample_live_db = [sample_device]"
    "d_organizations sample_live_db = [sample_organization]" "d_next_uuid sample_live_db = 10"
    by (simp_all add: sample_live_db_def sample_accounts_db_def)
  have dv: "dev_id sample_device = 3" "dev_revoked_at sample_device = None" "dev_user_id sample_device = 2"
    "dev_session_id sample_device = Some 9"
    by (simp_all add: sample_device_def blank_device_def)
  have "\<exists>p. authenticate sample_api [] sample_live_db = Inr p"
    unfolding authenticate_def c
    by (simp add: get_user_def get_organization_def principal_device_def get_device_def rows dv)
      (simp add: sample_account_def sample_organization_def)
  moreover have "revoke_device 5 3 None sample_live_db = Inr (revoked_device 5 None sample_device,
      upd_device 3 (revoked_device 5 None) sample_live_db)"
    by (simp add: revoke_device_def rows dv)
  moreover note revoked_device_locked_out [OF this _ rtranclp.rtrancl_refl c]
  ultimately show ?thesis by (auto simp: rows)
qed

end
