(* ===== verification/Attachments.thy ===== *)
theory Attachments
  imports Ingest
begin

text \<open>
  \<open>app/services/attachments.py\<close> and the requests of \<open>app/schemas/attachments.py\<close>: the life cycle
  of an attachment up to its finalization by the worker.  The object store is the client record
  of \<open>Storage\<close>; MIME types are ASCII strings.
\<close>

section \<open>Requests\<close>

record attachment_init_in =
  ai_client_attachment_id :: ustr
  ai_source_conversation_id :: string
  ai_source_message_id :: "string option"
  ai_filename :: ustr
  ai_mime_type :: string
  ai_byte_size :: int
  ai_sha256 :: string
  ai_relation :: string
  ai_metadata_only :: bool
  ai_source_file_id :: "string option"
  ai_client :: client_context

text \<open>\<open>v.split(";")[0].strip().lower()\<close>.\<close>

definition lower_mime :: "string \<Rightarrow> string" where
  "lower_mime v = ascii_lower (ascii_strip (takeWhile (\<lambda>c. c \<noteq> CHR '';'') v))"

definition attachment_init_valid :: "attachment_init_in \<Rightarrow> bool" where
  "attachment_init_valid p \<longleftrightarrow> 8 \<le> length (ai_client_attachment_id p) \<and> length (ai_client_attachment_id p) \<le> 128
     \<and> source_id_ok (ai_source_conversation_id p) \<and> opt_ok source_id_ok (ai_source_message_id p)
     \<and> 1 \<le> length (ai_filename p) \<and> length (ai_filename p) \<le> 512 \<and> length (ai_mime_type p) \<le> 255
     \<and> 1 \<le> ai_byte_size p \<and> sha256_hex_ok (ai_sha256 p)
     \<and> ai_relation p \<in> {''uploaded_by_user'', ''generated_by_assistant'', ''referenced_historical''}
     \<and> opt_ok source_id_ok (ai_source_file_id p) \<and> client_context_valid (ai_client p)"

record attachment_complete_in =
  ac_attachment_id :: uuid
  ac_sha256 :: string
  ac_byte_size :: int
  ac_source_message_id :: "string option"
  ac_client_message_idempotency_key :: "string option"
  ac_client :: client_context

definition attachment_complete_valid :: "attachment_complete_in \<Rightarrow> bool" where
  "attachment_complete_valid p \<longleftrightarrow> sha256_hex_ok (ac_sha256 p) \<and> 1 \<le> ac_byte_size p
     \<and> opt_ok source_id_ok (ac_source_message_id p)
     \<and> opt_ok (\<lambda>k. length k \<le> 128) (ac_client_message_idempotency_key p) \<and> client_context_valid (ac_client p)"

section \<open>The allowlist\<close>

definition DOCX :: string where
  "DOCX = ''application/vnd.openxmlformats-officedocument.wordprocessingml.document''"

definition XLSX :: string where
  "XLSX = ''application/vnd.openxmlformats-officedocument.spreadsheetml.sheet''"

definition PPTX :: string where
  "PPTX = ''application/vnd.openxmlformats-officedocument.presentationml.presentation''"

definition ALLOWED_MIME_TYPES :: "(string \<times> string list) list" where
  "ALLOWED_MIME_TYPES =
     [(''image/png'', [''.png'']), (''image/jpeg'', [''.jpg'', ''.jpeg'']), (''image/webp'', [''.webp'']),
      (''image/gif'', [''.gif'']), (''application/pdf'', [''.pdf'']), (''text/plain'', [''.txt'', ''.log'', ''.md'']),
      (''text/csv'', [''.csv'']), (''text/markdown'', [''.md'']), (''application/json'', [''.json'']),
      (DOCX, [''.docx'']), (XLSX, [''.xlsx'']), (PPTX, [''.pptx''])]"

definition PNG_PREFIX :: bytes where
  "PNG_PREFIX = [137, 80, 78, 71, 13, 10, 26, 10]"

definition ZIP_PREFIX :: bytes where
  "ZIP_PREFIX = [80, 75, 3, 4]"

definition MAGIC_BYTES :: "(string \<times> bytes list) list" where
  "MAGIC_BYTES =
     [(''image/png'', [PNG_PREFIX]), (''image/jpeg'', [[255, 216, 255]]),
      (''image/gif'', [lit ''GIF87a'', lit ''GIF89a'']), (''image/webp'', [lit ''RIFF'']),
      (''application/pdf'', [lit ''%PDF-'']), (DOCX, [ZIP_PREFIX]), (XLSX, [ZIP_PREFIX]), (PPTX, [ZIP_PREFIX])]"

definition TEXTUAL_MIME_TYPES :: "string list" where
  "TEXTUAL_MIME_TYPES = [''text/plain'', ''text/csv'', ''text/markdown'', ''application/json'']"

definition allowed_extensions :: "string list" where
  "allowed_extensions = sorted_strings (concat (map snd ALLOWED_MIME_TYPES))"

definition name_suffix :: "unidb \<Rightarrow> ustr \<Rightarrow> ustr option" where
  "name_suffix ud name = (if 46 \<in> set name then Some (46 # u_lower ud (after_last 46 name)) else None)"

definition validate_attachment_metadata :: "unidb \<Rightarrow> settings \<Rightarrow> attachment_init_in \<Rightarrow> ustr res" where
  "validate_attachment_metadata ud s p =
     (if ai_byte_size p > st_max_attachment_bytes s then Inl (ValidationError ''attachment_too_large'')
      else case map_of ALLOWED_MIME_TYPES (ai_mime_type p) of
        None \<Rightarrow> Inl (ValidationError ''mime_type_not_allowed'')
      | Some exts \<Rightarrow>
          let safe = safe_filename ud (ai_filename p);
              suffix = (case name_suffix ud safe of Some x \<Rightarrow> x | None \<Rightarrow> [])
          in if suffix \<notin> set (map lit exts) then Inl (ValidationError ''extension_mismatch'') else Inr safe)"

section \<open>Init\<close>

record presigned_upload =
  pu_attachment :: attachment
  pu_upload_url :: "ustr option"
  pu_headers :: "(string \<times> ustr) list"
  pu_expires_at :: "time option"
  pu_duplicate :: bool

definition blank_attachment :: "env \<Rightarrow> ingest_context \<Rightarrow> uuid \<Rightarrow> uuid \<Rightarrow> ustr \<Rightarrow> attachment" where
  "blank_attachment env ctx aid cid client_id =
     \<lparr>at_id = aid, at_created_at = e_now env, at_deleted_at = None, at_legal_hold = False,
      at_organization_id = ic_org ctx, at_workspace_id = ws_id (ic_workspace ctx), at_conversation_id = cid,
      at_user_id = Some (usr_id (ic_user ctx)), at_device_id = ic_device_id ctx,
      at_client_attachment_id = client_id, at_original_filename = None, at_safe_filename = [],
      at_declared_mime_type = None, at_detected_mime_type = None, at_extension = None, at_byte_size = 0,
      at_verified_byte_size = None, at_sha256 = [], at_verified_sha256 = None, at_state = AttPending,
      at_rejection_reason = None, at_metadata_only = False, at_source_file_id = None,
      at_quarantine_s3_key = None, at_clean_s3_key = None, at_curated_s3_key = None,
      at_s3_version_id = None, at_presign_issued_at = None, at_presign_expires_at = None,
      at_uploaded_at = None, at_verified_at = None, at_scan_status = None, at_scan_result = JObj [],
      at_exif_stripped = False, at_metadata_json = JObj []\<rparr>"

definition describe_attachment :: "unidb \<Rightarrow> attachment_init_in \<Rightarrow> ustr \<Rightarrow> attachment \<Rightarrow> attachment" where
  "describe_attachment ud p safe_name a =
     a\<lparr>at_original_filename := Some (take 512 (ai_filename p)), at_safe_filename := safe_name,
       at_declared_mime_type := Some (ai_mime_type p), at_extension := name_suffix ud safe_name,
       at_byte_size := ai_byte_size p, at_sha256 := ai_sha256 p, at_source_file_id := ai_source_file_id p,
       at_metadata_only := ai_metadata_only p\<rparr>"

definition metadata_only_attachment :: "attachment_init_in \<Rightarrow> attachment \<Rightarrow> attachment" where
  "metadata_only_attachment p a =
     a\<lparr>at_state := AttMetadataOnly,
       at_metadata_json := jmerge (at_metadata_json a)
         [(''reason'', JStr ''bytes_not_available_in_page''), (''relation'', JStr (ai_relation p))]\<rparr>"

definition presigned_attachment :: "time \<Rightarrow> ustr \<Rightarrow> time \<Rightarrow> attachment \<Rightarrow> attachment" where
  "presigned_attachment now key expires a =
     a\<lparr>at_quarantine_s3_key := Some key, at_state := AttPending, at_presign_issued_at := Some now,
       at_presign_expires_at := Some expires\<rparr>"

text \<open>\<open>session.add\<close> of a new row or of the row already loaded, and the flush.\<close>

definition save_attachment :: "attachment \<Rightarrow> db \<Rightarrow> db res" where
  "save_attachment a d =
     flush (d\<lparr>d_attachments := (if list_ex (\<lambda>r. at_id r = at_id a) (d_attachments d)
        then upd_where (\<lambda>r. at_id r = at_id a) (\<lambda>_. a) (d_attachments d)
        else d_attachments d @ [a])\<rparr>)"

definition find_attachment :: "uuid \<Rightarrow> ustr \<Rightarrow> db \<Rightarrow> attachment option res" where
  "find_attachment cid client_id d = scalar_one_or_none
     (filter (\<lambda>a. at_conversation_id a = cid \<and> at_client_attachment_id a = client_id) (d_attachments d))"

definition init_row ::
  "env \<Rightarrow> ingest_context \<Rightarrow> 'b s3 \<Rightarrow> attachment_init_in \<Rightarrow> ustr \<Rightarrow> string \<Rightarrow> attachment \<Rightarrow> db
     \<Rightarrow> (presigned_upload \<times> db) res" where
  "init_row env ctx c p safe_name source_conversation_id a0 d =
     (let a1 = describe_attachment (e_ud env) p safe_name a0
      in if ai_metadata_only p
         then let a = metadata_only_attachment p a1
              in bindE (save_attachment a d) (\<lambda>d1.
                   Inr (\<lparr>pu_attachment = a, pu_upload_url = None, pu_headers = [], pu_expires_at = None,
                         pu_duplicate = False\<rparr>, d1))
         else let key = attachment_key (e_ud env) Quarantine (ic_workspace_hash ctx) source_conversation_id
                          (uuid_str (at_id a1)) safe_name
              in bindE (presign_put (ic_settings ctx) c (e_now env) key (ai_mime_type p) (ai_byte_size p)
                          (Some (ai_sha256 p)) None) (\<lambda>(url, headers, expires).
                 let a = presigned_attachment (e_now env) key expires a1
                 in bindE (save_attachment a d) (\<lambda>d1.
                      Inr (\<lparr>pu_attachment = a, pu_upload_url = Some url, pu_headers = headers,
                            pu_expires_at = Some expires, pu_duplicate = False\<rparr>, d1))))"

definition init_for ::
  "env \<Rightarrow> ingest_context \<Rightarrow> 'b s3 \<Rightarrow> attachment_init_in \<Rightarrow> ustr \<Rightarrow> conversation \<Rightarrow> attachment option \<Rightarrow> db
     \<Rightarrow> (presigned_upload \<times> db) res" where
  "init_for env ctx c p safe_name conv existing d =
     (case existing of
       Some a \<Rightarrow> if at_state a \<in> {AttClean, AttQuarantine, AttMetadataOnly}
                 then Inr (\<lparr>pu_attachment = a, pu_upload_url = None, pu_headers = [], pu_expires_at = None,
                            pu_duplicate = True\<rparr>, d)
                 else init_row env ctx c p safe_name (cv_source_conversation_id conv) a d
     | None \<Rightarrow> let (aid, d1) = uuid4 d
               in init_row env ctx c p safe_name (cv_source_conversation_id conv)
                    (blank_attachment env ctx aid (cv_id conv) (ai_client_attachment_id p)) d1)"

definition init_attachment ::
  "env \<Rightarrow> ingest_context \<Rightarrow> 'b s3 \<Rightarrow> attachment_init_in \<Rightarrow> db \<Rightarrow> (presigned_upload \<times> db) res" where
  "init_attachment env ctx c p d =
     bindE (assert_attachment_capture_allowed (ic_settings ctx)) (\<lambda>_.
     bindE (validate_attachment_metadata (e_ud env) (ic_settings ctx) p) (\<lambda>safe_name.
     bindE (get_or_create_conversation env ctx (ai_source_conversation_id p)
              (no_hint\<lparr>h_completeness := Some CcLiveOnly\<rparr>) d) (\<lambda>(conv, _, d1).
     bindE (find_attachment (cv_id conv) (ai_client_attachment_id p) d1) (\<lambda>existing.
       init_for env ctx c p safe_name conv existing d1))))"

section \<open>Complete\<close>

definition upd_attachment :: "uuid \<Rightarrow> (attachment \<Rightarrow> attachment) \<Rightarrow> db \<Rightarrow> db" where
  "upd_attachment aid f d = d\<lparr>d_attachments := upd_where (\<lambda>a. at_id a = aid) f (d_attachments d)\<rparr>"

definition link_target :: "attachment \<Rightarrow> string option \<Rightarrow> db \<Rightarrow> message option res" where
  "link_target a source_message_id d =
     bindE (if truthy source_message_id
            then scalar_one_or_none (filter (\<lambda>m. msg_conversation_id m = at_conversation_id a
                   \<and> msg_source_message_id m = source_message_id) (d_messages d))
            else Inr None) (\<lambda>by_id.
     Inr (if by_id \<noteq> None then by_id
          else case sort_key (\<lambda>m. - msg_sequence_index m) (filter (\<lambda>m. msg_conversation_id m = at_conversation_id a
                        \<and> msg_role m = RoleUser) (d_messages d)) of
                 [] \<Rightarrow> None | m # _ \<Rightarrow> Some m))"

definition link_attachment ::
  "env \<Rightarrow> ingest_context \<Rightarrow> attachment \<Rightarrow> string option \<Rightarrow> db \<Rightarrow> (uuid option \<times> db) res" where
  "link_attachment env ctx a source_message_id d =
     bindE (link_target a source_message_id d) (\<lambda>target.
     case target of
       None \<Rightarrow> Inr (None, d)
     | Some m \<Rightarrow>
         if msg_organization_id m \<noteq> ic_org ctx then Inl (PolicyError ''linkage_denied'')
         else bindE (scalar_one_or_none (filter (\<lambda>l. ma_attachment_id l = at_id a \<and> ma_message_id l = msg_id m)
                (d_message_attachments d))) (\<lambda>existing.
              bindE (case existing of
                  Some l \<Rightarrow> Inr d
                | None \<Rightarrow> (let (lid, d1) = uuid4 d;
                      l = \<lparr>ma_id = lid, ma_created_at = e_now env, ma_attachment_id = at_id a,
                        ma_message_id = msg_id m, ma_message_version_id = msg_current_version_id m,
                        ma_conversation_id = at_conversation_id a, ma_position = 0,
                        ma_relation = ''uploaded_by_user''\<rparr>
                    in flush (d1\<lparr>d_message_attachments := d_message_attachments d1 @ [l]\<rparr>))) (\<lambda>d2.
              Inr (Some (msg_id m), upd_message (msg_id m) (\<lambda>r. r\<lparr>msg_has_attachments := True\<rparr>) d2))))"

definition quarantined :: "time \<Rightarrow> object_head \<Rightarrow> attachment \<Rightarrow> attachment" where
  "quarantined now h a = a\<lparr>at_state := AttQuarantine, at_uploaded_at := Some now,
     at_verified_byte_size := Some (oh_byte_size h), at_s3_version_id := oh_version_id h\<rparr>"

definition closed_as :: "attachment_state \<Rightarrow> string \<Rightarrow> attachment \<Rightarrow> attachment" where
  "closed_as st reason a = a\<lparr>at_state := st, at_rejection_reason := Some reason\<rparr>"

definition accept_upload ::
  "env \<Rightarrow> ingest_context \<Rightarrow> attachment_complete_in \<Rightarrow> object_head \<Rightarrow> attachment \<Rightarrow> db
     \<Rightarrow> (attachment \<times> bool \<times> string option \<times> db) res" where
  "accept_upload env ctx p h a d =
     (let a' = quarantined (e_now env) h a; d1 = upd_attachment (at_id a) (quarantined (e_now env) h) d
      in bindE (link_attachment env ctx a' (ac_source_message_id p) d1) (\<lambda>(linked, d2).
         bindE (enqueue_job (e_now env) KindFinalizeAttachment
                  (JObj [(''attachment_id'', JStr (uuid_str (at_id a))), (''workspace_hash'', JStr (ic_workspace_hash ctx))])
                  (Some (ic_org ctx)) (Some (''finalize_attachment:'' @ uuid_str (at_id a))) 150 None 8 d2) (\<lambda>(_, d3).
         Inr (a', True, (if linked \<noteq> None then None else Some ''not_linked_yet''), d3))))"

definition close_attachment ::
  "attachment_state \<Rightarrow> string \<Rightarrow> string \<Rightarrow> attachment \<Rightarrow> db \<Rightarrow> (attachment \<times> bool \<times> string option \<times> db) res" where
  "close_attachment st reason code a d =
     Inr (closed_as st reason a, False, Some code, upd_attachment (at_id a) (closed_as st reason) d)"

definition complete_row ::
  "env \<Rightarrow> ingest_context \<Rightarrow> 'b s3 \<Rightarrow> 'b \<Rightarrow> attachment_complete_in \<Rightarrow> attachment \<Rightarrow> db
     \<Rightarrow> (attachment \<times> bool \<times> string option \<times> db) res" where
  "complete_row env ctx c b p a d =
     (if at_user_id a \<noteq> None \<and> at_user_id a \<noteq> Some (usr_id (ic_user ctx))
        then Inl (PolicyError ''attachment_owner_mismatch'')
      else if at_state a = AttClean then Inr (a, True, Some ''already_clean'', d)
      else if at_sha256 a \<noteq> ac_sha256 p \<or> at_byte_size a \<noteq> ac_byte_size p
        then close_attachment AttRejected ''declared checksum or size changed after init''
               ''checksum_or_size_mismatch'' a d
      else if (case at_presign_expires_at a of Some t \<Rightarrow> t < e_now env - minutes 15 | None \<Rightarrow> False)
        then close_attachment AttExpired ''upload window expired'' ''upload_expired'' a d
      else if \<not> truthy (at_quarantine_s3_key a) then Inr (a, False, Some ''no_upload_key'', d)
      else bindE (head_object (ic_settings ctx) c (the (at_quarantine_s3_key a)) b) (\<lambda>h.
        if \<not> oh_exists h then Inr (a, False, Some ''object_missing'', d)
        else if oh_byte_size h \<noteq> at_byte_size a
          then close_attachment AttRejected ''stored object size does not match declared size'' ''size_mismatch'' a d
        else accept_upload env ctx p h a d))"

definition complete_attachment ::
  "env \<Rightarrow> ingest_context \<Rightarrow> 'b s3 \<Rightarrow> 'b \<Rightarrow> attachment_complete_in \<Rightarrow> db
     \<Rightarrow> (attachment \<times> bool \<times> string option \<times> db) res" where
  "complete_attachment env ctx c b p d =
     bindE (scalar_one_or_none (filter (\<lambda>a. at_id a = ac_attachment_id p \<and> at_organization_id a = ic_org ctx)
              (d_attachments d))) (\<lambda>found.
     case found of
       None \<Rightarrow> Inl (NotFoundError ''attachment_not_found'')
     | Some a \<Rightarrow> complete_row env ctx c b p a d)"

section \<open>Sniffing\<close>

fun sniff :: "(string \<times> bytes) list \<Rightarrow> bytes \<Rightarrow> string option" where
  "sniff [] data = None"
| "sniff ((mime, prefix) # rest) data =
     (if startswith prefix (take 16 data)
      then if mime = ''image/webp''
           then if 12 \<le> length data \<and> take 4 (drop 8 data) = lit ''WEBP'' then Some ''image/webp''
                else sniff rest data
           else Some mime
      else sniff rest data)"

definition magic_table :: "(string \<times> bytes) list" where
  "magic_table = concat (map (\<lambda>(mime, prefixes). map (Pair mime) prefixes) MAGIC_BYTES)"

definition detect_mime_from_bytes :: "bytes \<Rightarrow> string option \<Rightarrow> string option" where
  "detect_mime_from_bytes data declared =
     (case sniff magic_table data of
        Some mime \<Rightarrow> Some mime
      | None \<Rightarrow> (case declared of
          None \<Rightarrow> None
        | Some m \<Rightarrow> if m \<in> set TEXTUAL_MIME_TYPES \<and> utf8_valid (take (min (length data) 65536) data)
                    then Some m else None))"

section \<open>Counting and expiry\<close>

definition pending_attachment_count :: "uuid option \<Rightarrow> db \<Rightarrow> nat" where
  "pending_attachment_count organization_id d =
     length (filter (\<lambda>a. at_state a \<in> {AttPending, AttQuarantine}
       \<and> (case organization_id of None \<Rightarrow> True | Some k \<Rightarrow> at_organization_id a = k)) (d_attachments d))"

definition stale_pending :: "time \<Rightarrow> attachment \<Rightarrow> bool" where
  "stale_pending cutoff a \<longleftrightarrow> at_state a = AttPending
     \<and> (case at_presign_expires_at a of Some t \<Rightarrow> t < cutoff | None \<Rightarrow> False)"

definition expire_stale_pending :: "time \<Rightarrow> int \<Rightarrow> db \<Rightarrow> nat \<times> db" where
  "expire_stale_pending now older_than_minutes d =
     (let cutoff = now - minutes older_than_minutes
      in (length (filter (stale_pending cutoff) (d_attachments d)),
          d\<lparr>d_attachments := upd_where (stale_pending cutoff)
              (closed_as AttExpired ''never uploaded before the presigned URL expired'') (d_attachments d)\<rparr>))"

definition conversation_for_attachment :: "attachment \<Rightarrow> db \<Rightarrow> conversation option" where
  "conversation_for_attachment a d = find (\<lambda>c. cv_id c = at_conversation_id a) (d_conversations d)"

section \<open>A text file cut inside a character\<close>

lemma utf8_valid_ascii: "utf8_valid (replicate n 97 @ r) = utf8_valid r"
  by (induction n) simp_all

lemma sniff_None: "list_all (\<lambda>(m, p). \<not> startswith p (take 16 data)) tab \<Longrightarrow> sniff tab data = None"
  by (induction tab data rule: sniff.induct) auto

text \<open>
  Sniffing looks at the first 65536 bytes only: a valid UTF-8 text file whose character at that
  boundary takes two bytes is reported as no allowed type, so the finalization rejects it.
\<close>

theorem utf8_cut_rejected:
  "\<exists>data. utf8_valid data \<and> detect_mime_from_bytes data (Some ''text/plain'') = None"
proof
  define n :: nat where "n = 65535"
  let ?data = "replicate n 97 @ [195, 169] :: bytes"
  have n: "min (length ?data) 65536 = Suc n" "16 \<le> n" by (simp_all add: n_def)
  have v: "utf8_valid ?data" by (simp add: utf8_valid_ascii is_cont_def)
  have "take (Suc n) ?data = replicate n 97 @ [195]" by simp
  then have c: "\<not> utf8_valid (take (min (length ?data) 65536) ?data)"
    using utf8_valid_ascii [of n "[195]"] by (simp only: n) simp
  have t: "take 16 ?data = replicate 16 97" using n(2) by (simp add: take_replicate min_def)
  have "sniff magic_table ?data = None"
  proof (rule sniff_None)
    have "list_all (\<lambda>(m, p). \<not> startswith p (replicate 16 97)) magic_table" by code_simp
    then show "list_all (\<lambda>(m, p). \<not> startswith p (take 16 ?data)) magic_table" by (simp only: t)
  qed
  then show "utf8_valid ?data \<and> detect_mime_from_bytes ?data (Some ''text/plain'') = None"
    using v c by (simp only: detect_mime_from_bytes_def option.case if_False simp_thms)
qed

end
