(* ===== verification/Runtime_Config.thy ===== *)
theory Runtime_Config
  imports Attachments
begin

text \<open>
  \<open>app/services/runtime_config.py\<close> and the models of \<open>app/schemas/auth.py\<close> it fills: the signed
  document that tells the extension what it may capture.  Building a model checks the bounds of
  its fields; a violated bound is pydantic's \<open>ValidationError\<close>, a \<open>ValueError\<close>.
\<close>

section \<open>The document (schemas/auth.py)\<close>

record capture_policy =
  cp_browser_content_capture_enabled :: bool
  cp_openai_written_authorization_confirmed :: bool
  cp_capture_active :: bool
  cp_auto_archive_current_open_chat :: bool
  cp_attachment_capture_enabled :: bool
  cp_kill_switch :: bool

record workspace_rules =
  wk_managed_workspace_label :: "ustr option"
  wk_managed_workspace_ids :: "ustr list"
  wk_allowed_url_patterns :: "string list"
  wk_require_all_signals :: bool
  wk_min_signals :: int

record capture_limits =
  lim_max_batch_items :: int
  lim_max_request_bytes :: int
  lim_max_attachment_bytes :: int
  lim_allowed_mime_types :: "string list"
  lim_allowed_extensions :: "string list"
  lim_offline_queue_max_items :: int
  lim_offline_queue_max_bytes :: int
  lim_offline_queue_max_age_days :: int
  lim_stable_response_quiet_ms :: int
  lim_backfill_max_messages :: int
  lim_backfill_max_seconds :: int
  lim_backfill_max_scrolls :: int
  lim_rate_limit_requests_per_minute :: int

definition capture_limits_valid :: "capture_limits \<Rightarrow> bool" where
  "capture_limits_valid l \<longleftrightarrow> 1 \<le> lim_max_batch_items l \<and> 1024 \<le> lim_max_request_bytes l
     \<and> 1024 \<le> lim_max_attachment_bytes l \<and> 1 \<le> lim_offline_queue_max_items l
     \<and> 1024 \<le> lim_offline_queue_max_bytes l \<and> 1 \<le> lim_offline_queue_max_age_days l
     \<and> 250 \<le> lim_stable_response_quiet_ms l \<and> lim_stable_response_quiet_ms l \<le> 30000
     \<and> 1 \<le> lim_backfill_max_messages l \<and> 1 \<le> lim_backfill_max_seconds l
     \<and> 1 \<le> lim_backfill_max_scrolls l \<and> 1 \<le> lim_rate_limit_requests_per_minute l"

record runtime_config =
  rc_config_version :: int
  rc_issued_at :: time
  rc_expires_at :: time
  rc_organization_slug :: string
  rc_api_base_url :: ustr
  rc_policy :: capture_policy
  rc_workspace_rules :: workspace_rules
  rc_limits :: capture_limits
  rc_privacy_notice_url :: ustr
  rc_support_contact :: ustr
  rc_minimum_extension_version :: string
  rc_coverage_statement :: ustr

record signed_config =
  sg_config :: runtime_config
  sg_signature :: string
  sg_key_id :: string

section \<open>Building it\<close>

definition CONFIG_TTL_SECONDS :: int where
  "CONFIG_TTL_SECONDS = 900"

definition MINIMUM_EXTENSION_VERSION :: string where
  "MINIMUM_EXTENSION_VERSION = ''1.0.0''"

definition ALLOWED_URL_PATTERNS :: "string list" where
  "ALLOWED_URL_PATTERNS = [''https://chatgpt.com/*'', ''https://chat.openai.com/*'']"

definition COVERAGE_STATEMENT :: string where
  "COVERAGE_STATEMENT =
     ''This extension archives the conversation you currently have open and every new ''
     @ ''message you send or receive in the company workspace. It does not archive ''
     @ ''conversations you never open in this browser, and it never captures unsent drafts.''"

definition policy_of :: "settings \<Rightarrow> capture_policy" where
  "policy_of s = \<lparr>cp_browser_content_capture_enabled = st_browser_content_capture_enabled s,
     cp_openai_written_authorization_confirmed = st_openai_written_authorization_confirmed s,
     cp_capture_active = browser_capture_active s,
     cp_auto_archive_current_open_chat = (st_auto_archive_current_open_chat s \<and> browser_capture_active s),
     cp_attachment_capture_enabled = (st_attachment_capture_enabled s \<and> browser_capture_active s),
     cp_kill_switch = st_kill_switch_enabled s\<rparr>"

definition workspace_rules_of :: "settings \<Rightarrow> workspace_rules" where
  "workspace_rules_of s = \<lparr>wk_managed_workspace_label =
       (if st_managed_workspace_label s = [] then None else Some (st_managed_workspace_label s)),
     wk_managed_workspace_ids = managed_workspace_id_list s, wk_allowed_url_patterns = ALLOWED_URL_PATTERNS,
     wk_require_all_signals = False, wk_min_signals = 1\<rparr>"

definition limits_of :: "settings \<Rightarrow> capture_limits" where
  "limits_of s = \<lparr>lim_max_batch_items = st_max_batch_items s, lim_max_request_bytes = st_max_request_bytes s,
     lim_max_attachment_bytes = st_max_attachment_bytes s,
     lim_allowed_mime_types = sorted_strings (map fst ALLOWED_MIME_TYPES),
     lim_allowed_extensions = allowed_extensions,
     lim_offline_queue_max_items = st_offline_queue_max_items s,
     lim_offline_queue_max_bytes = st_offline_queue_max_bytes s,
     lim_offline_queue_max_age_days = st_offline_queue_max_age_days s,
     lim_stable_response_quiet_ms = 2000, lim_backfill_max_messages = 2000, lim_backfill_max_seconds = 120,
     lim_backfill_max_scrolls = 400,
     lim_rate_limit_requests_per_minute = st_rate_limit_requests_per_minute s\<rparr>"

definition bool_str :: "bool \<Rightarrow> ustr" where
  "bool_str b = lit (if b then ''True'' else ''False'')"

fun join_with :: "ustr \<Rightarrow> ustr list \<Rightarrow> ustr" where
  "join_with sep [] = []"
| "join_with sep [x] = x"
| "join_with sep (x # y # xs) = x @ sep @ join_with sep (y # xs)"

definition version_material :: "settings \<Rightarrow> ustr" where
  "version_material s = join_with (lit ''|'')
     [bool_str (st_browser_content_capture_enabled s), bool_str (st_openai_written_authorization_confirmed s),
      bool_str (st_auto_archive_current_open_chat s), bool_str (st_attachment_capture_enabled s),
      bool_str (st_kill_switch_enabled s), st_managed_workspace_label s,
      join_with (lit '','') (managed_workspace_id_list s), lit (dec_int (st_max_batch_items s)),
      lit (dec_int (st_max_attachment_bytes s)), lit (dec_int (st_rate_limit_requests_per_minute s)),
      lit MINIMUM_EXTENSION_VERSION]"

definition config_version :: "settings \<Rightarrow> int" where
  "config_version s =
     1 + int (case unhex_acc 0 (take 8 (sha256_hex (version_material s))) of Some n \<Rightarrow> n | None \<Rightarrow> 0) mod 2000000000"

definition base_url :: "settings \<Rightarrow> ustr" where
  "base_url s = rstrip_by (\<lambda>c. c = 47) (st_public_base_url s)"

definition build_runtime_config :: "unidb \<Rightarrow> settings \<Rightarrow> time \<Rightarrow> runtime_config res" where
  "build_runtime_config ud s now =
     (if \<not> capture_limits_valid (limits_of s) then Inl PyValueError
      else Inr \<lparr>rc_config_version = config_version s, rc_issued_at = now,
        rc_expires_at = now + seconds CONFIG_TTL_SECONDS, rc_organization_slug = ''techsara'',
        rc_api_base_url = base_url s @ st_api_base_path s, rc_policy = policy_of s,
        rc_workspace_rules = workspace_rules_of s, rc_limits = limits_of s,
        rc_privacy_notice_url = base_url s @ lit ''/privacy-notice'',
        rc_support_contact = lit ''it-support@''
          @ hd (if allowed_domains ud s = [] then [lit ''example.com''] else allowed_domains ud s),
        rc_minimum_extension_version = MINIMUM_EXTENSION_VERSION,
        rc_coverage_statement = lit COVERAGE_STATEMENT\<rparr>)"

definition redact_for_public :: "runtime_config \<Rightarrow> runtime_config" where
  "redact_for_public c = c\<lparr>rc_workspace_rules :=
     (rc_workspace_rules c)\<lparr>wk_managed_workspace_label := None, wk_managed_workspace_ids := []\<rparr>\<rparr>"

section \<open>Signing it\<close>

definition dump_capture_policy :: "capture_policy \<Rightarrow> json" where
  "dump_capture_policy p = JObj
     [(''browser_content_capture_enabled'', JBool (cp_browser_content_capture_enabled p)),
      (''openai_written_authorization_confirmed'', JBool (cp_openai_written_authorization_confirmed p)),
      (''capture_active'', JBool (cp_capture_active p)),
      (''auto_archive_current_open_chat'', JBool (cp_auto_archive_current_open_chat p)),
      (''attachment_capture_enabled'', JBool (cp_attachment_capture_enabled p)),
      (''personal_workspace_capture_enabled'', JBool False), (''capture_unsent_drafts'', JBool False),
      (''kill_switch'', JBool (cp_kill_switch p))]"

definition dump_workspace_rules :: "workspace_rules \<Rightarrow> json" where
  "dump_workspace_rules w = JObj
     [(''managed_workspace_label'', jopt JText (wk_managed_workspace_label w)),
      (''managed_workspace_ids'', JList (map JText (wk_managed_workspace_ids w))),
      (''allowed_url_patterns'', JList (map JStr (wk_allowed_url_patterns w))),
      (''require_all_signals'', JBool (wk_require_all_signals w)), (''min_signals'', JInt (wk_min_signals w))]"

definition dump_capture_limits :: "capture_limits \<Rightarrow> json" where
  "dump_capture_limits l = JObj
     [(''max_batch_items'', JInt (lim_max_batch_items l)), (''max_request_bytes'', JInt (lim_max_request_bytes l)),
      (''max_attachment_bytes'', JInt (lim_max_attachment_bytes l)),
      (''allowed_mime_types'', JList (map JStr (lim_allowed_mime_types l))),
      (''allowed_extensions'', JList (map JStr (lim_allowed_extensions l))),
      (''offline_queue_max_items'', JInt (lim_offline_queue_max_items l)),
      (''offline_queue_max_bytes'', JInt (lim_offline_queue_max_bytes l)),
      (''offline_queue_max_age_days'', JInt (lim_offline_queue_max_age_days l)),
      (''stable_response_quiet_ms'', JInt (lim_stable_response_quiet_ms l)),
      (''backfill_max_messages'', JInt (lim_backfill_max_messages l)),
      (''backfill_max_seconds'', JInt (lim_backfill_max_seconds l)),
      (''backfill_max_scrolls'', JInt (lim_backfill_max_scrolls l)),
      (''rate_limit_requests_per_minute'', JInt (lim_rate_limit_requests_per_minute l))]"

definition dump_runtime_config :: "runtime_config \<Rightarrow> json" where
  "dump_runtime_config c = JObj
     [(''schema_version'', JStr SCHEMA_VERSION), (''config_version'', JInt (rc_config_version c)),
      (''issued_at'', jtime (rc_issued_at c)), (''expires_at'', jtime (rc_expires_at c)),
      (''organization_slug'', JStr (rc_organization_slug c)), (''api_base_url'', JText (rc_api_base_url c)),
      (''policy'', dump_capture_policy (rc_policy c)),
      (''workspace_rules'', dump_workspace_rules (rc_workspace_rules c)),
      (''limits'', dump_capture_limits (rc_limits c)), (''privacy_notice_url'', JText (rc_privacy_notice_url c)),
      (''support_contact'', JText (rc_support_contact c)),
      (''minimum_extension_version'', JStr (rc_minimum_extension_version c)),
      (''coverage_statement'', JText (rc_coverage_statement c))]"

definition sign_runtime_config :: "runtime_config \<Rightarrow> settings \<Rightarrow> signed_config" where
  "sign_runtime_config c s = \<lparr>sg_config = c,
     sg_signature = sign_payload (dump_runtime_config c) (st_config_signing_key s),
     sg_key_id = take 16 (sha256_hex (st_config_signing_key s))\<rparr>"

definition get_signed_config :: "unidb \<Rightarrow> settings \<Rightarrow> time \<Rightarrow> bool \<Rightarrow> signed_config res" where
  "get_signed_config ud s now authenticated =
     bindE (build_runtime_config ud s now) (\<lambda>c.
       Inr (sign_runtime_config (if authenticated then c else redact_for_public c) s))"

section \<open>What the document promises\<close>

lemma signed_config_Inr:
  assumes "get_signed_config ud s now auth = Inr g"
  obtains c where "build_runtime_config ud s now = Inr c"
    "g = sign_runtime_config (if auth then c else redact_for_public c) s"
  using assms by (auto simp: get_signed_config_def bindE_eq_Inr)

lemma redact_keeps [simp]:
  "rc_policy (redact_for_public c) = rc_policy c" "rc_limits (redact_for_public c) = rc_limits c"
  "rc_config_version (redact_for_public c) = rc_config_version c"
  "wk_managed_workspace_label (rc_workspace_rules (redact_for_public c)) = None"
  "wk_managed_workspace_ids (rc_workspace_rules (redact_for_public c)) = []"
  by (simp_all add: redact_for_public_def)

lemma sign_keeps [simp]: "sg_config (sign_runtime_config c s) = c"
  by (simp add: sign_runtime_config_def)

lemma config_version_bounds: "1 \<le> config_version s \<and> config_version s \<le> 2000000000"
proof -
  have "0 \<le> (n :: int) mod 2000000000 \<and> n mod 2000000000 < 2000000000" for n by simp
  then show ?thesis unfolding config_version_def by (smt (verit))
qed

text \<open>
  The anonymous document of two deployments that differ only in the managed workspace's label and
  identifiers: everything but the version number, which is a digest of them, is the same.
\<close>

definition relabelled :: "ustr \<Rightarrow> ustr \<Rightarrow> settings \<Rightarrow> settings" where
  "relabelled label ids s = s\<lparr>st_managed_workspace_label := label, st_managed_workspace_ids := ids\<rparr>"

lemma relabelled_derived [simp]:
  "policy_of (relabelled l i s) = policy_of s" "limits_of (relabelled l i s) = limits_of s"
  "base_url (relabelled l i s) = base_url s" "allowed_domains ud (relabelled l i s) = allowed_domains ud s"
  "st_api_base_path (relabelled l i s) = st_api_base_path s"
  by (simp_all add: relabelled_def policy_of_def limits_of_def base_url_def allowed_domains_def
      browser_capture_active_def)

lemma redacted_rules: "(workspace_rules_of (relabelled l i s))\<lparr>wk_managed_workspace_label := None, wk_managed_workspace_ids := []\<rparr>
   = (workspace_rules_of s)\<lparr>wk_managed_workspace_label := None, wk_managed_workspace_ids := []\<rparr>"
  by (simp add: workspace_rules_of_def)

lemma public_config_relabelled:
  "map_sum id (\<lambda>c. redact_for_public c\<lparr>rc_config_version := 1\<rparr>) (build_runtime_config ud (relabelled l i s) now)
   = map_sum id (\<lambda>c. redact_for_public c\<lparr>rc_config_version := 1\<rparr>) (build_runtime_config ud s now)"
  by (simp add: build_runtime_config_def redact_for_public_def redacted_rules)

text \<open>
  C35. The document served to an anonymous caller carries neither the workspace label nor the
  identifiers, and apart from the version number does not depend on them; in any served document
  a capture permission is granted only when both gates are on and the kill switch is off.
\<close>

theorem public_config_redacted:
  assumes "get_signed_config ud s now auth = Inr g"
  shows "(cp_capture_active (rc_policy (sg_config g)) \<or> cp_auto_archive_current_open_chat (rc_policy (sg_config g))
       \<or> cp_attachment_capture_enabled (rc_policy (sg_config g)) \<longrightarrow> browser_capture_active s)
     \<and> rc_expires_at (sg_config g) = now + seconds 900
     \<and> verify_signature (dump_runtime_config (sg_config g)) (st_config_signing_key s) (sg_signature g)
     \<and> (\<not> auth \<longrightarrow> wk_managed_workspace_label (rc_workspace_rules (sg_config g)) = None
          \<and> wk_managed_workspace_ids (rc_workspace_rules (sg_config g)) = []
          \<and> (\<exists>g'. get_signed_config ud (relabelled label ids s) now auth = Inr g'
               \<and> sg_config g'\<lparr>rc_config_version := 1\<rparr> = sg_config g\<lparr>rc_config_version := 1\<rparr>))"
proof -
  obtain c where c: "build_runtime_config ud s now = Inr c"
    and g: "g = sign_runtime_config (if auth then c else redact_for_public c) s"
    using assms by (rule signed_config_Inr)
  have p: "rc_policy c = policy_of s" "rc_expires_at c = now + seconds 900"
    using c by (auto simp: build_runtime_config_def CONFIG_TTL_SECONDS_def split: if_splits)
  have e: "rc_expires_at (redact_for_public c) = rc_expires_at c" by (simp add: redact_for_public_def)
  obtain c' where c': "build_runtime_config ud (relabelled label ids s) now = Inr c'"
    "redact_for_public c'\<lparr>rc_config_version := 1\<rparr> = redact_for_public c\<lparr>rc_config_version := 1\<rparr>"
    using public_config_relabelled [of ud label ids s now] c
    by (cases "build_runtime_config ud (relabelled label ids s) now") auto
  then have "\<not> auth \<longrightarrow> (\<exists>g'. get_signed_config ud (relabelled label ids s) now auth = Inr g'
      \<and> sg_config g'\<lparr>rc_config_version := 1\<rparr> = sg_config g\<lparr>rc_config_version := 1\<rparr>)"
    using g by (simp add: get_signed_config_def)
  moreover have "verify_signature (dump_runtime_config (sg_config g)) (st_config_signing_key s) (sg_signature g)"
    by (simp add: g sign_runtime_config_def verify_signature_def)
  ultimately show ?thesis
    using p e by (auto simp: g policy_of_def)
qed

theorem public_config_redacted_witness:
  "\<exists>g. get_signed_config ascii_db sample_settings 0 False = Inr g
     \<and> wk_managed_workspace_label (rc_workspace_rules (sg_config g)) = None
     \<and> st_managed_workspace_label sample_settings = lit ''acme''"
proof -
  have "capture_limits_valid (limits_of sample_settings)"
    by (simp add: capture_limits_valid_def limits_of_def sample_settings_def default_settings_def)
  then obtain g where g: "get_signed_config ascii_db sample_settings 0 False = Inr g"
    by (simp add: get_signed_config_def build_runtime_config_def)
  then have "wk_managed_workspace_label (rc_workspace_rules (sg_config g)) = None"
    using public_config_redacted [OF g] by blast
  with g show ?thesis by (auto simp: sample_settings_def)
qed

end
