(* ===== verification/Api_Ingest.thy ===== *)
theory Api_Ingest
  imports Deps Runtime_Config
begin

text \<open>
  The ingest and attachment endpoints (\<open>app/api/v1/ingest.py\<close>, \<open>app/api/v1/attachments.py\<close>) and the
  session a request runs in (\<open>app/db/session.py\<close>).  An endpoint maps the principal, the validated
  body and the database to its response or to the exception it raises.
\<close>

section \<open>The session of a request (db/session.py)\<close>

text \<open>
  \<open>get_db_session\<close>: the handler's exception rolls everything back.  The framework runs the code
  after \<open>yield\<close> when the response has been sent, so a commit that fails at its last flush
  rolls back without changing the response.
\<close>

definition get_db_session :: "(db \<Rightarrow> ('a \<times> db) res) \<Rightarrow> db \<Rightarrow> 'a res \<times> db" where
  "get_db_session handler d = (case handler d of
       Inl e \<Rightarrow> (Inl e, d)
     | Inr (x, d1) \<Rightarrow> (Inr x, case flush d1 of Inl _ \<Rightarrow> d | Inr d2 \<Rightarrow> d2))"

text \<open>\<open>session_scope\<close>: the caller sees the failure of the commit.\<close>

definition session_scope :: "(db \<Rightarrow> ('a \<times> db) res) \<Rightarrow> db \<Rightarrow> 'a res \<times> db" where
  "session_scope body d = (case bindE (body d) (\<lambda>(x, d1). bindE (flush d1) (\<lambda>d2. Inr (x, d2))) of
       Inl e \<Rightarrow> (Inl e, d) | Inr (x, d2) \<Rightarrow> (Inr x, d2))"

lemma get_db_session_rolls_back: "fst (get_db_session h d) = Inl e \<Longrightarrow> snd (get_db_session h d) = d"
  by (auto simp: get_db_session_def split: sum.splits)

lemma get_db_session_constraints: "constraints d \<Longrightarrow> constraints (snd (get_db_session h d))"
  by (auto simp: get_db_session_def split: sum.splits)

lemma session_scope_atomic:
  "fst (session_scope b d) = Inl e \<Longrightarrow> snd (session_scope b d) = d"
  "fst (session_scope b d) = Inr x \<Longrightarrow> b d = Inr (x, snd (session_scope b d)) \<and> constraints (snd (session_scope b d))"
  by (auto simp: session_scope_def bindE_eq_Inr split: sum.splits)

section \<open>Ingest\<close>

definition guard_backpressure :: "settings \<Rightarrow> db \<Rightarrow> int res" where
  "guard_backpressure s d = (let depth = pending_job_count d
     in if st_job_queue_backpressure_threshold s \<le> depth then Inl (BackpressureError 60) else Inr depth)"

definition principal_context :: "env \<Rightarrow> settings \<Rightarrow> principal \<Rightarrow> workspace_ref \<Rightarrow> db \<Rightarrow> (ingest_context \<times> db) res" where
  "principal_context env s p ref d = build_context env s (pl_organization p) (pl_user p) (pl_device p) ref d"

record conversation_upsert_out =
  uo_conversation_id :: uuid
  uo_workspace_id :: uuid
  uo_created :: bool
  uo_capture_completeness :: string
  uo_already_archived_message_count :: int
  uo_server_time :: time

definition upsert_conversation_route ::
  "env \<Rightarrow> settings \<Rightarrow> principal \<Rightarrow> conversation_upsert_in \<Rightarrow> db \<Rightarrow> (conversation_upsert_out \<times> db) res" where
  "upsert_conversation_route env s p payload d =
     bindE (guard_backpressure s d) (\<lambda>_.
     bindE (principal_context env s p (cu_workspace payload) d) (\<lambda>(ctx, d1).
     bindE (upsert_conversation env ctx payload d1) (\<lambda>(cid, created, _, d2).
       case find (\<lambda>c. cv_id c = cid) (d_conversations d2) of
         None \<Rightarrow> Inl (OtherException ''InvalidRequestError'')
       | Some c \<Rightarrow> Inr (\<lparr>uo_conversation_id = cid, uo_workspace_id = ws_id (ic_workspace ctx), uo_created = created,
           uo_capture_completeness = capture_completeness_str (cv_capture_completeness c),
           uo_already_archived_message_count = cv_message_count c, uo_server_time = e_now env\<rparr>, d2))))"

definition count_results :: "string \<Rightarrow> item_result list \<Rightarrow> nat" where
  "count_results status results = length (filter (\<lambda>r. ir_status r = status) results)"

definition make_batch_response :: "settings \<Rightarrow> time \<Rightarrow> item_result list \<Rightarrow> int \<Rightarrow> batch_response" where
  "make_batch_response s now results queue_depth =
     \<lparr>bp_accepted = count_results ''accepted'' results, bp_duplicate = count_results ''duplicate'' results,
      bp_rejected = count_results ''rejected'' results, bp_retryable = count_results ''retryable'' results,
      bp_results = results, bp_queue_depth = Some queue_depth,
      bp_backpressure = (st_job_queue_backpressure_threshold s \<le> queue_depth), bp_server_time = now\<rparr>"

definition synced :: "time \<Rightarrow> device option \<Rightarrow> db \<Rightarrow> db" where
  "synced now dev d = (case dev of None \<Rightarrow> d
     | Some v \<Rightarrow> upd_device (dev_id v) (\<lambda>v. v\<lparr>dev_last_sync_at := Some now\<rparr>) d)"

definition ingest_messages_route ::
  "env \<Rightarrow> settings \<Rightarrow> principal \<Rightarrow> workspace_ref \<Rightarrow> message_in list \<Rightarrow> client_context \<Rightarrow> db
     \<Rightarrow> (batch_response \<times> db) res" where
  "ingest_messages_route env s p ref messages client d =
     (if st_max_batch_items s < int (length messages)
      then Inl (ValidationError ''Batch exceeds the configured maximum item count'')
      else bindE (guard_backpressure s d) (\<lambda>depth.
           bindE (principal_context env s p ref d) (\<lambda>(ctx, d1).
           bindE (ingest_message_batch env ctx messages (Some client) d1) (\<lambda>(results, d2).
             Inr (make_batch_response s (e_now env) results depth, synced (e_now env) (pl_device p) d2)))))"

definition ingest_capture_events_route ::
  "env \<Rightarrow> settings \<Rightarrow> principal \<Rightarrow> workspace_ref \<Rightarrow> capture_event_in list \<Rightarrow> client_context \<Rightarrow> db
     \<Rightarrow> (batch_response \<times> db) res" where
  "ingest_capture_events_route env s p ref events client d =
     (if st_max_batch_items s < int (length events)
      then Inl (ValidationError ''Batch exceeds the configured maximum item count'')
      else bindE (guard_backpressure s d) (\<lambda>depth.
           bindE (principal_context env s p ref d) (\<lambda>(ctx, d1).
           let (results, d2) = ingest_capture_events env ctx events (Some client) d1
           in Inr (make_batch_response s (e_now env) results depth, d2))))"

text \<open>
  Feedback and attachments use a workspace reference built from the settings; the first
  configured identifier has to satisfy the pattern of a source identifier.
\<close>

definition first_workspace_id :: "settings \<Rightarrow> string option res" where
  "first_workspace_id s = (case managed_workspace_id_list s of
       [] \<Rightarrow> Inr None
     | i # _ \<Rightarrow> if list_all (\<lambda>c. c < 128) i \<and> source_id_ok (map char_of i) then Inr (Some (map char_of i))
         else Inl PyValueError)"

definition stored_workspace_ref :: "settings \<Rightarrow> string \<Rightarrow> workspace_ref res" where
  "stored_workspace_ref s signal =
     bindE (first_workspace_id s) (\<lambda>i.
       if 255 < length (st_managed_workspace_label s) then Inl PyValueError
       else Inr \<lparr>wr_source_workspace_id = i, wr_label = Some (st_managed_workspace_label s),
         wr_kind = WsManagedCompany, wr_verified = True, wr_verification_signals = [signal]\<rparr>)"

record feedback_out =
  fo_feedback_id :: uuid
  fo_status :: string

definition submit_feedback ::
  "env \<Rightarrow> settings \<Rightarrow> principal \<Rightarrow> feedback_in \<Rightarrow> db \<Rightarrow> (feedback_out \<times> db) res" where
  "submit_feedback env s p payload d =
     bindE (stored_workspace_ref s ''workspace_label_match'') (\<lambda>ref.
     bindE (principal_context env s p ref d) (\<lambda>(ctx, d1).
     bindE (ingest_feedback env ctx payload d1) (\<lambda>(row, duplicate, d2).
       Inr (\<lparr>fo_feedback_id = fb_id row, fo_status = (if duplicate then ''duplicate'' else ''accepted'')\<rparr>, d2))))"

record sync_status_out =
  so_server_time :: time
  so_device_id :: "uuid option"
  so_last_sync_at :: "time option"
  so_archived_conversation_count :: int
  so_archived_message_count :: int
  so_known_conversation_ids :: "string list"
  so_queue_depth :: int
  so_backpressure :: bool
  so_capture_enabled :: bool
  so_kill_switch :: bool
  so_coverage_statement :: string

definition sync_status :: "settings \<Rightarrow> time \<Rightarrow> principal \<Rightarrow> db \<Rightarrow> sync_status_out" where
  "sync_status s now p d =
     (let summary = sync_summary_of (org_id (pl_organization p)) (usr_id (pl_user p)) 500 d;
          depth = pending_job_count d
      in \<lparr>so_server_time = now, so_device_id = map_option dev_id (pl_device p),
          so_last_sync_at = (case pl_device p of Some v \<Rightarrow> dev_last_sync_at v | None \<Rightarrow> None),
          so_archived_conversation_count = ss_conversation_count summary,
          so_archived_message_count = ss_message_count summary,
          so_known_conversation_ids = ss_known_conversation_ids summary, so_queue_depth = depth,
          so_backpressure = (st_job_queue_backpressure_threshold s \<le> depth),
          so_capture_enabled = browser_capture_active s, so_kill_switch = st_kill_switch_enabled s,
          so_coverage_statement = COVERAGE_STATEMENT\<rparr>)"

section \<open>Attachments\<close>

definition attachment_workspace_ref :: "settings \<Rightarrow> workspace_ref res" where
  "attachment_workspace_ref s = stored_workspace_ref s
     (if managed_workspace_id_list s \<noteq> [] then ''workspace_id_match'' else ''workspace_label_match'')"

definition caller_audit :: "principal \<Rightarrow> ustr option \<Rightarrow> audit_args" where
  "caller_audit p ip = no_audit_args\<lparr>au_organization_id := Some (org_id (pl_organization p)),
     au_actor_user_id := Some (usr_id (pl_user p)), au_actor_email := Some (usr_email (pl_user p)),
     au_client_ip := ip\<rparr>"

definition attachment_audit :: "principal \<Rightarrow> ustr option \<Rightarrow> uuid \<Rightarrow> string \<Rightarrow> (string \<times> json) list \<Rightarrow> audit_args" where
  "attachment_audit p ip aid outcome details = (caller_audit p ip)\<lparr>
     au_device_id := map_option dev_id (pl_device p), au_resource_type := Some ''attachment'',
     au_resource_id := Some (lit (uuid_str aid)), au_outcome := outcome, au_details := details\<rparr>"

record attachment_init_out =
  io_attachment_id :: uuid
  io_state :: attachment_state
  io_upload_url :: "ustr option"
  io_upload_headers :: "(string \<times> ustr) list"
  io_s3_key :: "ustr option"
  io_expires_at :: "time option"
  io_duplicate :: bool

definition init_attachment_route ::
  "env \<Rightarrow> settings \<Rightarrow> 'b s3 \<Rightarrow> string option \<Rightarrow> ustr option \<Rightarrow> principal \<Rightarrow> attachment_init_in \<Rightarrow> db
     \<Rightarrow> (attachment_init_out \<times> db) res" where
  "init_attachment_route env s c correlation ip p payload d =
     bindE (attachment_workspace_ref s) (\<lambda>ref.
     bindE (principal_context env s p ref d) (\<lambda>(ctx, d1).
     bindE (init_attachment env ctx c payload d1) (\<lambda>(up, d2).
       let a = pu_attachment up;
           (_, d3) = record_audit (e_ud env) correlation AuditAttachmentPresigned
             (attachment_audit p ip (at_id a) ''success'' [(''byte_size'', JInt (ai_byte_size payload)),
                (''mime_type'', JStr (ai_mime_type payload)), (''metadata_only'', JBool (ai_metadata_only payload))]) d2
       in Inr (\<lparr>io_attachment_id = at_id a, io_state = at_state a, io_upload_url = pu_upload_url up,
            io_upload_headers = pu_headers up, io_s3_key = at_quarantine_s3_key a, io_expires_at = pu_expires_at up,
            io_duplicate = pu_duplicate up\<rparr>, d3))))"

record attachment_complete_out =
  co_attachment_id :: uuid
  co_state :: attachment_state
  co_verified :: bool
  co_linked_message_id :: "uuid option"
  co_reason :: "string option"

text \<open>
  The endpoint of a completed upload reads \<open>attachment.links\<close>, a relationship that no statement has
  loaded.  \<open>load_links\<close> is what SQLAlchemy makes of such a read.
\<close>

definition first_link :: "(attachment \<Rightarrow> db \<Rightarrow> uuid list res) \<Rightarrow> bool \<Rightarrow> attachment \<Rightarrow> db \<Rightarrow> uuid option res" where
  "first_link load_links verified a d =
     (if \<not> verified then Inr None
      else bindE (load_links a d) (\<lambda>links. Inr (case links of [] \<Rightarrow> None | m # _ \<Rightarrow> Some m)))"

definition complete_attachment_route ::
  "(attachment \<Rightarrow> db \<Rightarrow> uuid list res) \<Rightarrow> env \<Rightarrow> settings \<Rightarrow> 'b s3 \<Rightarrow> 'b \<Rightarrow> string option \<Rightarrow> ustr option \<Rightarrow> principal
     \<Rightarrow> attachment_complete_in \<Rightarrow> db \<Rightarrow> (attachment_complete_out \<times> db) res" where
  "complete_attachment_route load_links env s c b correlation ip p payload d =
     bindE (attachment_workspace_ref s) (\<lambda>ref.
     bindE (principal_context env s p ref d) (\<lambda>(ctx, d1).
     bindE (complete_attachment env ctx c b payload d1) (\<lambda>(a, verified, reason, d2).
     bindE (first_link load_links verified a d2) (\<lambda>linked.
       let (_, d3) = record_audit (e_ud env) correlation AuditAttachmentFinalized
             (attachment_audit p ip (at_id a) (if verified then ''success'' else ''failure'')
                [(''state'', JStr (attachment_state_str (at_state a))), (''reason_code'', jopt JStr reason)]) d2
       in Inr (\<lparr>co_attachment_id = at_id a, co_state = at_state a, co_verified = verified,
            co_linked_message_id = linked, co_reason = reason\<rparr>, d3)))))"

text \<open>
  An \<open>AsyncSession\<close> refuses implicit input and output: reading an unloaded relationship outside its
  greenlet raises \<open>MissingGreenlet\<close> (documented behaviour of SQLAlchemy's asyncio extension).
  Under it no upload is ever acknowledged as verified.
\<close>

definition implicit_io_refused :: "(attachment \<Rightarrow> db \<Rightarrow> uuid list res) \<Rightarrow> bool" where
  "implicit_io_refused load_links \<longleftrightarrow> (\<forall>a d. load_links a d = Inl (OtherException ''MissingGreenlet''))"

lemma completion_never_acknowledged:
  assumes "implicit_io_refused load_links"
    and "complete_attachment_route load_links env s c b corr ip p payload d = Inr (out, d')"
  shows "\<not> co_verified out"
  using assms by (auto simp: complete_attachment_route_def first_link_def implicit_io_refused_def bindE_eq_Inr Let_def
      case_prod_beta split: if_splits)

end
