(* ===== verification/Api_Auth.thy ===== *)
theory Api_Auth
  imports Api_Ingest
begin

text \<open>
  The authentication endpoints (\<open>app/api/v1/auth.py\<close>): the signed configuration, the exchange of an
  identity credential or a refresh token for a session, and device registration.  The identity
  verifier is an argument: it is built once and may be replaced by a test.
\<close>

section \<open>Bodies and responses (schemas/auth.py)\<close>

record auth_exchange_in =
  ax_grant_type :: string
  ax_code :: "ustr option"
  ax_code_verifier :: "ustr option"
  ax_redirect_uri :: "ustr option"
  ax_id_token :: "ustr option"
  ax_refresh_token :: "ustr option"
  ax_nonce :: "ustr option"
  ax_state :: "ustr option"
  ax_device_fingerprint :: "ustr option"
  ax_extension_version :: "string option"

definition len_between :: "nat \<Rightarrow> nat \<Rightarrow> 'a list \<Rightarrow> bool" where
  "len_between lo hi s \<longleftrightarrow> lo \<le> length s \<and> length s \<le> hi"

definition auth_exchange_valid :: "auth_exchange_in \<Rightarrow> bool" where
  "auth_exchange_valid p \<longleftrightarrow> ax_grant_type p \<in> {''authorization_code'', ''id_token'', ''refresh_token''}
     \<and> opt_ok (max_len 2048) (ax_code p) \<and> opt_ok (len_between 43 128) (ax_code_verifier p)
     \<and> opt_ok (max_len 2048) (ax_redirect_uri p) \<and> opt_ok (max_len 8192) (ax_id_token p)
     \<and> opt_ok (max_len 512) (ax_refresh_token p) \<and> opt_ok (max_len 128) (ax_nonce p)
     \<and> opt_ok (max_len 128) (ax_state p) \<and> opt_ok (len_between 16 128) (ax_device_fingerprint p)
     \<and> opt_ok semverish_ok (ax_extension_version p)"

record auth_tokens_out =
  to_access_token :: ustr
  to_expires_in :: int
  to_refresh_token :: ustr
  to_refresh_expires_in :: int
  to_user_id :: uuid
  to_organization_id :: uuid
  to_device_id :: "uuid option"
  to_email :: ustr
  to_roles :: "string list"
  to_notice_acknowledged :: bool

record device_register_in =
  dg_device_fingerprint :: ustr
  dg_extension_id :: "ustr option"
  dg_extension_version :: string
  dg_adapter_version :: string
  dg_browser_version :: "ustr option"
  dg_platform :: "ustr option"
  dg_managed_by_policy :: bool
  dg_notice_acknowledged :: bool

definition device_register_valid :: "device_register_in \<Rightarrow> bool" where
  "device_register_valid p \<longleftrightarrow> len_between 16 128 (dg_device_fingerprint p) \<and> opt_ok (max_len 64) (dg_extension_id p)
     \<and> semverish_ok (dg_extension_version p) \<and> semverish_ok (dg_adapter_version p)
     \<and> opt_ok (max_len 64) (dg_browser_version p) \<and> opt_ok (max_len 64) (dg_platform p)"

record device_register_out =
  go_device_id :: uuid
  go_registered_at :: time
  go_revoked :: bool
  go_server_time :: time

section \<open>Configuration\<close>

text \<open>
  Only the two deliberate errors of a token that does not verify are swallowed; a claim of the
  wrong JSON type escapes.
\<close>

definition caller_has_session :: "api \<Rightarrow> ustr option \<Rightarrow> bool res" where
  "caller_has_session a authorization =
     (if \<not> is_bearer (a_ud a) authorization then Inr False
      else case decode_access_token (a_ud a) (a_jwt a) (a_settings a) (a_now a div 1000000)
                  (py_strip (drop 7 (the authorization))) of
          Inr _ \<Rightarrow> Inr True
        | Inl (AuthenticationError _) \<Rightarrow> Inr False
        | Inl (AuthorizationError _) \<Rightarrow> Inr False
        | Inl e \<Rightarrow> Inl e)"

definition get_config :: "api \<Rightarrow> http_request \<Rightarrow> composite \<Rightarrow> signed_config res \<times> composite" where
  "get_config a r lm =
     (let (admitted, lm') = rate_limit_anonymous a r lm
      in (bindE admitted (\<lambda>_. bindE (caller_has_session a (rq_authorization r)) (\<lambda>auth.
            get_signed_config (a_ud a) (a_settings a) (a_now a) auth)), lm'))"

section \<open>Exchange\<close>

type_synonym verifier = "ustr \<Rightarrow> ustr option \<Rightarrow> verified_identity res"

text \<open>
  \<open>exchange\<close> is \<open>exchange_authorization_code\<close> with the client's connections.  A token that is not a
  text fails inside the verifier: it has no length, or no key resolves it.
\<close>

definition id_token_of :: "json \<Rightarrow> ustr option res" where
  "id_token_of response = (case jget response ''id_token'' of
       None \<Rightarrow> Inr None
     | Some j \<Rightarrow> if \<not> json_truthy j then Inr None
         else case j of JStr t \<Rightarrow> Inr (Some (lit t)) | JText t \<Rightarrow> Inr (Some t)
         | JList xs \<Rightarrow> Inl (AuthenticationError (if MAX_ID_TOKEN_BYTES < length xs then ''Malformed ID token''
             else ''Unable to resolve ID token signing key''))
         | JObj kvs \<Rightarrow> Inl (AuthenticationError (if MAX_ID_TOKEN_BYTES < length kvs then ''Malformed ID token''
             else ''Unable to resolve ID token signing key''))
         | _ \<Rightarrow> Inl (OtherException ''TypeError''))"

definition identity_from_request ::
  "(ustr \<Rightarrow> ustr \<Rightarrow> ustr \<Rightarrow> json res) \<Rightarrow> verifier \<Rightarrow> auth_exchange_in \<Rightarrow> verified_identity res" where
  "identity_from_request exchange verify p =
     (if ax_grant_type p = ''authorization_code''
      then if \<not> truthy (ax_code p) \<or> \<not> truthy (ax_code_verifier p) \<or> \<not> truthy (ax_redirect_uri p)
           then Inl (ValidationError ''code, code_verifier and redirect_uri are required'')
           else bindE (exchange (the (ax_code p)) (the (ax_code_verifier p)) (the (ax_redirect_uri p))) (\<lambda>response.
                bindE (id_token_of response) (\<lambda>t. case t of
                    None \<Rightarrow> Inl (AuthenticationError ''Identity provider did not return an ID token'')
                  | Some token \<Rightarrow> verify token (ax_nonce p)))
      else if ax_grant_type p = ''id_token''
      then if \<not> truthy (ax_id_token p) then Inl (ValidationError ''id_token is required for this grant type'')
           else verify (the (ax_id_token p)) (ax_nonce p)
      else Inl (ValidationError ''Unsupported grant type''))"

definition tokens_out :: "issued_session \<Rightarrow> user \<Rightarrow> organization \<Rightarrow> device option \<Rightarrow> auth_tokens_out" where
  "tokens_out ses u r v = \<lparr>to_access_token = is_access_token ses, to_expires_in = is_access_ttl ses,
     to_refresh_token = is_refresh_token ses, to_refresh_expires_in = is_refresh_ttl ses, to_user_id = usr_id u,
     to_organization_id = org_id r, to_device_id = map_option dev_id v, to_email = usr_email u,
     to_roles = usr_roles u, to_notice_acknowledged = (usr_notice_acknowledged_at u \<noteq> None)\<rparr>"

text \<open>The response model requires both lifetimes to be positive.\<close>

definition checked_tokens :: "auth_tokens_out \<Rightarrow> db \<Rightarrow> (auth_tokens_out \<times> db) res" where
  "checked_tokens t d = (if 1 \<le> to_expires_in t \<and> 1 \<le> to_refresh_expires_in t then Inr (t, d) else Inl PyValueError)"

definition refresh_grant ::
  "api \<Rightarrow> ustr option \<Rightarrow> string \<Rightarrow> ustr \<Rightarrow> auth_exchange_in \<Rightarrow> db \<Rightarrow> (auth_tokens_out \<times> db) res" where
  "refresh_grant a ip jti drawn p d =
     (if \<not> truthy (ax_refresh_token p) then Inl (ValidationError ''refresh_token is required'')
      else bindE (rotate_refresh_token (a_now a) (the (ax_refresh_token p)) d) (\<lambda>(u, r, v, d1).
           bindE (issue_session (a_ud a) (a_jwt a) (a_settings a) (a_now a) jti drawn u r (Some v) d1) (\<lambda>(ses, d2).
           let (_, d3) = record_audit (a_ud a) (a_correlation a) AuditAuthRefresh
                 (no_audit_args\<lparr>au_organization_id := Some (org_id r), au_actor_user_id := Some (usr_id u),
                    au_actor_email := Some (usr_email u), au_device_id := Some (dev_id v), au_client_ip := ip\<rparr>) d2
           in checked_tokens (tokens_out ses u r (Some v)) d3)))"

definition exchange_device ::
  "api \<Rightarrow> ustr option \<Rightarrow> auth_exchange_in \<Rightarrow> user \<Rightarrow> organization \<Rightarrow> db \<Rightarrow> (device option \<times> db) res" where
  "exchange_device a ip p u r d =
     (if \<not> truthy (ax_device_fingerprint p) then Inr (None, d)
      else bindE (get_or_create_device (a_ud a) (a_now a) (usr_id u) r
             \<lparr>di_device_fingerprint = the (ax_device_fingerprint p), di_extension_id = None,
              di_extension_version = map_option lit (ax_extension_version p), di_adapter_version = None,
              di_browser_version = None, di_platform = None, di_managed_by_policy = False, di_client_ip = ip\<rparr> d)
             (\<lambda>(v, d1). Inr (Some v, d1)))"

definition identity_grant ::
  "api \<Rightarrow> ustr option \<Rightarrow> string \<Rightarrow> ustr \<Rightarrow> auth_exchange_in \<Rightarrow> verified_identity \<Rightarrow> db \<Rightarrow> (auth_tokens_out \<times> db) res" where
  "identity_grant a ip jti drawn p identity d =
     bindE (get_or_create_organization (a_ud a) (a_settings a) (a_now a) d) (\<lambda>(r, d1).
     bindE (get_or_create_user (a_ud a) (a_settings a) (a_now a) r identity d1) (\<lambda>(u, d2).
     bindE (exchange_device a ip p u r d2) (\<lambda>(v, d3).
     bindE (issue_session (a_ud a) (a_jwt a) (a_settings a) (a_now a) jti drawn u r v d3) (\<lambda>(ses, d4).
     let (_, d5) = record_audit (a_ud a) (a_correlation a) AuditAuthLogin
           (no_audit_args\<lparr>au_organization_id := Some (org_id r), au_actor_user_id := Some (usr_id u),
              au_actor_email := Some (usr_email u), au_actor_roles := usr_roles u, au_device_id := map_option dev_id v,
              au_client_ip := ip, au_details := [(''issuer'', JText (vi_issuer identity))]\<rparr>) d4
     in checked_tokens (tokens_out ses u r v) d5))))"

text \<open>
  A refused identity adds an audit row and raises: the session, with that row, is rolled back.
\<close>

definition denied_audit :: "ustr option \<Rightarrow> auth_exchange_in \<Rightarrow> audit_args" where
  "denied_audit ip p = no_audit_args\<lparr>au_outcome := ''denied'', au_client_ip := ip,
     au_details := [(''grant_type'', JStr (ax_grant_type p))]\<rparr>"

definition auth_exchange_body ::
  "api \<Rightarrow> (ustr \<Rightarrow> ustr \<Rightarrow> ustr \<Rightarrow> json res) \<Rightarrow> verifier \<Rightarrow> ustr option \<Rightarrow> string \<Rightarrow> ustr \<Rightarrow> auth_exchange_in \<Rightarrow> db
     \<Rightarrow> auth_tokens_out res \<times> db" where
  "auth_exchange_body a exchange verify ip jti drawn p d =
     (let finish = (\<lambda>r. case r of Inl e \<Rightarrow> (Inl e, d) | Inr (t, d') \<Rightarrow> (Inr t, d'))
      in if ax_grant_type p = ''refresh_token'' then finish (refresh_grant a ip jti drawn p d)
         else case identity_from_request exchange verify p of
             Inr identity \<Rightarrow> finish (identity_grant a ip jti drawn p identity d)
           | Inl e \<Rightarrow> (Inl e, case e of
                 AuthenticationError _ \<Rightarrow> snd (record_audit (a_ud a) (a_correlation a) AuditAuthDenied (denied_audit ip p) d)
               | AuthorizationError _ \<Rightarrow> snd (record_audit (a_ud a) (a_correlation a) AuditAuthDenied (denied_audit ip p) d)
               | _ \<Rightarrow> d))"

definition auth_exchange ::
  "api \<Rightarrow> (ustr \<Rightarrow> ustr \<Rightarrow> ustr \<Rightarrow> json res) \<Rightarrow> verifier \<Rightarrow> http_request \<Rightarrow> string \<Rightarrow> ustr \<Rightarrow> auth_exchange_in
     \<Rightarrow> composite \<Rightarrow> db \<Rightarrow> auth_tokens_out res \<times> db \<times> composite" where
  "auth_exchange a exchange verify r jti drawn p lm d =
     (let (admitted, lm') = rate_limit_anonymous a r lm
      in case admitted of
          Inl e \<Rightarrow> (Inl e, d, lm')
        | Inr _ \<Rightarrow> (let (out, d') = get_db_session (\<lambda>d0.
                case auth_exchange_body a exchange verify (client_ip (a_settings a) r) jti drawn p d0 of
                  (Inl e, _) \<Rightarrow> Inl e | (Inr t, d1) \<Rightarrow> Inr (t, d1)) d
              in (out, d', lm')))"

section \<open>Registration\<close>

definition registration_info :: "device_register_in \<Rightarrow> ustr option \<Rightarrow> device_info" where
  "registration_info p ip = \<lparr>di_device_fingerprint = dg_device_fingerprint p, di_extension_id = dg_extension_id p,
     di_extension_version = Some (lit (dg_extension_version p)), di_adapter_version = Some (lit (dg_adapter_version p)),
     di_browser_version = dg_browser_version p, di_platform = dg_platform p,
     di_managed_by_policy = dg_managed_by_policy p, di_client_ip = ip\<rparr>"

definition register_device ::
  "api \<Rightarrow> ustr option \<Rightarrow> principal \<Rightarrow> device_register_in \<Rightarrow> db \<Rightarrow> (device_register_out \<times> db) res" where
  "register_device a ip p payload d =
     bindE (get_or_create_device (a_ud a) (a_now a) (usr_id (pl_user p)) (pl_organization p)
              (registration_info payload ip) d) (\<lambda>(v, d1).
       Inr (\<lparr>go_device_id = dev_id v, go_registered_at = dev_created_at v, go_revoked = (dev_revoked_at v \<noteq> None),
             go_server_time = a_now a\<rparr>,
            if dg_notice_acknowledged payload \<and> usr_notice_acknowledged_at (pl_user p) = None
            then upd_user (usr_id (pl_user p)) (\<lambda>u. u\<lparr>usr_notice_acknowledged_at := Some (a_now a)\<rparr>) d1 else d1))"

section \<open>What survives a refusal\<close>

text \<open>
  A refused sign-in leaves no trace: the denial is written to the audit trail of a session that is
  then rolled back.
\<close>

lemma denial_not_recorded:
  assumes "auth_exchange a exchange verify r jti drawn p lm d = (Inl e, d', lm')"
  shows "d' = d"
  using assms get_db_session_rolls_back
  by (auto simp: auth_exchange_def case_prod_beta Let_def split: sum.splits prod.splits)

text \<open>A sign-in through a revoked device fails although the identity is genuine.\<close>

lemma revoked_device_gets_no_session:
  assumes "exchange_device a ip p u r d = Inr (Some v, d1)" "dev_revoked_at v \<noteq> None"
  shows "issue_session ud w s now jti drawn u r (Some v) d1 = Inl (AuthorizationError ''device_revoked'')"
  using assms(2) by (auto simp: issue_session_def)

end
