(* ===== verification/Snapshots.thy ===== *)
theory Snapshots
  imports Ingest
begin

text \<open>
  \<open>app/services/snapshots.py\<close>: the normalised document of a conversation, its integrity digest,
  and the upload that records it on the row.  Rows that tie in an \<open>ORDER BY\<close> come in physical
  order.
\<close>

section \<open>The document\<close>

definition SNAPSHOT_SCHEMA_VERSION :: string where
  "SNAPSHOT_SCHEMA_VERSION = ''1.0''"

definition iso :: "time option \<Rightarrow> json" where
  "iso v = jopt (\<lambda>t. JStr (isoformat t)) v"

definition json_list :: "json \<Rightarrow> json" where
  "json_list j = (case j of JList xs \<Rightarrow> JList xs | _ \<Rightarrow> JList [])"

definition part_doc :: "message_part \<Rightarrow> json" where
  "part_doc p = JObj [(''index'', JInt (mp_part_index p)), (''kind'', JStr (part_kind_str (mp_kind p))),
     (''language'', jopt JText (mp_language p)), (''text'', jopt JText (mp_text_content p)),
     (''structured'', mp_structured p)]"

definition version_doc :: "message_version \<Rightarrow> message_part list \<Rightarrow> bool \<Rightarrow> json" where
  "version_doc v parts include_html = JObj
     ([(''message_version_id'', JStr (uuid_str (mv_id v))), (''version_number'', JInt (mv_version_number v)),
       (''is_edit'', JBool (mv_is_edit v)), (''is_regeneration'', JBool (mv_is_regeneration v)),
       (''completion_status'', JStr (completion_status_str (mv_completion_status v))),
       (''text'', JText (mv_plain_text v)), (''content_sha256'', JStr (mv_content_sha256 v)),
       (''normalized_sha256'', JStr (mv_normalized_sha256 v)), (''char_count'', JInt (mv_char_count v)),
       (''token_estimate'', JInt (mv_token_estimate v)), (''captured_at'', iso (Some (mv_captured_at v))),
       (''source_created_at'', iso (mv_source_created_at v)), (''capture_source'', JStr (mv_capture_source v)),
       (''citations'', json_list (mv_citations v)), (''raw_s3_key'', jopt JStr (mv_raw_s3_key v)),
       (''parts'', JList (map part_doc (sort_key mp_part_index parts)))]
      @ (if include_html \<and> truthy (mv_sanitized_html v)
         then [(''sanitized_html'', JText (the (mv_sanitized_html v)))] else []))"

definition attachment_record :: "attachment \<Rightarrow> json" where
  "attachment_record a = JObj
     [(''attachment_id'', JStr (uuid_str (at_id a))), (''filename'', JText (at_safe_filename a)),
      (''original_filename'', jopt JText (at_original_filename a)),
      (''mime_type'', jopt JStr (str_or (at_detected_mime_type a) (at_declared_mime_type a))),
      (''byte_size'', JInt (at_byte_size a)),
      (''sha256'', jopt JStr (str_or (at_verified_sha256 a) (Some (at_sha256 a)))),
      (''state'', JStr (attachment_state_str (at_state a))), (''metadata_only'', JBool (at_metadata_only a)),
      (''s3_key'', jopt JText (str_or (at_clean_s3_key a) (at_quarantine_s3_key a))),
      (''s3_version_id'', jopt JStr (at_s3_version_id a))]"

text \<open>The join of the links of a conversation with their attachments, and each attachment once.\<close>

definition link_rows :: "uuid \<Rightarrow> db \<Rightarrow> (message_attachment \<times> attachment) list" where
  "link_rows cid d = concat (map (\<lambda>l. map (\<lambda>a. (l, a))
     (filter (\<lambda>a. at_id a = ma_attachment_id l) (d_attachments d)))
     (filter (\<lambda>l. ma_conversation_id l = cid) (d_message_attachments d)))"

fun first_seen :: "uuid list \<Rightarrow> attachment list \<Rightarrow> attachment list" where
  "first_seen seen [] = []"
| "first_seen seen (a # as) = (if at_id a \<in> set seen then first_seen seen as
     else a # first_seen (at_id a # seen) as)"

definition snapshot_messages :: "uuid \<Rightarrow> db \<Rightarrow> message list" where
  "snapshot_messages cid d = sort_key (\<lambda>m. (msg_sequence_index m, msg_created_at m))
     (filter (\<lambda>m. msg_conversation_id m = cid \<and> msg_deleted_at m = None) (d_messages d))"

definition snapshot_versions :: "uuid \<Rightarrow> uuid \<Rightarrow> db \<Rightarrow> message_version list" where
  "snapshot_versions cid mid d = filter (\<lambda>v. mv_message_id v = mid)
     (sort_key (\<lambda>v. (mv_message_id v, mv_version_number v))
       (filter (\<lambda>v. mv_conversation_id v = cid \<and> mv_deleted_at v = None) (d_versions d)))"

definition snapshot_parts :: "uuid \<Rightarrow> uuid \<Rightarrow> db \<Rightarrow> message_part list" where
  "snapshot_parts cid vid d = filter (\<lambda>p. mp_message_version_id p = vid)
     (sort_key mp_part_index (filter (\<lambda>p. mp_conversation_id p = cid) (d_parts d)))"

definition message_doc :: "bool \<Rightarrow> uuid \<Rightarrow> db \<Rightarrow> message \<Rightarrow> json" where
  "message_doc include_html cid d m = JObj
     [(''message_id'', JStr (uuid_str (msg_id m))), (''source_message_id'', jopt JStr (msg_source_message_id m)),
      (''fingerprint'', JStr (msg_fingerprint m)), (''role'', JStr (message_role_str (msg_role m))),
      (''author_name'', jopt JText (msg_author_name m)), (''sequence_index'', JInt (msg_sequence_index m)),
      (''branch_id'', jopt (\<lambda>u. JStr (uuid_str u)) (msg_branch_id m)),
      (''parent_message_id'', jopt (\<lambda>u. JStr (uuid_str u)) (msg_parent_message_id m)),
      (''completion_status'', JStr (completion_status_str (msg_completion_status m))),
      (''source_created_at'', iso (msg_source_created_at m)),
      (''current_version_id'', jopt (\<lambda>u. JStr (uuid_str u)) (msg_current_version_id m)),
      (''versions'', JList (map (\<lambda>v. version_doc v (snapshot_parts cid (mv_id v) d) include_html)
          (snapshot_versions cid (msg_id m) d))),
      (''attachments'', JList (map (\<lambda>(l, a). JObj [(''attachment_id'', JStr (uuid_str (at_id a))),
            (''relation'', JStr (ma_relation l))])
          (filter (\<lambda>(l, a). ma_message_id l = msg_id m) (link_rows cid d))))]"

definition document_body :: "time \<Rightarrow> conversation \<Rightarrow> bool \<Rightarrow> db \<Rightarrow> (string \<times> json) list" where
  "document_body now c include_html d =
     (let message_docs = map (message_doc include_html (cv_id c) d) (snapshot_messages (cv_id c) d)
      in [(''schema_version'', JStr SNAPSHOT_SCHEMA_VERSION),
          (''organization_id'', JStr (uuid_str (cv_organization_id c))),
          (''workspace_id'', JStr (uuid_str (cv_workspace_id c))),
          (''workspace_hash'', case find (\<lambda>w. ws_id w = cv_workspace_id c) (d_workspaces d) of
             Some w \<Rightarrow> JStr (ws_workspace_hash w) | None \<Rightarrow> JNull),
          (''conversation_id'', JStr (uuid_str (cv_id c))),
          (''source_conversation_id'', JStr (cv_source_conversation_id c)),
          (''source_url'', jopt JText (cv_source_url c)), (''title'', jopt JText (cv_title c)),
          (''model_slug'', jopt JText (cv_model_slug c)),
          (''capture_sources'', JList (map JStr (cv_capture_sources c))),
          (''capture_completeness'', JStr (capture_completeness_str (cv_capture_completeness c))),
          (''employee_id_hash'', jopt JStr (cv_employee_id_hash c)),
          (''created_at'', iso (Some (cv_created_at c))),
          (''updated_at'', iso (if cv_source_updated_at c \<noteq> None then cv_source_updated_at c else cv_last_captured_at c)),
          (''snapshot_version'', JInt (cv_snapshot_version c + 1)), (''generated_at'', iso (Some now)),
          (''message_count'', JInt (int (length message_docs))), (''messages'', JList message_docs),
          (''attachments'', JList (map attachment_record (first_seen [] (map snd (link_rows (cv_id c) d)))))])"

definition build_snapshot :: "time \<Rightarrow> conversation \<Rightarrow> bool \<Rightarrow> db \<Rightarrow> (string \<times> json) list" where
  "build_snapshot now c include_html d =
     (let document = document_body now c include_html d
      in document @ [(''integrity'', JObj [(''sha256'', JStr (canonical_json_sha256 (JObj document))),
           (''algorithm'', JStr ''sha256'')])])"

section \<open>Upload\<close>

definition document_digest :: "(string \<times> json) list \<Rightarrow> string" where
  "document_digest document = (case map_of document ''integrity'' of
       Some j \<Rightarrow> (case jget j ''sha256'' of Some (JStr h) \<Rightarrow> h | _ \<Rightarrow> [])
     | None \<Rightarrow> [])"

text \<open>A key consists of ASCII characters; the column holds it as text.\<close>

definition snapshot_row :: "int \<Rightarrow> ustr \<Rightarrow> string \<Rightarrow> conversation \<Rightarrow> conversation" where
  "snapshot_row version key digest c =
     c\<lparr>cv_snapshot_version := version, cv_snapshot_s3_key := Some (map char_of key),
       cv_snapshot_sha256 := Some digest, cv_snapshot_stale := False\<rparr>"

definition write_snapshot ::
  "settings \<Rightarrow> 'b s3 \<Rightarrow> time \<Rightarrow> string \<Rightarrow> conversation \<Rightarrow> db \<Rightarrow> 'b \<Rightarrow> (ustr \<times> string) res \<times> db \<times> 'b" where
  "write_snapshot s cl now workspace_hash c d b =
     (let document = build_snapshot now c False d;
          version = cv_snapshot_version c + 1;
          key = snapshot_key workspace_hash (cv_source_conversation_id c) version now;
          integrity_sha256 = document_digest document;
          (stored, b1) = put_json s cl key (JObj document)
            [(''conversation-id'', uuid_str (cv_id c)), (''snapshot-version'', dec_int version),
             (''integrity-sha256'', integrity_sha256)] b
      in case stored of Inl e \<Rightarrow> (Inl e, d, b1)
       | Inr _ \<Rightarrow> (Inr (key, integrity_sha256),
           upd_conversation (cv_id c) (snapshot_row version key integrity_sha256) d, b1))"

section \<open>Integrity\<close>

text \<open>What an auditor recomputes: the digest of the document without its integrity member.\<close>

definition integrity_ok :: "(string \<times> json) list \<Rightarrow> bool" where
  "integrity_ok document \<longleftrightarrow>
     document_digest document = canonical_json_sha256 (JObj (filter (\<lambda>kv. fst kv \<noteq> ''integrity'') document))"

lemma document_body_keys: "''integrity'' \<notin> fst ` set (document_body now c h d)"
  by (simp add: document_body_def Let_def)

lemma build_snapshot_digest:
  "document_digest (build_snapshot now c h d) = canonical_json_sha256 (JObj (document_body now c h d))"
proof -
  have "map_of (document_body now c h d) ''integrity'' = None"
    using document_body_keys by (simp add: map_of_eq_None_iff)
  then show ?thesis
    by (simp add: document_digest_def build_snapshot_def Let_def map_add_def map_of_append jget_def)
qed

lemma build_snapshot_ok: "integrity_ok (build_snapshot now c h d)"
proof -
  have "filter (\<lambda>kv. fst kv \<noteq> ''integrity'') (document_body now c h d) = document_body now c h d"
    using document_body_keys [of now c h d] by (intro filter_True) force
  then have "filter (\<lambda>kv. fst kv \<noteq> ''integrity'') (build_snapshot now c h d) = document_body now c h d"
    by (simp add: build_snapshot_def Let_def)
  then show ?thesis by (simp add: integrity_ok_def build_snapshot_digest)
qed

text \<open>
  C22. A snapshot that is recorded was stored: the object under the recorded key is the
  canonical text of a document whose integrity member is the digest of all the rest, the row
  carries that key, that digest and the next version and is no longer stale, and no other
  conversation changes.  When the upload fails the database is as before.
\<close>

theorem snapshot_integrity:
  assumes "write_snapshot s cl now workspace_hash c d b = (r, d', b')"
  shows "case r of Inl e \<Rightarrow> d' = d
    | Inr (key, digest) \<Rightarrow> (\<exists>document a v. integrity_ok document \<and> document_digest document = digest
         \<and> map_of document ''snapshot_version'' = Some (JInt (cv_snapshot_version c + 1))
         \<and> s3_put cl a b = (Some v, b') \<and> pa_key a = key
         \<and> pa_body a = utf8_encode (lit (canonical_json (JObj document)))
         \<and> d_conversations d' = upd_where (\<lambda>x. cv_id x = cv_id c)
              (snapshot_row (cv_snapshot_version c + 1) key digest) (d_conversations d)
         \<and> d' = d\<lparr>d_conversations := d_conversations d'\<rparr>)"
proof (cases r)
  case (Inl e)
  then show ?thesis
    using assms by (auto simp: write_snapshot_def Let_def split: sum.splits prod.splits)
next
  case (Inr kd)
  let ?doc = "build_snapshot now c False d" and ?n = "cv_snapshot_version c + 1"
  let ?key = "snapshot_key workspace_hash (cv_source_conversation_id c) ?n now"
  obtain stored md where p: "put_json s cl ?key (JObj ?doc) md b = (Inr stored, b')"
    and kd: "kd = (?key, document_digest ?doc)"
    and d': "d' = upd_conversation (cv_id c) (snapshot_row ?n ?key (document_digest ?doc)) d"
    using assms Inr by (auto simp: write_snapshot_def Let_def split: sum.splits prod.splits)
  obtain a v where "s3_put cl a b = (Some v, b')" "pa_key a = ?key"
      "pa_body a = utf8_encode (lit (canonical_json (JObj ?doc)))"
    using p unfolding put_json_def by (auto elim!: put_bytes_Inr)
  moreover have "map_of ?doc ''snapshot_version'' = Some (JInt ?n)"
    by (simp add: build_snapshot_def document_body_def Let_def)
  ultimately show ?thesis
    using build_snapshot_ok [of now c False d] unfolding Inr kd d'
    by (auto simp: upd_conversation_def intro!: exI [of _ ?doc])
qed

text \<open>A store that accepts every object, and a conversation of its archive.\<close>

definition accepting_store :: "unit s3" where
  "accepting_store = \<lparr>s3_put = (\<lambda>_ b. (Some None, b)), s3_copy = (\<lambda>_ _ _ _ b. (Some None, b)),
     s3_delete = (\<lambda>_ _ b. (Some (), b)), s3_head = (\<lambda>_ _ _. HeadNotFound),
     s3_get = (\<lambda>_ _ _ _. None), s3_presign = (\<lambda>_ _ _. None)\<rparr>"

lemma accepting_put: "put_json s accepting_store key j md b = (Inr \<lparr>pr_key = key, pr_version_id = None,
    pr_sha256 = sha256_hex_bytes (utf8_encode (lit (canonical_json j))),
    pr_byte_size = int (length (utf8_encode (lit (canonical_json j))))\<rparr>, b)"
  by (simp add: put_json_def put_bytes_def accepting_store_def Let_def)

theorem snapshot_integrity_witness:
  "\<exists>key digest d'. write_snapshot default_settings accepting_store 0 ''w'' (sample_conversation 1 False None) empty_db () = (Inr (key, digest), d', ())
     \<and> (\<exists>document. integrity_ok document \<and> document_digest document = digest)"
proof -
  obtain key digest d' where w:
    "write_snapshot default_settings accepting_store 0 ''w'' (sample_conversation 1 False None) empty_db () = (Inr (key, digest), d', ())"
    by (simp add: write_snapshot_def Let_def accepting_put)
  show ?thesis using snapshot_integrity [OF w] w by auto
qed

lemma first_seen_spec:
  "set (map at_id (first_seen seen as)) = set (map at_id as) - set seen
   \<and> distinct (map at_id (first_seen seen as)) \<and> set (first_seen seen as) \<subseteq> set as"
  by (induction seen as rule: first_seen.induct) auto

lemma sorted_fst_key: "sorted (map (\<lambda>x. (f x, g x)) xs) \<Longrightarrow> sorted (map (f :: 'a \<Rightarrow> int) xs)"
  by (induction xs) (auto simp: less_eq_prod_def)

lemma sorted_snd_key: "sorted (map (\<lambda>x. (c :: nat, g x)) xs) \<Longrightarrow> sorted (map (g :: 'a \<Rightarrow> int) xs)"
  by (induction xs) (auto simp: less_eq_prod_def)

lemma snapshot_versions_sorted: "sorted (map mv_version_number (snapshot_versions cid mid d))"
proof (rule sorted_snd_key)
  let ?k = "\<lambda>v. (mv_message_id v, mv_version_number v)"
  have "sorted (map ?k (snapshot_versions cid mid d))"
    unfolding snapshot_versions_def by (rule sorted_filter) (rule sorted_sort_key)
  moreover have "map ?k (snapshot_versions cid mid d) = map (\<lambda>v. (mid, mv_version_number v)) (snapshot_versions cid mid d)"
    by (rule map_cong [OF refl]) (simp add: snapshot_versions_def)
  ultimately show "sorted (map (\<lambda>v. (mid, mv_version_number v)) (snapshot_versions cid mid d))"
    by (rule subst [rotated])
qed

lemma link_ids:
  "set (map at_id (map snd (link_rows cid d)))
     = {ma_attachment_id l |l. l \<in> set (d_message_attachments d) \<and> ma_conversation_id l = cid
          \<and> ma_attachment_id l \<in> at_id ` set (d_attachments d)}" (is "?L = ?R")
proof
  show "?L \<subseteq> ?R"
  proof
    fix x assume "x \<in> ?L"
    then obtain l a where "l \<in> set (d_message_attachments d)" "ma_conversation_id l = cid"
      "a \<in> set (d_attachments d)" "at_id a = ma_attachment_id l" "x = ma_attachment_id l"
      by (auto simp: link_rows_def)
    then show "x \<in> ?R" by (metis (mono_tags, lifting) imageI mem_Collect_eq)
  qed
  show "?R \<subseteq> ?L"
  proof
    fix x assume "x \<in> ?R"
    then obtain l a where "l \<in> set (d_message_attachments d)" "ma_conversation_id l = cid"
      "a \<in> set (d_attachments d)" "at_id a = ma_attachment_id l" "x = at_id a" by auto
    then have "(l, a) \<in> set (link_rows cid d)" by (auto simp: link_rows_def)
    then have "snd (l, a) \<in> snd ` set (link_rows cid d)" by (rule imageI)
    then have "a \<in> snd ` set (link_rows cid d)" by simp
    then have "at_id a \<in> at_id ` (snd ` set (link_rows cid d))" by (rule imageI)
    then show "x \<in> ?L" by (simp only: set_map \<open>x = at_id a\<close>)
  qed
qed


end
