(* ===== verification/Exports.thy ===== *)
theory Exports
  imports Snapshots
begin

text \<open>
  \<open>app/services/exports.py\<close>: which conversations an export may contain, the record of a
  conversation, the split of whole conversations, and the run that uploads the parts and the
  manifest.  Ratios are binary64 numbers.  The time bounds of the filter are kept as ISO strings
  and bound to a \<open>timestamptz\<close> parameter as they are: \<open>drv\<close> is what the database driver makes of
  such a string, \<open>None\<close> when it refuses it.
\<close>

definition RECORDS_PER_PART :: nat where
  "RECORDS_PER_PART = 5000"

definition assert_export_allowed :: "export_kind \<Rightarrow> settings \<Rightarrow> unit res" where
  "assert_export_allowed kind s =
     (if kind = ExportKindCuratedTrainingJsonl \<and> \<not> st_training_export_enabled s
      then Inl (PolicyError ''training_export_disabled'') else Inr ())"

section \<open>Whole-conversation split\<close>

definition split_names :: "(string \<times> rat) list \<Rightarrow> string list" where
  "split_names ratios = sort_key lit (map fst ratios)"

definition split_bucket :: "uuid \<Rightarrow> rat" where
  "split_bucket conversation_id = float_div
     (case unhex_acc 0 (take 8 (sha256_hex (lit (uuid_str conversation_id)))) of Some n \<Rightarrow> of_nat n | None \<Rightarrow> 0) 4294967295"

fun split_scan :: "(string \<times> rat) list \<Rightarrow> rat \<Rightarrow> rat \<Rightarrow> string list \<Rightarrow> string option" where
  "split_scan ratios bucket cumulative [] = None"
| "split_scan ratios bucket cumulative (name # names) =
     (let c = float_add cumulative (case map_of ratios name of Some r \<Rightarrow> r | None \<Rightarrow> 0)
      in if bucket < c then Some name else split_scan ratios bucket c names)"

definition split_for_conversation :: "uuid \<Rightarrow> (string \<times> rat) list \<Rightarrow> string" where
  "split_for_conversation conversation_id ratios =
     (if ratios = [] then ''train''
      else case split_scan ratios (split_bucket conversation_id) 0 (split_names ratios) of
        Some name \<Rightarrow> name
      | None \<Rightarrow> last (split_names ratios))"

section \<open>Eligibility\<close>

definition approved_conversations :: "export \<Rightarrow> db \<Rightarrow> uuid list" where
  "approved_conversations ex d = map ta_conversation_id (filter (\<lambda>t. ta_organization_id t = ex_organization_id ex
     \<and> ta_status t = ApprovalApproved \<and> ta_message_id t = None \<and> \<not> ta_contains_secrets t) (d_training_approvals d))"

definition kind_admits :: "export \<Rightarrow> db \<Rightarrow> conversation \<Rightarrow> bool" where
  "kind_admits ex d c \<longleftrightarrow> cv_organization_id c = ex_organization_id ex \<and> cv_deleted_at c = None
     \<and> (ex_kind ex \<noteq> ExportKindLegalHoldBundle \<longrightarrow> \<not> cv_legal_hold c)
     \<and> (ex_kind ex = ExportKindCuratedTrainingJsonl \<longrightarrow> cv_id c \<in> set (approved_conversations ex d)
          \<and> cv_capture_completeness c \<in> {CcCompleteCurrentPage, CcReconciled, CcComplianceVerified})"

definition bind_time :: "(string \<Rightarrow> time option) \<Rightarrow> time option \<Rightarrow> time option res" where
  "bind_time drv t = (case t of None \<Rightarrow> Inr None
     | Some t \<Rightarrow> (case drv (isoformat t) of None \<Rightarrow> Inl (OtherException ''DBAPIError'') | Some u \<Rightarrow> Inr (Some u)))"

definition filters_admit :: "export \<Rightarrow> time option \<Rightarrow> time option \<Rightarrow> conversation \<Rightarrow> bool" where
  "filters_admit ex from_time to_time c \<longleftrightarrow>
     (ex_filter_conversation_ids ex \<noteq> [] \<longrightarrow> cv_id c \<in> set (ex_filter_conversation_ids ex))
     \<and> opt_ok (\<lambda>w. cv_workspace_id c = w) (ex_filter_workspace_id ex)
     \<and> opt_ok (\<lambda>t. t \<le> cv_created_at c) from_time \<and> opt_ok (\<lambda>t. cv_created_at c \<le> t) to_time"

definition eligible_conversation_ids :: "(string \<Rightarrow> time option) \<Rightarrow> export \<Rightarrow> db \<Rightarrow> uuid list res" where
  "eligible_conversation_ids drv ex d =
     bindE (bind_time drv (ex_filter_from_time ex)) (\<lambda>from_time.
     bindE (bind_time drv (ex_filter_to_time ex)) (\<lambda>to_time.
       Inr (sort (map cv_id (filter (\<lambda>c. kind_admits ex d c \<and> filters_admit ex from_time to_time c)
         (d_conversations d))))))"

section \<open>Records\<close>

text \<open>The messages with a current version, in order.\<close>

definition turns_of :: "uuid \<Rightarrow> db \<Rightarrow> (message \<times> message_version) list" where
  "turns_of cid d = concat (map (\<lambda>m. case msg_current_version_id m of None \<Rightarrow> []
       | Some vid \<Rightarrow> (case find (\<lambda>v. mv_id v = vid) (d_versions d) of None \<Rightarrow> [] | Some v \<Rightarrow> [(m, v)]))
     (snapshot_messages cid d))"

definition turn_doc :: "message \<times> message_version \<Rightarrow> json" where
  "turn_doc mv = (case mv of (m, v) \<Rightarrow> JObj
     [(''role'', JStr (message_role_str (msg_role m))), (''text'', JText (mv_plain_text v)),
      (''sequence_index'', JInt (msg_sequence_index m)),
      (''source_message_id'', jopt JStr (msg_source_message_id m)),
      (''content_sha256'', JStr (mv_content_sha256 v)),
      (''completion_status'', JStr (completion_status_str (mv_completion_status v)))])"

fun prompt_answer_pairs :: "(message \<times> message_version) list \<Rightarrow> (ustr \<times> ustr) list" where
  "prompt_answer_pairs (t # u # ts) =
     (if msg_role (fst t) = RoleUser \<and> msg_role (fst u) = RoleAssistant
      then [(mv_plain_text (snd t), mv_plain_text (snd u))] else []) @ prompt_answer_pairs (u # ts)"
| "prompt_answer_pairs ts = []"

definition export_attachment :: "attachment \<Rightarrow> json" where
  "export_attachment a = JObj
     [(''attachment_id'', JStr (uuid_str (at_id a))), (''filename'', JText (at_safe_filename a)),
      (''mime_type'', jopt JStr (str_or (at_detected_mime_type a) (at_declared_mime_type a))),
      (''sha256'', jopt JStr (str_or (at_verified_sha256 a) (Some (at_sha256 a)))),
      (''s3_key'', jopt JText (at_clean_s3_key a)), (''state'', JStr (attachment_state_str (at_state a)))]"

definition export_attachments :: "bool \<Rightarrow> uuid \<Rightarrow> db \<Rightarrow> attachment list" where
  "export_attachments include_attachments cid d =
     (if include_attachments then filter (\<lambda>a. at_state a = AttClean) (map snd (link_rows cid d)) else [])"

definition record_body :: "conversation \<Rightarrow> bool \<Rightarrow> db \<Rightarrow> (string \<times> json) list" where
  "record_body c include_attachments d =
     (let turns = turns_of (cv_id c) d
      in [(''conversation_id'', JStr (uuid_str (cv_id c))),
          (''source_conversation_id'', JStr (cv_source_conversation_id c)),
          (''title'', jopt JText (cv_title c)),
          (''capture_completeness'', JStr (capture_completeness_str (cv_capture_completeness c))),
          (''message_count'', JInt (int (length turns))), (''messages'', JList (map turn_doc turns)),
          (''pairs'', JList (map (\<lambda>(p, a). JObj [(''prompt'', JText p), (''answer'', JText a)]) (prompt_answer_pairs turns))),
          (''attachments'', JList (map export_attachment (export_attachments include_attachments (cv_id c) d))),
          (''snapshot_sha256'', jopt JStr (cv_snapshot_sha256 c))])"

definition build_conversation_record :: "uuid \<Rightarrow> bool \<Rightarrow> db \<Rightarrow> (string \<times> json) list option" where
  "build_conversation_record cid include_attachments d =
     (case find (\<lambda>c. cv_id c = cid) (d_conversations d) of
        None \<Rightarrow> None
      | Some c \<Rightarrow> if cv_deleted_at c \<noteq> None then None
          else let rec = record_body c include_attachments d
               in Some (rec @ [(''record_sha256'', JStr (canonical_json_sha256 (JObj rec)))]))"

section \<open>The run\<close>

record export_part =
  ep_part :: int
  ep_split :: string
  ep_s3_key :: ustr
  ep_record_count :: nat
  ep_byte_size :: int
  ep_sha256 :: string

definition export_part_doc :: "export_part \<Rightarrow> json" where
  "export_part_doc p = JObj [(''part'', JInt (ep_part p)), (''split'', JStr (ep_split p)),
     (''s3_key'', JText (ep_s3_key p)), (''record_count'', JInt (int (ep_record_count p))),
     (''byte_size'', JInt (ep_byte_size p)), (''sha256'', JStr (ep_sha256 p))]"

type_synonym split_record = "uuid \<times> string \<times> json"

definition use_split :: "export \<Rightarrow> bool" where
  "use_split ex \<longleftrightarrow> ex_split_strategy ex = ''conversation_hash''"

definition export_ratios :: "export \<Rightarrow> (string \<times> rat) list" where
  "export_ratios ex = (if ex_split_ratios ex = [] then [(''train'', 1)] else ex_split_ratios ex)"

definition split_of :: "export \<Rightarrow> uuid \<Rightarrow> string" where
  "split_of ex cid = (if use_split ex then split_for_conversation cid (export_ratios ex) else ''all'')"

definition export_records :: "export \<Rightarrow> uuid list \<Rightarrow> db \<Rightarrow> split_record list" where
  "export_records ex ids d = concat (map (\<lambda>cid.
     case build_conversation_record cid (ex_include_attachments ex) d of None \<Rightarrow> []
     | Some rec \<Rightarrow> [(cid, split_of ex cid, JObj (rec @ [(''split'', JStr (split_of ex cid))]))]) ids)"

text \<open>The parts in upload order: split by split, each cut into chunks.\<close>

definition export_tasks :: "split_record list \<Rightarrow> (string \<times> split_record list) list" where
  "export_tasks recs = concat (map (\<lambda>sp. map (Pair sp)
       (chunks_of RECORDS_PER_PART (filter (\<lambda>r. fst (snd r) = sp) recs)))
     (sorted_strings (map (\<lambda>r. fst (snd r)) recs)))"

fun put_parts ::
  "settings \<Rightarrow> 'b s3 \<Rightarrow> (bytes \<Rightarrow> bytes) \<Rightarrow> export \<Rightarrow> int \<Rightarrow> (string \<times> split_record list) list \<Rightarrow> 'b
     \<Rightarrow> export_part list res \<times> 'b" where
  "put_parts s cl gzip ex part_number [] b = (Inr [], b)"
| "put_parts s cl gzip ex part_number ((split, chunk) # tasks) b =
     (let n = part_number + 1;
          key = export_part_key (uuid_str (ex_id ex)) n (if use_split ex then Some split else None);
          (stored, b1) = put_jsonl_gz s cl gzip key (map (\<lambda>r. snd (snd r)) chunk)
            [(''export-id'', uuid_str (ex_id ex)), (''split'', split)] b
      in case stored of Inl e \<Rightarrow> (Inl e, b1)
       | Inr r \<Rightarrow> (case put_parts s cl gzip ex n tasks b1 of
             (Inl e, b2) \<Rightarrow> (Inl e, b2)
           | (Inr parts, b2) \<Rightarrow> (Inr (\<lparr>ep_part = n, ep_split = split, ep_s3_key = key,
                ep_record_count = length chunk, ep_byte_size = pr_byte_size r, ep_sha256 = pr_sha256 r\<rparr> # parts), b2)))"

definition total_records :: "export_part list \<Rightarrow> int" where
  "total_records parts = sum_list (map (\<lambda>p. int (ep_record_count p)) parts)"

definition export_manifest :: "time \<Rightarrow> export \<Rightarrow> uuid list \<Rightarrow> export_part list \<Rightarrow> json" where
  "export_manifest now ex ids parts = JObj
     [(''export_id'', JStr (uuid_str (ex_id ex))), (''kind'', JStr (export_kind_str (ex_kind ex))),
      (''generated_at'', JStr (isoformat now)), (''conversation_count'', JInt (int (length ids))),
      (''record_count'', JInt (total_records parts)), (''split_strategy'', JStr (ex_split_strategy ex)),
      (''split_ratios'', JObj (map (\<lambda>(n, r). (n, JFloat r)) (export_ratios ex))),
      (''parts'', JList (map export_part_doc parts)),
      (''notes'', JList
        [JStr ''Only conversations with an explicit approved training_approvals row are included.'',
         JStr ''Splitting is by whole conversation; no conversation spans two splits.'',
         JStr ''This export does not start any model training.''])]"

definition upd_export :: "uuid \<Rightarrow> (export \<Rightarrow> export) \<Rightarrow> db \<Rightarrow> db" where
  "upd_export eid f d = d\<lparr>d_exports := upd_where (\<lambda>x. ex_id x = eid) f (d_exports d)\<rparr>"

definition running_export :: "time \<Rightarrow> export \<Rightarrow> export" where
  "running_export now ex = ex\<lparr>ex_status := ExportRunning, ex_started_at := Some now\<rparr>"

definition completed_export :: "time \<Rightarrow> uuid list \<Rightarrow> export_part list \<Rightarrow> ustr \<Rightarrow> string \<Rightarrow> export \<Rightarrow> export" where
  "completed_export now ids parts manifest_key manifest_sha256 ex =
     ex\<lparr>ex_status := ExportCompleted, ex_completed_at := Some now, ex_conversation_count := int (length ids),
       ex_record_count := total_records parts, ex_byte_size := sum_list (map ep_byte_size parts),
       ex_parts := map export_part_doc parts, ex_s3_prefix := Some (''exports/jsonl/'' @ uuid_str (ex_id ex) @ ''/''),
       ex_manifest_s3_key := Some (map char_of manifest_key), ex_manifest_sha256 := Some manifest_sha256\<rparr>"

definition upload_export ::
  "settings \<Rightarrow> 'b s3 \<Rightarrow> (bytes \<Rightarrow> bytes) \<Rightarrow> time \<Rightarrow> export \<Rightarrow> uuid list \<Rightarrow> db \<Rightarrow> 'b \<Rightarrow> unit res \<times> db \<times> 'b" where
  "upload_export s cl gzip now ex ids d b =
     (case put_parts s cl gzip ex 0 (export_tasks (export_records ex ids d)) b of
        (Inl e, b1) \<Rightarrow> (Inl e, d, b1)
      | (Inr parts, b1) \<Rightarrow>
          let manifest_key = export_manifest_key (uuid_str (ex_id ex))
          in case put_json s cl manifest_key (export_manifest now ex ids parts) [] b1 of
               (Inl e, b2) \<Rightarrow> (Inl e, d, b2)
             | (Inr m, b2) \<Rightarrow>
                 (Inr (), upd_export (ex_id ex) (completed_export now ids parts manifest_key (pr_sha256 m)) d, b2))"

definition run_export ::
  "(string \<Rightarrow> time option) \<Rightarrow> settings \<Rightarrow> 'b s3 \<Rightarrow> (bytes \<Rightarrow> bytes) \<Rightarrow> time \<Rightarrow> export \<Rightarrow> db \<Rightarrow> 'b
     \<Rightarrow> unit res \<times> db \<times> 'b" where
  "run_export drv s cl gzip now ex d b =
     (case assert_export_allowed (ex_kind ex) s of Inl e \<Rightarrow> (Inl e, d, b)
      | Inr _ \<Rightarrow>
          let d1 = upd_export (ex_id ex) (running_export now) d
          in case flush d1 of Inl e \<Rightarrow> (Inl e, d1, b)
           | Inr d2 \<Rightarrow> (case eligible_conversation_ids drv ex d2 of Inl e \<Rightarrow> (Inl e, d2, b)
               | Inr ids \<Rightarrow> upload_export s cl gzip now ex ids d2 b))"

section \<open>Eligibility\<close>

lemma export_eligible_row:
  assumes "eligible_conversation_ids drv ex d = Inr ids" "cid \<in> set ids"
  shows "\<exists>c\<in>set (d_conversations d). cv_id c = cid \<and> cv_deleted_at c = None"
  using assms by (auto simp: eligible_conversation_ids_def bindE_eq_Inr kind_admits_def)


section \<open>The parts partition the eligible conversations\<close>

lemma chunks_fuel_spec:
  "0 < n \<Longrightarrow> length xs \<le> k \<Longrightarrow> concat (chunks_fuel k n xs) = xs
     \<and> list_all (\<lambda>c. c \<noteq> [] \<and> length c \<le> n) (chunks_fuel k n xs)"
proof (induction k arbitrary: xs)
  case (Suc k)
  show ?case
  proof (cases "xs = []")
    case False
    have "length (drop n xs) \<le> k" using Suc.prems False by (cases xs) auto
    from Suc.IH [OF Suc.prems(1) this] show ?thesis using False Suc.prems(1) by simp
  qed simp
qed simp

lemma chunks_of_spec:
  "0 < n \<Longrightarrow> concat (chunks_of n xs) = xs \<and> list_all (\<lambda>c. c \<noteq> [] \<and> length c \<le> n) (chunks_of n xs)"
  unfolding chunks_of_def by (rule chunks_fuel_spec) simp_all

lemma concat_chunks [simp]: "concat (chunks_of RECORDS_PER_PART xs) = xs"
  using chunks_of_spec [of RECORDS_PER_PART xs] by (simp add: RECORDS_PER_PART_def)

lemma mset_filter_partition:
  "distinct ks \<Longrightarrow> f ` set xs \<subseteq> set ks \<Longrightarrow> mset (concat (map (\<lambda>k. filter (\<lambda>x. f x = k) xs) ks)) = mset xs"
proof (induction ks arbitrary: xs)
  case (Cons k ks)
  let ?ys = "filter (\<lambda>x. f x \<noteq> k) xs"
  have eq: "map (\<lambda>k. filter (\<lambda>x. f x = k) xs) ks = map (\<lambda>k. filter (\<lambda>x. f x = k) ?ys) ks"
    using Cons.prems(1) by (intro map_cong [OF refl]) (auto intro!: filter_cong)
  have ih: "mset (concat (map (\<lambda>k. filter (\<lambda>x. f x = k) ?ys) ks)) = mset ?ys"
    using Cons.prems by (intro Cons.IH) auto
  have "concat (map (\<lambda>k. filter (\<lambda>x. f x = k) xs) (k # ks))
      = filter (\<lambda>x. f x = k) xs @ concat (map (\<lambda>k. filter (\<lambda>x. f x = k) ?ys) ks)"
    by (simp only: list.map concat.simps eq)
  then show ?case
    unfolding mset_append ih using multiset_partition [of "mset xs" "\<lambda>x. f x = k"] by (simp only: mset_append ih mset_filter)
qed simp

lemma sorted_strings_spec: "distinct (sorted_strings xs) \<and> set (sorted_strings xs) = set xs"
  by (simp add: sorted_strings_def)

lemma concat_map_concat: "concat (map snd (concat (map (\<lambda>k. map (Pair k) (g k)) ks))) = concat (map (\<lambda>k. concat (g k)) ks)"
  by (induction ks) (simp_all add: comp_def)

lemma export_tasks_mset: "mset (concat (map snd (export_tasks recs))) = mset recs"
proof -
  have "concat (map snd (export_tasks recs))
      = concat (map (\<lambda>sp. filter (\<lambda>r. fst (snd r) = sp) recs) (sorted_strings (map (\<lambda>r. fst (snd r)) recs)))"
    unfolding export_tasks_def concat_map_concat by (simp only: concat_chunks)
  then show ?thesis
    using sorted_strings_spec [of "map (\<lambda>r. fst (snd r)) recs"] by (simp add: mset_filter_partition)
qed

lemma export_task_chunk:
  assumes "(sp, chunk) \<in> set (export_tasks recs)"
  shows "chunk \<noteq> [] \<and> length chunk \<le> RECORDS_PER_PART \<and> set chunk \<subseteq> {r \<in> set recs. fst (snd r) = sp}"
proof -
  let ?rs = "filter (\<lambda>r. fst (snd r) = sp) recs"
  have c: "chunk \<in> set (chunks_of RECORDS_PER_PART ?rs)" using assms by (auto simp: export_tasks_def)
  have s: "list_all (\<lambda>c. c \<noteq> [] \<and> length c \<le> RECORDS_PER_PART) (chunks_of RECORDS_PER_PART ?rs)"
    using chunks_of_spec [of RECORDS_PER_PART ?rs] by (simp_all add: RECORDS_PER_PART_def)
  have "set chunk \<subseteq> set (concat (chunks_of RECORDS_PER_PART ?rs))" unfolding set_concat using c by blast
  then have "set chunk \<subseteq> set ?rs" by (simp only: concat_chunks)
  then show ?thesis using c s by (auto simp: list_all_iff)
qed

lemma put_parts_spec:
  "put_parts s cl gzip ex n tasks b = (Inr parts, b') \<Longrightarrow>
     map (\<lambda>p. (ep_split p, ep_record_count p)) parts = map (\<lambda>(sp, chunk). (sp, length chunk)) tasks
     \<and> map ep_part parts = map (\<lambda>i. n + 1 + int i) [0..<length tasks]"
proof (induction s cl gzip ex n tasks b arbitrary: parts b' rule: put_parts.induct)
  case (2 s cl gzip ex n split chunk tasks b)
  obtain r b1 ps b2 where p: "put_parts s cl gzip ex (n + 1) tasks b1 = (Inr ps, b2)"
    and parts: "parts = \<lparr>ep_part = n + 1, ep_split = split,
        ep_s3_key = export_part_key (uuid_str (ex_id ex)) (n + 1) (if use_split ex then Some split else None),
        ep_record_count = length chunk, ep_byte_size = pr_byte_size r, ep_sha256 = pr_sha256 r\<rparr> # ps"
    and u: "(Inr r, b1) = put_jsonl_gz s cl gzip (export_part_key (uuid_str (ex_id ex)) (n + 1) (if use_split ex then Some split else None))
        (map (\<lambda>r. snd (snd r)) chunk) [(''export-id'', uuid_str (ex_id ex)), (''split'', split)] b"
    using 2(2) by (auto simp: Let_def split: prod.splits sum.splits)
  have "map (\<lambda>p. (ep_split p, ep_record_count p)) ps = map (\<lambda>(sp, chunk). (sp, length chunk)) tasks
     \<and> map ep_part ps = map (\<lambda>i. n + 1 + 1 + int i) [0..<length tasks]"
    by (rule 2(1) [OF refl refl u refl refl p])
  moreover have "map (\<lambda>i. n + 1 + int i) [0..<length ((split, chunk) # tasks)]
      = (n + 1) # map (\<lambda>i. n + 1 + 1 + int i) [0..<length tasks]"
    by (simp add: upt_conv_Cons map_Suc_upt [symmetric] comp_def del: upt_Suc)
  ultimately show ?case by (simp add: parts)
qed simp

lemma eligible_cong:
  "d_conversations d' = d_conversations d \<Longrightarrow> d_training_approvals d' = d_training_approvals d
     \<Longrightarrow> eligible_conversation_ids drv ex d' = eligible_conversation_ids drv ex d"
  by (simp add: eligible_conversation_ids_def kind_admits_def approved_conversations_def)

lemma export_records_ids:
  assumes "eligible_conversation_ids drv ex d = Inr ids" "distinct (map cv_id (d_conversations d))"
  shows "map fst (export_records ex ids d) = ids" and "distinct ids" and "sorted ids"
    and "r \<in> set (export_records ex ids d) \<Longrightarrow> fst (snd r) = split_of ex (fst r)"
proof -
  have "\<exists>rec. build_conversation_record cid b d = Some rec" if cid: "cid \<in> set ids" for cid b
  proof -
    obtain c where c: "c \<in> set (d_conversations d)" "cv_id c = cid" "cv_deleted_at c = None"
      using export_eligible_row [OF assms(1) cid] by blast
    then have "find (\<lambda>x. cv_id x = cid) (d_conversations d) = Some c"
      using find_unique [OF assms(2) c(1)] by simp
    then show ?thesis using c(3) by (simp add: build_conversation_record_def Let_def)
  qed
  then show "map fst (export_records ex ids d) = ids"
    unfolding export_records_def by (induction ids) (auto split: option.splits)
  show "distinct ids" "sorted ids"
    using assms by (auto simp: eligible_conversation_ids_def bindE_eq_Inr intro: distinct_map_filterI)
  show "fst (snd r) = split_of ex (fst r)" if "r \<in> set (export_records ex ids d)"
    using that by (auto simp: export_records_def split: option.splits)
qed

lemma run_export_Inr:
  assumes "run_export drv s cl gzip now ex d b = (Inr (), d', b')"
  obtains d2 ids parts b1 m where
    "assert_export_allowed (ex_kind ex) s = Inr ()"
    "d2 = upd_export (ex_id ex) (running_export now) d" "constraints d2"
    "eligible_conversation_ids drv ex d2 = Inr ids"
    "put_parts s cl gzip ex 0 (export_tasks (export_records ex ids d2)) b = (Inr parts, b1)"
    "put_json s cl (export_manifest_key (uuid_str (ex_id ex))) (export_manifest now ex ids parts) [] b1 = (Inr m, b')"
    "d' = upd_export (ex_id ex) (completed_export now ids parts (export_manifest_key (uuid_str (ex_id ex))) (pr_sha256 m)) d2"
  using assms unfolding run_export_def upload_export_def
  by (auto simp: Let_def split: sum.splits prod.splits)

lemma export_row_id [simp]: "ex_id (running_export now ex) = ex_id ex"
    "ex_id (completed_export now ids parts key digest ex) = ex_id ex"
  by (simp_all add: running_export_def completed_export_def)

lemma sum_length_snd: "sum_list (map (\<lambda>t. int (length (snd t))) ts) = int (length (concat (map snd ts)))"
  by (induction ts) simp_all

lemma upd_export_sel [simp]:
  "d_conversations (upd_export i f d) = d_conversations d"
  "d_training_approvals (upd_export i f d) = d_training_approvals d"
  "d_exports (upd_export i f d) = upd_where (\<lambda>x. ex_id x = i) f (d_exports d)"
  by (simp_all add: upd_export_def)


section \<open>A concrete export\<close>

definition sample_export :: export where
  "sample_export = \<lparr>ex_id = 7, ex_created_at = 0, ex_organization_id = 1, ex_requested_by_user_id = None,
     ex_kind = ExportKindCuratedTrainingJsonl, ex_status = ExportPending, ex_filter_conversation_ids = [],
     ex_filter_workspace_id = None, ex_filter_from_time = None, ex_filter_to_time = None,
     ex_split_strategy = ''conversation_hash'', ex_split_ratios = [(''train'', 1)], ex_include_attachments = False,
     ex_conversation_count = 0, ex_record_count = 0, ex_byte_size = 0, ex_s3_prefix = None,
     ex_manifest_s3_key = None, ex_manifest_sha256 = None, ex_parts = [], ex_started_at = None,
     ex_completed_at = None, ex_error_summary = None\<rparr>"

definition sample_approval :: training_approval where
  "sample_approval = \<lparr>ta_id = 8, ta_created_at = 0, ta_organization_id = 1, ta_conversation_id = 2,
     ta_message_id = None, ta_status = ApprovalApproved, ta_reviewed_by_user_id = None, ta_reviewed_at = None,
     ta_reason = None, ta_contains_secrets = False, ta_contains_personal_data = False, ta_policy_version = None\<rparr>"

text \<open>Two conversations, one of them approved and complete.\<close>

definition sample_export_db :: db where
  "sample_export_db = empty_db\<lparr>d_conversations := [sample_conversation 1 False None,
       sample_conversation 2 False None\<lparr>cv_capture_completeness := CcReconciled\<rparr>],
     d_training_approvals := [sample_approval], d_exports := [sample_export]\<rparr>"


lemma accepting_put_bytes: "\<exists>r. put_bytes s accepting_store key body ct md b = (Inr r, b)"
  by (simp add: put_bytes_def accepting_store_def Let_def)

lemma put_parts_accepting: "\<exists>parts. put_parts s accepting_store gzip ex n tasks b = (Inr parts, b)"
proof (induction tasks arbitrary: n)
  case (Cons t tasks)
  obtain sp chunk where t: "t = (sp, chunk)" by (cases t)
  obtain r where "put_jsonl_gz s accepting_store gzip
      (export_part_key (uuid_str (ex_id ex)) (n + 1) (if use_split ex then Some sp else None))
      (map (\<lambda>r. snd (snd r)) chunk) [(''export-id'', uuid_str (ex_id ex)), (''split'', sp)] b = (Inr r, b)"
    using accepting_put_bytes unfolding put_jsonl_gz_def by blast
  moreover obtain ps where "put_parts s accepting_store gzip ex (n + 1) tasks b = (Inr ps, b)" using Cons.IH by blast
  ultimately show ?case by (simp add: t Let_def)
qed simp


end
