(* ===== verification/Api_Admin.thy ===== *)
theory Api_Admin
  imports Api_Ingest Exports
begin

text \<open>
  The administrative endpoints (\<open>app/api/v1/admin.py\<close>) and the health probes
  (\<open>app/api/v1/health.py\<close>).  Every one is behind a role check; the probes of the object store and
  the database are arguments.  The reason of an export, which only people read, is not kept.
\<close>

section \<open>Roles\<close>

definition admin_dep :: "principal \<Rightarrow> principal res" where
  "admin_dep p = require_roles [ComplianceAdmin, SecurityReviewer, Support, DataCurator] p"

definition exporter_dep :: "principal \<Rightarrow> principal res" where
  "exporter_dep p = require_roles [DataCurator, ComplianceAdmin] p"

definition compliance_admin_dep :: "principal \<Rightarrow> principal res" where
  "compliance_admin_dep p = require_roles [ComplianceAdmin] p"

text \<open>\<open>[r.value for r in roles]\<close>: the order of a \<open>frozenset\<close> is not specified; \<open>order\<close> chooses one.\<close>

definition admin_audit :: "(role set \<Rightarrow> role list) \<Rightarrow> principal \<Rightarrow> ustr option \<Rightarrow> audit_args" where
  "admin_audit order p ip = (caller_audit p ip)\<lparr>au_actor_roles := map role_str (order (ac_roles (pl_claims p)))\<rparr>"

section \<open>Health summary\<close>

record compliance_health =
  chl_enabled :: bool
  chl_configured :: bool
  chl_last_success_at :: "time option"
  chl_last_attempt_at :: "time option"
  chl_last_event_time :: "time option"
  chl_lag_seconds :: "time option"
  chl_consecutive_errors :: int
  chl_total_events :: int
  chl_cursor_healthy :: bool
  chl_note :: "string option"

record storage_health =
  sh_bucket :: ustr
  sh_reachable :: bool
  sh_unarchived_events :: int
  sh_stale_snapshots :: int
  sh_pending_attachments :: int

record admin_health_summary =
  hs_server_time :: time
  hs_environment :: ustr
  hs_version :: ustr
  hs_git_sha :: ustr
  hs_database_ok :: bool
  hs_storage :: storage_health
  hs_queue :: queue_stat
  hs_compliance :: compliance_health
  hs_policy :: "(string \<times> bool) list"
  hs_counts :: "(string \<times> int) list"
  hs_warnings :: "string list"

definition unarchived_events :: "db \<Rightarrow> int" where
  "unarchived_events d = int (length (filter (\<lambda>e. ce_archived_at e = None) (d_capture_events d)))"

definition stale_snapshots :: "db \<Rightarrow> int" where
  "stale_snapshots d = int (length (filter (\<lambda>c. cv_snapshot_stale c \<and> cv_deleted_at c = None) (d_conversations d)))"

definition open_attachments :: "db \<Rightarrow> int" where
  "open_attachments d = int (length (filter (\<lambda>a. at_state a \<in> {AttPending, AttQuarantine}) (d_attachments d)))"

definition compliance_checkpoint :: "uuid \<Rightarrow> db \<Rightarrow> sync_checkpoint option" where
  "compliance_checkpoint oid d =
     find (\<lambda>c. sc_organization_id c = oid \<and> sc_source c = ''openai_compliance'') (d_sync_checkpoints d)"

definition compliance_health_of :: "settings \<Rightarrow> time \<Rightarrow> sync_checkpoint option \<Rightarrow> compliance_health" where
  "compliance_health_of s now cp =
     \<lparr>chl_enabled = st_compliance_poll_enabled s,
      chl_configured = (truthy (st_openai_compliance_base_url s) \<and> truthy (st_openai_compliance_log_path s)
        \<and> truthy (st_openai_compliance_api_key s)),
      chl_last_success_at = (case cp of Some c \<Rightarrow> sc_last_success_at c | None \<Rightarrow> None),
      chl_last_attempt_at = (case cp of Some c \<Rightarrow> sc_last_attempt_at c | None \<Rightarrow> None),
      chl_last_event_time = (case cp of Some c \<Rightarrow> sc_last_event_time c | None \<Rightarrow> None),
      chl_lag_seconds = (case cp of Some c \<Rightarrow> map_option (\<lambda>t. now - t) (sc_last_event_time c) | None \<Rightarrow> None),
      chl_consecutive_errors = (case cp of Some c \<Rightarrow> sc_consecutive_errors c | None \<Rightarrow> 0),
      chl_total_events = (case cp of Some c \<Rightarrow> sc_total_events c | None \<Rightarrow> 0),
      chl_cursor_healthy = (case cp of Some c \<Rightarrow> sc_consecutive_errors c < 5 | None \<Rightarrow> False),
      chl_note = (if st_compliance_poll_enabled s then None
        else Some ''Compliance polling is disabled until credentials and endpoints are configured.'')\<rparr>"

definition health_warnings :: "settings \<Rightarrow> queue_stat \<Rightarrow> bool \<Rightarrow> int \<Rightarrow> string list" where
  "health_warnings s queue storage_ok unarchived =
     (if browser_capture_active s then []
      else [''Browser content capture is gated off; the extension will not archive content.''])
     @ (if qs_stale_locks queue \<noteq> 0 then [dec_int (qs_stale_locks queue) @ '' job(s) hold a stale lock.''] else [])
     @ (if storage_ok then [] else [''Object storage is not reachable from the API container.''])
     @ (if 1000 < unarchived then [dec_int unarchived @ '' capture events are not yet archived to S3.''] else [])"

definition health_counts :: "db \<Rightarrow> (string \<times> int) list" where
  "health_counts d = [(''conversations'', int (length (d_conversations d))), (''messages'', int (length (d_messages d))),
     (''users'', int (length (d_users d))), (''devices'', int (length (d_devices d)))]"

definition health_summary ::
  "api \<Rightarrow> (role set \<Rightarrow> role list) \<Rightarrow> bool \<Rightarrow> ustr option \<Rightarrow> principal \<Rightarrow> db \<Rightarrow> (admin_health_summary \<times> db) res" where
  "health_summary a order storage_ok ip p0 d =
     bindE (admin_dep p0) (\<lambda>p.
     let s = a_settings a;
         queue = queue_stats s (a_now a) d;
         cp = compliance_checkpoint (org_id (pl_organization p)) d;
         (_, d1) = record_audit (a_ud a) (a_correlation a) AuditAdminRead
           ((admin_audit order p ip)\<lparr>au_resource_type := Some ''health_summary''\<rparr>) d
     in Inr (\<lparr>hs_server_time = a_now a, hs_environment = st_environment s, hs_version = st_app_version s,
          hs_git_sha = st_git_sha s, hs_database_ok = True,
          hs_storage = \<lparr>sh_bucket = st_s3_bucket s, sh_reachable = storage_ok, sh_unarchived_events = unarchived_events d,
            sh_stale_snapshots = stale_snapshots d, sh_pending_attachments = open_attachments d\<rparr>,
          hs_queue = queue, hs_compliance = compliance_health_of s (a_now a) cp, hs_policy = capture_policy_dict s,
          hs_counts = health_counts d, hs_warnings = health_warnings s queue storage_ok (unarchived_events d)\<rparr>, d1))"

section \<open>Exports\<close>

record export_create_in =
  ec_kind :: export_kind
  ec_conversation_ids :: "uuid list"
  ec_from_time :: "time option"
  ec_to_time :: "time option"
  ec_workspace_id :: "uuid option"
  ec_include_attachments :: bool
  ec_split_strategy :: string
  ec_split_ratios :: "(string \<times> rat) list"
  ec_reason :: ustr

text \<open>
  \<open>sum\<close> of floats is compensated (Neumaier) from Python 3.12 on: \<open>c\<close> collects the rounding errors.
  \<open>1e-6\<close> is the double nearest to it.
\<close>

fun sum_from :: "rat \<Rightarrow> rat \<Rightarrow> rat list \<Rightarrow> rat" where
  "sum_from f c [] = (if c = 0 then f else float_add f c)"
| "sum_from f c (x # xs) =
     (let t = float_add f x;
          c' = float_add c (if \<bar>x\<bar> \<le> \<bar>f\<bar> then float_add (float_add f (- t)) x else float_add (float_add x (- t)) f)
      in sum_from t c' xs)"

definition float_sum :: "rat list \<Rightarrow> rat" where
  "float_sum xs = (case xs of [] \<Rightarrow> 0 | x # rest \<Rightarrow> sum_from x 0 rest)"

definition ratios_valid :: "(string \<times> rat) list \<Rightarrow> bool" where
  "ratios_valid r \<longleftrightarrow> r \<noteq> [] \<and> \<bar>float_add (float_sum (map snd r)) (-1)\<bar> \<le> fround (1 / 1000000)
     \<and> list_all (\<lambda>x. 0 \<le> snd x) r"

definition export_create_valid :: "export_create_in \<Rightarrow> bool" where
  "export_create_valid p \<longleftrightarrow> length (ec_conversation_ids p) \<le> 5000
     \<and> ec_split_strategy p \<in> {''conversation_hash'', ''none''} \<and> ratios_valid (ec_split_ratios p)
     \<and> 8 \<le> length (ec_reason p) \<and> length (ec_reason p) \<le> 1024"

record export_out =
  eo_export_id :: uuid
  eo_kind :: string
  eo_status :: string
  eo_conversation_count :: int
  eo_record_count :: int
  eo_byte_size :: int
  eo_s3_prefix :: "string option"
  eo_manifest_s3_key :: "string option"
  eo_manifest_sha256 :: "string option"
  eo_parts :: "json list"
  eo_download_urls :: "ustr list"
  eo_created_at :: time
  eo_completed_at :: "time option"
  eo_error_summary :: "ustr option"

definition make_export_out :: "export \<Rightarrow> ustr list \<Rightarrow> export_out" where
  "make_export_out ex urls = \<lparr>eo_export_id = ex_id ex, eo_kind = export_kind_str (ex_kind ex),
     eo_status = export_status_str (ex_status ex), eo_conversation_count = ex_conversation_count ex,
     eo_record_count = ex_record_count ex, eo_byte_size = ex_byte_size ex, eo_s3_prefix = ex_s3_prefix ex,
     eo_manifest_s3_key = ex_manifest_s3_key ex, eo_manifest_sha256 = ex_manifest_sha256 ex, eo_parts = ex_parts ex,
     eo_download_urls = urls, eo_created_at = ex_created_at ex, eo_completed_at = ex_completed_at ex,
     eo_error_summary = ex_error_summary ex\<rparr>"

definition new_export :: "time \<Rightarrow> principal \<Rightarrow> export_create_in \<Rightarrow> uuid \<Rightarrow> export" where
  "new_export now p payload eid = \<lparr>ex_id = eid, ex_created_at = now,
     ex_organization_id = org_id (pl_organization p), ex_requested_by_user_id = Some (usr_id (pl_user p)),
     ex_kind = ec_kind payload, ex_status = ExportPending, ex_filter_conversation_ids = ec_conversation_ids payload,
     ex_filter_workspace_id = ec_workspace_id payload, ex_filter_from_time = ec_from_time payload,
     ex_filter_to_time = ec_to_time payload, ex_split_strategy = ec_split_strategy payload,
     ex_split_ratios = ec_split_ratios payload, ex_include_attachments = ec_include_attachments payload,
     ex_conversation_count = 0, ex_record_count = 0, ex_byte_size = 0, ex_s3_prefix = None,
     ex_manifest_s3_key = None, ex_manifest_sha256 = None, ex_parts = [], ex_started_at = None,
     ex_completed_at = None, ex_error_summary = None\<rparr>"

definition export_audit ::
  "(role set \<Rightarrow> role list) \<Rightarrow> principal \<Rightarrow> ustr option \<Rightarrow> uuid \<Rightarrow> (string \<times> json) list \<Rightarrow> audit_args" where
  "export_audit order p ip eid details = (admin_audit order p ip)\<lparr>au_resource_type := Some ''export'',
     au_resource_id := Some (lit (uuid_str eid)), au_details := details\<rparr>"

definition create_export ::
  "api \<Rightarrow> (role set \<Rightarrow> role list) \<Rightarrow> ustr option \<Rightarrow> principal \<Rightarrow> export_create_in \<Rightarrow> db \<Rightarrow> (export_out \<times> db) res" where
  "create_export a order ip p0 payload d =
     bindE (exporter_dep p0) (\<lambda>p.
     bindE (assert_export_allowed (ec_kind payload) (a_settings a)) (\<lambda>_.
     if ec_kind payload = ExportKindLegalHoldBundle \<and> \<not> has_any [ComplianceAdmin] (pl_claims p)
     then Inl (PolicyError ''Legal-hold bundles require the compliance_admin role'')
     else let (eid, d1) = uuid4 d; ex = new_export (a_now a) p payload eid
          in bindE (flush (d1\<lparr>d_exports := d_exports d1 @ [ex]\<rparr>)) (\<lambda>d2.
             bindE (enqueue_job (a_now a) KindRunExport (JObj [(''export_id'', JStr (uuid_str eid))])
                (Some (org_id (pl_organization p))) (Some (''export:'' @ uuid_str eid)) 300 None 8 d2) (\<lambda>(_, d3).
             let (_, d4) = record_audit (a_ud a) (a_correlation a) AuditExportCreated
                   (export_audit order p ip eid [(''kind'', JStr (export_kind_str (ec_kind payload))),
                      (''reason_supplied'', JBool (ec_reason payload \<noteq> []))]) d3
             in Inr (make_export_out ex [], d4)))))"

text \<open>The links of a completed export: at most a hundred parts and the manifest.\<close>

fun presign_parts :: "settings \<Rightarrow> 'b s3 \<Rightarrow> json list \<Rightarrow> ustr list res" where
  "presign_parts s c [] = Inr []"
| "presign_parts s c (part # parts) = (case jget part ''s3_key'' of
       Some (JText k) \<Rightarrow> bindE (presign_get s c k None) (\<lambda>url. bindE (presign_parts s c parts) (\<lambda>urls. Inr (url # urls)))
     | Some (JStr k) \<Rightarrow> bindE (presign_get s c (lit k) None) (\<lambda>url. bindE (presign_parts s c parts) (\<lambda>urls. Inr (url # urls)))
     | _ \<Rightarrow> Inl (OtherException ''KeyError''))"

definition export_urls :: "settings \<Rightarrow> 'b s3 \<Rightarrow> export \<Rightarrow> ustr list res" where
  "export_urls s c ex =
     bindE (presign_parts s c (take 100 (ex_parts ex))) (\<lambda>urls.
       if truthy (ex_manifest_s3_key ex)
       then bindE (presign_get s c (lit (the (ex_manifest_s3_key ex))) None) (\<lambda>url. Inr (urls @ [url]))
       else Inr urls)"

definition get_export ::
  "api \<Rightarrow> (role set \<Rightarrow> role list) \<Rightarrow> 'b s3 \<Rightarrow> ustr option \<Rightarrow> principal \<Rightarrow> uuid \<Rightarrow> db \<Rightarrow> (export_out \<times> db) res" where
  "get_export a order c ip p0 eid d =
     bindE (exporter_dep p0) (\<lambda>p.
     case find (\<lambda>x. ex_id x = eid) (d_exports d) of
       None \<Rightarrow> Inl (NotFoundError ''Unknown export'')
     | Some ex \<Rightarrow>
         if ex_organization_id ex \<noteq> org_id (pl_organization p) then Inl (NotFoundError ''Unknown export'')
         else if ex_status ex \<noteq> ExportCompleted then Inr (make_export_out ex [], d)
         else bindE (export_urls (a_settings a) c ex) (\<lambda>urls.
              let (_, d1) = record_audit (a_ud a) (a_correlation a) AuditExportDownloaded
                    (export_audit order p ip eid [(''url_count'', JInt (int (length urls)))]) d
              in Inr (make_export_out ex urls, d1)))"

section \<open>Devices\<close>

definition revoke_device_route ::
  "api \<Rightarrow> (role set \<Rightarrow> role list) \<Rightarrow> ustr option \<Rightarrow> principal \<Rightarrow> uuid \<Rightarrow> ustr option \<Rightarrow> db \<Rightarrow> (string \<times> db) res" where
  "revoke_device_route a order ip p0 did reason d =
     bindE (compliance_admin_dep p0) (\<lambda>p.
     case get_device did d of
       None \<Rightarrow> Inl (NotFoundError ''Unknown device'')
     | Some v \<Rightarrow>
         if dev_organization_id v \<noteq> org_id (pl_organization p) then Inl (NotFoundError ''Unknown device'')
         else bindE (revoke_device (a_now a) did reason d) (\<lambda>(_, d1).
              let (_, d2) = record_audit (a_ud a) (a_correlation a) AuditDeviceRevoked
                    ((admin_audit order p ip)\<lparr>au_resource_type := Some ''device'',
                       au_resource_id := Some (lit (uuid_str did))\<rparr>) d1
              in Inr (''Device session revoked'', d2)))"

section \<open>Probes\<close>

record health_out =
  ho_status :: string
  ho_checks :: "(string \<times> bool) list"
  ho_version :: ustr
  ho_server_time :: time

definition live_probe :: "settings \<Rightarrow> time \<Rightarrow> int \<times> health_out" where
  "live_probe s now = (200, \<lparr>ho_status = ''ok'', ho_checks = [(''process'', True)], ho_version = st_app_version s,
     ho_server_time = now\<rparr>)"

definition ready_probe :: "settings \<Rightarrow> time \<Rightarrow> bool \<Rightarrow> bool \<Rightarrow> int \<times> health_out" where
  "ready_probe s now database_ok storage_ok =
     (if database_ok then 200 else 503,
      \<lparr>ho_status = (if database_ok then ''ok'' else ''error''),
       ho_checks = [(''database'', database_ok), (''object_storage'', storage_ok), (''config'', True)],
       ho_version = st_app_version s, ho_server_time = now\<rparr>)"

section \<open>Administration stays inside the organisation\<close>

lemma require_roles_Inr: "require_roles allowed p = Inr q \<longleftrightarrow> q = p \<and> (\<exists>r\<in>set allowed. r \<in> ac_roles (pl_claims p))"
  by (auto simp: require_roles_def require_any_def has_any_def list_ex_iff bindE_eq_Inr)

lemma get_export_Inr:
  assumes "get_export a order c ip p eid d = Inr (out, d')"
  obtains ex where "ex \<in> set (d_exports d)" "ex_id ex = eid" "ex_organization_id ex = org_id (pl_organization p)"
    "exporter_dep p = Inr p" "eo_download_urls out = [] \<or> ex_status ex = ExportCompleted"
    "length (eo_download_urls out) \<le> length (ex_parts ex) + 1"
proof -
  have dep: "exporter_dep p = Inr p"
    using assms by (auto simp: get_export_def exporter_dep_def bindE_eq_Inr require_roles_Inr)
  have f: "\<exists>ex. find (\<lambda>x. ex_id x = eid) (d_exports d) = Some ex"
    using assms dep by (auto simp: get_export_def split: option.splits)
  then obtain ex where ex: "find (\<lambda>x. ex_id x = eid) (d_exports d) = Some ex" by blast
  have n: "presign_parts s cl parts = Inr us \<Longrightarrow> length us = length parts" for s parts us and cl :: "'a s3"
    by (induction parts arbitrary: us) (auto simp: bindE_eq_Inr split: option.splits json.splits)
  have u: "export_urls s cl ex = Inr us \<Longrightarrow> length us \<le> length (ex_parts ex) + 1" for s us and cl :: "'a s3"
    by (auto simp: export_urls_def bindE_eq_Inr dest!: n split: if_splits)
  have m: "ex \<in> set (d_exports d)" "ex_id ex = eid" using ex by (auto simp: find_Some_iff)
  have o: "ex_organization_id ex = org_id (pl_organization p)"
    using assms dep ex by (auto simp: get_export_def split: if_splits)
  show ?thesis
  proof (cases "ex_status ex = ExportCompleted")
    case True
    then obtain us where "export_urls (a_settings a) c ex = Inr us" "eo_download_urls out = us"
      using assms dep ex o by (auto simp: get_export_def bindE_eq_Inr make_export_out_def case_prod_beta Let_def)
    then show ?thesis using that [OF m o dep] True u by blast
  next
    case False
    then have "eo_download_urls out = []"
      using assms dep ex o by (auto simp: get_export_def make_export_out_def)
    then show ?thesis using that [OF m o dep] by simp
  qed
qed

end
