(* ===== verification/Compliance_Adapter.thy ===== *)
theory Compliance_Adapter
  imports Security Dates
begin

text \<open>
  \<open>app/adapters/openai_compliance.py\<close>: the client of the compliance interface, which maps a page of
  upstream JSON to events by dotted paths and retries a request that may succeed later.  The
  network is \<open>'n\<close>; \<open>loads\<close> and \<open>fromiso\<close> are \<open>json.loads\<close> and \<open>datetime.fromisoformat\<close> (a naive time being
  read as UTC), and \<open>jitter\<close> the draws behind the pauses.
\<close>

definition DEFAULT_TIMEOUT_SECONDS :: int where
  "DEFAULT_TIMEOUT_SECONDS = 30"

definition MAX_RETRIES :: nat where
  "MAX_RETRIES = 5"

section \<open>Paths into a document\<close>

record field_map =
  fm_items :: json
  fm_next_cursor :: json
  fm_has_more :: json
  fm_event_id :: json
  fm_event_time :: json
  fm_event_type :: json
  fm_conversation_id :: json
  fm_message_id :: json
  fm_workspace_id :: json
  fm_actor_email :: json
  fm_deleted_flag :: json

definition default_field_map :: field_map where
  "default_field_map = \<lparr>fm_items = JStr ''data'', fm_next_cursor = JStr ''next_cursor'', fm_has_more = JStr ''has_more'',
     fm_event_id = JStr ''id'', fm_event_time = JStr ''created_at'', fm_event_type = JStr ''type'',
     fm_conversation_id = JStr ''conversation_id'', fm_message_id = JStr ''message_id'',
     fm_workspace_id = JStr ''workspace_id'', fm_actor_email = JStr ''user.email'', fm_deleted_flag = JStr ''deleted''\<rparr>"

definition set_field :: "field_map \<Rightarrow> string \<times> json \<Rightarrow> field_map" where
  "set_field f kv = (case kv of (k, v) \<Rightarrow>
     if k = ''items'' then f\<lparr>fm_items := v\<rparr> else if k = ''next_cursor'' then f\<lparr>fm_next_cursor := v\<rparr>
     else if k = ''has_more'' then f\<lparr>fm_has_more := v\<rparr> else if k = ''event_id'' then f\<lparr>fm_event_id := v\<rparr>
     else if k = ''event_time'' then f\<lparr>fm_event_time := v\<rparr> else if k = ''event_type'' then f\<lparr>fm_event_type := v\<rparr>
     else if k = ''conversation_id'' then f\<lparr>fm_conversation_id := v\<rparr>
     else if k = ''message_id'' then f\<lparr>fm_message_id := v\<rparr>
     else if k = ''workspace_id'' then f\<lparr>fm_workspace_id := v\<rparr>
     else if k = ''actor_email'' then f\<lparr>fm_actor_email := v\<rparr>
     else if k = ''deleted_flag'' then f\<lparr>fm_deleted_flag := v\<rparr> else f)"

definition field_map_from_env :: "(ustr \<Rightarrow> json option) \<Rightarrow> ustr option \<Rightarrow> field_map res" where
  "field_map_from_env loads env_value =
     (let raw = py_strip (case env_value of Some v \<Rightarrow> v | None \<Rightarrow> [])
      in if raw = [] then Inr default_field_map
         else case loads raw of
             None \<Rightarrow> Inr default_field_map
           | Some (JObj overrides) \<Rightarrow> Inr (foldl set_field default_field_map overrides)
           | Some _ \<Rightarrow> Inl (OtherException ''AttributeError''))"

fun dig_parts :: "json \<Rightarrow> ustr list \<Rightarrow> json" where
  "dig_parts current [] = current"
| "dig_parts current (part # parts) = (case current of
       JObj kvs \<Rightarrow> (case map_of (map (\<lambda>(k, v). (lit k, v)) kvs) part of
           None \<Rightarrow> JNull | Some JNull \<Rightarrow> JNull | Some v \<Rightarrow> dig_parts v parts)
     | _ \<Rightarrow> JNull)"

definition dig :: "json \<Rightarrow> json \<Rightarrow> json res" where
  "dig document path = (case path of
       JStr p \<Rightarrow> Inr (dig_parts document (split_on 46 (lit p)))
     | JText p \<Rightarrow> Inr (dig_parts document (split_on 46 p))
     | _ \<Rightarrow> Inl (OtherException ''AttributeError''))"

section \<open>Times\<close>

text \<open>\<open>datetime.fromtimestamp\<close>: the fraction is scaled as a double and rounded half to even.\<close>

definition trunc_zero :: "rat \<Rightarrow> int" where
  "trunc_zero q = (if 0 \<le> q then floor q else ceiling q)"

definition from_timestamp :: "rat \<Rightarrow> time res" where
  "from_timestamp q =
     (let t = trunc_zero q * 1000000 + round_half_even (fround ((q - of_int (trunc_zero q)) * 1000000))
      in if t < -62135596800000000 \<or> 253402300799999999 < t then Inl PyValueError else Inr t)"

definition parse_time :: "(ustr \<Rightarrow> time option) \<Rightarrow> json \<Rightarrow> time option res" where
  "parse_time fromiso v = (case v of
       JBool b \<Rightarrow> bindE (from_timestamp (if b then 1 else 0)) (\<lambda>t. Inr (Some t))
     | JInt i \<Rightarrow> bindE (from_timestamp (if 100000000000 < i then fround (of_int i / 1000) else of_int i)) (\<lambda>t. Inr (Some t))
     | JFloat x \<Rightarrow> bindE (from_timestamp (if 100000000000 < x then float_div x 1000 else x)) (\<lambda>t. Inr (Some t))
     | JStr s \<Rightarrow> Inr (fromiso (replace_n (length s) [90] (lit ''+00:00'') (py_strip (lit s))))
     | JText s \<Rightarrow> Inr (fromiso (replace_n (length s) [90] (lit ''+00:00'') (py_strip s)))
     | _ \<Rightarrow> Inr None)"

section \<open>Events\<close>

record compliance_event =
  cm_source_event_id :: ustr
  cm_event_time :: "time option"
  cm_kind :: string
  cm_conversation_id :: "ustr option"
  cm_message_id :: "ustr option"
  cm_workspace_id :: "ustr option"
  cm_actor_email :: "ustr option"
  cm_is_deletion :: bool
  cm_raw :: json

definition event_payload_sha256 :: "compliance_event \<Rightarrow> string" where
  "event_payload_sha256 e = canonical_json_sha256 (cm_raw e)"

record compliance_page =
  pg_events :: "compliance_event list"
  pg_next_cursor :: json
  pg_has_more :: bool

definition as_str :: "unidb \<Rightarrow> json \<Rightarrow> ustr option" where
  "as_str ud v = (if v = JNull then None else Some (py_str ud v))"

definition classify :: "unidb \<Rightarrow> ustr \<Rightarrow> string" where
  "classify ud event_type =
     (let lowered = u_lower ud event_type
      in if contains (lit ''delet'') lowered \<or> contains (lit ''purge'') lowered then ''deletion''
         else if contains (lit ''message'') lowered then ''message''
         else if contains (lit ''conversation'') lowered \<or> contains (lit ''chat'') lowered then ''conversation''
         else if contains (lit ''file'') lowered \<or> contains (lit ''attachment'') lowered then ''file''
         else ''unknown'')"

definition parse_event :: "unidb \<Rightarrow> (ustr \<Rightarrow> time option) \<Rightarrow> field_map \<Rightarrow> json \<Rightarrow> compliance_event option res" where
  "parse_event ud fromiso fm item =
     bindE (dig item (fm_event_id fm)) (\<lambda>event_id.
     if \<not> json_truthy event_id then Inr None
     else bindE (dig item (fm_event_type fm)) (\<lambda>t.
          let event_type = (if json_truthy t then py_str ud t else lit ''unknown'')
          in bindE (dig item (fm_event_time fm)) (\<lambda>tm. bindE (parse_time fromiso tm) (\<lambda>event_time.
             bindE (dig item (fm_conversation_id fm)) (\<lambda>c. bindE (dig item (fm_message_id fm)) (\<lambda>m.
             bindE (dig item (fm_workspace_id fm)) (\<lambda>w. bindE (dig item (fm_actor_email fm)) (\<lambda>a.
             bindE (dig item (fm_deleted_flag fm)) (\<lambda>del.
               Inr (Some \<lparr>cm_source_event_id = py_str ud event_id, cm_event_time = event_time,
                 cm_kind = classify ud event_type, cm_conversation_id = as_str ud c, cm_message_id = as_str ud m,
                 cm_workspace_id = as_str ud w, cm_actor_email = as_str ud a,
                 cm_is_deletion = (json_truthy del \<or> contains (lit ''delet'') (u_lower ud event_type)),
                 cm_raw = item\<rparr>))))))))))"

fun parse_items :: "unidb \<Rightarrow> (ustr \<Rightarrow> time option) \<Rightarrow> field_map \<Rightarrow> json list \<Rightarrow> compliance_event list res" where
  "parse_items ud fromiso fm [] = Inr []"
| "parse_items ud fromiso fm (x # xs) =
     bindE (parse_event ud fromiso fm x) (\<lambda>e. bindE (parse_items ud fromiso fm xs) (\<lambda>es.
       Inr (case e of None \<Rightarrow> es | Some e1 \<Rightarrow> e1 # es)))"

definition parse_page :: "unidb \<Rightarrow> (ustr \<Rightarrow> time option) \<Rightarrow> field_map \<Rightarrow> json \<Rightarrow> compliance_page res" where
  "parse_page ud fromiso fm document =
     bindE (dig document (fm_items fm)) (\<lambda>raw_items.
     bindE (parse_items ud fromiso fm (case raw_items of JList xs \<Rightarrow> xs | _ \<Rightarrow> [])) (\<lambda>events.
     bindE (dig document (fm_next_cursor fm)) (\<lambda>next_cursor.
     bindE (dig document (fm_has_more fm)) (\<lambda>more.
       Inr \<lparr>pg_events = events, pg_next_cursor = next_cursor, pg_has_more = json_truthy more\<rparr>))))"

section \<open>Requests\<close>

definition adapter_configured :: "settings \<Rightarrow> bool" where
  "adapter_configured s \<longleftrightarrow> truthy (st_openai_compliance_base_url s) \<and> truthy (st_openai_compliance_log_path s)
     \<and> truthy (st_openai_compliance_api_key s)"

definition adapter_enabled :: "settings \<Rightarrow> bool" where
  "adapter_enabled s \<longleftrightarrow> st_compliance_poll_enabled s \<and> adapter_configured s"

definition text_or_empty :: "ustr option \<Rightarrow> ustr" where
  "text_or_empty v = (case v of Some t \<Rightarrow> t | None \<Rightarrow> [])"

definition adapter_url :: "settings \<Rightarrow> ustr \<Rightarrow> ustr" where
  "adapter_url s path = rstrip_by (\<lambda>c. c = 47) (text_or_empty (st_openai_compliance_base_url s))
     @ [47] @ dropWhile (\<lambda>c. c = 47) path"

definition adapter_headers :: "settings \<Rightarrow> (string \<times> ustr) list" where
  "adapter_headers s = [(''Authorization'', lit ''Bearer '' @ text_or_empty (st_openai_compliance_api_key s)),
     (''Accept'', lit ''application/json''), (''User-Agent'', st_app_name s @ [47] @ st_app_version s)]"

datatype http_reply = HttpFailed | HttpReply int "json option"

type_synonym 'n http = "ustr \<Rightarrow> (string \<times> ustr) list \<Rightarrow> (string \<times> ustr) list \<Rightarrow> 'n \<Rightarrow> http_reply \<times> 'n"

text \<open>
  \<open>dict(response.json())\<close> of a document that is not an object: \<open>TypeError\<close> when it is no sequence of
  sequences or a key cannot be hashed, \<open>ValueError\<close> when an element is not a pair.  Keys other than
  text are dropped, no path names them.
\<close>

definition items_of :: "json \<Rightarrow> json list option" where
  "items_of j = (case j of JList xs \<Rightarrow> Some xs | JStr s \<Rightarrow> Some (map (\<lambda>c. JStr [c]) s)
     | JText u \<Rightarrow> Some (map (\<lambda>c. JText [c]) u) | JObj kvs \<Rightarrow> Some (map (\<lambda>kv. JStr (fst kv)) kvs) | _ \<Rightarrow> None)"

fun dict_of_pairs :: "json list \<Rightarrow> (string \<times> json) list \<Rightarrow> (string \<times> json) list res" where
  "dict_of_pairs [] kvs = Inr kvs"
| "dict_of_pairs (x # xs) kvs = (case items_of x of
       None \<Rightarrow> Inl (OtherException ''TypeError'')
     | Some [k, v] \<Rightarrow> (case k of
           JList _ \<Rightarrow> Inl (OtherException ''TypeError'') | JObj _ \<Rightarrow> Inl (OtherException ''TypeError'')
         | JStr key \<Rightarrow> dict_of_pairs xs ((key, v) # filter (\<lambda>kv. fst kv \<noteq> key) kvs)
         | _ \<Rightarrow> dict_of_pairs xs kvs)
     | Some _ \<Rightarrow> Inl PyValueError)"

definition to_dict :: "json \<Rightarrow> json res" where
  "to_dict j = (case j of JObj kvs \<Rightarrow> Inr (JObj kvs)
     | _ \<Rightarrow> (case items_of j of None \<Rightarrow> Inl (OtherException ''TypeError'')
         | Some xs \<Rightarrow> bindE (dict_of_pairs xs []) (\<lambda>kvs. Inr (JObj kvs))))"

text \<open>What one reply means: the document, an error that ends the request, or another attempt.\<close>

datatype attempt_result = Done json | Fatal exn | Again

definition judge_reply :: "http_reply \<Rightarrow> attempt_result" where
  "judge_reply r = (case r of
       HttpFailed \<Rightarrow> Again
     | HttpReply status body \<Rightarrow>
         if status = 429 \<or> 500 \<le> status then Again
         else if 400 \<le> status then Fatal (UpstreamError ''compliance_client_error'')
         else (case body of None \<Rightarrow> Again
             | Some j \<Rightarrow> (case to_dict j of Inr doc \<Rightarrow> Done doc | Inl PyValueError \<Rightarrow> Again | Inl e \<Rightarrow> Fatal e)))"

definition retry_delay :: "(nat \<Rightarrow> rat) \<Rightarrow> nat \<Rightarrow> rat" where
  "retry_delay jitter attempt = of_int (min (2 ^ attempt) 30) * (1 / 2 + jitter attempt)"

text \<open>The result with the number of requests sent and the time slept.\<close>

fun request_from ::
  "(nat \<Rightarrow> rat) \<Rightarrow> ('n \<Rightarrow> http_reply \<times> 'n) \<Rightarrow> nat \<Rightarrow> nat \<Rightarrow> rat \<Rightarrow> 'n \<Rightarrow> json res \<times> nat \<times> rat \<times> 'n" where
  "request_from jitter get 0 attempt slept n =
     (Inl (UpstreamError ''Compliance API unavailable''), attempt, slept, n)"
| "request_from jitter get (Suc left) attempt slept n =
     (let (reply, n1) = get n
      in case judge_reply reply of
          Done doc \<Rightarrow> (Inr doc, attempt + 1, slept, n1)
        | Fatal e \<Rightarrow> (Inl e, attempt + 1, slept, n1)
        | Again \<Rightarrow> request_from jitter get left (attempt + 1) (slept + retry_delay jitter attempt) n1)"

definition adapter_request ::
  "(nat \<Rightarrow> rat) \<Rightarrow> settings \<Rightarrow> 'n http \<Rightarrow> ustr \<Rightarrow> (string \<times> ustr) list \<Rightarrow> 'n \<Rightarrow> json res \<times> nat \<times> rat \<times> 'n" where
  "adapter_request jitter s http url params n = request_from jitter (http url params (adapter_headers s)) MAX_RETRIES 0 0 n"

record 'n adapter =
  ad_http :: "'n http"
  ad_field_map :: field_map
  ad_iso :: "ustr \<Rightarrow> time option"
  ad_jitter :: "nat \<Rightarrow> rat"

text \<open>
  The cursor is whatever the page held under its path; httpx writes the scalars of a query value
  and repeats the parameter for a list.
\<close>

definition query_value :: "unidb \<Rightarrow> json \<Rightarrow> ustr res" where
  "query_value ud j = (case j of JNull \<Rightarrow> Inr [] | JBool b \<Rightarrow> Inr (lit (if b then ''true'' else ''false''))
     | JList _ \<Rightarrow> Inl (OtherException ''TypeError'') | JObj _ \<Rightarrow> Inl (OtherException ''TypeError'') | _ \<Rightarrow> Inr (py_str ud j))"

fun query_values :: "unidb \<Rightarrow> json list \<Rightarrow> ustr list res" where
  "query_values ud [] = Inr []"
| "query_values ud (j # js) = bindE (query_value ud j) (\<lambda>v. bindE (query_values ud js) (\<lambda>vs. Inr (v # vs)))"

definition cursor_values :: "unidb \<Rightarrow> json \<Rightarrow> ustr list res" where
  "cursor_values ud cursor = (if \<not> json_truthy cursor then Inr []
     else query_values ud (case cursor of JList js \<Rightarrow> js | _ \<Rightarrow> [cursor]))"

definition page_params :: "settings \<Rightarrow> time \<Rightarrow> time \<Rightarrow> ustr list \<Rightarrow> int option \<Rightarrow> (string \<times> ustr) list" where
  "page_params s window_start window_end cursor limit =
     [(''since'', lit (isoformat window_start)), (''until'', lit (isoformat window_end)),
      (''limit'', lit (dec_int (case limit of Some n \<Rightarrow> if n \<noteq> 0 then n else st_compliance_page_size s
         | None \<Rightarrow> st_compliance_page_size s)))]
     @ map (Pair ''cursor'') cursor"

text \<open>
  A query value that cannot be written fails before the request leaves; it is none of the errors
  the retry loop catches.
\<close>

definition fetch_log_page ::
  "unidb \<Rightarrow> settings \<Rightarrow> 'n adapter \<Rightarrow> time \<Rightarrow> time \<Rightarrow> json \<Rightarrow> int option \<Rightarrow> 'n
     \<Rightarrow> compliance_page res \<times> nat \<times> rat \<times> 'n" where
  "fetch_log_page ud s ad window_start window_end cursor limit n =
     (if \<not> adapter_configured s then (Inl (UpstreamError ''not_configured''), 0, 0, n)
      else case cursor_values ud cursor of
          Inl e \<Rightarrow> (Inl e, 0, 0, n)
        | Inr values \<Rightarrow>
            let (document, requests, slept, n1) = adapter_request (ad_jitter ad) s (ad_http ad)
                  (adapter_url s (text_or_empty (st_openai_compliance_log_path s)))
                  (page_params s window_start window_end values limit) n
            in (bindE document (parse_page ud (ad_iso ad) (ad_field_map ad)), requests, slept, n1))"

definition file_url :: "settings \<Rightarrow> ustr \<Rightarrow> ustr \<Rightarrow> ustr" where
  "file_url s files_path file_reference =
     adapter_url s (replace_n (length files_path) (lit ''{file_id}'') file_reference files_path)"

text \<open>\<open>get\<close> returns the status and the body of the reply.\<close>

definition fetch_file :: "settings \<Rightarrow> (ustr \<Rightarrow> (string \<times> ustr) list \<Rightarrow> (int \<times> bytes) option) \<Rightarrow> ustr \<Rightarrow> bytes res" where
  "fetch_file s get file_reference =
     (if \<not> truthy (st_openai_compliance_files_path s) then Inl (UpstreamError ''not_configured'')
      else case get (file_url s (the (st_openai_compliance_files_path s)) file_reference) (adapter_headers s) of
          None \<Rightarrow> Inl (OtherException ''HTTPError'')
        | Some (status, content) \<Rightarrow> if 400 \<le> status then Inl (UpstreamError ''Compliance file fetch failed'') else Inr content)"

section \<open>A request ends\<close>

text \<open>
  The pauses of one request add up to at most 46.5 seconds, and the attempts are the replies up to
  the first that decides.
\<close>

definition jitter_ok :: "(nat \<Rightarrow> rat) \<Rightarrow> bool" where
  "jitter_ok jitter \<longleftrightarrow> (\<forall>a. 0 \<le> jitter a \<and> jitter a < 1)"

lemma retry_delay_bounds:
  assumes "jitter_ok jitter"
  shows "0 \<le> retry_delay jitter a" "retry_delay jitter a \<le> of_int (min (2 ^ a) 30) * (3 / 2)"
proof -
  have j: "0 \<le> jitter a" "jitter a < 1" using assms by (simp_all add: jitter_ok_def)
  have m: "(0 :: rat) \<le> of_int (min (2 ^ a) 30)" by simp
  show "0 \<le> retry_delay jitter a" unfolding retry_delay_def using m j by (intro mult_nonneg_nonneg) auto
  show "retry_delay jitter a \<le> of_int (min (2 ^ a) 30) * (3 / 2)"
    unfolding retry_delay_def using m j by (intro mult_left_mono) auto
qed

definition delays :: "(nat \<Rightarrow> rat) \<Rightarrow> nat \<Rightarrow> nat \<Rightarrow> rat" where
  "delays jitter a k = sum_list (map (retry_delay jitter) [a ..< a + k])"

lemma request_from_bounds:
  assumes "request_from jitter get left a slept n = (r, requests, pause, n')" "jitter_ok jitter"
  shows "a \<le> requests \<and> requests \<le> a + left \<and> slept \<le> pause \<and> pause \<le> slept + delays jitter a left"
  using assms(1)
proof (induction left arbitrary: a slept n)
  case 0
  then show ?case by (simp add: delays_def)
next
  case (Suc left)
  obtain reply n1 where g: "get n = (reply, n1)" by fastforce
  have d: "delays jitter a (Suc left) = retry_delay jitter a + delays jitter (a + 1) left"
    by (simp add: delays_def upt_conv_Cons del: upt_Suc)
  have nn: "0 \<le> delays jitter b k" for b k
    using retry_delay_bounds(1) [OF assms(2)] by (auto simp: delays_def intro!: sum_list_nonneg)
  show ?case
  proof (cases "judge_reply reply")
    case Again
    then have "request_from jitter get left (a + 1) (slept + retry_delay jitter a) n1 = (r, requests, pause, n')"
      using Suc.prems g by simp
    from Suc.IH [OF this] show ?thesis using retry_delay_bounds(1) [OF assms(2), of a] d by auto
  next
    case Done
    then show ?thesis using Suc.prems g nn [of a "Suc left"] by auto
  next
    case Fatal
    then show ?thesis using Suc.prems g nn [of a "Suc left"] by auto
  qed
qed

lemma delays_five: "jitter_ok jitter \<Longrightarrow> delays jitter 0 MAX_RETRIES \<le> 93 / 2"
  using retry_delay_bounds(2) [of jitter 0] retry_delay_bounds(2) [of jitter 1] retry_delay_bounds(2) [of jitter 2]
    retry_delay_bounds(2) [of jitter 3] retry_delay_bounds(2) [of jitter 4]
  by (simp add: delays_def MAX_RETRIES_def numeral_eq_Suc)

lemma fetch_log_page_bounds:
  assumes "fetch_log_page ud s ad ws we cursor limit n = (r, requests, slept, n')" "jitter_ok (ad_jitter ad)"
  shows "requests \<le> 5 \<and> 0 \<le> slept \<and> slept \<le> 93 / 2"
  using assms request_from_bounds [OF _ assms(2)] delays_five [OF assms(2)]
  by (fastforce simp: fetch_log_page_def adapter_request_def MAX_RETRIES_def Let_def
      split: if_splits prod.splits sum.splits)

end
