(* ===== verification/Compliance_Import.thy ===== *)
theory Compliance_Import
  imports Compliance_Adapter Ingest Snapshots
begin

text \<open>
  \<open>app/services/compliance_import.py\<close>: storing upstream events and folding them into conversations.
  The sessions run without autoflush, so a row that was only added is not seen by a later query
  until a flush; the fold keeps such conversations apart.  A text that came from upstream JSON is
  kept in an identifier column as its UTF-8 bytes.
\<close>

definition COMPLIANCE_SOURCE :: string where
  "COMPLIANCE_SOURCE = ''openai_compliance''"

definition text_bytes :: "ustr \<Rightarrow> string" where
  "text_bytes u = map char_of (utf8_encode u)"

text \<open>A value longer than its \<open>VARCHAR(255)\<close> column is refused by the database.\<close>

definition too_long :: "ustr option \<Rightarrow> bool" where
  "too_long v \<longleftrightarrow> (case v of Some t \<Rightarrow> 255 < length t | None \<Rightarrow> False)"

section \<open>Checkpoints\<close>

definition upd_checkpoint :: "uuid \<Rightarrow> (sync_checkpoint \<Rightarrow> sync_checkpoint) \<Rightarrow> db \<Rightarrow> db" where
  "upd_checkpoint cid f d = d\<lparr>d_sync_checkpoints := upd_where (\<lambda>c. sc_id c = cid) f (d_sync_checkpoints d)\<rparr>"

definition new_checkpoint :: "time \<Rightarrow> uuid \<Rightarrow> string \<Rightarrow> uuid \<Rightarrow> sync_checkpoint" where
  "new_checkpoint now organization_id stream cid =
     \<lparr>sc_id = cid, sc_organization_id = organization_id, sc_source = COMPLIANCE_SOURCE, sc_stream = stream,
      sc_cursor_value = None, sc_window_start = Some (now - days 1), sc_window_end = None, sc_last_event_time = None,
      sc_last_success_at = None, sc_last_attempt_at = None, sc_consecutive_errors = 0, sc_total_events = 0,
      sc_last_error = None, sc_state = JObj []\<rparr>"

definition get_or_create_checkpoint :: "time \<Rightarrow> uuid \<Rightarrow> string \<Rightarrow> db \<Rightarrow> (sync_checkpoint \<times> db) res" where
  "get_or_create_checkpoint now organization_id stream d =
     bindE (scalar_one_or_none (filter (\<lambda>c. sc_organization_id c = organization_id \<and> sc_source c = COMPLIANCE_SOURCE
              \<and> sc_stream c = stream) (d_sync_checkpoints d))) (\<lambda>found.
     case found of
       Some c \<Rightarrow> Inr (c, d)
     | None \<Rightarrow> (let (cid, d1) = uuid4 d; c = new_checkpoint now organization_id stream cid
                in bindE (flush (d1\<lparr>d_sync_checkpoints := d_sync_checkpoints d1 @ [c]\<rparr>)) (\<lambda>d2. Inr (c, d2))))"

definition later :: "time option \<Rightarrow> time option \<Rightarrow> time option" where
  "later prev t = (case t of None \<Rightarrow> prev
     | Some t1 \<Rightarrow> (case prev of None \<Rightarrow> Some t1 | Some l \<Rightarrow> if l < t1 then Some t1 else Some l))"

definition advanced_checkpoint ::
  "time \<Rightarrow> time \<Rightarrow> ustr option \<Rightarrow> time option \<Rightarrow> int \<Rightarrow> sync_checkpoint \<Rightarrow> sync_checkpoint" where
  "advanced_checkpoint now window_end cursor last_event_time events_seen c =
     c\<lparr>sc_window_start := Some window_end, sc_window_end := Some window_end, sc_cursor_value := cursor,
       sc_last_success_at := Some now, sc_last_attempt_at := Some now, sc_consecutive_errors := 0,
       sc_last_error := None, sc_total_events := sc_total_events c + events_seen,
       sc_last_event_time := later (sc_last_event_time c) last_event_time\<rparr>"

definition failed_checkpoint :: "time \<Rightarrow> string \<Rightarrow> sync_checkpoint \<Rightarrow> sync_checkpoint" where
  "failed_checkpoint now error_type c =
     c\<lparr>sc_last_attempt_at := Some now, sc_consecutive_errors := sc_consecutive_errors c + 1,
       sc_last_error := Some error_type\<rparr>"

definition checkpoint_health :: "time \<Rightarrow> sync_checkpoint option \<Rightarrow> (string \<times> json) list" where
  "checkpoint_health now checkpoint = (case checkpoint of
       None \<Rightarrow> [(''cursor_healthy'', JBool False), (''reason'', JStr ''no checkpoint yet'')]
     | Some c \<Rightarrow> [(''cursor_healthy'', JBool (sc_consecutive_errors c < 5)),
         (''consecutive_errors'', JInt (sc_consecutive_errors c)),
         (''lag_seconds'', jopt (\<lambda>t. JFloat (fround (of_int (now - t) / 1000000))) (sc_last_event_time c)),
         (''last_success_at'', jopt (\<lambda>t. JStr (isoformat t)) (sc_last_success_at c)),
         (''total_events'', JInt (sc_total_events c))])"

section \<open>The workspace of an event\<close>

definition compliance_workspace_hash :: "unidb \<Rightarrow> organization \<Rightarrow> ustr option \<Rightarrow> string" where
  "compliance_workspace_hash ud org source_workspace_id =
     take 32 (pseudonymize ud (lit (org_slug org) @ lit ''|''
       @ (if truthy source_workspace_id then the source_workspace_id else lit ''compliance'')))"

definition compliance_workspace_row :: "unidb \<Rightarrow> time \<Rightarrow> organization \<Rightarrow> ustr option \<Rightarrow> uuid \<Rightarrow> workspace" where
  "compliance_workspace_row ud now org source_workspace_id wid =
     \<lparr>ws_id = wid, ws_created_at = now, ws_organization_id = org_id org,
      ws_source_workspace_id = map_option text_bytes source_workspace_id, ws_label = None,
      ws_workspace_hash = compliance_workspace_hash ud org source_workspace_id, ws_kind = WsManagedCompany,
      ws_verified_at = Some now, ws_capture_enabled = True\<rparr>"

definition with_pending :: "conversation list \<Rightarrow> db \<Rightarrow> db" where
  "with_pending pending d = d\<lparr>d_conversations := d_conversations d @ pending\<rparr>"

definition get_or_create_compliance_workspace ::
  "env \<Rightarrow> organization \<Rightarrow> ustr option \<Rightarrow> conversation list \<Rightarrow> db \<Rightarrow> (workspace \<times> conversation list \<times> db) res" where
  "get_or_create_compliance_workspace env org source_workspace_id pending d =
     bindE (select_workspace d (org_id org) (compliance_workspace_hash (e_ud env) org source_workspace_id)) (\<lambda>found.
     case found of
       Some w \<Rightarrow> Inr (w, pending, d)
     | None \<Rightarrow>
         if too_long source_workspace_id then Inl (OtherException ''DBAPIError'')
         else (let (wid, d1) = uuid4 d; w = compliance_workspace_row (e_ud env) (e_now env) org source_workspace_id wid
               in bindE (flush (with_pending pending (d1\<lparr>d_workspaces := d_workspaces d1 @ [w]\<rparr>))) (\<lambda>d2.
                  Inr (w, [], d2))))"

section \<open>Storing an event\<close>

definition event_document :: "time \<Rightarrow> compliance_event \<Rightarrow> json" where
  "event_document now e = JObj
     [(''schema_version'', JStr ''1.0''), (''source'', JStr COMPLIANCE_SOURCE),
      (''source_event_id'', JText (cm_source_event_id e)),
      (''event_time'', jopt (\<lambda>t. JStr (isoformat t)) (cm_event_time e)), (''kind'', JStr (cm_kind e)),
      (''is_deletion'', JBool (cm_is_deletion e)), (''received_at'', JStr (isoformat now)), (''payload'', cm_raw e),
      (''integrity'', JObj [(''payload_sha256'', JStr (event_payload_sha256 e))])]"

definition source_kind :: "string \<Rightarrow> source_event_kind" where
  "source_kind kind = (case enum_parse source_event_kind_values source_event_kind_str kind of
       Some k \<Rightarrow> k | None \<Rightarrow> SrcEventUnknown)"

definition source_event_row ::
  "unidb \<Rightarrow> time \<Rightarrow> organization \<Rightarrow> compliance_event \<Rightarrow> put_result \<Rightarrow> uuid \<Rightarrow> source_event" where
  "source_event_row ud now org e r sid =
     \<lparr>se_id = sid, se_created_at = now, se_organization_id = org_id org, se_source = COMPLIANCE_SOURCE,
      se_source_event_id = cm_source_event_id e, se_kind = source_kind (cm_kind e),
      se_source_conversation_id = cm_conversation_id e, se_source_message_id = cm_message_id e,
      se_source_workspace_id = cm_workspace_id e,
      se_actor_email_hash = (if truthy (cm_actor_email e) then Some (pseudonymize ud (the (cm_actor_email e))) else None),
      se_event_time = cm_event_time e, se_is_deletion = cm_is_deletion e, se_payload = cm_raw e,
      se_payload_sha256 = event_payload_sha256 e, se_raw_s3_key = Some (map char_of (pr_key r)),
      se_raw_s3_version_id = pr_version_id r, se_processed_at = None\<rparr>"

definition event_key :: "uuid \<Rightarrow> ustr \<Rightarrow> source_event_key \<Rightarrow> bool" where
  "event_key oid eid k \<longleftrightarrow> sk_organization_id k = oid \<and> sk_source k = COMPLIANCE_SOURCE \<and> sk_source_event_id k = eid"

text \<open>The key is claimed by a statement of its own, before anything that can fail.\<close>

definition persist_event ::
  "env \<Rightarrow> settings \<Rightarrow> 'b s3 \<Rightarrow> organization \<Rightarrow> compliance_event \<Rightarrow> db \<Rightarrow> 'b \<Rightarrow> bool res \<times> db \<times> 'b" where
  "persist_event env s cl org e d b =
     (if 255 < length (cm_source_event_id e) then (Inl (OtherException ''DBAPIError''), d, b)
      else if list_ex (event_key (org_id org) (cm_source_event_id e)) (d_source_event_keys d) then (Inr False, d, b)
      else let d1 = d\<lparr>d_source_event_keys := d_source_event_keys d @
                 [\<lparr>sk_organization_id = org_id org, sk_source = COMPLIANCE_SOURCE,
                   sk_source_event_id = cm_source_event_id e, sk_source_event_created_at = e_now env,
                   sk_created_at = e_now env\<rparr>]\<rparr>
           in case get_or_create_compliance_workspace env org (cm_workspace_id e) [] d1 of
                Inl x \<Rightarrow> (Inl x, d1, b)
              | Inr (w, _, d2) \<Rightarrow>
                  let key = compliance_raw_key (ws_workspace_hash w) (cm_source_event_id e)
                        (case cm_event_time e of Some t \<Rightarrow> t | None \<Rightarrow> e_now env)
                  in (case put_json s cl key (event_document (e_now env) e) [(''source'', COMPLIANCE_SOURCE)] b of
                        (Inl x, b1) \<Rightarrow> (Inl x, d2, b1)
                      | (Inr r, b1) \<Rightarrow>
                          let (sid, d3) = uuid4 d2;
                              d4 = d3\<lparr>d_source_events := d_source_events d3 @
                                     [source_event_row (e_ud env) (e_now env) org e r sid]\<rparr>
                          in if too_long (cm_conversation_id e) \<or> too_long (cm_message_id e) \<or> too_long (cm_workspace_id e)
                             then (Inl (OtherException ''DBAPIError''), d4, b1)
                             else (case flush d4 of Inl x \<Rightarrow> (Inl x, d4, b1) | Inr d5 \<Rightarrow> (Inr True, d5, b1))))"

section \<open>Folding events into conversations\<close>

definition event_order :: "source_event \<Rightarrow> bool \<times> time" where
  "event_order e = (case se_event_time e of None \<Rightarrow> (True, 0) | Some t \<Rightarrow> (False, t))"

definition pending_source_events :: "uuid \<Rightarrow> nat \<Rightarrow> db \<Rightarrow> source_event list" where
  "pending_source_events oid limit d = take limit (sort_key event_order
     (filter (\<lambda>e. se_organization_id e = oid \<and> se_processed_at e = None) (d_source_events d)))"

definition compliance_conversation :: "time \<Rightarrow> uuid \<Rightarrow> uuid \<Rightarrow> source_event \<Rightarrow> uuid \<Rightarrow> conversation" where
  "compliance_conversation now oid wid e cid =
     \<lparr>cv_id = cid, cv_created_at = now, cv_deleted_at = None, cv_deletion_reason = None, cv_legal_hold = False,
      cv_organization_id = oid, cv_workspace_id = wid, cv_user_id = None,
      cv_source_conversation_id = text_bytes (the (se_source_conversation_id e)), cv_source_url = None, cv_title = None,
      cv_model_slug = None, cv_capture_sources = [''compliance_api''], cv_capture_completeness = CcComplianceVerified,
      cv_employee_id_hash = se_actor_email_hash e, cv_source_created_at = None, cv_source_updated_at = se_event_time e,
      cv_first_captured_at = Some now, cv_last_captured_at = Some now, cv_message_count = 0, cv_snapshot_version = 0,
      cv_snapshot_s3_key = None, cv_snapshot_sha256 = None, cv_snapshot_stale = True, cv_retention_policy_id = None,
      cv_metadata_json = JObj []\<rparr>"

definition verified_conversation :: "conversation \<Rightarrow> conversation" where
  "verified_conversation c = (add_capture_source ''compliance_api'' c)
     \<lparr>cv_capture_completeness := CcComplianceVerified, cv_snapshot_stale := True\<rparr>"

definition tombstoned :: "source_event \<Rightarrow> conversation \<Rightarrow> conversation" where
  "tombstoned e c = (if \<not> se_is_deletion e then c
     else c\<lparr>cv_metadata_json := jmerge (cv_metadata_json c)
       [(''upstream_deleted'', JBool True),
        (''upstream_deleted_at'', jopt (\<lambda>t. JStr (isoformat t)) (se_event_time e)),
        (''upstream_deletion_event_id'', JText (se_source_event_id e))]\<rparr>)"

definition same_event :: "source_event \<Rightarrow> source_event \<Rightarrow> bool" where
  "same_event e r \<longleftrightarrow> se_id r = se_id e \<and> se_created_at r = se_created_at e"

definition mark_processed :: "time \<Rightarrow> source_event \<Rightarrow> db \<Rightarrow> db" where
  "mark_processed now e d = d\<lparr>d_source_events :=
     upd_where (same_event e) (\<lambda>r. r\<lparr>se_processed_at := Some now\<rparr>) (d_source_events d)\<rparr>"

definition fold_event ::
  "env \<Rightarrow> organization \<Rightarrow> source_event \<Rightarrow> conversation list \<Rightarrow> db \<Rightarrow> (conversation list \<times> db) res" where
  "fold_event env org e pending d =
     (if \<not> truthy (se_source_conversation_id e) then Inr (pending, mark_processed (e_now env) e d)
      else bindE (get_or_create_compliance_workspace env org (se_source_workspace_id e) pending d) (\<lambda>(w, pending1, d1).
           bindE (scalar_one_or_none (filter (\<lambda>c. conversation_key c
                     = (org_id org, ws_id w, text_bytes (the (se_source_conversation_id e)))) (d_conversations d1)))
             (\<lambda>found. case found of
                None \<Rightarrow> (let (cid, d2) = uuid4 d1
                   in Inr (pending1 @ [tombstoned e (compliance_conversation (e_now env) (org_id org) (ws_id w) e cid)],
                           mark_processed (e_now env) e d2))
              | Some c \<Rightarrow> Inr (pending1, mark_processed (e_now env) e
                   (upd_conversation (cv_id c) (\<lambda>c. tombstoned e (verified_conversation c)) d1)))))"

fun fold_events ::
  "env \<Rightarrow> organization \<Rightarrow> source_event list \<Rightarrow> conversation list \<Rightarrow> db \<Rightarrow> (conversation list \<times> db) res" where
  "fold_events env org [] pending d = Inr (pending, d)"
| "fold_events env org (e # es) pending d =
     bindE (fold_event env org e pending d) (\<lambda>(pending1, d1). fold_events env org es pending1 d1)"

definition import_pending_source_events :: "env \<Rightarrow> uuid \<Rightarrow> nat \<Rightarrow> db \<Rightarrow> (nat \<times> db) res" where
  "import_pending_source_events env oid limit d =
     (let rows = pending_source_events oid limit d
      in if rows = [] then Inr (0, d)
         else case find (\<lambda>r. org_id r = oid) (d_organizations d) of
             None \<Rightarrow> Inr (0, d)
           | Some org \<Rightarrow> bindE (fold_events env org rows [] d) (\<lambda>(pending, d1).
               bindE (flush (with_pending pending d1)) (\<lambda>d2. Inr (length rows, d2))))"

section \<open>Two events of one new conversation\<close>

lemma fold_keys [simp]:
  "conversation_key (tombstoned e c) = conversation_key c" "conversation_key (verified_conversation c) = conversation_key c"
  "conversation_key (compliance_conversation now oid wid e cid) = (oid, wid, text_bytes (the (se_source_conversation_id e)))"
  by (simp_all add: tombstoned_def verified_conversation_def compliance_conversation_def conversation_key_def
      add_capture_source_def)

lemma mark_processed_tables [simp]:
  "d_conversations (mark_processed now e d) = d_conversations d" "d_workspaces (mark_processed now e d) = d_workspaces d"
  by (simp_all add: mark_processed_def)

text \<open>The conversation an event is about, when its workspace exists already.\<close>

definition event_workspace :: "env \<Rightarrow> organization \<Rightarrow> db \<Rightarrow> source_event \<Rightarrow> workspace option" where
  "event_workspace env org d e = (case select_workspace d (org_id org)
       (compliance_workspace_hash (e_ud env) org (se_source_workspace_id e)) of Inr w \<Rightarrow> w | Inl _ \<Rightarrow> None)"

definition workspace_known :: "env \<Rightarrow> organization \<Rightarrow> db \<Rightarrow> source_event \<Rightarrow> bool" where
  "workspace_known env org d e \<longleftrightarrow> truthy (se_source_conversation_id e) \<longrightarrow> event_workspace env org d e \<noteq> None"

definition event_target :: "env \<Rightarrow> organization \<Rightarrow> db \<Rightarrow> source_event \<Rightarrow> (uuid \<times> uuid \<times> string) list" where
  "event_target env org d e = (if \<not> truthy (se_source_conversation_id e) then []
     else case event_workspace env org d e of None \<Rightarrow> []
       | Some w \<Rightarrow> [(org_id org, ws_id w, text_bytes (the (se_source_conversation_id e)))])"

definition new_targets :: "env \<Rightarrow> organization \<Rightarrow> db \<Rightarrow> source_event list \<Rightarrow> (uuid \<times> uuid \<times> string) list" where
  "new_targets env org d es = filter (\<lambda>k. k \<notin> set (map conversation_key (d_conversations d)))
     (concat (map (event_target env org d) es))"

definition same_lookups :: "db \<Rightarrow> db \<Rightarrow> bool" where
  "same_lookups d d' \<longleftrightarrow> d_workspaces d' = d_workspaces d
     \<and> map conversation_key (d_conversations d') = map conversation_key (d_conversations d)"

lemma same_lookups_trans: "same_lookups d d1 \<Longrightarrow> same_lookups d1 d2 \<Longrightarrow> same_lookups d d2"
  by (simp add: same_lookups_def)

lemma same_lookups_targets:
  assumes "same_lookups d d'"
  shows "workspace_known env org d' = workspace_known env org d" "new_targets env org d' = new_targets env org d"
proof -
  have "event_workspace env org d' = event_workspace env org d"
    using assms by (intro ext) (simp add: event_workspace_def select_workspace_def same_lookups_def)
  moreover have "set (map conversation_key (d_conversations d')) = set (map conversation_key (d_conversations d))"
    using assms unfolding same_lookups_def by metis
  ultimately show "workspace_known env org d' = workspace_known env org d" "new_targets env org d' = new_targets env org d"
  proof -
    assume w: "event_workspace env org d' = event_workspace env org d"
      and c: "set (map conversation_key (d_conversations d')) = set (map conversation_key (d_conversations d))"
    show "workspace_known env org d' = workspace_known env org d" using w by (intro ext) (simp add: workspace_known_def)
    have "event_target env org d' = event_target env org d" using w by (intro ext) (simp add: event_target_def)
    then show "new_targets env org d' = new_targets env org d"
      unfolding new_targets_def c by (intro ext) simp
  qed
qed

lemma fold_event_new:
  assumes "workspace_known env org d e" "distinct (map conversation_key (d_conversations d))"
  shows "\<exists>new d'. fold_event env org e pending d = Inr (pending @ new, d') \<and> same_lookups d d'
    \<and> map conversation_key new = new_targets env org d [e]"
proof (cases "truthy (se_source_conversation_id e)")
  case False
  then show ?thesis by (simp add: fold_event_def new_targets_def event_target_def same_lookups_def)
next
  case True
  let ?h = "compliance_workspace_hash (e_ud env) org (se_source_workspace_id e)"
  obtain w where w: "event_workspace env org d e = Some w" using assms(1) True by (auto simp: workspace_known_def)
  then have s: "select_workspace d (org_id org) ?h = Inr (Some w)"
    by (auto simp: event_workspace_def split: sum.splits)
  let ?k = "(org_id org, ws_id w, text_bytes (the (se_source_conversation_id e)))"
  have f: "scalar_one_or_none (filter (\<lambda>c. conversation_key c = ?k) (d_conversations d))
      = Inr (find (\<lambda>c. conversation_key c = ?k) (d_conversations d))"
    by (rule scalar_one_or_none_filter [OF assms(2)])
  have t: "new_targets env org d [e] = (if ?k \<in> set (map conversation_key (d_conversations d)) then [] else [?k])"
    using True w by (simp add: new_targets_def event_target_def)
  show ?thesis
  proof (cases "find (\<lambda>c. conversation_key c = ?k) (d_conversations d)")
    case None
    then have n: "?k \<notin> set (map conversation_key (d_conversations d))" by (auto simp: find_None_iff)
    show ?thesis
      using True s f None n t
      by (simp add: fold_event_def get_or_create_compliance_workspace_def uuid4_def same_lookups_def)
  next
    case (Some c)
    then have "c \<in> set (d_conversations d)" "conversation_key c = ?k"
      by (metis (mono_tags, lifting) find_Some_iff nth_mem)+
    then have n: "?k \<in> set (map conversation_key (d_conversations d))" by (metis image_eqI set_map)
    have u: "same_lookups d (upd_conversation (cv_id c) (\<lambda>c. tombstoned e (verified_conversation c)) d)"
      by (simp add: same_lookups_def upd_conversation_def map_upd_where_same)
    show ?thesis
      using True s f Some n t u
      by (simp add: fold_event_def get_or_create_compliance_workspace_def same_lookups_def)
  qed
qed

lemma fold_events_new:
  assumes "list_all (workspace_known env org d) es" "distinct (map conversation_key (d_conversations d))"
  shows "\<exists>new d'. fold_events env org es pending d = Inr (pending @ new, d') \<and> same_lookups d d'
    \<and> map conversation_key new = new_targets env org d es"
  using assms
proof (induction es arbitrary: pending d)
  case Nil
  then show ?case by (simp add: new_targets_def same_lookups_def)
next
  case (Cons e es)
  obtain new d1 where e: "fold_event env org e pending d = Inr (pending @ new, d1)" "same_lookups d d1"
    "map conversation_key new = new_targets env org d [e]"
    using fold_event_new [of env org d e pending] Cons.prems by auto
  have d1: "list_all (workspace_known env org d1) es" "distinct (map conversation_key (d_conversations d1))"
    using Cons.prems e(2) same_lookups_targets(1) [OF e(2), of env org] by (auto simp: same_lookups_def)
  obtain new' d2 where es: "fold_events env org es (pending @ new) d1 = Inr ((pending @ new) @ new', d2)" "same_lookups d1 d2"
    "map conversation_key new' = new_targets env org d1 es"
    using Cons.IH [OF d1, of "pending @ new"] by blast
  have "map conversation_key (new @ new') = new_targets env org d (e # es)"
    using e(3) es(3) same_lookups_targets(2) [OF e(2), of env org] by (simp add: new_targets_def)
  then show ?case
    using e(1) es(1) same_lookups_trans [OF e(2) es(2)] by (intro exI [of _ "new @ new'"] exI [of _ d2]) simp
qed

lemma duplicate_conversations_refused:
  assumes "\<not> distinct (map conversation_key (d_conversations d))"
  shows "\<not> constraints d"
proof
  assume "constraints d"
  then have "distinct (map (\<lambda>r. (cv_organization_id r, cv_workspace_id r, cv_source_conversation_id r)) (d_conversations d))"
    by (simp add: constraints_def conversations_ok_def)
  then have "distinct (map conversation_key (d_conversations d))"
    unfolding conversation_key_def .
  then show False using assms by blast
qed

text \<open>
  C33. When two of the events waiting in one batch are about the same conversation that the
  archive does not hold yet, in workspaces it knows, the import fails as a whole with a
  constraint violation: the second event does not see the conversation added for the first.
  Nothing is imported, at whatever time it is tried.
\<close>

theorem import_poisoned:
  assumes "constraints d" "find (\<lambda>r. org_id r = oid) (d_organizations d) = Some org"
    and "list_all (workspace_known env org d) (pending_source_events oid limit d)"
    and "\<not> distinct (new_targets env org d (pending_source_events oid limit d))"
  shows "import_pending_source_events env oid limit d = Inl IntegrityError"
proof -
  let ?rows = "pending_source_events oid limit d"
  have ne: "?rows \<noteq> []" using assms(4) by (auto simp: new_targets_def)
  have k: "distinct (map conversation_key (d_conversations d))"
    using assms(1) duplicate_conversations_refused by blast
  obtain new d1 where f: "fold_events env org ?rows [] d = Inr (new, d1)" "same_lookups d d1"
    "map conversation_key new = new_targets env org d ?rows"
    using fold_events_new [OF assms(3) k, of "[]"] by auto
  have "\<not> distinct (map conversation_key (d_conversations (with_pending new d1)))"
    using f(3) assms(4) by (simp add: with_pending_def)
  then have "flush (with_pending new d1) = Inl IntegrityError"
    using duplicate_conversations_refused by (simp add: flush_def)
  then show ?thesis
    using ne assms(2) f(1) by (simp add: import_pending_source_events_def Let_def)
qed

text \<open>Two events of conversation \<open>c\<close> waiting in the archive.\<close>

definition sample_source_event :: "uuid \<Rightarrow> source_event" where
  "sample_source_event i = \<lparr>se_id = i, se_created_at = 0, se_organization_id = 1, se_source = COMPLIANCE_SOURCE,
     se_source_event_id = lit (dec_nat i), se_kind = SrcEventMessage, se_source_conversation_id = Some (lit ''c''),
     se_source_message_id = None, se_source_workspace_id = None, se_actor_email_hash = None, se_event_time = Some (int i),
     se_is_deletion = False, se_payload = JObj [], se_payload_sha256 = [], se_raw_s3_key = None,
     se_raw_s3_version_id = None, se_processed_at = None\<rparr>"

definition sample_compliance_db :: db where
  "sample_compliance_db = empty_db\<lparr>d_organizations := [sample_org],
     d_workspaces := [compliance_workspace_row ascii_db 0 sample_org None 3],
     d_source_events := [sample_source_event 5, sample_source_event 6]\<rparr>"

lemma sample_pending:
  "pending_source_events 1 500 sample_compliance_db = [sample_source_event 5, sample_source_event 6]"
  by (simp add: pending_source_events_def sample_compliance_db_def sample_source_event_def event_order_def)

lemma sample_event_workspace:
  "se_source_workspace_id e = None \<Longrightarrow> event_workspace sample_env sample_org sample_compliance_db e
     = Some (compliance_workspace_row ascii_db 0 sample_org None 3)"
  by (simp add: event_workspace_def select_workspace_def sample_compliance_db_def compliance_workspace_row_def sample_env_def)

theorem import_poisoned_witness:
  "import_pending_source_events sample_env 1 500 sample_compliance_db = Inl IntegrityError"
proof (rule import_poisoned)
  have e: "se_source_workspace_id (sample_source_event i) = None" "truthy (se_source_conversation_id (sample_source_event i))"
    "se_source_conversation_id (sample_source_event i) = Some (lit ''c'')" for i
    by (simp_all add: sample_source_event_def)
  show "constraints sample_compliance_db"
    by (simp add: sample_compliance_db_def constraints_def empty_db_def table_ok_defs sample_org_def sample_source_event_def
        compliance_workspace_row_def)
  show "find (\<lambda>r. org_id r = 1) (d_organizations sample_compliance_db) = Some sample_org"
    by (simp add: sample_compliance_db_def sample_org_def)
  show "list_all (workspace_known sample_env sample_org sample_compliance_db)
      (pending_source_events 1 500 sample_compliance_db)"
    unfolding sample_pending by (simp add: workspace_known_def sample_event_workspace e)
  show "\<not> distinct (new_targets sample_env sample_org sample_compliance_db
      (pending_source_events 1 500 sample_compliance_db))"
    unfolding sample_pending by (simp add: new_targets_def event_target_def sample_event_workspace e)
      (simp add: sample_compliance_db_def empty_db_def)
qed

end
