(* ===== verification/Compliance_Poller.thy ===== *)
theory Compliance_Poller
  imports Compliance_Import
begin

text \<open>
  \<open>app/workers/compliance_poller.py\<close>: one polling cycle.  The loop over pages is bounded by the
  configured number; an error inside it is recorded on the checkpoint and the session is then
  committed, unless the database itself refused a statement: such a session can only be rolled
  back.  Signal handling and the pause between cycles are not modelled.
\<close>

record poll_summary =
  ps_skipped :: "string option"
  ps_events :: nat
  ps_new :: nat
  ps_pages :: nat
  ps_error :: "string option"

definition empty_summary :: poll_summary where
  "empty_summary = \<lparr>ps_skipped = None, ps_events = 0, ps_new = 0, ps_pages = 0, ps_error = None\<rparr>"

definition skipped_summary :: "string \<Rightarrow> poll_summary" where
  "skipped_summary reason = empty_summary\<lparr>ps_skipped := Some reason\<rparr>"

text \<open>What a cycle works on, with the requests sent and the seconds slept so far.\<close>

record ('b, 'n) poll =
  po_db :: db
  po_store :: 'b
  po_net :: 'n
  po_summary :: poll_summary
  po_cursor :: json
  po_last :: "time option"
  po_requests :: nat
  po_slept :: rat

section \<open>Pages\<close>

fun store_events ::
  "env \<Rightarrow> settings \<Rightarrow> 'b s3 \<Rightarrow> organization \<Rightarrow> compliance_event list \<Rightarrow> ('b, 'n) poll \<Rightarrow> unit res \<times> ('b, 'n) poll" where
  "store_events env s cl org [] p = (Inr (), p)"
| "store_events env s cl org (e # es) p =
     (case persist_event env s cl org e (po_db p) (po_store p) of
        (Inl x, d1, b1) \<Rightarrow> (Inl x, p\<lparr>po_db := d1, po_store := b1\<rparr>)
      | (Inr is_new, d1, b1) \<Rightarrow> store_events env s cl org es
          (p\<lparr>po_db := d1, po_store := b1, po_last := later (po_last p) (cm_event_time e),
             po_summary := (po_summary p)\<lparr>ps_new := ps_new (po_summary p) + (if is_new then 1 else 0)\<rparr>\<rparr>))"

definition fetch_page ::
  "env \<Rightarrow> settings \<Rightarrow> 'n adapter \<Rightarrow> time \<Rightarrow> ('b, 'n) poll \<Rightarrow> compliance_page res \<times> ('b, 'n) poll" where
  "fetch_page env s ad window_start p =
     (let (page, requests, slept, n1) = fetch_log_page (e_ud env) s ad window_start (e_now env) (po_cursor p) None (po_net p)
      in (page, p\<lparr>po_net := n1, po_requests := po_requests p + requests, po_slept := po_slept p + slept\<rparr>))"

definition counted_page :: "compliance_page \<Rightarrow> ('b, 'n) poll \<Rightarrow> ('b, 'n) poll" where
  "counted_page pg p = p\<lparr>po_summary := (po_summary p)\<lparr>ps_pages := ps_pages (po_summary p) + 1,
     ps_events := ps_events (po_summary p) + length (pg_events pg)\<rparr>\<rparr>"

text \<open>
  The result is \<open>has_more\<close> of the last page; without any page the name \<open>page\<close> is unbound.
\<close>

fun poll_pages ::
  "env \<Rightarrow> settings \<Rightarrow> 'n adapter \<Rightarrow> 'b s3 \<Rightarrow> organization \<Rightarrow> time \<Rightarrow> nat \<Rightarrow> bool option \<Rightarrow> ('b, 'n) poll
     \<Rightarrow> bool res \<times> ('b, 'n) poll" where
  "poll_pages env s ad cl org window_start 0 hm p =
     (case hm of None \<Rightarrow> Inl (OtherException ''UnboundLocalError'') | Some m \<Rightarrow> Inr m, p)"
| "poll_pages env s ad cl org window_start (Suc k) hm p =
     (case fetch_page env s ad window_start p of
        (Inl e, p1) \<Rightarrow> (Inl e, p1)
      | (Inr pg, p1) \<Rightarrow>
          (case store_events env s cl org (pg_events pg) (counted_page pg p1) of
             (Inl e, p2) \<Rightarrow> (Inl e, p2)
           | (Inr _, p2) \<Rightarrow>
               let p3 = p2\<lparr>po_cursor := pg_next_cursor pg\<rparr>
               in if \<not> pg_has_more pg \<or> pg_events pg = [] then (Inr (pg_has_more pg), p3)
                  else poll_pages env s ad cl org window_start k (Some (pg_has_more pg)) p3))"

section \<open>The cycle\<close>

text \<open>The cursor column takes text only; another value fails when it is written.\<close>

definition cursor_column :: "json \<Rightarrow> ustr option res" where
  "cursor_column j = (case j of JNull \<Rightarrow> Inr None | JStr s \<Rightarrow> Inr (Some (lit s)) | JText u \<Rightarrow> Inr (Some u)
     | _ \<Rightarrow> Inl (OtherException ''DBAPIError''))"

definition finish_advanced ::
  "env \<Rightarrow> organization \<Rightarrow> sync_checkpoint \<Rightarrow> bool \<Rightarrow> ('b, 'n) poll \<Rightarrow> db res" where
  "finish_advanced env org cp hm p =
     bindE (if ps_new (po_summary p) \<noteq> 0
            then bindE (enqueue_job (e_now env) KindComplianceSync (JObj [(''trigger'', JStr ''poller'')]) (Some (org_id org))
                   (Some ''compliance_sync'') 250 None 8 (po_db p)) (\<lambda>(_, d1). Inr d1)
            else Inr (po_db p)) (\<lambda>d1.
     bindE (cursor_column (if hm then po_cursor p else JNull)) (\<lambda>cursor.
       flush (upd_checkpoint (sc_id cp) (advanced_checkpoint (e_now env) (e_now env) cursor (po_last p)
         (int (ps_events (po_summary p)))) d1)))"

definition finish_failed :: "env \<Rightarrow> sync_checkpoint \<Rightarrow> exn \<Rightarrow> db \<Rightarrow> db res" where
  "finish_failed env cp e d =
     (if database_failed e then Inl (OtherException ''PendingRollbackError'')
      else flush (upd_checkpoint (sc_id cp) (failed_checkpoint (e_now env) (exn_type e)) d))"

definition run_with_checkpoint ::
  "env \<Rightarrow> settings \<Rightarrow> 'n adapter \<Rightarrow> 'b s3 \<Rightarrow> organization \<Rightarrow> sync_checkpoint \<Rightarrow> ('b, 'n) poll \<Rightarrow> poll_summary res \<times> ('b, 'n) poll" where
  "run_with_checkpoint env s ad cl org cp p0 =
     (let window_start = (case sc_window_start cp of Some t \<Rightarrow> t | None \<Rightarrow> e_now env - days 1)
            - seconds (st_compliance_overlap_seconds s);
          p = p0\<lparr>po_summary := empty_summary, po_last := sc_last_event_time cp,
                 po_cursor := (case sc_cursor_value cp of None \<Rightarrow> JNull | Some c \<Rightarrow> JText c)\<rparr>
      in case poll_pages env s ad cl org window_start (nat (st_compliance_max_pages_per_cycle s)) None p of
           (Inr hm, p1) \<Rightarrow> (case finish_advanced env org cp hm p1 of
               Inr d2 \<Rightarrow> (Inr (po_summary p1), p1\<lparr>po_db := d2\<rparr>) | Inl e \<Rightarrow> (Inl e, p1))
         | (Inl e, p1) \<Rightarrow> (case finish_failed env cp e (po_db p1) of
               Inr d2 \<Rightarrow> (Inr ((po_summary p1)\<lparr>ps_error := Some (exn_type e)\<rparr>), p1\<lparr>po_db := d2\<rparr>) | Inl x \<Rightarrow> (Inl x, p1)))"

text \<open>An exception that leaves the session scope has rolled everything back.\<close>

definition run_cycle ::
  "env \<Rightarrow> settings \<Rightarrow> 'n adapter \<Rightarrow> 'b s3 \<Rightarrow> ('b, 'n) poll \<Rightarrow> poll_summary res \<times> ('b, 'n) poll" where
  "run_cycle env s ad cl p =
     (if \<not> adapter_enabled s then (Inr (skipped_summary ''disabled_or_unconfigured''), p)
      else case d_organizations (po_db p) of
          [] \<Rightarrow> (Inr (skipped_summary ''no_organization''), p)
        | org # _ \<Rightarrow> (case get_or_create_checkpoint (e_now env) (org_id org) ''default'' (po_db p) of
              Inl e \<Rightarrow> (Inl e, p)
            | Inr (cp, d1) \<Rightarrow> (case run_with_checkpoint env s ad cl org cp (p\<lparr>po_db := d1\<rparr>) of
                  (Inl e, p1) \<Rightarrow> (Inl e, p1\<lparr>po_db := po_db p\<rparr>)
                | (Inr sm, p1) \<Rightarrow> (Inr sm, p1))))"

definition poll_interval :: "settings \<Rightarrow> int" where
  "poll_interval s = max 30 (st_compliance_poll_interval_seconds s)"

text \<open>
  What \<open>run_forever\<close> warns about once, and its loop: \<open>n\<close> is the number of cycles begun before the request to
  stop is seen, \<open>envs k\<close> the world of cycle \<open>k\<close>.  An exception of a cycle is not caught.
\<close>

definition poll_startup :: "settings \<Rightarrow> (int \<times> string) option" where
  "poll_startup s = (if \<not> st_compliance_poll_enabled s then Some (30, ''compliance_poller_disabled'')
     else if \<not> adapter_configured s then Some (40, ''compliance_poller_unconfigured'') else None)"

fun poll_forever ::
  "(nat \<Rightarrow> env) \<Rightarrow> settings \<Rightarrow> 'n adapter \<Rightarrow> 'b s3 \<Rightarrow> nat \<Rightarrow> nat \<Rightarrow> ('b, 'n) poll \<Rightarrow> nat res \<times> ('b, 'n) poll" where
  "poll_forever envs s ad cl 0 k p = (Inr k, p)"
| "poll_forever envs s ad cl (Suc n) k p = (case run_cycle (envs k) s ad cl p of
       (Inl e, p1) \<Rightarrow> (Inl e, p1)
     | (Inr _, p1) \<Rightarrow> poll_forever envs s ad cl n (Suc k) p1)"

lemma poll_forever_disabled: "\<not> adapter_enabled s \<Longrightarrow> poll_forever envs s ad cl n k p = (Inr (k + n), p)"
  by (induction n arbitrary: k) (simp_all add: run_cycle_def)

section \<open>A cycle ends\<close>

lemma store_events_cost:
  "store_events env s cl org es p = (r, p') \<Longrightarrow> po_requests p' = po_requests p \<and> po_slept p' = po_slept p"
proof (induction es arbitrary: p)
  case (Cons e es)
  obtain x d1 b1 where pe: "persist_event env s cl org e (po_db p) (po_store p) = (x, d1, b1)"
    using prod_cases3 by blast
  then show ?case using Cons by (cases x) fastforce+
qed simp

lemma fetch_page_cost:
  assumes "fetch_page env s ad ws p = (r, p')" "jitter_ok (ad_jitter ad)"
  shows "po_requests p' \<le> po_requests p + 5 \<and> po_slept p \<le> po_slept p' \<and> po_slept p' \<le> po_slept p + 93 / 2"
proof -
  obtain pg rq sl n1 where f: "fetch_log_page (e_ud env) s ad ws (e_now env) (po_cursor p) None (po_net p) = (pg, rq, sl, n1)"
    using prod_cases4 by blast
  then show ?thesis using assms(1) fetch_log_page_bounds [OF f assms(2)] by (auto simp: fetch_page_def)
qed

lemma poll_pages_cost:
  assumes "poll_pages env s ad cl org ws k hm p = (r, p')" "jitter_ok (ad_jitter ad)"
  shows "po_requests p' \<le> po_requests p + 5 * k \<and> po_slept p \<le> po_slept p' \<and> po_slept p' \<le> po_slept p + of_nat k * (93 / 2)"
  using assms(1)
proof (induction k arbitrary: hm p)
  case 0
  then show ?case by simp
next
  case (Suc k)
  obtain x p1 where f: "fetch_page env s ad ws p = (x, p1)" by fastforce
  have f5: "po_requests p1 \<le> po_requests p + 5" "po_slept p \<le> po_slept p1" "po_slept p1 \<le> po_slept p + 93 / 2"
    using fetch_page_cost [OF f assms(2)] by blast+
  have k: "of_nat (Suc k) * (93 / 2 :: rat) = of_nat k * (93 / 2) + 93 / 2" by (simp add: algebra_simps)
  have k0: "(0 :: rat) \<le> of_nat k * (93 / 2)" by simp
  show ?case
  proof (cases x)
    case (Inl e)
    then have "p' = p1" using Suc.prems f by simp
    then show ?thesis unfolding \<open>p' = p1\<close> using f5 k k0 by (intro conjI; linarith)
  next
    case (Inr pg)
    obtain y p2 where st: "store_events env s cl org (pg_events pg) (counted_page pg p1) = (y, p2)" by fastforce
    have p2: "po_requests p2 = po_requests p1" "po_slept p2 = po_slept p1"
      using store_events_cost [OF st] by (simp_all add: counted_page_def)
    show ?thesis
    proof (cases "(\<exists>e. y = Inl e) \<or> \<not> pg_has_more pg \<or> pg_events pg = []")
      case True
      then have "p' = p2 \<or> p' = p2\<lparr>po_cursor := pg_next_cursor pg\<rparr>"
        using Suc.prems f Inr st by (cases y) (auto split: if_splits)
      then have "po_requests p' = po_requests p1" "po_slept p' = po_slept p1" using p2 by auto
      then show ?thesis using f5 k k0 by (intro conjI; linarith)
    next
      case False
      then have "poll_pages env s ad cl org ws k (Some (pg_has_more pg)) (p2\<lparr>po_cursor := pg_next_cursor pg\<rparr>) = (r, p')"
        using Suc.prems f Inr st by (cases y) auto
      note ih = Suc.IH [OF this]
      have "po_requests p' \<le> po_requests p1 + 5 * k" "po_slept p1 \<le> po_slept p'"
        "po_slept p' \<le> po_slept p1 + of_nat k * (93 / 2)" using ih p2 by simp_all
      then show ?thesis using f5 k by (intro conjI; linarith)
    qed
  qed
qed

text \<open>
  C32. A polling cycle always ends and its work is bounded: whatever the interface answers, it
  sends at most five requests for each of the configured pages and sleeps at most 46.5 seconds
  per page between attempts.
\<close>

theorem cycle_bounded:
  assumes "run_cycle env s ad cl p = (r, p')" "jitter_ok (ad_jitter ad)"
  shows "po_requests p' \<le> po_requests p + 5 * nat (st_compliance_max_pages_per_cycle s)
    \<and> po_slept p' \<le> po_slept p + of_nat (nat (st_compliance_max_pages_per_cycle s)) * (93 / 2)"
proof -
  let ?k = "nat (st_compliance_max_pages_per_cycle s)"
  have nn: "(0 :: rat) \<le> of_nat ?k * (93 / 2)" by simp
  have w: "po_requests p1 \<le> po_requests q + 5 * ?k \<and> po_slept p1 \<le> po_slept q + of_nat ?k * (93 / 2)"
    if rw: "run_with_checkpoint env s ad cl org cp q = (r1, p1)" for org cp q r1 p1
  proof -
    let ?ws = "(case sc_window_start cp of Some t \<Rightarrow> t | None \<Rightarrow> e_now env - days 1) - seconds (st_compliance_overlap_seconds s)"
    let ?q = "q\<lparr>po_summary := empty_summary, po_last := sc_last_event_time cp,
                 po_cursor := (case sc_cursor_value cp of None \<Rightarrow> JNull | Some c \<Rightarrow> JText c)\<rparr>"
    obtain x p2 where pp: "poll_pages env s ad cl org ?ws ?k None ?q = (x, p2)" by fastforce
    have "p1 = p2 \<or> (\<exists>d. p1 = p2\<lparr>po_db := d\<rparr>)"
      using rw pp by (cases x) (auto simp: run_with_checkpoint_def Let_def split: sum.splits)
    then have "po_requests p1 = po_requests p2" "po_slept p1 = po_slept p2" by auto
    then show ?thesis using poll_pages_cost [OF pp assms(2)] by simp
  qed
  show ?thesis
  proof (cases "p' = p")
    case True
    then show ?thesis using nn by simp
  next
    case False
    then obtain org cp d1 x p1 where "run_with_checkpoint env s ad cl org cp (p\<lparr>po_db := d1\<rparr>) = (x, p1)"
      "po_requests p' = po_requests p1" "po_slept p' = po_slept p1"
      using assms(1) by (auto simp: run_cycle_def split: if_splits list.splits sum.splits prod.splits)
    then show ?thesis using w by fastforce
  qed
qed

section \<open>An upload that fails\<close>

lemma persist_known:
  "list_ex (event_key (org_id org) (cm_source_event_id e)) (d_source_event_keys d) \<Longrightarrow> length (cm_source_event_id e) \<le> 255
    \<Longrightarrow> persist_event env s cl org e d b = (Inr False, d, b)"
  by (simp add: persist_event_def)

lemma workspace_keeps_events:
  "get_or_create_compliance_workspace env org wid [] d = Inr (w, pd, d') \<Longrightarrow>
     d_source_event_keys d' = d_source_event_keys d \<and> d_source_events d' = d_source_events d"
  by (auto simp: get_or_create_compliance_workspace_def bindE_eq_Inr with_pending_def uuid4_def Let_def split: option.splits if_splits)

lemma workspace_error:
  "get_or_create_compliance_workspace env org wid [] d \<noteq> Inl (UpstreamError m)"
proof -
  have s: "scalar_one_or_none xs \<noteq> Inl (UpstreamError m)" for xs :: "workspace list"
    by (cases xs rule: scalar_one_or_none.cases) auto
  show ?thesis
    by (auto simp: get_or_create_compliance_workspace_def bindE_def select_workspace_def s uuid4_def flush_def Let_def
        split: sum.splits option.splits)
qed

lemma persist_upload_failed:
  assumes "persist_event env s cl org e d b = (Inl (UpstreamError m), d1, b1)"
  shows "length (cm_source_event_id e) \<le> 255 \<and> d_source_events d1 = d_source_events d
    \<and> list_ex (event_key (org_id org) (cm_source_event_id e)) (d_source_event_keys d1)"
proof -
  let ?k = "\<lparr>sk_organization_id = org_id org, sk_source = COMPLIANCE_SOURCE, sk_source_event_id = cm_source_event_id e,
    sk_source_event_created_at = e_now env, sk_created_at = e_now env\<rparr>"
  let ?d = "d\<lparr>d_source_event_keys := d_source_event_keys d @ [?k]\<rparr>"
  have len: "\<not> 255 < length (cm_source_event_id e)" using assms by (auto simp: persist_event_def)
  have new: "\<not> list_ex (event_key (org_id org) (cm_source_event_id e)) (d_source_event_keys d)"
    using assms len by (auto simp: persist_event_def)
  show ?thesis
  proof (cases "get_or_create_compliance_workspace env org (cm_workspace_id e) [] ?d")
    case (Inl x)
    then show ?thesis using assms len new workspace_error [of env org "cm_workspace_id e" ?d m] by (simp add: persist_event_def Let_def)
  next
    case (Inr y)
    obtain w pd d2 where y: "y = (w, pd, d2)" using prod_cases3 by blast
    note keep = workspace_keeps_events [OF Inr [unfolded y]]
    obtain pr b2 where put: "put_json s cl (compliance_raw_key (ws_workspace_hash w) (cm_source_event_id e)
        (case cm_event_time e of Some t \<Rightarrow> t | None \<Rightarrow> e_now env)) (event_document (e_now env) e)
        [(''source'', COMPLIANCE_SOURCE)] b = (pr, b2)" by fastforce
    have "d1 = d2"
      using assms len new Inr y put
      by (cases pr) (auto simp: persist_event_def Let_def flush_def case_prod_beta split: if_splits)
    then show ?thesis using len keep by (simp add: event_key_def)
  qed
qed

lemma finish_failed_keys:
  "finish_failed env cp e d = Inr d' \<Longrightarrow> d_source_event_keys d' = d_source_event_keys d \<and> d_source_events d' = d_source_events d"
  by (auto simp: finish_failed_def upd_checkpoint_def split: if_splits)


section \<open>Concrete cycles\<close>

text \<open>An interface that never answers, and a store that refuses every object.\<close>

definition poll_settings :: settings where
  "poll_settings = default_settings\<lparr>st_compliance_poll_enabled := True,
     st_openai_compliance_base_url := Some (lit ''https://u''), st_openai_compliance_log_path := Some (lit ''log''),
     st_openai_compliance_api_key := Some (lit ''k'')\<rparr>"

definition silent_adapter :: "unit adapter" where
  "silent_adapter = \<lparr>ad_http = (\<lambda>_ _ _ n. (HttpFailed, n)), ad_field_map = default_field_map, ad_iso = (\<lambda>_. None),
     ad_jitter = (\<lambda>_. 1 / 2)\<rparr>"

definition sample_poll :: "(unit, unit) poll" where
  "sample_poll = \<lparr>po_db = empty_db\<lparr>d_organizations := [sample_org]\<rparr>, po_store = (), po_net = (),
     po_summary = empty_summary, po_cursor = JNull, po_last = None, po_requests = 0, po_slept = 0\<rparr>"

lemma silent_cycle:
  "po_requests (snd (run_cycle sample_env poll_settings silent_adapter accepting_store sample_poll)) = 5
   \<and> po_slept (snd (run_cycle sample_env poll_settings silent_adapter accepting_store sample_poll)) = 31"
  by code_simp

theorem cycle_bounded_witness:
  "\<exists>r p'. run_cycle sample_env poll_settings silent_adapter accepting_store sample_poll = (r, p')
     \<and> po_requests p' = 5 \<and> po_requests p' \<le> 5 * 50 \<and> po_slept p' \<le> 50 * (93 / 2)"
proof -
  obtain r p' where c: "run_cycle sample_env poll_settings silent_adapter accepting_store sample_poll = (r, p')" by fastforce
  have "jitter_ok (ad_jitter silent_adapter)" by (simp add: jitter_ok_def silent_adapter_def)
  from cycle_bounded [OF c this] have "po_requests p' \<le> 5 * 50" "po_slept p' \<le> 50 * (93 / 2)"
    by (simp_all add: sample_poll_def poll_settings_def default_settings_def)
  with c silent_cycle show ?thesis by simp
qed

definition refusing_store :: "unit s3" where
  "refusing_store = accepting_store\<lparr>s3_put := (\<lambda>_ b. (None, b))\<rparr>"

definition sample_event :: compliance_event where
  "sample_event = \<lparr>cm_source_event_id = lit ''e1'', cm_event_time = Some 0, cm_kind = ''message'', cm_conversation_id = None,
     cm_message_id = None, cm_workspace_id = None, cm_actor_email = None, cm_is_deletion = False, cm_raw = JObj []\<rparr>"

definition known_workspace_db :: db where
  "known_workspace_db = empty_db\<lparr>d_organizations := [sample_org],
     d_workspaces := [compliance_workspace_row ascii_db 0 sample_org None 3]\<rparr>"

definition claimed_db :: db where
  "claimed_db = known_workspace_db\<lparr>d_source_event_keys := [\<lparr>sk_organization_id = 1, sk_source = COMPLIANCE_SOURCE,
     sk_source_event_id = lit ''e1'', sk_source_event_created_at = 7, sk_created_at = 7\<rparr>]\<rparr>"

lemma refused_upload:
  "persist_event sample_env poll_settings refusing_store sample_org sample_event known_workspace_db ()
     = (Inl (UpstreamError ''Object storage write failed''), claimed_db, ())"
  by (simp add: persist_event_def sample_event_def known_workspace_db_def claimed_db_def empty_db_def sample_org_def
      get_or_create_compliance_workspace_def select_workspace_def compliance_workspace_row_def sample_env_def
      put_json_def put_bytes_def refusing_store_def Let_def)


end
