(* ===== verification/Exif.thy ===== *)
theory Exif
  imports Prelude
begin

text \<open>
  \<open>app/services/exif.py\<close>: removal of the metadata segments of a JPEG and of the metadata chunks
  of a PNG.  The loops carry \<open>data[index:]\<close> in place of the index.
\<close>

type_synonym octets = "nat list"

definition JPEG_SOI :: octets where
  "JPEG_SOI = [255, 216]"

text \<open>The third element is \<open>0xE13 & 0xFF\<close>, which is \<open>0x13\<close>.\<close>

definition JPEG_STRIP_MARKERS :: "nat list" where
  "JPEG_STRIP_MARKERS = [225, 226, 19, 237, 254]"

definition PNG_MAGIC :: octets where
  "PNG_MAGIC = [137, 80, 78, 71, 13, 10, 26, 10]"

definition ascii_bytes :: "string \<Rightarrow> octets" where
  "ascii_bytes s = map of_char s"

definition PNG_STRIP_CHUNKS :: "octets list" where
  "PNG_STRIP_CHUNKS = map ascii_bytes [''tEXt'', ''iTXt'', ''zTXt'', ''eXIf'', ''tIME'']"

definition be16 :: "octets \<Rightarrow> nat" where
  "be16 bs = 256 * bs ! 0 + bs ! 1"

definition be32_of :: "octets \<Rightarrow> nat" where
  "be32_of bs = 16777216 * bs ! 0 + 65536 * bs ! 1 + 256 * bs ! 2 + bs ! 3"

definition starts :: "octets \<Rightarrow> octets \<Rightarrow> bool" where
  "starts p data \<longleftrightarrow> take (length p) data = p"

definition standalone_marker :: "nat \<Rightarrow> bool" where
  "standalone_marker m \<longleftrightarrow> m \<in> {216, 1} \<or> (208 \<le> m \<and> m \<le> 215)"

function strip_jpeg_loop :: "octets \<Rightarrow> octets" where
  "strip_jpeg_loop r =
     (if length r < 4 then []
      else if r ! 0 \<noteq> 255 then r
      else if standalone_marker (r ! 1) then take 2 r @ strip_jpeg_loop (drop 2 r)
      else if r ! 1 = 218 then r
      else let n = be16 (drop 2 r)
           in if n < 2 \<or> 2 + n > length r then r
              else (if r ! 1 \<notin> set JPEG_STRIP_MARKERS then take (2 + n) r else [])
                   @ strip_jpeg_loop (drop (2 + n) r))"
  by pat_completeness auto
termination
  by (relation "measure length") auto

declare strip_jpeg_loop.simps [simp del]

definition strip_jpeg_metadata :: "octets \<Rightarrow> octets" where
  "strip_jpeg_metadata data =
     (if \<not> starts JPEG_SOI data then data else JPEG_SOI @ strip_jpeg_loop (drop 2 data))"

function strip_png_loop :: "octets \<Rightarrow> octets" where
  "strip_png_loop r =
     (if length r < 8 then []
      else let n = be32_of r; t = take 4 (drop 4 r)
           in if 12 + n > length r then []
              else (if t \<notin> set PNG_STRIP_CHUNKS then take (12 + n) r else [])
                   @ (if t = ascii_bytes ''IEND'' then [] else strip_png_loop (drop (12 + n) r)))"
  by pat_completeness auto
termination
  by (relation "measure length") auto

declare strip_png_loop.simps [simp del]

definition strip_png_metadata :: "octets \<Rightarrow> octets" where
  "strip_png_metadata data =
     (if \<not> starts PNG_MAGIC data then data else PNG_MAGIC @ strip_png_loop (drop 8 data))"

definition strip_metadata :: "octets \<Rightarrow> string option \<Rightarrow> octets \<times> bool" where
  "strip_metadata data mime =
     (if mime = Some ''image/jpeg'' then (strip_jpeg_metadata data, strip_jpeg_metadata data \<noteq> data)
      else if mime = Some ''image/png'' then (strip_png_metadata data, strip_png_metadata data \<noteq> data)
      else (data, False))"

section \<open>What the loops do on the formats\<close>

text \<open>A JPEG marker segment: marker and payload; the length field counts itself.\<close>

definition segment_ok :: "nat \<times> octets \<Rightarrow> bool" where
  "segment_ok s \<longleftrightarrow> \<not> standalone_marker (fst s) \<and> fst s \<noteq> 218 \<and> length (snd s) + 2 < 65536"

definition enc_segment :: "nat \<times> octets \<Rightarrow> octets" where
  "enc_segment s = [255, fst s, (length (snd s) + 2) div 256, (length (snd s) + 2) mod 256] @ snd s"

definition is_scan :: "octets \<Rightarrow> bool" where
  "is_scan r \<longleftrightarrow> 4 \<le> length r \<and> r ! 0 = 255 \<and> r ! 1 = 218"

lemma strip_jpeg_scan: "is_scan r \<Longrightarrow> strip_jpeg_loop r = r"
  by (subst strip_jpeg_loop.simps) (simp add: is_scan_def standalone_marker_def)

lemma strip_jpeg_step:
  assumes "4 \<le> length r" "r ! 0 = 255" "\<not> standalone_marker (r ! 1)" "r ! 1 \<noteq> 218"
    and "be16 (drop 2 r) = n" "2 \<le> n" "2 + n \<le> length r"
  shows "strip_jpeg_loop r = (if r ! 1 \<in> set JPEG_STRIP_MARKERS then [] else take (2 + n) r)
     @ strip_jpeg_loop (drop (2 + n) r)"
  using assms by (subst strip_jpeg_loop.simps) (simp add: Let_def)

lemma strip_jpeg_segment:
  assumes "segment_ok s"
  shows "strip_jpeg_loop (enc_segment s @ r)
     = (if fst s \<in> set JPEG_STRIP_MARKERS then [] else enc_segment s) @ strip_jpeg_loop r"
proof -
  let ?x = "enc_segment s @ r" and ?n = "length (snd s) + 2"
  have n: "be16 (drop 2 ?x) = ?n" by (simp add: enc_segment_def be16_def)
  have l: "length (enc_segment s) = 2 + ?n" by (simp add: enc_segment_def)
  have m: "?x ! 0 = 255" "?x ! 1 = fst s" by (simp_all add: enc_segment_def)
  have t: "take (2 + ?n) ?x = enc_segment s" "drop (2 + ?n) ?x = r"
    by (simp_all add: l)
  have a: "4 \<le> length ?x" "2 \<le> ?n" "2 + ?n \<le> length ?x" by (simp_all add: l)
  have f: "\<not> standalone_marker (?x ! 1)" "?x ! 1 \<noteq> 218" using assms by (simp_all only: m segment_ok_def) simp_all
  show ?thesis using strip_jpeg_step [OF a(1) m(1) f n a(2,3)] unfolding m(2) t .
qed

text \<open>
  C16. A JPEG made of marker segments and a scan comes out as the same file without the Exif/XMP,
  ICC, IPTC and comment segments: every other segment, their order and the whole scan are kept
  byte for byte.
\<close>

theorem strip_jpeg_exact:
  assumes "list_all segment_ok segs" "is_scan scan"
  shows "strip_jpeg_metadata (JPEG_SOI @ concat (map enc_segment segs) @ scan)
     = JPEG_SOI @ concat (map enc_segment (filter (\<lambda>s. fst s \<notin> set JPEG_STRIP_MARKERS) segs)) @ scan"
proof -
  have "strip_jpeg_loop (concat (map enc_segment segs) @ scan)
     = concat (map enc_segment (filter (\<lambda>s. fst s \<notin> set JPEG_STRIP_MARKERS) segs)) @ scan"
    using assms(1) by (induction segs) (auto simp: strip_jpeg_segment strip_jpeg_scan [OF assms(2)])
  then show ?thesis by (simp add: strip_jpeg_metadata_def starts_def JPEG_SOI_def)
qed

theorem strip_jpeg_exact_witness:
  "strip_jpeg_metadata (JPEG_SOI @ concat (map enc_segment [(224, [1]), (225, [9, 9]), (219, [2])]) @ [255, 218, 0, 7])
     = JPEG_SOI @ concat (map enc_segment [(224, [1]), (219, [2])]) @ [255, 218, 0, 7]"
proof -
  have "list_all segment_ok [(224, [1]), (225, [9, 9]), (219, [2])]"
    by (simp add: segment_ok_def standalone_marker_def)
  moreover have "is_scan [255, 218, 0, 7]" by (simp add: is_scan_def)
  ultimately show ?thesis
    using strip_jpeg_exact [of "[(224, [1]), (225, [9, 9]), (219, [2])]" "[255, 218, 0, 7]"]
    by (simp add: JPEG_STRIP_MARKERS_def)
qed

text \<open>A PNG chunk: type, data and checksum.\<close>

definition chunk_ok :: "octets \<times> octets \<times> octets \<Rightarrow> bool" where
  "chunk_ok c \<longleftrightarrow> length (fst c) = 4 \<and> length (snd (snd c)) = 4 \<and> length (fst (snd c)) < 4294967296"

definition enc_chunk :: "octets \<times> octets \<times> octets \<Rightarrow> octets" where
  "enc_chunk c = (let n = length (fst (snd c))
     in [n div 16777216, n div 65536 mod 256, n div 256 mod 256, n mod 256] @ fst c @ fst (snd c) @ snd (snd c))"

lemma be32_enc: "16777216 * (n div 16777216) + 65536 * (n div 65536 mod 256) + 256 * (n div 256 mod 256) + n mod 256 = (n :: nat)"
proof -
  have "n div 65536 = 256 * (n div 16777216) + n div 65536 mod 256"
    "n div 256 = 256 * (n div 65536) + n div 256 mod 256"
    using mult_div_mod_eq [of 256 "n div 65536"] mult_div_mod_eq [of 256 "n div 256"]
    by (simp_all add: div_mult2_eq [symmetric])
  then show ?thesis using mult_div_mod_eq [of 256 n] by linarith
qed

lemma strip_png_chunk:
  assumes "chunk_ok c"
  shows "strip_png_loop (enc_chunk c @ r)
     = (if fst c \<in> set PNG_STRIP_CHUNKS then [] else enc_chunk c)
       @ (if fst c = ascii_bytes ''IEND'' then [] else strip_png_loop r)"
proof -
  have n: "be32_of (enc_chunk c @ r) = length (fst (snd c))"
    by (simp add: enc_chunk_def be32_of_def Let_def be32_enc)
  have l: "length (enc_chunk c) = 12 + length (fst (snd c))"
    using assms by (simp add: enc_chunk_def Let_def chunk_ok_def)
  have t: "take 4 (drop 4 (enc_chunk c @ r)) = fst c"
    using assms by (simp add: enc_chunk_def Let_def chunk_ok_def)
  have s: "take (12 + length (fst (snd c))) (enc_chunk c @ r) = enc_chunk c"
    "drop (12 + length (fst (snd c))) (enc_chunk c @ r) = r"
    by (simp_all add: l)
  show ?thesis
    by (subst strip_png_loop.simps) (simp add: n l t s Let_def del: take_append drop_append)
qed

text \<open>
  A PNG comes out as the same file without its text, Exif and time chunks: every other chunk
  is kept byte for byte up to the end chunk, and whatever follows the end chunk is dropped.
\<close>

theorem strip_png_exact:
  assumes "list_all chunk_ok cs" "list_all (\<lambda>c. fst c \<noteq> ascii_bytes ''IEND'') cs"
    and "chunk_ok e" "fst e = ascii_bytes ''IEND''"
  shows "strip_png_metadata (PNG_MAGIC @ concat (map enc_chunk cs) @ enc_chunk e @ junk)
     = PNG_MAGIC @ concat (map enc_chunk (filter (\<lambda>c. fst c \<notin> set PNG_STRIP_CHUNKS) cs)) @ enc_chunk e"
proof -
  have e: "strip_png_loop (enc_chunk e @ junk) = enc_chunk e"
    using assms(3,4) by (simp add: strip_png_chunk PNG_STRIP_CHUNKS_def ascii_bytes_def)
  have "strip_png_loop (concat (map enc_chunk cs) @ enc_chunk e @ junk)
     = concat (map enc_chunk (filter (\<lambda>c. fst c \<notin> set PNG_STRIP_CHUNKS) cs)) @ enc_chunk e"
    using assms(1,2) by (induction cs) (auto simp: strip_png_chunk e)
  then show ?thesis by (simp add: strip_png_metadata_def starts_def PNG_MAGIC_def)
qed

theorem strip_png_exact_witness:
  "strip_png_metadata (PNG_MAGIC @ concat (map enc_chunk [(ascii_bytes ''tEXt'', [1, 2], [0, 0, 0, 0]),
       (ascii_bytes ''IDAT'', [3], [0, 0, 0, 1])]) @ enc_chunk (ascii_bytes ''IEND'', [], [0, 0, 0, 2]) @ [5, 5])
     = PNG_MAGIC @ concat (map enc_chunk [(ascii_bytes ''IDAT'', [3], [0, 0, 0, 1])])
       @ enc_chunk (ascii_bytes ''IEND'', [], [0, 0, 0, 2])"
proof -
  let ?cs = "[(ascii_bytes ''tEXt'', [1, 2], [0, 0, 0, 0]), (ascii_bytes ''IDAT'', [3], [0, 0, 0, 1])]"
  let ?e = "(ascii_bytes ''IEND'', [], [0, 0, 0, 2])"
  have "list_all chunk_ok ?cs" "list_all (\<lambda>c. fst c \<noteq> ascii_bytes ''IEND'') ?cs" "chunk_ok ?e"
    by (simp_all add: chunk_ok_def ascii_bytes_def)
  moreover have "ascii_bytes ''tEXt'' \<in> set PNG_STRIP_CHUNKS" "ascii_bytes ''IDAT'' \<notin> set PNG_STRIP_CHUNKS"
    by (simp_all add: PNG_STRIP_CHUNKS_def ascii_bytes_def)
  ultimately show ?thesis using strip_png_exact [of ?cs ?e "[5, 5]"] by (simp del: map_append)
qed

end
