(* ===== verification/Finalize.thy ===== *)
theory Finalize
  imports Attachments Exif
begin

text \<open>
  The finalization of an attachment by the worker (\<open>handle_finalize_attachment\<close> of
  \<open>app/workers/handlers.py\<close>) and the invariant of the attachment life cycle.  A job handler
  returns its result or exception together with the session and the object store as it left
  them.
\<close>

type_synonym 'b handled = "json res \<times> db \<times> 'b"

text \<open>\<open>uuid.UUID(payload[key])\<close> with \<open>KeyError\<close> and \<open>ValueError\<close> turned into \<open>NonRetryableError\<close>.\<close>

definition payload_uuid :: "string \<Rightarrow> json \<Rightarrow> uuid res" where
  "payload_uuid key payload = (case jget payload key of
       None \<Rightarrow> Inl (NonRetryableError (key @ '' missing or malformed''))
     | Some (JStr s) \<Rightarrow> (case uuid_parse s of
           None \<Rightarrow> Inl (NonRetryableError (key @ '' missing or malformed'')) | Some u \<Rightarrow> Inr u)
     | Some _ \<Rightarrow> Inl (OtherException ''AttributeError''))"

definition payload_str :: "string \<Rightarrow> json \<Rightarrow> string option" where
  "payload_str key payload = (case jget payload key of Some (JStr s) \<Rightarrow> if s = [] then None else Some s | _ \<Rightarrow> None)"

definition zip_family :: "string list" where
  "zip_family = [DOCX, XLSX, PPTX]"

definition rejected_by_worker :: "time \<Rightarrow> string \<Rightarrow> attachment \<Rightarrow> attachment" where
  "rejected_by_worker now reason a =
     a\<lparr>at_state := AttRejected, at_rejection_reason := Some (take 1000 reason), at_verified_at := Some now\<rparr>"

definition reject_attachment :: "time \<Rightarrow> attachment \<Rightarrow> string \<Rightarrow> db \<Rightarrow> json \<times> db" where
  "reject_attachment now a reason d =
     (JObj [(''state'', JStr ''rejected''), (''reason'', JStr reason)],
      upd_attachment (at_id a) (rejected_by_worker now reason) d)"

text \<open>The checks on the bytes: the reason of a rejection or the detected type.\<close>

definition verify_bytes :: "attachment \<Rightarrow> bytes \<Rightarrow> string + string" where
  "verify_bytes a data =
     (if int (length data) \<noteq> at_byte_size a then Inl ''stored size does not match declared size''
      else if sha256_hex_bytes data \<noteq> at_sha256 a then Inl ''sha256 mismatch between declared and stored bytes''
      else case detect_mime_from_bytes data (at_declared_mime_type a) of
        None \<Rightarrow> Inl ''content does not match any allowed file type''
      | Some detected \<Rightarrow>
          if Some detected \<noteq> at_declared_mime_type a
             \<and> \<not> (detected \<in> set zip_family \<and> (case at_declared_mime_type a of Some m \<Rightarrow> m \<in> set zip_family | None \<Rightarrow> False))
          then Inl (''declared type '' @ (case at_declared_mime_type a of Some m \<Rightarrow> m | None \<Rightarrow> ''None'')
                 @ '' does not match content'')
          else Inr detected)"

definition clean_row ::
  "time \<Rightarrow> ustr \<Rightarrow> ustr option \<Rightarrow> bool \<Rightarrow> string \<Rightarrow> bytes \<Rightarrow> string option \<Rightarrow> attachment \<Rightarrow> attachment" where
  "clean_row now clean_key curated_key stripped detected data version_id a =
     a\<lparr>at_state := AttClean, at_clean_s3_key := Some clean_key, at_curated_s3_key := curated_key,
       at_exif_stripped := stripped, at_detected_mime_type := Some detected,
       at_verified_sha256 := Some (sha256_hex_bytes data), at_verified_byte_size := Some (int (length data)),
       at_verified_at := Some now,
       at_s3_version_id := (if truthy version_id then version_id else at_s3_version_id a),
       at_scan_status := Some ''not_scanned'',
       at_scan_result := JObj [(''note'', JStr ''ClamAV profile is optional; enable the `scan` compose profile to scan uploads.'')]\<rparr>"

definition stage_key :: "env \<Rightarrow> json \<Rightarrow> attachment \<Rightarrow> db \<Rightarrow> stage \<Rightarrow> ustr" where
  "stage_key env payload a d st =
     (let workspace_hash = (case payload_str ''workspace_hash'' payload of Some h \<Rightarrow> h
            | None \<Rightarrow> (case find (\<lambda>w. ws_id w = at_workspace_id a) (d_workspaces d) of
                Some w \<Rightarrow> ws_workspace_hash w | None \<Rightarrow> ''unknown''));
          source_conversation_id = (case conversation_for_attachment a d of
                Some c \<Rightarrow> cv_source_conversation_id c | None \<Rightarrow> uuid_str (at_conversation_id a))
      in attachment_key (e_ud env) st workspace_hash source_conversation_id (uuid_str (at_id a)) (at_safe_filename a))"

definition promote ::
  "env \<Rightarrow> settings \<Rightarrow> 'b s3 \<Rightarrow> json \<Rightarrow> attachment \<Rightarrow> bytes \<Rightarrow> string \<Rightarrow> db \<Rightarrow> 'b \<Rightarrow> 'b handled" where
  "promote env s c payload a data detected d b =
     (let clean_key = stage_key env payload a d Clean;
          (copied, b1) = copy_object s c (the (at_quarantine_s3_key a)) clean_key b
      in case copied of Inl e \<Rightarrow> (Inl e, d, b1)
       | Inr version_id \<Rightarrow>
           let (curated, stripped) = strip_metadata data (Some detected);
               curated_key = (if stripped then Some (stage_key env payload a d Curated) else None);
               (stored, b2) = (if stripped then put_bytes s c (the curated_key) curated detected [] b1
                               else (Inr \<lparr>pr_key = [], pr_version_id = None, pr_sha256 = [], pr_byte_size = 0\<rparr>, b1))
           in case stored of Inl e \<Rightarrow> (Inl e, d, b2)
            | Inr _ \<Rightarrow>
                (Inr (JObj [(''state'', JStr ''clean''), (''clean_s3_key'', JText clean_key),
                   (''curated_s3_key'', case curated_key of Some k \<Rightarrow> JText k | None \<Rightarrow> JNull),
                   (''exif_stripped'', JBool stripped)]),
                 upd_attachment (at_id a) (clean_row (e_now env) clean_key curated_key stripped detected data version_id) d,
                 b2))"

definition handle_finalize_attachment ::
  "env \<Rightarrow> settings \<Rightarrow> 'b s3 \<Rightarrow> json \<Rightarrow> db \<Rightarrow> 'b \<Rightarrow> 'b handled" where
  "handle_finalize_attachment env s c payload d b =
     (case payload_uuid ''attachment_id'' payload of Inl e \<Rightarrow> (Inl e, d, b)
      | Inr aid \<Rightarrow>
      (case find (\<lambda>a. at_id a = aid) (d_attachments d) of
         None \<Rightarrow> (Inl (NonRetryableError (''attachment '' @ uuid_str aid @ '' no longer exists'')), d, b)
       | Some a \<Rightarrow>
           if at_state a = AttClean
             then (Inr (JObj [(''skipped'', JBool True), (''reason'', JStr ''already_clean'')]), d, b)
           else if at_state a \<noteq> AttQuarantine \<or> \<not> truthy (at_quarantine_s3_key a)
             then (Inl (NonRetryableError (''attachment is in state '' @ attachment_state_str (at_state a) @ '', not quarantine'')), d, b)
           else (case get_bytes s c (the (at_quarantine_s3_key a)) (Some (st_max_attachment_bytes s)) b of
               Inl e \<Rightarrow> (Inl e, d, b)
             | Inr data \<Rightarrow> (case verify_bytes a data of
                   Inl reason \<Rightarrow> let (r, d') = reject_attachment (e_now env) a reason d in (Inr r, d', b)
                 | Inr detected \<Rightarrow> promote env s c payload a data detected d b))))"

section \<open>A clean attachment was verified\<close>

definition clean_ok :: "attachment \<Rightarrow> bool" where
  "clean_ok a \<longleftrightarrow> (at_state a = AttClean \<longrightarrow> at_verified_sha256 a = Some (at_sha256 a)
     \<and> at_verified_byte_size a = Some (at_byte_size a) \<and> at_clean_s3_key a \<noteq> None \<and> at_detected_mime_type a \<noteq> None)"

definition clean_inv :: "db \<Rightarrow> bool" where
  "clean_inv d \<longleftrightarrow> distinct (map at_id (d_attachments d)) \<and> (\<forall>a\<in>set (d_attachments d). clean_ok a)"

text \<open>The operations on attachments; between them anything may happen to the other tables.\<close>

inductive att_step :: "'b s3 \<Rightarrow> db \<Rightarrow> db \<Rightarrow> bool"
  for c :: "'b s3" where
  as_init: "init_attachment env ctx c p d = Inr (u, d') \<Longrightarrow> att_step c d d'"
| as_complete: "complete_attachment env ctx c b p d = Inr (a, ok, reason, d') \<Longrightarrow> att_step c d d'"
| as_finalize: "handle_finalize_attachment env s c payload d b = (r, d', b') \<Longrightarrow> att_step c d d'"
| as_expire: "expire_stale_pending now m d = (n, d') \<Longrightarrow> att_step c d d'"
| as_other: "d_attachments d' = d_attachments d \<Longrightarrow> att_step c d d'"

lemma clean_inv_same: "d_attachments d' = d_attachments d \<Longrightarrow> clean_inv d \<Longrightarrow> clean_inv d'"
  by (simp add: clean_inv_def)

lemma clean_inv_upd:
  assumes "clean_inv d" "\<And>a. at_id (f a) = at_id a"
    and f: "\<And>a. a \<in> set (d_attachments d) \<Longrightarrow> p a \<Longrightarrow> clean_ok (f a)"
    and d': "d_attachments d' = upd_where p f (d_attachments d)"
  shows "clean_inv d'"
  using assms(1) f unfolding clean_inv_def d'
  by (auto simp: map_upd_where_same assms(2) elim!: in_upd_whereE)

lemma flush_attachments: "flush d = Inr d' \<Longrightarrow> d_attachments d' = d_attachments d \<and> distinct (map at_id (d_attachments d'))"
  by (auto simp: constraints_def attachments_ok_def)

lemma get_or_create_attachments:
  "get_or_create_conversation env ctx scid h d = Inr (cv, b, d') \<Longrightarrow> d_attachments d' = d_attachments d"
  by (auto simp: get_or_create_conversation_def bindE_eq_Inr uuid4_def Let_def upd_conversation_def split: option.splits)

lemma save_attachment_inv:
  assumes "save_attachment a d = Inr d'" "clean_inv d" "clean_ok a"
  shows "clean_inv d'"
  using assms(2,3) flush_attachments [OF assms(1) [unfolded save_attachment_def]]
  unfolding clean_inv_def by (auto elim!: in_upd_whereE split: if_splits)

lemma init_row_inv:
  assumes "init_row env ctx c p safe scid a0 d = Inr (u, d')" "clean_inv d"
  shows "clean_inv d'"
proof (cases "ai_metadata_only p")
  case True
  then have "save_attachment (metadata_only_attachment p (describe_attachment (e_ud env) p safe a0)) d = Inr d'"
    using assms(1) by (auto simp: init_row_def Let_def bindE_eq_Inr)
  then show ?thesis using assms(2)
    by (rule save_attachment_inv) (simp add: clean_ok_def metadata_only_attachment_def)
next
  case False
  then obtain key ex where "save_attachment (presigned_attachment (e_now env) key ex
      (describe_attachment (e_ud env) p safe a0)) d = Inr d'"
    using assms(1) by (auto simp: init_row_def Let_def bindE_eq_Inr)
  then show ?thesis using assms(2)
    by (rule save_attachment_inv) (simp add: clean_ok_def presigned_attachment_def)
qed

lemma init_attachment_Inr:
  assumes "init_attachment env ctx c p d = Inr (u, d')"
  obtains "d_attachments d' = d_attachments d"
  | safe scid a d2 where "d_attachments d2 = d_attachments d" "init_row env ctx c p safe scid a d2 = Inr (u, d')"
proof -
  obtain safe conv b d1 ex where g: "get_or_create_conversation env ctx (ai_source_conversation_id p)
        (no_hint\<lparr>h_completeness := Some CcLiveOnly\<rparr>) d = Inr (conv, b, d1)"
    and r: "init_for env ctx c p safe conv ex d1 = Inr (u, d')"
    using assms unfolding init_attachment_def by (auto simp: bindE_eq_Inr)
  note t = get_or_create_attachments [OF g]
  show ?thesis
  proof (cases ex)
    case None
    then show ?thesis using r t by (intro that(2) [of "d1\<lparr>d_next_uuid := Suc (d_next_uuid d1)\<rparr>"]) (simp_all add: init_for_def uuid4_def)
  next
    case (Some a)
    show ?thesis
    proof (cases "at_state a \<in> {AttClean, AttQuarantine, AttMetadataOnly}")
      case True
      then show ?thesis using r t Some by (intro that(1)) (simp add: init_for_def)
    next
      case False
      then show ?thesis using r t Some by (intro that(2) [of d1]) (auto simp: init_for_def)
    qed
  qed
qed

lemma init_attachment_inv:
  assumes "init_attachment env ctx c p d = Inr (u, d')" "clean_inv d"
  shows "clean_inv d'"
  using assms(1)
proof (cases rule: init_attachment_Inr)
  case 1
  then show ?thesis using assms(2) clean_inv_same by blast
next
  case (2 safe scid a d2)
  then show ?thesis using init_row_inv [OF 2(2)] clean_inv_same [OF 2(1) assms(2)] by blast
qed

lemma link_attachment_attachments:
  "link_attachment env ctx a sm d = Inr (r, d') \<Longrightarrow> d_attachments d' = d_attachments d"
  by (auto simp: link_attachment_def bindE_eq_Inr uuid4_def Let_def upd_message_def split: option.splits if_splits)

lemma enqueue_attachments:
  "enqueue_job now k pl oid key prio ra mx d = Inr (r, d') \<Longrightarrow> d_attachments d' = d_attachments d"
  by (auto simp: enqueue_job_def uuid4_def Let_def bindE_eq_Inr split: if_splits)

lemma accept_upload_attachments:
  assumes "accept_upload env ctx p h a d = Inr (a', ok, reason, d')"
  shows "d_attachments d' = upd_where (\<lambda>r. at_id r = at_id a) (quarantined (e_now env) h) (d_attachments d)"
  using assms unfolding accept_upload_def
  by (auto simp: bindE_eq_Inr Let_def upd_attachment_def dest!: link_attachment_attachments enqueue_attachments)

text \<open>Attachments are left alone, or one of them moves to a state other than clean.\<close>

definition unclean_update :: "db \<Rightarrow> db \<Rightarrow> bool" where
  "unclean_update d d' \<longleftrightarrow> d_attachments d' = d_attachments d \<or> (\<exists>p f. d_attachments d' = upd_where p f (d_attachments d)
     \<and> (\<forall>r. at_id (f r) = at_id r \<and> at_state (f r) \<noteq> AttClean))"

lemma unclean_refl [simp]: "unclean_update d d"
  by (simp add: unclean_update_def)

lemma unclean_closed [simp]: "st \<noteq> AttClean \<Longrightarrow> unclean_update d (upd_attachment k (closed_as st why) d)"
  unfolding unclean_update_def upd_attachment_def
  by (intro disjI2 exI [of _ "\<lambda>a. at_id a = k"] exI [of _ "closed_as st why"]) (simp add: closed_as_def)

lemma unclean_accept:
  assumes "accept_upload env ctx p h a d = Inr (a', ok, reason, d')"
  shows "unclean_update d d'"
  unfolding unclean_update_def accept_upload_attachments [OF assms]
  by (intro disjI2 exI [of _ "\<lambda>r. at_id r = at_id a"] exI [of _ "quarantined (e_now env) h"]) (simp add: quarantined_def)

lemma close_unclean: "close_attachment st why code a d = Inr (a', ok, reason, d') \<Longrightarrow> st \<noteq> AttClean \<Longrightarrow> unclean_update d d'"
  by (auto simp: close_attachment_def)

lemma complete_row_unclean:
  assumes "complete_row env ctx c b p a d = Inr (a', ok, reason, d')"
  shows "unclean_update d d'"
  using assms unfolding complete_row_def
  by (auto simp: bindE_eq_Inr split: if_splits elim: unclean_accept close_unclean)

lemma complete_attachment_unclean:
  assumes "complete_attachment env ctx c b p d = Inr (a, ok, reason, d')"
  shows "unclean_update d d'"
  using assms complete_row_unclean by (auto simp: complete_attachment_def bindE_eq_Inr split: option.splits)

lemma expire_unclean: "expire_stale_pending now m d = (n, d') \<Longrightarrow> unclean_update d d'"
  unfolding unclean_update_def expire_stale_pending_def Let_def
  by (intro disjI2 exI [of _ "stale_pending (now - minutes m)"]
      exI [of _ "closed_as AttExpired ''never uploaded before the presigned URL expired''"]) (auto simp: closed_as_def)

lemma unclean_inv:
  assumes "unclean_update d d'" "clean_inv d"
  shows "clean_inv d'"
proof (cases "d_attachments d' = d_attachments d")
  case True
  then show ?thesis using assms(2) by (rule clean_inv_same)
next
  case False
  then obtain p f where f: "d_attachments d' = upd_where p f (d_attachments d)"
    "\<And>r. at_id (f r) = at_id r" "\<And>r. at_state (f r) \<noteq> AttClean"
    using assms(1) unfolding unclean_update_def by blast
  show ?thesis by (rule clean_inv_upd [OF assms(2) f(2) _ f(1)]) (simp add: clean_ok_def f(3))
qed

lemma verify_bytes_Inr:
  assumes "verify_bytes a data = Inr detected"
  shows "int (length data) = at_byte_size a \<and> sha256_hex_bytes data = at_sha256 a
    \<and> detect_mime_from_bytes data (at_declared_mime_type a) = Some detected
    \<and> (Some detected = at_declared_mime_type a
       \<or> detected \<in> set zip_family \<and> (\<exists>m\<in>set zip_family. at_declared_mime_type a = Some m))"
  using assms by (auto simp: verify_bytes_def split: if_splits option.splits)

lemma finalize_cases:
  assumes "handle_finalize_attachment env s c payload d b = (r, d', b')"
  obtains "d' = d"
  | a reason where "a \<in> set (d_attachments d)" "d' = upd_attachment (at_id a) (rejected_by_worker (e_now env) reason) d"
  | a data detected ck cu st v where "a \<in> set (d_attachments d)" "at_state a = AttQuarantine"
    "get_bytes s c (the (at_quarantine_s3_key a)) (Some (st_max_attachment_bytes s)) b = Inr data"
    "verify_bytes a data = Inr detected"
    "d' = upd_attachment (at_id a) (clean_row (e_now env) ck cu st detected data v) d"
proof (cases "d' = d")
  case False
  obtain aid a where f: "find (\<lambda>a. at_id a = aid) (d_attachments d) = Some a" and q: "at_state a = AttQuarantine"
    and k: "(case get_bytes s c (the (at_quarantine_s3_key a)) (Some (st_max_attachment_bytes s)) b of
               Inl e \<Rightarrow> (Inl e, d, b)
             | Inr data \<Rightarrow> (case verify_bytes a data of
                   Inl reason \<Rightarrow> let (r, d') = reject_attachment (e_now env) a reason d in (Inr r, d', b)
                 | Inr detected \<Rightarrow> promote env s c payload a data detected d b)) = (r, d', b')"
    using assms False unfolding handle_finalize_attachment_def
    by (auto split: sum.splits option.splits if_splits)
  have a: "a \<in> set (d_attachments d)" using find_Some_in [OF f] by simp
  obtain data where g: "get_bytes s c (the (at_quarantine_s3_key a)) (Some (st_max_attachment_bytes s)) b = Inr data"
    using k False by (auto split: sum.splits)
  show ?thesis
  proof (cases "verify_bytes a data")
    case (Inl reason)
    then show ?thesis using that(2) [OF a] k g by (auto simp: reject_attachment_def)
  next
    case (Inr detected)
    then have "promote env s c payload a data detected d b = (r, d', b')" using k g by simp
    then obtain ck cu st v where "d' = upd_attachment (at_id a) (clean_row (e_now env) ck cu st detected data v) d"
      using False unfolding promote_def by (auto simp: Let_def split: sum.splits prod.splits if_splits)
    then show ?thesis using that(3) [OF a q g Inr] by blast
  qed
qed

lemma finalize_inv:
  assumes "handle_finalize_attachment env s c payload d b = (r, d', b')" "clean_inv d"
  shows "clean_inv d'"
  using assms(1)
proof (cases rule: finalize_cases)
  case 1
  then show ?thesis using assms(2) by simp
next
  case (2 a reason)
  show ?thesis unfolding 2(2)
    by (rule clean_inv_upd [OF assms(2)]) (auto simp: upd_attachment_def rejected_by_worker_def clean_ok_def)
next
  case (3 a data detected ck cu st v)
  have u: "distinct (map at_id (d_attachments d))" using assms(2) by (simp add: clean_inv_def)
  show ?thesis unfolding 3(5)
  proof (rule clean_inv_upd [OF assms(2), where p = "\<lambda>r. at_id r = at_id a"
        and f = "clean_row (e_now env) ck cu st detected data v"])
    fix r assume r: "r \<in> set (d_attachments d)" "at_id r = at_id a"
    have "r = a" by (rule distinct_map_eq [OF u r(1) 3(1) r(2)])
    then show "clean_ok (clean_row (e_now env) ck cu st detected data v r)"
      using verify_bytes_Inr [OF 3(4)] by (simp add: clean_ok_def clean_row_def)
  next
    show "d_attachments (upd_attachment (at_id a) (clean_row (e_now env) ck cu st detected data v) d)
      = upd_where (\<lambda>r. at_id r = at_id a) (clean_row (e_now env) ck cu st detected data v) (d_attachments d)"
      by (simp add: upd_attachment_def)
  qed (simp add: clean_row_def)
qed

definition att_init :: "db \<Rightarrow> bool" where
  "att_init d \<longleftrightarrow> distinct (map at_id (d_attachments d)) \<and> list_all (\<lambda>a. at_state a \<noteq> AttClean) (d_attachments d)"

interpretation attachments: inv_system att_init "att_step c" clean_inv for c :: "'b s3"
proof
  show "att_init s \<Longrightarrow> clean_inv s" for s
    by (auto simp: att_init_def clean_inv_def clean_ok_def list_all_iff)
  show "att_step c s t \<Longrightarrow> clean_inv s \<Longrightarrow> clean_inv t" for s t
    by (induction rule: att_step.induct)
      (blast intro: init_attachment_inv unclean_inv [OF complete_attachment_unclean] finalize_inv
        unclean_inv [OF expire_unclean] clean_inv_same)+
qed

text \<open>
  C20. An attachment is clean only when its bytes were verified: in every state the uploads,
  completions, expiries and finalizations reach from an archive with none, a clean attachment carries the digest and the
  size that were declared for it, a detected type and the key of the clean copy.
\<close>

theorem clean_means_verified:
  assumes "reach att_init (att_step c) d" "a \<in> set (d_attachments d)" "at_state a = AttClean"
  shows "at_verified_sha256 a = Some (at_sha256 a) \<and> at_verified_byte_size a = Some (at_byte_size a)
    \<and> at_clean_s3_key a \<noteq> None \<and> at_detected_mime_type a \<noteq> None"
  using attachments.reach_inv [OF assms(1)] assms(2,3) by (simp add: clean_inv_def clean_ok_def)

text \<open>
  C21. Finalization turns an attachment clean only from quarantine, when the bytes in the store
  have the declared size and digest and a type that the magic bytes confirm, up to the shared
  container of the office formats.
\<close>

theorem finalize_checks_bytes:
  assumes "handle_finalize_attachment env s c payload d b = (r, d', b')" "distinct (map at_id (d_attachments d))"
    and "a \<in> set (d_attachments d)" "at_state a \<noteq> AttClean"
    and "a' \<in> set (d_attachments d')" "at_id a' = at_id a" "at_state a' = AttClean"
  shows "at_state a = AttQuarantine \<and> (\<exists>data detected.
     get_bytes s c (the (at_quarantine_s3_key a)) (Some (st_max_attachment_bytes s)) b = Inr data
     \<and> int (length data) = at_byte_size a \<and> sha256_hex_bytes data = at_sha256 a
     \<and> detect_mime_from_bytes data (at_declared_mime_type a) = Some detected
     \<and> (Some detected = at_declared_mime_type a
        \<or> detected \<in> set zip_family \<and> (\<exists>m\<in>set zip_family. at_declared_mime_type a = Some m)))"
proof -
  have same: "x = a" if "x \<in> set (d_attachments d)" "at_id x = at_id a" for x
    by (rule distinct_map_eq [OF assms(2) that(1) assms(3) that(2)])
  show ?thesis
    using assms(1)
  proof (cases rule: finalize_cases)
    case 1
    then show ?thesis using same assms(4-7) by blast
  next
    case (2 x reason)
    obtain r0 where r0: "r0 \<in> set (d_attachments d)" "a' = (if at_id r0 = at_id x then rejected_by_worker (e_now env) reason r0 else r0)"
      using assms(5) unfolding 2(2) upd_attachment_def by (auto elim: in_upd_whereE)
    then have "at_id r0 = at_id a" using assms(6) by (auto simp: rejected_by_worker_def split: if_splits)
    then show ?thesis using same [OF r0(1)] r0(2) assms(4,7) by (auto simp: rejected_by_worker_def split: if_splits)
  next
    case (3 x data detected ck cu st v)
    obtain r0 where r0: "r0 \<in> set (d_attachments d)"
      "a' = (if at_id r0 = at_id x then clean_row (e_now env) ck cu st detected data v r0 else r0)"
      using assms(5) unfolding 3(5) upd_attachment_def by (auto elim: in_upd_whereE)
    then have "at_id r0 = at_id a" using assms(6) by (auto simp: clean_row_def split: if_splits)
    then have "r0 = a" using same [OF r0(1)] by simp
    then have "at_id x = at_id a" using r0(2) assms(4,7) by (auto split: if_splits)
    then have "x = a" using same [OF 3(1)] by simp
    then show ?thesis using 3(2,3) verify_bytes_Inr [OF 3(4)] by blast
  qed
qed

section \<open>A concrete finalization\<close>

text \<open>A store that holds one text object and accepts every copy; an attachment in quarantine.\<close>

definition sample_store :: "unit s3" where
  "sample_store = \<lparr>s3_put = (\<lambda>_ b. (Some None, b)), s3_copy = (\<lambda>_ _ _ _ b. (Some None, b)),
     s3_delete = (\<lambda>_ _ b. (Some (), b)), s3_head = (\<lambda>_ _ _. HeadNotFound),
     s3_get = (\<lambda>_ _ _ _. Some (lit ''hi'')), s3_presign = (\<lambda>_ _ _. None)\<rparr>"

definition sample_attachment :: attachment where
  "sample_attachment = \<lparr>at_id = 5, at_created_at = 0, at_deleted_at = None, at_legal_hold = False,
     at_organization_id = 1, at_workspace_id = 1, at_conversation_id = 1, at_user_id = None, at_device_id = None,
     at_client_attachment_id = [], at_original_filename = None, at_safe_filename = lit ''a.txt'',
     at_declared_mime_type = Some ''text/plain'', at_detected_mime_type = None, at_extension = None,
     at_byte_size = 2, at_verified_byte_size = None, at_sha256 = sha256_hex_bytes (lit ''hi''),
     at_verified_sha256 = None, at_state = AttQuarantine, at_rejection_reason = None, at_metadata_only = False,
     at_source_file_id = None, at_quarantine_s3_key = Some (lit ''k''), at_clean_s3_key = None,
     at_curated_s3_key = None, at_s3_version_id = None, at_presign_issued_at = None,
     at_presign_expires_at = None, at_uploaded_at = None, at_verified_at = None, at_scan_status = None,
     at_scan_result = JObj [], at_exif_stripped = False, at_metadata_json = JObj []\<rparr>"

definition sample_quarantine :: db where
  "sample_quarantine = empty_db\<lparr>d_attachments := [sample_attachment]\<rparr>"

definition sample_job_payload :: json where
  "sample_job_payload = JObj [(''attachment_id'', JStr (uuid_str 5)), (''workspace_hash'', JStr ''w'')]"

lemma sample_finalized:
  obtains r d' a where "handle_finalize_attachment sample_env default_settings sample_store sample_job_payload sample_quarantine ()
      = (Inr r, d', ())"
    "d_attachments d' = [a]" "at_id a = 5" "at_state a = AttClean"
proof -
  have "detect_mime_from_bytes (lit ''hi'') (Some ''text/plain'') = Some ''text/plain''" by code_simp
  then have v: "verify_bytes sample_attachment (lit ''hi'') = Inr ''text/plain''"
    by (simp add: verify_bytes_def sample_attachment_def del: lit_simps) (simp add: lit_def)
  have g: "get_bytes default_settings sample_store k (Some (st_max_attachment_bytes default_settings)) () = Inr (lit ''hi'')" for k
    by (simp add: get_bytes_def sample_store_def default_settings_def)
  have p: "payload_uuid ''attachment_id'' sample_job_payload = Inr 5"
    using uuid_parse_str [of 5] by (simp add: payload_uuid_def sample_job_payload_def jget_def)
  have m: "strip_metadata (lit ''hi'') (Some ''text/plain'') = (lit ''hi'', False)" by (simp add: strip_metadata_def)
  have f: "find (\<lambda>a. at_id a = 5) (d_attachments sample_quarantine) = Some sample_attachment"
    "at_state sample_attachment = AttQuarantine" "truthy (at_quarantine_s3_key sample_attachment)"
    by (simp_all add: sample_quarantine_def sample_attachment_def)
  let ?k = "stage_key sample_env sample_job_payload sample_attachment sample_quarantine Clean"
  let ?a = "clean_row (e_now sample_env) ?k None False ''text/plain'' (lit ''hi'') None sample_attachment"
  have "handle_finalize_attachment sample_env default_settings sample_store sample_job_payload sample_quarantine ()
    = promote sample_env default_settings sample_store sample_job_payload sample_attachment (lit ''hi'') ''text/plain''
        sample_quarantine ()"
    by (simp add: handle_finalize_attachment_def p f g v del: lit_simps)
  moreover have "copy_object default_settings sample_store k k' () = (Inr None, ())" for k k'
    by (simp add: copy_object_def sample_store_def)
  ultimately obtain r where h: "handle_finalize_attachment sample_env default_settings sample_store sample_job_payload
      sample_quarantine () = (Inr r, upd_attachment 5 (clean_row (e_now sample_env) ?k None False ''text/plain'' (lit ''hi'') None)
      sample_quarantine, ())"
    by (simp add: promote_def m Let_def del: lit_simps) (simp add: sample_attachment_def)
  show ?thesis
    by (rule that [OF h, of ?a])
      (simp_all add: upd_attachment_def sample_quarantine_def clean_row_def sample_attachment_def)
qed

theorem finalize_checks_bytes_witness:
  "\<exists>r d'. handle_finalize_attachment sample_env default_settings sample_store sample_job_payload sample_quarantine () = (Inr r, d', ())
     \<and> at_state sample_attachment = AttQuarantine"
proof -
  obtain r d' a where h: "handle_finalize_attachment sample_env default_settings sample_store sample_job_payload sample_quarantine ()
      = (Inr r, d', ())" and a: "d_attachments d' = [a]" "at_id a = 5" "at_state a = AttClean"
    by (rule sample_finalized)
  have s: "distinct (map at_id (d_attachments sample_quarantine))" "sample_attachment \<in> set (d_attachments sample_quarantine)"
    by (simp_all add: sample_quarantine_def)
  have n: "at_state sample_attachment \<noteq> AttClean" "at_id a = at_id sample_attachment"
    by (simp_all add: sample_attachment_def a(2))
  have m: "a \<in> set (d_attachments d')" by (simp add: a(1))
  show ?thesis
    using finalize_checks_bytes [OF h s n(1) m n(2) a(3)] h by blast
qed

theorem clean_means_verified_witness:
  "\<exists>d a. reach att_init (att_step sample_store) d \<and> a \<in> set (d_attachments d) \<and> at_state a = AttClean
     \<and> at_verified_sha256 a = Some (at_sha256 a)"
proof -
  obtain r d' a where h: "handle_finalize_attachment sample_env default_settings sample_store sample_job_payload sample_quarantine ()
      = (Inr r, d', ())" and a: "d_attachments d' = [a]" "at_state a = AttClean"
    by (rule sample_finalized)
  have "att_init sample_quarantine" by (simp add: att_init_def sample_quarantine_def sample_attachment_def)
  then have r: "reach att_init (att_step sample_store) d'"
    by (rule reach_step [OF reach_init]) (rule as_finalize [OF h])
  have m: "a \<in> set (d_attachments d')" by (simp add: a(1))
  show ?thesis using clean_means_verified [OF r m a(2)] r m a(2) by blast
qed

end
