(* ===== verification/Partitions.thy ===== *)
theory Partitions
  imports Dates Config "HOL-Library.List_Lexorder"
begin

text \<open>
  \<open>app/services/partitions.py\<close>: the monthly partitions of the event tables.  The catalogue holds
  what PostgreSQL keeps of them, with the documented effect of the statements: a partition is
  created unless a relation of that name exists, and is refused when its range overlaps another
  one's or when the DEFAULT partition holds a row in its range.  Bounds are day numbers in UTC.
\<close>

definition MONTHS_AHEAD :: nat where
  "MONTHS_AHEAD = 3"

definition MONTHLY_PARTITIONED_TABLES :: "string list" where
  "MONTHLY_PARTITIONED_TABLES = [''capture_events'', ''source_events'', ''audit_events'']"

definition month_start :: "date \<Rightarrow> date" where
  "month_start v = v\<lparr>dt_day := 1\<rparr>"

definition next_month :: "date \<Rightarrow> date" where
  "next_month v = (if dt_month v = 12 then \<lparr>dt_year = dt_year v + 1, dt_month = 1, dt_day = 1\<rparr>
     else \<lparr>dt_year = dt_year v, dt_month = dt_month v + 1, dt_day = 1\<rparr>)"

definition partition_name :: "string \<Rightarrow> date \<Rightarrow> string" where
  "partition_name table start = table @ ''_p'' @ zpad_int 4 (dt_year start) @ zpad_int 2 (dt_month start)"

definition quoted :: "string \<Rightarrow> string" where
  "quoted s = [CHR 0x27] @ s @ [CHR 0x27]"

definition create_partition_sql :: "string \<Rightarrow> date \<Rightarrow> string" where
  "create_partition_sql table start =
     ''CREATE TABLE IF NOT EXISTS '' @ partition_name table start @ '' PARTITION OF '' @ table
     @ '' FOR VALUES FROM ('' @ quoted (date_iso start) @ '') TO ('' @ quoted (date_iso (next_month start)) @ '')''"

definition default_partition_sql :: "string \<Rightarrow> string" where
  "default_partition_sql table = ''CREATE TABLE IF NOT EXISTS '' @ table @ ''_default PARTITION OF '' @ table @ '' DEFAULT''"

section \<open>The catalogue\<close>

record part =
  pn_name :: string
  pn_from :: int
  pn_to :: int

record part_table =
  pt_name :: string
  pt_parts :: "part list"
  pt_default_rows :: "time list"

type_synonym catalog = "part_table list"

definition month_part :: "string \<Rightarrow> date \<Rightarrow> part" where
  "month_part table start = \<lparr>pn_name = partition_name table start, pn_from = days_from_civil start,
     pn_to = days_from_civil (next_month start)\<rparr>"

definition part_covers :: "time \<Rightarrow> part \<Rightarrow> bool" where
  "part_covers t p \<longleftrightarrow> pn_from p \<le> t div DAY \<and> t div DAY < pn_to p"

definition parts_overlap :: "part \<Rightarrow> part \<Rightarrow> bool" where
  "parts_overlap p q \<longleftrightarrow> pn_from p < pn_to q \<and> pn_from q < pn_to p"

definition relation_exists :: "string \<Rightarrow> catalog \<Rightarrow> bool" where
  "relation_exists name cat \<longleftrightarrow> list_ex (\<lambda>t. list_ex (\<lambda>p. pn_name p = name) (pt_parts t)) cat"

definition create_partition :: "string \<Rightarrow> date \<Rightarrow> catalog \<Rightarrow> catalog res" where
  "create_partition table start cat =
     (let p = month_part table start
      in if relation_exists (pn_name p) cat then Inr cat
         else case find (\<lambda>t. pt_name t = table) cat of
           None \<Rightarrow> Inl (OtherException ''ProgrammingError'')
         | Some t \<Rightarrow>
             if list_ex (parts_overlap p) (pt_parts t) \<or> list_ex (\<lambda>r. part_covers r p) (pt_default_rows t)
             then Inl (OtherException ''ProgrammingError'')
             else Inr (upd_where (\<lambda>t. pt_name t = table) (\<lambda>t. t\<lparr>pt_parts := pt_parts t @ [p]\<rparr>) cat))"

section \<open>Operations\<close>

fun ensure_months :: "string \<Rightarrow> nat \<Rightarrow> date \<Rightarrow> catalog \<Rightarrow> (string list \<times> catalog) res" where
  "ensure_months table 0 cursor cat = Inr ([], cat)"
| "ensure_months table (Suc n) cursor cat =
     bindE (create_partition table cursor cat) (\<lambda>c1.
     bindE (ensure_months table n (next_month cursor) c1) (\<lambda>(created, c2).
       Inr (partition_name table cursor # created, c2)))"

fun ensure_tables :: "string list \<Rightarrow> nat \<Rightarrow> date \<Rightarrow> catalog \<Rightarrow> (string list \<times> catalog) res" where
  "ensure_tables [] n start cat = Inr ([], cat)"
| "ensure_tables (table # tables) n start cat =
     bindE (ensure_months table n start cat) (\<lambda>(created, c1).
     bindE (ensure_tables tables n start c1) (\<lambda>(rest, c2). Inr (created @ rest, c2)))"

definition ensure_partitions :: "string list \<Rightarrow> nat \<Rightarrow> time \<Rightarrow> catalog \<Rightarrow> (string list \<times> catalog) res" where
  "ensure_partitions tables months_ahead now cat =
     ensure_tables tables (months_ahead + 1) (month_start (date_of now)) cat"

text \<open>The DEFAULT partition is listed with the others.\<close>

definition list_partitions :: "string \<Rightarrow> catalog \<Rightarrow> string list" where
  "list_partitions table cat = sort_key lit (concat (map (\<lambda>t. (table @ ''_default'') # map pn_name (pt_parts t))
     (filter (\<lambda>t. pt_name t = table) cat)))"

text \<open>\<open>name.rsplit(sep, 1)[-1]\<close>.\<close>

fun after_last_sep :: "string \<Rightarrow> string \<Rightarrow> string option" where
  "after_last_sep sep [] = None"
| "after_last_sep sep (c # cs) = (case after_last_sep sep cs of Some r \<Rightarrow> Some r
     | None \<Rightarrow> if startswith sep (c # cs) then Some (drop (length sep) (c # cs)) else None)"

definition name_suffix_of :: "string \<Rightarrow> string" where
  "name_suffix_of name = (case after_last_sep ''_p'' name of Some r \<Rightarrow> r | None \<Rightarrow> name)"

definition month_of_suffix :: "string \<Rightarrow> date res" where
  "month_of_suffix suffix =
     (let y = int (undec (take 4 suffix)); m = int (undec (drop 4 suffix))
      in if 1 \<le> y \<and> 1 \<le> m \<and> m \<le> 12 \<and> \<not> (y = 9999 \<and> m = 12)
         then Inr \<lparr>dt_year = y, dt_month = m, dt_day = 1\<rparr> else Inl PyValueError)"

definition drop_relation :: "string \<Rightarrow> catalog \<Rightarrow> catalog" where
  "drop_relation name cat = map (\<lambda>t. t\<lparr>pt_parts := del_where (\<lambda>p. pn_name p = name) (pt_parts t)\<rparr>) cat"

fun drop_names :: "string list \<Rightarrow> int \<Rightarrow> bool \<Rightarrow> catalog \<Rightarrow> (string list \<times> catalog) res" where
  "drop_names [] cutoff dry_run cat = Inr ([], cat)"
| "drop_names (name # names) cutoff dry_run cat =
     (let suffix = name_suffix_of name
      in if length suffix \<noteq> 6 \<or> \<not> list_all digit_char suffix then drop_names names cutoff dry_run cat
         else bindE (month_of_suffix suffix) (\<lambda>part_start.
           if days_from_civil (next_month part_start) \<le> cutoff
           then bindE (drop_names names cutoff dry_run (if dry_run then cat else drop_relation name cat))
                  (\<lambda>(dropped, c). Inr (name # dropped, c))
           else drop_names names cutoff dry_run cat))"

definition drop_partitions_older_than :: "string \<Rightarrow> date \<Rightarrow> bool \<Rightarrow> catalog \<Rightarrow> (string list \<times> catalog) res" where
  "drop_partitions_older_than table cutoff dry_run cat =
     drop_names (list_partitions table cat) (days_from_civil cutoff) dry_run cat"

definition default_partition_rowcount :: "string \<Rightarrow> catalog \<Rightarrow> nat res" where
  "default_partition_rowcount table cat = (case find (\<lambda>t. pt_name t = table) cat of
       None \<Rightarrow> Inl (OtherException ''ProgrammingError'') | Some t \<Rightarrow> Inr (length (pt_default_rows t)))"

section \<open>Calendar\<close>

lemma split_year_next:
  assumes "split_year n = (y, doy)"
  shows "n < year_days (y + 1)"
proof -
  define a r1 where "a = n div 146097" and "r1 = n mod 146097"
  define b where "b = min 3 (r1 div 36524)"
  define r2 where "r2 = r1 - 36524 * b"
  define c r3 where "c = r2 div 1461" and "r3 = r2 mod 1461"
  define e where "e = min 3 (r3 div 365)"
  have n: "n = 146097 * a + r1" "0 \<le> r1" "r1 < 146097" by (simp_all add: a_def r1_def)
  have b: "0 \<le> b" "b \<le> 3" "0 \<le> r2" "r2 \<le> 36524" "b < 3 \<longrightarrow> r2 \<le> 36523"
    using n by (auto simp: b_def r2_def min_def)
  have c: "r2 = 1461 * c + r3" "0 \<le> r3" "r3 < 1461" by (simp_all add: c_def r3_def)
  then have c': "0 \<le> c" "c \<le> 24" using b by linarith+
  have e: "0 \<le> e" "e \<le> 3" "365 * e \<le> r3" "e < 3 \<longrightarrow> r3 < 365 * e + 365" using c by (auto simp: e_def min_def)
  have y: "y = 400 * a + 100 * b + 4 * c + e"
    using assms unfolding split_year_def Let_def a_def r1_def b_def r2_def c_def r3_def e_def by simp
  consider "e < 3" | "e = 3" "c < 24" | "e = 3" "c = 24" "b < 3" | "e = 3" "c = 24" "b = 3"
    using b c' e by linarith
  then show ?thesis
  proof cases
    case 1
    then have "y + 1 = 4 * (100 * a + 25 * b + c) + (e + 1)" "e + 1 < 4" using y by simp_all
    then have "(y + 1) div 4 = 100 * a + 25 * b + c" using e by (simp add: div_mult_self1)
    moreover have "(y + 1) div 100 = 4 * a + b" using y e b c' 1 by simp
    moreover have "(y + 1) div 400 = a" using y e b c' 1 by simp
    ultimately show ?thesis using 1 n c e by (simp add: year_days_def y r2_def)
  next
    case 2
    then have "(y + 1) div 4 = 100 * a + 25 * b + c + 1" using y by simp
    moreover have "(y + 1) div 100 = 4 * a + b" using y e b c' 2 by simp
    moreover have "(y + 1) div 400 = a" using y e b c' 2 by simp
    ultimately show ?thesis using 2 n c e by (simp add: year_days_def y r2_def)
  next
    case 3
    then have "(y + 1) div 4 = 100 * a + 25 * b + 25" "(y + 1) div 100 = 4 * a + b + 1" using y by simp_all
    moreover have "(y + 1) div 400 = a" using y b 3 by simp
    ultimately show ?thesis using 3 n b c e by (simp add: year_days_def y r2_def)
  next
    case 4
    then have "(y + 1) div 4 = 100 * a + 100" "(y + 1) div 100 = 4 * a + 4" "(y + 1) div 400 = a + 1" using y by simp_all
    then show ?thesis using 4 n b c e by (simp add: year_days_def y r2_def)
  qed
qed

text \<open>An instant lies in the month its date names.\<close>

lemma day_in_month:
  "days_from_civil (month_start (civil_from_days z)) \<le> z \<and> z < days_from_civil (next_month (month_start (civil_from_days z)))"
proof -
  obtain y doy where s: "split_year (z + EPOCH_SHIFT) = (y, doy)" by fastforce
  note f = split_year_days [OF s] and g = split_year_next [OF s]
  define mp where "mp = (5 * doy + 2) div 153"
  have "153 * mp \<le> 5 * doy + 2" and u: "5 * doy + 2 < 153 * mp + 153" by (simp_all add: mp_def)
  then have mp: "0 \<le> mp" "mp \<le> 11" and m: "month_days mp \<le> doy" using f by (auto simp: month_days_def)
  have "doy < month_days (mp + 1)" using u by (simp add: month_days_def)
  moreover have c: "civil_from_days z = \<lparr>dt_year = (if (if mp < 10 then mp + 3 else mp - 9) \<le> 2 then y + 1 else y),
      dt_month = (if mp < 10 then mp + 3 else mp - 9), dt_day = doy - month_days mp + 1\<rparr>"
    using s by (simp add: civil_from_days_def Let_def mp_def)
  moreover have "mp < 9 \<or> mp = 9 \<or> mp = 10 \<or> mp = 11" using mp by linarith
  ultimately show ?thesis
    using mp m f g
    by (auto simp: month_start_def next_month_def days_from_civil_def Let_def month_days_def)
qed

section \<open>Names determine the month\<close>

lemma undec_zeros: "undec (replicate j (CHR ''0'') @ s) = undec s"
proof -
  have "foldl (\<lambda>a c. 10 * a + digit_val c) 0 (replicate j (CHR ''0'')) = 0"
    by (induction j) (simp_all add: digit_val_def)
  then show ?thesis by (simp add: undec_def)
qed

lemma undec_zpad [simp]: "undec (zpad k n) = n"
  by (simp add: zpad_def undec_zeros undec_dec_nat)

lemma append_tail_inj: "a @ b = c @ d \<Longrightarrow> length b = length d \<Longrightarrow> a = c \<and> b = d"
  by (simp add: append_eq_append_conv)

definition month_ok :: "date \<Rightarrow> bool" where
  "month_ok d \<longleftrightarrow> dt_day d = 1 \<and> 1 \<le> dt_month d \<and> dt_month d \<le> 12 \<and> 0 \<le> dt_year d \<and> dt_year d \<le> 9999"

lemma month_text:
  assumes "month_ok d"
  shows "length (zpad_int 4 (dt_year d)) = 4" "length (zpad_int 2 (dt_month d)) = 2"
  using assms by (auto simp: month_ok_def zpad_int_def intro!: length_zpad)

lemma partition_name_inj:
  assumes "partition_name t d = partition_name u e" "month_ok d" "month_ok e"
  shows "t = u \<and> d = e"
proof -
  have "(t @ ''_p'' @ zpad_int 4 (dt_year d)) @ zpad_int 2 (dt_month d)
      = (u @ ''_p'' @ zpad_int 4 (dt_year e)) @ zpad_int 2 (dt_month e)"
    using assms(1) by (simp only: partition_name_def append_assoc)
  from append_tail_inj [OF this]
  have m: "zpad_int 2 (dt_month d) = zpad_int 2 (dt_month e)"
    and "(t @ ''_p'') @ zpad_int 4 (dt_year d) = (u @ ''_p'') @ zpad_int 4 (dt_year e)"
    by (simp_all only: month_text(2) [OF assms(2)] month_text(2) [OF assms(3)] append_assoc)
  from append_tail_inj [OF this(2)]
  have y: "zpad_int 4 (dt_year d) = zpad_int 4 (dt_year e)" and "t @ ''_p'' = u @ ''_p''"
    by (simp_all only: month_text(1) [OF assms(2)] month_text(1) [OF assms(3)])
  then have t: "t = u" by simp
  have "nat (dt_month d) = nat (dt_month e)" "nat (dt_year d) = nat (dt_year e)"
    using arg_cong [OF m, of undec] arg_cong [OF y, of undec] by (simp_all add: zpad_int_def)
  then have "d = e" using assms(2,3) by (cases d; cases e) (auto simp: month_ok_def)
  then show ?thesis using t by simp
qed

section \<open>The invariant of the catalogue\<close>

definition has_part :: "catalog \<Rightarrow> string \<Rightarrow> part \<Rightarrow> bool" where
  "has_part cat table p \<longleftrightarrow> (\<exists>t\<in>set cat. pt_name t = table \<and> p \<in> set (pt_parts t))"

definition catalog_ok :: "catalog \<Rightarrow> bool" where
  "catalog_ok cat \<longleftrightarrow> distinct (map pt_name cat)
     \<and> (\<forall>table p. has_part cat table p \<longrightarrow> (\<exists>start. month_ok start \<and> p = month_part table start))
     \<and> (\<forall>table p q. has_part cat table p \<longrightarrow> has_part cat table q \<longrightarrow> parts_overlap p q \<longrightarrow> p = q)"

lemma parts_overlap_sym: "parts_overlap p q = parts_overlap q p"
  by (auto simp: parts_overlap_def)

lemma has_part_add:
  assumes "distinct (map pt_name cat)" "find (\<lambda>t. pt_name t = table) cat = Some t0"
  shows "has_part (upd_where (\<lambda>t. pt_name t = table) (\<lambda>t. t\<lparr>pt_parts := pt_parts t @ [p]\<rparr>) cat) u q
    \<longleftrightarrow> has_part cat u q \<or> u = table \<and> q = p"
proof -
  have t0: "t0 \<in> set cat" "pt_name t0 = table" using find_Some_in [OF assms(2)] by simp_all
  let ?f = "\<lambda>t. if pt_name t = table then t\<lparr>pt_parts := pt_parts t @ [p]\<rparr> else t"
  have "has_part (upd_where (\<lambda>t. pt_name t = table) (\<lambda>t. t\<lparr>pt_parts := pt_parts t @ [p]\<rparr>) cat) u q
      \<longleftrightarrow> (\<exists>t\<in>set cat. pt_name (?f t) = u \<and> q \<in> set (pt_parts (?f t)))"
    unfolding has_part_def set_upd_where by blast
  also have "\<dots> \<longleftrightarrow> (\<exists>t\<in>set cat. pt_name t = u \<and> (q \<in> set (pt_parts t) \<or> u = table \<and> q = p))"
    by (intro bex_cong refl) auto
  also have "\<dots> \<longleftrightarrow> has_part cat u q \<or> u = table \<and> q = p"
    using t0 by (auto simp: has_part_def)
  finally show ?thesis .
qed

lemma create_partition_spec:
  assumes "create_partition table start cat = Inr cat'" "catalog_ok cat" "month_ok start"
  shows "catalog_ok cat' \<and> has_part cat' table (month_part table start) \<and> (\<forall>u p. has_part cat u p \<longrightarrow> has_part cat' u p)"
proof (cases "relation_exists (partition_name table start) cat")
  case True
  then obtain t p where t: "t \<in> set cat" "p \<in> set (pt_parts t)" "pn_name p = partition_name table start"
    by (auto simp: relation_exists_def list_ex_iff)
  then have h: "has_part cat (pt_name t) p" by (auto simp: has_part_def)
  then obtain start' where s: "month_ok start'" "p = month_part (pt_name t) start'"
    using assms(2) by (auto simp: catalog_ok_def)
  have "pt_name t = table \<and> start' = start"
    using partition_name_inj [of "pt_name t" start' table start] s t(3) assms(3) by (simp add: month_part_def)
  moreover have "cat' = cat" using True assms(1) by (simp add: create_partition_def month_part_def Let_def)
  ultimately show ?thesis using h s assms(2) by simp
next
  case False
  let ?p = "month_part table start"
  obtain t0 where t0: "find (\<lambda>t. pt_name t = table) cat = Some t0"
    and free: "\<not> list_ex (parts_overlap ?p) (pt_parts t0)"
    and cat': "cat' = upd_where (\<lambda>t. pt_name t = table) (\<lambda>t. t\<lparr>pt_parts := pt_parts t @ [?p]\<rparr>) cat"
    using False assms(1) by (auto simp: create_partition_def month_part_def Let_def split: option.splits if_splits)
  have u: "distinct (map pt_name cat)" using assms(2) by (simp add: catalog_ok_def)
  note h = has_part_add [OF u t0, of ?p]
  have t0': "t0 \<in> set cat" "pt_name t0 = table" using find_Some_in [OF t0] by simp_all
  have alone: "\<not> parts_overlap ?p q" if hq: "has_part cat table q" for q
  proof -
    obtain t where t: "t \<in> set cat" "pt_name t = table" "q \<in> set (pt_parts t)" using hq by (auto simp: has_part_def)
    have "t = t0" by (rule distinct_map_eq [OF u t(1) t0'(1)]) (simp add: t(2) t0'(2))
    then show ?thesis using t(3) free by (simp add: list_ex_iff)
  qed
  have "distinct (map pt_name cat')" using u by (simp add: cat' map_upd_where_same)
  then have "catalog_ok cat'"
    using assms(2,3) alone parts_overlap_sym unfolding catalog_ok_def cat' h by metis
  then show ?thesis unfolding cat' h by simp
qed

lemma next_month_ok: "month_ok d \<Longrightarrow> dt_year d < 9999 \<Longrightarrow> month_ok (next_month d) \<and> dt_year (next_month d) \<le> dt_year d + 1"
  by (auto simp: month_ok_def next_month_def)

lemma ensure_months_spec:
  "ensure_months table n cursor cat = Inr (created, cat') \<Longrightarrow> catalog_ok cat \<Longrightarrow> month_ok cursor
     \<Longrightarrow> dt_year cursor + int n \<le> 9999
   \<Longrightarrow> catalog_ok cat' \<and> (\<forall>u p. has_part cat u p \<longrightarrow> has_part cat' u p)
     \<and> (\<forall>i<n. has_part cat' table (month_part table ((next_month ^^ i) cursor)))"
proof (induction n arbitrary: cursor cat created)
  case (Suc n)
  obtain c1 names where c: "create_partition table cursor cat = Inr c1"
    "ensure_months table n (next_month cursor) c1 = Inr (names, cat')"
    using Suc.prems(1) by (auto simp: bindE_eq_Inr)
  note s = create_partition_spec [OF c(1) Suc.prems(2,3)]
  have "month_ok (next_month cursor)" "dt_year (next_month cursor) + int n \<le> 9999"
    using next_month_ok [OF Suc.prems(3)] Suc.prems(4) by simp_all
  from Suc.IH [OF c(2) s [THEN conjunct1] this] s
  have r: "catalog_ok cat'" "\<And>u p. has_part cat u p \<Longrightarrow> has_part cat' u p"
    "has_part cat' table (month_part table cursor)"
    "\<And>i. i < n \<Longrightarrow> has_part cat' table (month_part table ((next_month ^^ i) (next_month cursor)))" by blast+
  have "has_part cat' table (month_part table ((next_month ^^ i) cursor))" if "i < Suc n" for i
    using that r(3,4) by (cases i) (simp_all add: funpow_swap1)
  then show ?case using r(1,2) by blast
qed simp

lemma ensure_tables_spec:
  "ensure_tables tables n start cat = Inr (created, cat') \<Longrightarrow> catalog_ok cat \<Longrightarrow> month_ok start
     \<Longrightarrow> dt_year start + int n \<le> 9999
   \<Longrightarrow> catalog_ok cat' \<and> (\<forall>u p. has_part cat u p \<longrightarrow> has_part cat' u p)
     \<and> (\<forall>table\<in>set tables. \<forall>i<n. has_part cat' table (month_part table ((next_month ^^ i) start)))"
proof (induction tables arbitrary: cat created)
  case (Cons table tables)
  obtain c1 n1 n2 where c: "ensure_months table n start cat = Inr (n1, c1)" "ensure_tables tables n start c1 = Inr (n2, cat')"
    using Cons.prems(1) by (auto simp: bindE_eq_Inr)
  note m = ensure_months_spec [OF c(1) Cons.prems(2-4)]
  note t = Cons.IH [OF c(2) m [THEN conjunct1] Cons.prems(3,4)]
  show ?case using m t by auto
qed simp

lemma months_cover:
  "f 0 \<le> (k :: int) \<Longrightarrow> k < f n \<Longrightarrow> \<exists>i<n. f i \<le> k \<and> k < f (Suc i)"
proof (induction n)
  case (Suc n)
  then show ?case by (cases "k < f n") (auto simp: less_Suc_eq)
qed simp

text \<open>
  C26. Maintenance leaves no gap: when \<open>ensure_partitions\<close> returns, every instant from the start
  of the current month to the end of the last month ahead, the current instant among them, lies
  in exactly one monthly partition of every table, so its rows bypass the DEFAULT partition; no
  partition was removed, and names still determine bounds.
\<close>

theorem partitions_cover:
  assumes "ensure_partitions tables n now cat = Inr (created, cat')" "catalog_ok cat" "table \<in> set tables"
    and "0 \<le> dt_year (date_of now)" "dt_year (date_of now) + int n < 9999"
  shows "catalog_ok cat' \<and> (\<forall>u p. has_part cat u p \<longrightarrow> has_part cat' u p)
    \<and> (\<exists>p. has_part cat' table p \<and> part_covers now p)
    \<and> (\<forall>t. t div DAY < days_from_civil ((next_month ^^ (n + 1)) (month_start (date_of now))) \<longrightarrow> now \<le> t
         \<longrightarrow> (\<exists>!p. has_part cat' table p \<and> part_covers t p))"
proof -
  define start where "start = month_start (date_of now)"
  have start: "month_ok start" "dt_year start + int (n + 1) \<le> 9999"
    using civil_from_days_range [of "now div DAY"] assms(4,5) by (auto simp: start_def month_ok_def month_start_def date_of_def)
  have "ensure_tables tables (n + 1) start cat = Inr (created, cat')"
    using assms(1) by (simp only: ensure_partitions_def start_def)
  note e = ensure_tables_spec [OF this assms(2) start]
  have parts: "has_part cat' table (month_part table ((next_month ^^ i) start))" if "i < n + 1" for i
    using e assms(3) that by blast
  have low: "days_from_civil start \<le> now div DAY" "now div DAY < days_from_civil (next_month start)"
    using day_in_month [of "now div DAY"] by (simp_all add: start_def date_of_def)
  have cover: "\<exists>p. has_part cat' table p \<and> part_covers t p"
    if t: "t div DAY < days_from_civil ((next_month ^^ (n + 1)) start)" "days_from_civil start \<le> t div DAY" for t
  proof -
    obtain i where "i < n + 1" "days_from_civil ((next_month ^^ i) start) \<le> t div DAY"
        "t div DAY < days_from_civil ((next_month ^^ Suc i) start)"
      using months_cover [of "\<lambda>i. days_from_civil ((next_month ^^ i) start)" "t div DAY" "n + 1"] t by auto
    then show ?thesis using parts [of i] by (auto simp: part_covers_def month_part_def)
  qed
  have unique: "p = q" if "has_part cat' table p" "has_part cat' table q" "part_covers t p" "part_covers t q" for t p q
  proof -
    have "parts_overlap p q" using that(3,4) by (auto simp: part_covers_def parts_overlap_def)
    then show ?thesis using e that(1,2) unfolding catalog_ok_def by blast
  qed
  have "\<exists>p. has_part cat' table p \<and> part_covers now p"
    using parts [of 0] low by (auto simp: part_covers_def month_part_def)
  moreover have "\<exists>!p. has_part cat' table p \<and> part_covers t p"
    if t: "t div DAY < days_from_civil ((next_month ^^ (n + 1)) start)" "now \<le> t" for t
  proof -
    have "days_from_civil start \<le> t div DAY"
      using low(1) zdiv_mono1 [OF t(2), of DAY] by (simp add: DAY_def)
    from cover [OF t(1) this] unique show ?thesis by blast
  qed
  ultimately show ?thesis using e unfolding start_def by blast
qed

definition sample_catalog :: catalog where
  "sample_catalog = [\<lparr>pt_name = ''audit_events'', pt_parts = [], pt_default_rows = []\<rparr>]"

theorem partitions_cover_witness:
  "\<exists>created cat'. ensure_partitions [''audit_events''] 1 0 sample_catalog = Inr (created, cat')
     \<and> (\<exists>p. has_part cat' ''audit_events'' p \<and> part_covers 0 p)"
proof -
  have "case ensure_partitions [''audit_events''] 1 0 sample_catalog of Inr _ \<Rightarrow> True | Inl _ \<Rightarrow> False"
    unfolding sample_catalog_def by code_simp
  then obtain created cat' where e: "ensure_partitions [''audit_events''] 1 0 sample_catalog = Inr (created, cat')"
    by (auto split: sum.splits)
  have c: "catalog_ok sample_catalog" by (simp add: catalog_ok_def has_part_def sample_catalog_def)
  have "dt_year (date_of 0) = 1970" by code_simp
  then show ?thesis using partitions_cover [OF e c, of "''audit_events''"] e by auto
qed

text \<open>A row that reached the DEFAULT partition is never moved: it blocks the creation of its month.\<close>

lemma default_row_blocks:
  assumes "find (\<lambda>t. pt_name t = table) cat = Some t" "r \<in> set (pt_default_rows t)"
    and "part_covers r (month_part table start)" "\<not> relation_exists (partition_name table start) cat"
  shows "create_partition table start cat = Inl (OtherException ''ProgrammingError'')"
  using assms by (auto simp: create_partition_def month_part_def Let_def list_ex_iff)

section \<open>Dropping old partitions\<close>

lemma zpad_digits: "list_all digit_char (zpad_int k n)"
  by (auto simp: zpad_int_def zpad_def list_all_iff digit_char_def dest: dec_nat_chars)

lemma after_last_sep_digits: "list_all digit_char t \<Longrightarrow> after_last_sep ''_p'' (a @ ''_p'' @ t) = Some t"
proof -
  have none: "list_all digit_char t \<Longrightarrow> after_last_sep ''_p'' t = None" for t
    by (induction t) (auto simp: startswith_def digit_char_def)
  assume t: "list_all digit_char t"
  show ?thesis
    by (induction a) (simp_all add: none [OF t] startswith_def)
qed

lemma after_last_sep_suffix: "after_last_sep sep s = Some r \<Longrightarrow> \<exists>a. s = a @ r"
proof (induction s arbitrary: r)
  case (Cons c cs)
  show ?case
  proof (cases "after_last_sep sep cs")
    case None
    then have "r = drop (length sep) (c # cs)" using Cons.prems by (auto split: if_splits)
    then show ?thesis by (metis append_take_drop_id)
  next
    case (Some r')
    then show ?thesis using Cons by (metis append_Cons after_last_sep.simps(2) option.simps(5))
  qed
qed simp

lemma default_not_month: "\<not> (length (name_suffix_of (table @ ''_default'')) = 6 \<and> list_all digit_char (name_suffix_of (table @ ''_default'')))"
proof
  let ?n = "table @ ''_default''" and ?r = "name_suffix_of (table @ ''_default'')"
  assume a: "length ?r = 6 \<and> list_all digit_char ?r"
  obtain b where "?n = b @ ?r"
    using after_last_sep_suffix [of "''_p''" ?n] by (cases "after_last_sep ''_p'' ?n") (auto simp: name_suffix_of_def)
  then have "last ?r = last ?n" using a by (metis last_appendR length_0_conv zero_neq_numeral)
  then have "last ?r = CHR ''t''" by simp
  moreover have "digit_char (last ?r)" using a by (metis last_in_set length_0_conv list_all_iff zero_neq_numeral)
  ultimately show False by (simp add: digit_char_def)
qed

definition usable_month :: "date \<Rightarrow> bool" where
  "usable_month d \<longleftrightarrow> month_ok d \<and> 1 \<le> dt_year d \<and> dt_year d \<le> 9998"

lemma suffix_of_month:
  assumes "usable_month d"
  shows "name_suffix_of (partition_name table d) = zpad_int 4 (dt_year d) @ zpad_int 2 (dt_month d)"
    "length (name_suffix_of (partition_name table d)) = 6" "list_all digit_char (name_suffix_of (partition_name table d))"
    "month_of_suffix (name_suffix_of (partition_name table d)) = Inr d"
proof -
  have l: "length (zpad_int 4 (dt_year d)) = 4" "length (zpad_int 2 (dt_month d)) = 2"
    using month_text assms by (auto simp: usable_month_def)
  show s: "name_suffix_of (partition_name table d) = zpad_int 4 (dt_year d) @ zpad_int 2 (dt_month d)"
    unfolding name_suffix_of_def partition_name_def by (subst after_last_sep_digits) (simp_all add: zpad_digits)
  then show "length (name_suffix_of (partition_name table d)) = 6" "list_all digit_char (name_suffix_of (partition_name table d))"
    by (simp_all add: l zpad_digits)
  have "undec (zpad_int 4 (dt_year d)) = nat (dt_year d)" "undec (zpad_int 2 (dt_month d)) = nat (dt_month d)"
    by (simp_all add: zpad_int_def)
  moreover have "take 4 (zpad_int 4 (dt_year d) @ zpad_int 2 (dt_month d)) = zpad_int 4 (dt_year d)"
    "drop 4 (zpad_int 4 (dt_year d) @ zpad_int 2 (dt_month d)) = zpad_int 2 (dt_month d)"
    by (simp_all add: l)
  moreover have "\<lparr>dt_year = dt_year d, dt_month = dt_month d, dt_day = 1\<rparr> = d"
    using assms by (cases d) (simp add: usable_month_def month_ok_def)
  ultimately show "month_of_suffix (name_suffix_of (partition_name table d)) = Inr d"
    using assms unfolding s month_of_suffix_def by (simp add: usable_month_def month_ok_def)
qed

lemma drop_names_spec:
  assumes "\<forall>n\<in>set ns. n = table @ ''_default'' \<or> (\<exists>d. usable_month d \<and> n = partition_name table d)"
  shows "\<exists>dropped. drop_names ns cutoff dry_run cat = Inr (dropped, if dry_run then cat else fold drop_relation dropped cat)
    \<and> (\<forall>n. n \<in> set dropped \<longleftrightarrow> n \<in> set ns \<and>
         (\<exists>d. usable_month d \<and> n = partition_name table d \<and> days_from_civil (next_month d) \<le> cutoff))"
  using assms
proof (induction ns arbitrary: cat)
  case (Cons n ns)
  have def: "\<not> (usable_month d \<and> table @ ''_default'' = partition_name table d)" for d
    using suffix_of_month(2,3) [of d table] default_not_month [of table] by auto
  have inj: "partition_name table d = partition_name table e \<Longrightarrow> usable_month d \<Longrightarrow> usable_month e \<Longrightarrow> d = e" for d e
    using partition_name_inj by (auto simp: usable_month_def)
  show ?case
  proof (cases "n = table @ ''_default''")
    case True
    then have "drop_names (n # ns) cutoff dry_run cat = drop_names ns cutoff dry_run cat"
      using default_not_month [of table] by (simp add: Let_def)
    moreover obtain dr where "drop_names ns cutoff dry_run cat = Inr (dr, if dry_run then cat else fold drop_relation dr cat)"
      "\<forall>n. n \<in> set dr \<longleftrightarrow> n \<in> set ns \<and>
         (\<exists>d. usable_month d \<and> n = partition_name table d \<and> days_from_civil (next_month d) \<le> cutoff)"
      using Cons.IH [of cat] Cons.prems by auto
    ultimately show ?thesis using True def by (intro exI [of _ dr]) (metis set_ConsD list.set_intros(2))
  next
    case False
    then obtain d where d: "usable_month d" "n = partition_name table d" using Cons.prems by auto
    note s = suffix_of_month [OF d(1), of table, folded d(2)]
    show ?thesis
    proof (cases "days_from_civil (next_month d) \<le> cutoff")
      case True
      obtain dr where dr: "drop_names ns cutoff dry_run (if dry_run then cat else drop_relation n cat)
          = Inr (dr, if dry_run then (if dry_run then cat else drop_relation n cat)
              else fold drop_relation dr (if dry_run then cat else drop_relation n cat))"
        and m: "\<forall>n. n \<in> set dr \<longleftrightarrow> n \<in> set ns \<and>
         (\<exists>d. usable_month d \<and> n = partition_name table d \<and> days_from_civil (next_month d) \<le> cutoff)"
        using Cons.IH [of "if dry_run then cat else drop_relation n cat"] Cons.prems by auto
      have "drop_names (n # ns) cutoff dry_run cat = Inr (n # dr, if dry_run then cat else fold drop_relation (n # dr) cat)"
        using s True dr by (simp add: Let_def)
      then show ?thesis using m d True by auto
    next
      case False
      then have "drop_names (n # ns) cutoff dry_run cat = drop_names ns cutoff dry_run cat" using s by (simp add: Let_def)
      moreover have "\<not> (\<exists>e. usable_month e \<and> n = partition_name table e \<and> days_from_civil (next_month e) \<le> cutoff)"
        using inj d False by blast
      moreover obtain dr where "drop_names ns cutoff dry_run cat = Inr (dr, if dry_run then cat else fold drop_relation dr cat)"
        "\<forall>n. n \<in> set dr \<longleftrightarrow> n \<in> set ns \<and>
           (\<exists>d. usable_month d \<and> n = partition_name table d \<and> days_from_civil (next_month d) \<le> cutoff)"
        using Cons.IH [of cat] Cons.prems by auto
      ultimately show ?thesis by (intro exI [of _ dr]) (metis set_ConsD list.set_intros(2))
    qed
  qed
qed simp

lemma has_part_drop: "has_part (fold drop_relation ns cat) u p \<longleftrightarrow> has_part cat u p \<and> pn_name p \<notin> set ns"
proof (induction ns arbitrary: cat)
  case (Cons n ns)
  have "has_part (drop_relation n cat) u p \<longleftrightarrow> has_part cat u p \<and> pn_name p \<noteq> n"
    by (auto simp: has_part_def drop_relation_def del_where_def)
  then show ?case using Cons by auto
qed simp

text \<open>
  C27. Dropping by age takes exactly what it should: with monthly partitions of the years 1 to 9998, the call
  returns, names the partitions of the table that end at or before the cutoff, removes those from
  the catalogue and no other of any table, never the DEFAULT one; a dry run removes nothing.
\<close>

theorem drop_partitions_exact:
  assumes "catalog_ok cat" "\<forall>p. has_part cat table p \<longrightarrow> (\<exists>d. usable_month d \<and> p = month_part table d)"
  shows "\<exists>dropped cat'. drop_partitions_older_than table cutoff dry_run cat = Inr (dropped, cat')
    \<and> (\<forall>n. n \<in> set dropped \<longleftrightarrow> (\<exists>p. has_part cat table p \<and> pn_name p = n \<and> pn_to p \<le> days_from_civil cutoff))
    \<and> (\<forall>u p. has_part cat' u p \<longleftrightarrow> has_part cat u p \<and> (dry_run \<or> \<not> (u = table \<and> pn_to p \<le> days_from_civil cutoff)))"
proof -
  have l: "n \<in> set (list_partitions table cat) \<longleftrightarrow> (table \<in> pt_name ` set cat \<and> n = table @ ''_default'')
      \<or> (\<exists>p. has_part cat table p \<and> pn_name p = n)" for n
    by (auto simp: list_partitions_def has_part_def)
  have m: "\<forall>n\<in>set (list_partitions table cat). n = table @ ''_default'' \<or> (\<exists>d. usable_month d \<and> n = partition_name table d)"
  proof
    fix n assume "n \<in> set (list_partitions table cat)"
    then consider "n = table @ ''_default''" | p where "has_part cat table p" "pn_name p = n" unfolding l by blast
    then show "n = table @ ''_default'' \<or> (\<exists>d. usable_month d \<and> n = partition_name table d)"
    proof cases
      case (2 p)
      then obtain d where "usable_month d" "p = month_part table d" using assms(2) by blast
      then show ?thesis using 2 by (auto simp: month_part_def)
    qed simp
  qed
  obtain dropped where d: "drop_partitions_older_than table cutoff dry_run cat
      = Inr (dropped, if dry_run then cat else fold drop_relation dropped cat)"
    and s: "\<forall>n. n \<in> set dropped \<longleftrightarrow> n \<in> set (list_partitions table cat) \<and>
       (\<exists>d. usable_month d \<and> n = partition_name table d \<and> days_from_civil (next_month d) \<le> days_from_civil cutoff)"
    using drop_names_spec [OF m, of "days_from_civil cutoff" dry_run cat] by (auto simp: drop_partitions_older_than_def)
  have inj: "partition_name u e = partition_name table d \<Longrightarrow> month_ok e \<Longrightarrow> usable_month d \<Longrightarrow> u = table \<and> e = d" for u e d
    using partition_name_inj by (auto simp: usable_month_def)
  have mem: "n \<in> set dropped \<longleftrightarrow> (\<exists>p. has_part cat table p \<and> pn_name p = n \<and> pn_to p \<le> days_from_civil cutoff)" for n
  proof
    assume "n \<in> set dropped"
    then obtain d where d: "usable_month d" "n = partition_name table d" "days_from_civil (next_month d) \<le> days_from_civil cutoff"
      and n: "n \<in> set (list_partitions table cat)" using s by blast
    have "n \<noteq> table @ ''_default''" using suffix_of_month(2,3) [OF d(1), of table] default_not_month [of table] d(2) by metis
    then obtain p where p: "has_part cat table p" "pn_name p = n" using n l by blast
    then obtain e where e: "usable_month e" "p = month_part table e" using assms(2) by blast
    then have "e = d" using inj [of table e d] p(2) d by (simp add: month_part_def usable_month_def)
    then show "\<exists>p. has_part cat table p \<and> pn_name p = n \<and> pn_to p \<le> days_from_civil cutoff"
      using p e d by (auto simp: month_part_def)
  next
    assume "\<exists>p. has_part cat table p \<and> pn_name p = n \<and> pn_to p \<le> days_from_civil cutoff"
    then obtain p where p: "has_part cat table p" "pn_name p = n" "pn_to p \<le> days_from_civil cutoff" by blast
    then obtain e where "usable_month e" "p = month_part table e" using assms(2) by blast
    then show "n \<in> set dropped" using p l s by (auto simp: month_part_def)
  qed
  have "has_part cat u p \<Longrightarrow> pn_name p \<in> set dropped \<longleftrightarrow> u = table \<and> pn_to p \<le> days_from_civil cutoff" for u p
  proof
    assume h: "has_part cat u p" and n: "pn_name p \<in> set dropped"
    then obtain q where q: "has_part cat table q" "pn_name q = pn_name p" "pn_to q \<le> days_from_civil cutoff" using mem by blast
    obtain d where d: "usable_month d" "q = month_part table d" using assms(2) q by blast
    obtain e where e: "month_ok e" "p = month_part u e" using assms(1) h unfolding catalog_ok_def by blast
    have "u = table \<and> e = d" using inj [of u e d] q(2) d e by (simp add: month_part_def)
    then show "u = table \<and> pn_to p \<le> days_from_civil cutoff" using q d e by simp
  qed (use mem in blast)
  then have "has_part (if dry_run then cat else fold drop_relation dropped cat) u p
      \<longleftrightarrow> has_part cat u p \<and> (dry_run \<or> \<not> (u = table \<and> pn_to p \<le> days_from_civil cutoff))" for u p
    by (auto simp: has_part_drop)
  then show ?thesis using d mem by blast
qed

definition sample_month :: "int \<Rightarrow> date" where
  "sample_month m = \<lparr>dt_year = 2026, dt_month = m, dt_day = 1\<rparr>"

definition sample_months :: catalog where
  "sample_months = [\<lparr>pt_name = ''audit_events'', pt_parts = [month_part ''audit_events'' (sample_month 1),
     month_part ''audit_events'' (sample_month 3)], pt_default_rows = []\<rparr>]"

lemma sample_months_parts:
  "has_part sample_months u p \<longleftrightarrow> u = ''audit_events''
     \<and> (p = month_part ''audit_events'' (sample_month 1) \<or> p = month_part ''audit_events'' (sample_month 3))"
  by (auto simp: has_part_def sample_months_def)

theorem drop_partitions_exact_witness:
  "\<exists>dropped cat'. drop_partitions_older_than ''audit_events'' \<lparr>dt_year = 2026, dt_month = 2, dt_day = 15\<rparr> False sample_months
       = Inr (dropped, cat')
     \<and> ''audit_events_p202601'' \<in> set dropped
     \<and> \<not> has_part cat' ''audit_events'' (month_part ''audit_events'' (sample_month 1))
     \<and> has_part cat' ''audit_events'' (month_part ''audit_events'' (sample_month 3))"
proof -
  have u: "usable_month (sample_month 1)" "usable_month (sample_month 3)"
    by (simp_all add: usable_month_def month_ok_def sample_month_def)
  have "\<not> parts_overlap (month_part ''audit_events'' (sample_month 1)) (month_part ''audit_events'' (sample_month 3))"
    unfolding sample_month_def by code_simp
  then have ok: "catalog_ok sample_months"
    unfolding catalog_ok_def sample_months_parts using u parts_overlap_sym
    by (auto simp: sample_months_def usable_month_def)
  have m: "\<forall>p. has_part sample_months ''audit_events'' p \<longrightarrow> (\<exists>d. usable_month d \<and> p = month_part ''audit_events'' d)"
    using u by (auto simp: sample_months_parts)
  let ?c = "\<lparr>dt_year = 2026, dt_month = 2, dt_day = 15\<rparr>"
  have n: "pn_name (month_part ''audit_events'' (sample_month 1)) = ''audit_events_p202601''"
    "pn_to (month_part ''audit_events'' (sample_month 1)) \<le> days_from_civil ?c"
    "\<not> pn_to (month_part ''audit_events'' (sample_month 3)) \<le> days_from_civil ?c"
    unfolding sample_month_def by (code_simp, code_simp, code_simp)
  from drop_partitions_exact [OF ok m, of ?c False] show ?thesis
    using n by (auto simp: sample_months_parts)
qed

end
