(* ===== verification/Handlers.thy ===== *)
theory Handlers
  imports Finalize Snapshots Exports Retention Partitions Compliance_Import Jobs
begin

text \<open>
  \<open>app/workers/handlers.py\<close>: the handler of each kind of job.  A handler works on the database its
  session sees, the object store and the catalogue of partitions; it returns its result or the
  exception it raises, with that state as it left it.  \<open>runtime\<close> gathers what the handlers
  read from outside: the clock before and after the handler, the settings, the clients, the draw of
  the backoff, and the text of an exception of a library.
\<close>

record 'b world =
  wd_db :: db
  wd_store :: 'b
  wd_catalog :: catalog

record 'b runtime =
  rt_env :: env
  rt_settings :: settings
  rt_s3 :: "'b s3"
  rt_gzip :: "bytes \<Rightarrow> bytes"
  rt_driver_time :: "string \<Rightarrow> time option"
  rt_text :: "exn \<Rightarrow> ustr"
  rt_random :: rat
  rt_done :: time

type_synonym 'b outcome = "json res \<times> 'b world"

definition skipped :: "string \<Rightarrow> json" where
  "skipped reason = JObj [(''skipped'', JBool True), (''reason'', JStr reason)]"

text \<open>A handler that uses the database alone.\<close>

definition on_db :: "(db \<Rightarrow> json res \<times> db) \<Rightarrow> 'b world \<Rightarrow> 'b outcome" where
  "on_db f w = (let (r, d) = f (wd_db w) in (r, w\<lparr>wd_db := d\<rparr>))"

definition on_store :: "(db \<Rightarrow> 'b \<Rightarrow> 'b handled) \<Rightarrow> 'b world \<Rightarrow> 'b outcome" where
  "on_store f w = (let (r, d, b) = f (wd_db w) (wd_store w) in (r, w\<lparr>wd_db := d, wd_store := b\<rparr>))"

section \<open>Raw event archiving\<close>

definition archive_document :: "capture_event \<Rightarrow> json" where
  "archive_document e = JObj
     [(''schema_version'', JStr (ce_schema_version e)), (''capture_event_id'', JStr (uuid_str (ce_id e))),
      (''organization_id'', JStr (uuid_str (ce_organization_id e))),
      (''workspace_id'', jopt (\<lambda>u. JStr (uuid_str u)) (ce_workspace_id e)),
      (''conversation_id'', jopt (\<lambda>u. JStr (uuid_str u)) (ce_conversation_id e)),
      (''message_id'', jopt (\<lambda>u. JStr (uuid_str u)) (ce_message_id e)),
      (''kind'', JStr (capture_event_kind_str (ce_kind e))), (''idempotency_key'', JStr (ce_idempotency_key e)),
      (''adapter_version'', jopt JStr (ce_adapter_version e)), (''extension_version'', jopt JStr (ce_extension_version e)),
      (''client_captured_at'', jopt (\<lambda>t. JStr (isoformat t)) (ce_client_captured_at e)),
      (''server_received_at'', JStr (isoformat (ce_created_at e))), (''payload'', ce_payload e),
      (''integrity'', JObj [(''payload_sha256'', JStr (ce_payload_sha256 e))])]"

definition archived_event :: "time \<Rightarrow> string \<Rightarrow> string option \<Rightarrow> capture_event \<Rightarrow> capture_event" where
  "archived_event now key version_id e =
     e\<lparr>ce_raw_s3_key := Some key, ce_raw_s3_version_id := version_id, ce_archived_at := Some now\<rparr>"

definition mark_archived :: "time \<Rightarrow> capture_event \<Rightarrow> string \<Rightarrow> string option \<Rightarrow> db \<Rightarrow> db" where
  "mark_archived now e key version_id d =
     d\<lparr>d_capture_events := upd_where (\<lambda>r. ce_id r = ce_id e \<and> ce_created_at r = ce_created_at e)
           (archived_event now key version_id) (d_capture_events d),
       d_versions := (if ce_message_id e = None then d_versions d
         else upd_where (\<lambda>v. mv_capture_event_id v = Some (ce_id e))
           (\<lambda>v. v\<lparr>mv_raw_s3_key := Some key, mv_raw_s3_version_id := version_id\<rparr>) (d_versions d))\<rparr>"

definition archive_event ::
  "time \<Rightarrow> settings \<Rightarrow> 'b s3 \<Rightarrow> capture_event \<Rightarrow> string \<Rightarrow> db \<Rightarrow> 'b \<Rightarrow> 'b handled" where
  "archive_event now s cl e key d b =
     (case put_json s cl (lit key) (archive_document e) [(''capture-event-id'', uuid_str (ce_id e))] b of
        (Inl x, b1) \<Rightarrow> (Inl x, d, b1)
      | (Inr r, b1) \<Rightarrow>
          (Inr (JObj [(''s3_key'', JStr key), (''version_id'', jopt JStr (pr_version_id r)), (''sha256'', JStr (pr_sha256 r))]),
           mark_archived now e key (pr_version_id r) d, b1))"

definition handle_archive_raw_event ::
  "time \<Rightarrow> settings \<Rightarrow> 'b s3 \<Rightarrow> json \<Rightarrow> db \<Rightarrow> 'b \<Rightarrow> 'b handled" where
  "handle_archive_raw_event now s cl payload d b =
     (case payload_uuid ''capture_event_id'' payload of Inl x \<Rightarrow> (Inl x, d, b)
      | Inr eid \<Rightarrow>
      (case find (\<lambda>e. ce_id e = eid) (d_capture_events d) of
         None \<Rightarrow> (Inl (NonRetryableError (''capture event '' @ uuid_str eid @ '' no longer exists'')), d, b)
       | Some e \<Rightarrow>
           if ce_archived_at e \<noteq> None \<and> truthy (ce_raw_s3_key e)
           then (Inr (JObj [(''skipped'', JBool True), (''reason'', JStr ''already_archived''),
                       (''s3_key'', jopt JStr (ce_raw_s3_key e))]), d, b)
           else (case payload_str ''s3_key'' payload of
               None \<Rightarrow> (Inl (NonRetryableError ''s3_key missing from job payload''), d, b)
             | Some key \<Rightarrow> archive_event now s cl e key d b)))"

section \<open>Conversation snapshots\<close>

definition handle_build_snapshot ::
  "time \<Rightarrow> settings \<Rightarrow> 'b s3 \<Rightarrow> json \<Rightarrow> db \<Rightarrow> 'b \<Rightarrow> 'b handled" where
  "handle_build_snapshot now s cl payload d b =
     (case payload_uuid ''conversation_id'' payload of Inl x \<Rightarrow> (Inl x, d, b)
      | Inr cid \<Rightarrow>
      (case find (\<lambda>c. cv_id c = cid) (d_conversations d) of
         None \<Rightarrow> (Inl (NonRetryableError (''conversation '' @ uuid_str cid @ '' no longer exists'')), d, b)
       | Some c \<Rightarrow>
           if cv_deleted_at c \<noteq> None then (Inr (skipped ''conversation_soft_deleted''), d, b)
           else let workspace_hash = (case payload_str ''workspace_hash'' payload of Some h \<Rightarrow> h
                      | None \<Rightarrow> (case find (\<lambda>w. ws_id w = cv_workspace_id c) (d_workspaces d) of
                          Some w \<Rightarrow> ws_workspace_hash w | None \<Rightarrow> ''unknown''))
           in (case write_snapshot s cl now workspace_hash c d b of
                 (Inl x, d1, b1) \<Rightarrow> (Inl x, d1, b1)
               | (Inr (key, digest), d1, b1) \<Rightarrow>
                   (Inr (JObj [(''s3_key'', JText key), (''sha256'', JStr digest),
                      (''snapshot_version'', JInt (cv_snapshot_version c + 1))]), d1, b1))))"

section \<open>Partial reconciliation\<close>

definition reconciled_version :: "time \<Rightarrow> uuid \<Rightarrow> message_version \<Rightarrow> message_version" where
  "reconciled_version now complete_id v =
     v\<lparr>mv_completion_status := CompletionReconciled,
       mv_metadata_json := jmerge (mv_metadata_json v) [(''superseded_by'', JStr (uuid_str complete_id)),
         (''reconciled_at'', JStr (isoformat now))]\<rparr>"

definition reconcile :: "time \<Rightarrow> message \<Rightarrow> message_version \<Rightarrow> db \<Rightarrow> db" where
  "reconcile now m newest d = upd_conversation (msg_conversation_id m) (\<lambda>c. c\<lparr>cv_snapshot_stale := True\<rparr>)
     (d\<lparr>d_messages := upd_where (\<lambda>r. msg_id r = msg_id m)
           (\<lambda>r. r\<lparr>msg_completion_status := CompletionComplete, msg_current_version_id := Some (mv_id newest)\<rparr>) (d_messages d),
        d_versions := upd_where (\<lambda>v. mv_message_id v = msg_id m \<and> mv_completion_status v = CompletionPartial)
           (reconciled_version now (mv_id newest)) (d_versions d)\<rparr>)"

definition complete_version :: "uuid \<Rightarrow> db \<Rightarrow> message_version option" where
  "complete_version mid d = find (\<lambda>v. mv_completion_status v = CompletionComplete)
     (sort_key (\<lambda>v. - mv_version_number v) (filter (\<lambda>v. mv_message_id v = mid) (d_versions d)))"

definition handle_reconcile_partial :: "time \<Rightarrow> json \<Rightarrow> db \<Rightarrow> json res \<times> db" where
  "handle_reconcile_partial now payload d =
     (case payload_uuid ''message_id'' payload of Inl x \<Rightarrow> (Inl x, d)
      | Inr mid \<Rightarrow>
      (case find (\<lambda>m. msg_id m = mid) (d_messages d) of
         None \<Rightarrow> (Inl (NonRetryableError ''message no longer exists''), d)
       | Some m \<Rightarrow>
           if msg_completion_status m = CompletionComplete then (Inr (skipped ''already_complete''), d)
           else (case complete_version (msg_id m) d of
               None \<Rightarrow> (Inr (skipped ''no_complete_version_yet''), d)
             | Some v \<Rightarrow> (Inr (JObj [(''reconciled'', JBool True), (''current_version_id'', JStr (uuid_str (mv_id v)))]),
                 reconcile now m v d))))"

section \<open>Exports\<close>

text \<open>\<open>str(exc)\<close>: the message of the application's own exceptions.\<close>

definition exn_text :: "'b runtime \<Rightarrow> exn \<Rightarrow> ustr" where
  "exn_text rt e = (case e of ValidationError m \<Rightarrow> lit m | AuthenticationError m \<Rightarrow> lit m | AuthorizationError m \<Rightarrow> lit m
     | PolicyError m \<Rightarrow> lit m | NotFoundError m \<Rightarrow> lit m | UpstreamError m \<Rightarrow> lit m | NonRetryableError m \<Rightarrow> lit m
     | _ \<Rightarrow> rt_text rt e)"

definition typed_text :: "'b runtime \<Rightarrow> exn \<Rightarrow> ustr" where
  "typed_text rt e = lit (exn_type e @ '': '') @ exn_text rt e"

definition export_failed :: "ustr \<Rightarrow> export \<Rightarrow> export" where
  "export_failed summary ex = ex\<lparr>ex_status := ExportFailed, ex_error_summary := Some (take 2000 summary)\<rparr>"

definition handle_run_export :: "'b runtime \<Rightarrow> json \<Rightarrow> db \<Rightarrow> 'b \<Rightarrow> 'b handled" where
  "handle_run_export rt payload d b =
     (case payload_uuid ''export_id'' payload of Inl x \<Rightarrow> (Inl x, d, b)
      | Inr eid \<Rightarrow>
      (case find (\<lambda>x. ex_id x = eid) (d_exports d) of
         None \<Rightarrow> (Inl (NonRetryableError ''export no longer exists''), d, b)
       | Some ex \<Rightarrow>
           if ex_status ex = ExportCompleted then (Inr (skipped ''already_completed''), d, b)
           else (case run_export (rt_driver_time rt) (rt_settings rt) (rt_s3 rt) (rt_gzip rt) (e_now (rt_env rt)) ex d b of
               (Inl e, d1, b1) \<Rightarrow> (Inl e, upd_export eid (export_failed (typed_text rt e)) d1, b1)
             | (Inr _, d1, b1) \<Rightarrow>
                 let done_row = (case find (\<lambda>x. ex_id x = eid) (d_exports d1) of Some x \<Rightarrow> x | None \<Rightarrow> ex)
                 in (Inr (JObj [(''conversation_count'', JInt (ex_conversation_count done_row)),
                        (''record_count'', JInt (ex_record_count done_row)),
                        (''manifest_s3_key'', jopt JStr (ex_manifest_s3_key done_row))]), d1, b1))))"

section \<open>Retention and maintenance\<close>

definition SOFT_DELETE_LIMIT :: nat where
  "SOFT_DELETE_LIMIT = 1000"

definition HARD_DELETE_LIMIT :: nat where
  "HARD_DELETE_LIMIT = 200"

definition STALE_PENDING_MINUTES :: int where
  "STALE_PENDING_MINUTES = 60"

fun sweep_policies ::
  "env \<Rightarrow> string option \<Rightarrow> retention_policy list \<Rightarrow> nat \<Rightarrow> nat \<Rightarrow> db \<Rightarrow> (nat \<times> nat) res \<times> db" where
  "sweep_policies env corr [] soft hard d = (Inr (soft, hard), d)"
| "sweep_policies env corr (p # ps) soft hard d =
     (case soft_delete_expired (e_ud env) corr (e_now env) p SOFT_DELETE_LIMIT d of
        Inl e \<Rightarrow> (Inl e, d)
      | Inr (n, d1) \<Rightarrow>
          (case hard_delete_grace_expired (e_ud env) corr (e_now env) p HARD_DELETE_LIMIT d1 of
             Inl e \<Rightarrow> (Inl e, d1)
           | Inr (k, d2) \<Rightarrow> sweep_policies env corr ps (soft + n) (hard + k) d2))"

definition handle_retention_sweep :: "env \<Rightarrow> settings \<Rightarrow> string option \<Rightarrow> db \<Rightarrow> json res \<times> db" where
  "handle_retention_sweep env s corr d =
     (case sweep_policies env corr (filter rp_is_active (d_retention_policies d)) 0 0 d of
        (Inl e, d1) \<Rightarrow> (Inl e, d1)
      | (Inr (soft, hard), d1) \<Rightarrow>
          (case prune_idempotency_keys (e_now env) s d1 of
             Inl e \<Rightarrow> (Inl e, d1)
           | Inr (pruned, d2) \<Rightarrow>
               let (n, d3) = expire_stale_pending (e_now env) STALE_PENDING_MINUTES d2
               in (Inr (JObj [(''soft_deleted'', JInt (int soft)), (''hard_deleted'', JInt (int hard)),
                     (''keys_pruned'', JInt (int pruned)), (''attachments_expired'', JInt (int n))]), d3)))"

fun default_rows :: "string list \<Rightarrow> catalog \<Rightarrow> (string \<times> json) list res" where
  "default_rows [] cat = Inr []"
| "default_rows (table # tables) cat =
     bindE (default_partition_rowcount table cat) (\<lambda>n.
     bindE (default_rows tables cat) (\<lambda>rest. Inr ((table, JInt (int n)) # rest)))"

definition handle_maintain_partitions :: "time \<Rightarrow> 'b world \<Rightarrow> 'b outcome" where
  "handle_maintain_partitions now w =
     (case ensure_partitions MONTHLY_PARTITIONED_TABLES MONTHS_AHEAD now (wd_catalog w) of
        Inl e \<Rightarrow> (Inl e, w)
      | Inr (created, cat) \<Rightarrow>
          (bindE (default_rows [''capture_events'', ''source_events'', ''audit_events''] cat) (\<lambda>rows.
             Inr (JObj [(''partitions_ensured'', JInt (int (length created))), (''default_partition_rows'', JObj rows)])),
           w\<lparr>wd_catalog := cat\<rparr>))"

definition prunable :: "time \<Rightarrow> job \<Rightarrow> bool" where
  "prunable cutoff j \<longleftrightarrow> jb_status j = JobSucceeded \<and> (case jb_finished_at j of None \<Rightarrow> False | Some t \<Rightarrow> t < cutoff)"

text \<open>The attempts of a deleted job go with it (\<open>ON DELETE CASCADE\<close>).\<close>

definition handle_cleanup_stale :: "time \<Rightarrow> db \<Rightarrow> json res \<times> db" where
  "handle_cleanup_stale now d =
     (let cutoff = now - days 14; gone = filter (prunable cutoff) (d_jobs d)
      in (Inr (JObj [(''jobs_pruned'', JInt (int (length gone)))]),
          d\<lparr>d_jobs := del_where (prunable cutoff) (d_jobs d),
            d_job_attempts := del_where (\<lambda>a. ja_job_id a \<in> jb_id ` set gone) (d_job_attempts d)\<rparr>))"

definition IMPORT_LIMIT :: nat where
  "IMPORT_LIMIT = 500"

definition handle_compliance_sync :: "env \<Rightarrow> uuid option \<Rightarrow> db \<Rightarrow> json res \<times> db" where
  "handle_compliance_sync env organization_id d =
     (case (case organization_id of Some oid \<Rightarrow> Some oid
              | None \<Rightarrow> map_option org_id (List.find (\<lambda>_. True) (d_organizations d))) of
        None \<Rightarrow> (Inl (NonRetryableError ''no organization configured''), d)
      | Some oid \<Rightarrow> (case import_pending_source_events env oid IMPORT_LIMIT d of
          Inl e \<Rightarrow> (Inl e, d)
        | Inr (n, d1) \<Rightarrow> (Inr (JObj [(''imported'', JInt (int n))]), d1)))"

section \<open>Dispatch\<close>

text \<open>\<open>HANDLERS\<close> and \<open>get_handler\<close>; the worker sets the correlation id of the job it runs.\<close>

definition job_correlation :: "job \<Rightarrow> string" where
  "job_correlation j = ''job-'' @ take 16 (filter (\<lambda>c. c \<noteq> CHR ''-'') (uuid_str (jb_id j)))"

primrec run_handler :: "job_kind \<Rightarrow> 'b runtime \<Rightarrow> job \<Rightarrow> 'b world \<Rightarrow> 'b outcome" where
  "run_handler KindArchiveRawEvent rt j w =
     on_store (handle_archive_raw_event (e_now (rt_env rt)) (rt_settings rt) (rt_s3 rt) (jb_payload j)) w"
| "run_handler KindBuildConversationSnapshot rt j w =
     on_store (handle_build_snapshot (e_now (rt_env rt)) (rt_settings rt) (rt_s3 rt) (jb_payload j)) w"
| "run_handler KindFinalizeAttachment rt j w =
     on_store (handle_finalize_attachment (rt_env rt) (rt_settings rt) (rt_s3 rt) (jb_payload j)) w"
| "run_handler KindReconcilePartial rt j w = on_db (handle_reconcile_partial (e_now (rt_env rt)) (jb_payload j)) w"
| "run_handler KindRunExport rt j w = on_store (handle_run_export rt (jb_payload j)) w"
| "run_handler KindRetentionSweep rt j w =
     on_db (handle_retention_sweep (rt_env rt) (rt_settings rt) (Some (job_correlation j))) w"
| "run_handler KindMaintainPartitions rt j w = handle_maintain_partitions (e_now (rt_env rt)) w"
| "run_handler KindCleanupStale rt j w = on_db (handle_cleanup_stale (e_now (rt_env rt))) w"
| "run_handler KindComplianceSync rt j w = on_db (handle_compliance_sync (rt_env rt) (jb_organization_id j)) w"

definition get_handler :: "string \<Rightarrow> ('b runtime \<Rightarrow> job \<Rightarrow> 'b world \<Rightarrow> 'b outcome) option" where
  "get_handler kind = map_option run_handler (enum_parse job_kind_values job_kind_str kind)"

lemma get_handler_total: "get_handler (job_kind_str k) = Some (run_handler k)"
  by (simp add: get_handler_def job_kind.parse_value)

section \<open>A job that runs twice\<close>

lemma find_upd_where:
  assumes "\<And>r. k (f r) = k r"
  shows "find (\<lambda>r. k r = i) (upd_where p f rows)
    = map_option (\<lambda>r. if p r then f r else r) (find (\<lambda>r. k r = i) rows)"
  using assms by (induction rows) auto

lemma row_keys [simp]:
  "ce_id (archived_event now key v e) = ce_id e" "at_id (rejected_by_worker now why a) = at_id a"
  "at_id (clean_row now ck cu st det data v a) = at_id a" "ex_id (export_failed sm ex) = ex_id ex"
  by (simp_all add: archived_event_def rejected_by_worker_def clean_row_def export_failed_def)

lemma payload_str_nonempty: "payload_str k p = Some s \<Longrightarrow> s \<noteq> []"
  by (auto simp: payload_str_def split: option.splits json.splits if_splits)

lemma archive_event_Inr:
  assumes "archive_event now s cl e key d b = (Inr r, d1, b1)"
  obtains v where "d1 = mark_archived now e key v d"
  using assms by (auto simp: archive_event_def split: prod.splits sum.splits)

lemma archive_rerun:
  assumes "handle_archive_raw_event now s cl payload d b = (Inr r, d1, b1)"
  shows "snd (handle_archive_raw_event now' s' cl' payload d1 b1) = (d1, b1)"
proof -
  obtain eid e where e: "payload_uuid ''capture_event_id'' payload = Inr eid"
      "find (\<lambda>e. ce_id e = eid) (d_capture_events d) = Some e"
    using assms by (auto simp: handle_archive_raw_event_def split: sum.splits option.splits)
  show ?thesis
  proof (cases "ce_archived_at e \<noteq> None \<and> truthy (ce_raw_s3_key e)")
    case True
    then have "d1 = d" using assms e by (simp add: handle_archive_raw_event_def)
    then show ?thesis using True e by (simp add: handle_archive_raw_event_def)
  next
    case False
    then obtain key where key: "payload_str ''s3_key'' payload = Some key" "archive_event now s cl e key d b = (Inr r, d1, b1)"
      using assms e by (auto simp: handle_archive_raw_event_def split: option.splits if_splits)
    obtain v where "d1 = mark_archived now e key v d" using archive_event_Inr [OF key(2)] .
    then have "find (\<lambda>e. ce_id e = eid) (d_capture_events d1) = Some (archived_event now key v e)"
      using e(2) by (simp add: mark_archived_def find_upd_where [where k = ce_id])
    then show ?thesis using payload_str_nonempty [OF key(1)]
      by (simp add: handle_archive_raw_event_def e(1) archived_event_def)
  qed
qed

lemma find_attachment_upd:
  assumes "\<And>a. at_id (f a) = at_id a" "find (\<lambda>a. at_id a = aid) (d_attachments d) = Some a"
  shows "find (\<lambda>a. at_id a = aid) (d_attachments (upd_attachment (at_id a) f d)) = Some (f a)"
  using assms by (simp add: upd_attachment_def find_upd_where [where k = at_id])

lemma finalize_rerun:
  assumes "handle_finalize_attachment env s cl payload d b = (Inr r, d1, b1)"
  shows "snd (handle_finalize_attachment env' s' cl' payload d1 b1) = (d1, b1)"
proof -
  obtain aid a where a: "payload_uuid ''attachment_id'' payload = Inr aid"
      "find (\<lambda>a. at_id a = aid) (d_attachments d) = Some a"
    using assms by (auto simp: handle_finalize_attachment_def split: sum.splits option.splits)
  show ?thesis
  proof (cases "at_state a = AttClean")
    case True
    then have "d1 = d" using assms a by (simp add: handle_finalize_attachment_def)
    then show ?thesis using True a by (simp add: handle_finalize_attachment_def)
  next
    case False
    then obtain f where "d1 = upd_attachment (at_id a) f d" "\<And>a. at_id (f a) = at_id a" "at_state (f a) \<noteq> AttQuarantine"
      using assms a
      by (auto simp: handle_finalize_attachment_def reject_attachment_def promote_def Let_def case_prod_beta
          rejected_by_worker_def clean_row_def split: sum.splits option.splits if_splits)
    then have "find (\<lambda>a. at_id a = aid) (d_attachments d1) = Some (f a)" "at_state (f a) \<noteq> AttQuarantine"
      using find_attachment_upd [OF _ a(2)] by simp_all
    then show ?thesis by (simp add: handle_finalize_attachment_def a(1))
  qed
qed

lemma reconcile_rerun:
  assumes "handle_reconcile_partial now payload d = (Inr r, d1)"
  shows "snd (handle_reconcile_partial now' payload d1) = d1"
proof -
  obtain mid m where m: "payload_uuid ''message_id'' payload = Inr mid"
      "find (\<lambda>m. msg_id m = mid) (d_messages d) = Some m"
    using assms by (auto simp: handle_reconcile_partial_def split: sum.splits option.splits)
  show ?thesis
  proof (cases "msg_completion_status m = CompletionComplete \<or> complete_version (msg_id m) d = None")
    case True
    then have "d1 = d" using assms m by (auto simp: handle_reconcile_partial_def split: if_splits)
    then show ?thesis using True m by (auto simp: handle_reconcile_partial_def)
  next
    case False
    then obtain v where "d1 = reconcile now m v d"
      using assms m by (auto simp: handle_reconcile_partial_def)
    then have "find (\<lambda>m. msg_id m = mid) (d_messages d1)
        = Some (m\<lparr>msg_completion_status := CompletionComplete, msg_current_version_id := Some (mv_id v)\<rparr>)"
      using m(2) by (simp add: reconcile_def upd_conversation_def find_upd_where [where k = msg_id])
    then show ?thesis by (simp add: handle_reconcile_partial_def m(1))
  qed
qed

lemma find_export_upd:
  assumes "\<And>x. ex_id (f x) = ex_id x" "find (\<lambda>x. ex_id x = i) (d_exports d) = Some x"
  shows "find (\<lambda>x. ex_id x = i) (d_exports (upd_export i f d)) = Some (f x)"
  using assms find_Some_in [OF assms(2)] by (simp add: upd_export_def find_upd_where [where k = ex_id])

lemma export_rerun:
  assumes "handle_run_export rt payload d b = (Inr r, d1, b1)"
  shows "snd (handle_run_export rt' payload d1 b1) = (d1, b1)"
proof -
  obtain eid ex where x: "payload_uuid ''export_id'' payload = Inr eid"
      "find (\<lambda>x. ex_id x = eid) (d_exports d) = Some ex"
    using assms by (auto simp: handle_run_export_def split: sum.splits option.splits)
  show ?thesis
  proof (cases "ex_status ex = ExportCompleted")
    case True
    then have "d1 = d" using assms x by (simp add: handle_run_export_def)
    then show ?thesis using True x by (simp add: handle_run_export_def)
  next
    case False
    let ?now = "e_now (rt_env rt)"
    have "run_export (rt_driver_time rt) (rt_settings rt) (rt_s3 rt) (rt_gzip rt) ?now ex d b = (Inr (), d1, b1)"
      using assms x False by (auto simp: handle_run_export_def Let_def split: prod.splits sum.splits)
    then obtain d2 ids parts mk sha where d: "d2 = upd_export (ex_id ex) (running_export ?now) d"
        "d1 = upd_export (ex_id ex) (completed_export ?now ids parts mk sha) d2"
      by (elim run_export_Inr) blast
    have eid: "ex_id ex = eid" using find_Some_in [OF x(2)] by simp
    have "find (\<lambda>x. ex_id x = eid) (d_exports d2) = Some (running_export ?now ex)"
      unfolding d(1) eid by (rule find_export_upd [OF _ x(2)]) simp
    then have "find (\<lambda>x. ex_id x = eid) (d_exports d1) = Some (completed_export ?now ids parts mk sha (running_export ?now ex))"
      unfolding d(2) eid by (rule find_export_upd [rotated]) simp
    then show ?thesis by (simp add: handle_run_export_def x(1) completed_export_def)
  qed
qed

lemma on_store_rerun:
  assumes "\<And>r d1 b1. f (wd_db w) (wd_store w) = (Inr r, d1, b1) \<Longrightarrow> snd (g d1 b1) = (d1, b1)"
    and "on_store f w = (Inr r, w1)"
  shows "snd (on_store g w1) = w1"
  using assms by (auto simp: on_store_def case_prod_beta prod_eq_iff)

lemma on_db_rerun:
  assumes "\<And>r d1. f (wd_db w) = (Inr r, d1) \<Longrightarrow> snd (g d1) = d1"
    and "on_db f w = (Inr r, w1)"
  shows "snd (on_db g w1) = w1"
  using assms by (auto simp: on_db_def case_prod_beta prod_eq_iff)


definition sample_runtime :: "unit runtime" where
  "sample_runtime = \<lparr>rt_env = sample_env, rt_settings = default_settings, rt_s3 = sample_store, rt_gzip = (\<lambda>b. b),
     rt_driver_time = (\<lambda>_. None), rt_text = (\<lambda>_. []), rt_random = 0, rt_done = 0\<rparr>"

definition sample_job :: "job_kind \<Rightarrow> json \<Rightarrow> job" where
  "sample_job kind payload = \<lparr>jb_id = 7, jb_created_at = 0, jb_organization_id = None, jb_kind = kind,
     jb_status = JobPending, jb_priority = 100, jb_payload = payload, jb_dedupe_key = None, jb_attempts = 0,
     jb_max_attempts = 8, jb_run_after = 0, jb_locked_at = None, jb_locked_by = None, jb_lock_token = None,
     jb_started_at = None, jb_finished_at = None, jb_error_summary = None, jb_result = JObj []\<rparr>"


end
