(* ===== verification/Worker.thy ===== *)
theory Worker
  imports Handlers
begin

text \<open>
  \<open>app/workers/worker.py\<close>: the worker process.  A cycle schedules the periodic jobs, recovers stale
  locks, claims jobs and executes them one after the other in one session, which commits after the
  claim and after each job.  A failure of the database inside a handler makes every later
  statement of the session fail, the ones that would record the failure included: the session rolls
  back to its last commit and the cycle ends.  Signal handling, logging and the counters of
  processed and failed jobs are not modelled.
\<close>

section \<open>Periodic jobs\<close>

definition PERIODIC_JOBS :: "(job_kind \<times> int \<times> int) list" where
  "PERIODIC_JOBS = [(KindMaintainPartitions, 6 * 3600, 800), (KindRetentionSweep, 24 * 3600, 900),
     (KindCleanupStale, 12 * 3600, 950)]"

text \<open>\<open>loop_now\<close> is the monotonic clock of the event loop, in seconds.\<close>

definition periodic_due :: "rat \<Rightarrow> int \<Rightarrow> rat option \<Rightarrow> bool" where
  "periodic_due loop_now interval previous = (case previous of None \<Rightarrow> True | Some t \<Rightarrow> of_int interval \<le> loop_now - t)"

fun ensure_each ::
  "time \<Rightarrow> string \<Rightarrow> rat \<Rightarrow> (job_kind \<times> int \<times> int) list \<Rightarrow> (job_kind \<Rightarrow> rat option) \<Rightarrow> db
     \<Rightarrow> db res \<times> (job_kind \<Rightarrow> rat option)" where
  "ensure_each now worker_id loop_now [] seen d = (Inr d, seen)"
| "ensure_each now worker_id loop_now ((kind, interval, priority) # rest) seen d =
     (if \<not> periodic_due loop_now interval (seen kind) then ensure_each now worker_id loop_now rest seen d
      else let seen1 = seen(kind \<mapsto> loop_now)
           in case enqueue_job now kind (JObj [(''scheduled_by'', JStr worker_id)]) None
                    (Some (''periodic:'' @ job_kind_str kind)) priority None 8 d of
                Inl e \<Rightarrow> (Inl e, seen1)
              | Inr (_, d1) \<Rightarrow> ensure_each now worker_id loop_now rest seen1 d1)"

definition ensure_periodic_jobs ::
  "time \<Rightarrow> string \<Rightarrow> rat \<Rightarrow> (job_kind \<Rightarrow> rat option) \<Rightarrow> db \<Rightarrow> db res \<times> (job_kind \<Rightarrow> rat option)" where
  "ensure_periodic_jobs now worker_id loop_now seen d = ensure_each now worker_id loop_now PERIODIC_JOBS seen d"

section \<open>Executing a job\<close>

definition finished_attempt :: "'b runtime \<Rightarrow> bool \<Rightarrow> string option \<Rightarrow> ustr option \<Rightarrow> job_attempt \<Rightarrow> job_attempt" where
  "finished_attempt rt ok error_type summary a =
     a\<lparr>ja_succeeded := Some ok, ja_error_type := error_type, ja_error_summary := map_option (take 2000) summary,
       ja_finished_at := Some (rt_done rt), ja_duration_ms := Some ((rt_done rt - e_now (rt_env rt)) div 1000)\<rparr>"

definition close_attempt :: "uuid \<Rightarrow> (job_attempt \<Rightarrow> job_attempt) \<Rightarrow> db \<Rightarrow> db" where
  "close_attempt aid f d = d\<lparr>d_job_attempts := upd_where (\<lambda>a. ja_id a = aid) f (d_job_attempts d)\<rparr>"

text \<open>\<open>fail_job\<close> finds the claimed object in the session, with the values read when it was claimed.\<close>

definition fail_claimed :: "'b runtime \<Rightarrow> job \<Rightarrow> uuid \<Rightarrow> ustr \<Rightarrow> bool \<Rightarrow> db \<Rightarrow> db" where
  "fail_claimed rt job lock_token summary retryable d =
     (if jb_lock_token job = Some lock_token
      then fail_write (rt_random rt) (rt_done rt) summary retryable job d else d)"

definition settle :: "'b runtime \<Rightarrow> job \<Rightarrow> uuid \<Rightarrow> uuid \<Rightarrow> json res \<Rightarrow> db \<Rightarrow> db" where
  "settle rt job lock_token aid outcome d = (case outcome of
       Inr result \<Rightarrow> close_attempt aid (finished_attempt rt True None None)
         (snd (complete_job (rt_done rt) (jb_id job) lock_token (Some result) d))
     | Inl (NonRetryableError m) \<Rightarrow> close_attempt aid (finished_attempt rt False (Some ''NonRetryableError'') (Some (lit m)))
         (fail_claimed rt job lock_token (lit m) False d)
     | Inl e \<Rightarrow> close_attempt aid (finished_attempt rt False (Some (exn_type e)) (Some (typed_text rt e)))
         (fail_claimed rt job lock_token (typed_text rt e) True d))"

definition session_lost :: "exn" where
  "session_lost = OtherException ''PendingRollbackError''"

definition handled_job :: "'b runtime \<Rightarrow> job \<Rightarrow> 'b world \<Rightarrow> 'b outcome" where
  "handled_job rt job w = (case get_handler (job_kind_str (jb_kind job)) of
       None \<Rightarrow> (Inl (NonRetryableError (''no handler registered for job kind '' @ job_kind_str (jb_kind job))), w)
     | Some handler \<Rightarrow> handler rt job w)"

definition execute :: "'b runtime \<Rightarrow> string \<Rightarrow> job \<Rightarrow> uuid \<Rightarrow> 'b world \<Rightarrow> unit res \<times> 'b world" where
  "execute rt worker_id job lock_token w =
     (let (attempt, d1) = record_attempt_start (e_now (rt_env rt)) job worker_id False (wd_db w);
          (outcome, w1) = handled_job rt job (w\<lparr>wd_db := d1\<rparr>);
          rolled_back = w1\<lparr>wd_db := wd_db w, wd_catalog := wd_catalog w\<rparr>
      in if (case outcome of Inl e \<Rightarrow> database_failed e | Inr _ \<Rightarrow> False) then (Inl session_lost, rolled_back)
         else case flush (settle rt job lock_token (ja_id attempt) outcome (wd_db w1)) of
                Inl _ \<Rightarrow> (Inl session_lost, rolled_back)
              | Inr d2 \<Rightarrow> (Inr (), w1\<lparr>wd_db := d2\<rparr>))"

section \<open>A cycle\<close>

text \<open>The runtime of the n-th job of a cycle, and the jobs other workers hold locked, are arguments.\<close>

fun run_each :: "(nat \<Rightarrow> 'b runtime) \<Rightarrow> string \<Rightarrow> nat \<Rightarrow> (job \<times> uuid) list \<Rightarrow> 'b world \<Rightarrow> unit res \<times> 'b world" where
  "run_each rts worker_id n [] w = (Inr (), w)"
| "run_each rts worker_id n ((job, lock_token) # rest) w =
     (case execute (rts n) worker_id job lock_token w of
        (Inl e, w1) \<Rightarrow> (Inl e, w1)
      | (Inr _, w1) \<Rightarrow> run_each rts worker_id (Suc n) rest w1)"

definition run_once ::
  "(nat \<Rightarrow> 'b runtime) \<Rightarrow> string \<Rightarrow> nat \<Rightarrow> uuid set \<Rightarrow> time \<Rightarrow> 'b world \<Rightarrow> nat res \<times> 'b world" where
  "run_once rts worker_id concurrency locked now w =
     (let (claimed, d1) = claim_jobs now worker_id concurrency [] locked (wd_db w)
      in if claimed = [] then (Inr 0, w\<lparr>wd_db := d1\<rparr>)
         else case run_each rts worker_id 0 claimed (w\<lparr>wd_db := d1\<rparr>) of
                (Inl e, w1) \<Rightarrow> (Inl e, w1)
              | (Inr _, w1) \<Rightarrow> (Inr (length claimed), w1))"

record worker =
  wr_id :: string
  wr_concurrency :: nat
  wr_last_periodic :: "job_kind \<Rightarrow> rat option"
  wr_idle_cycles :: nat

definition new_worker :: "settings \<Rightarrow> string \<Rightarrow> string option \<Rightarrow> nat option \<Rightarrow> worker" where
  "new_worker s identity worker_id concurrency =
     \<lparr>wr_id = (case str_or worker_id (Some identity) of Some i \<Rightarrow> i | None \<Rightarrow> identity),
      wr_concurrency = (case concurrency of Some n \<Rightarrow> (if n = 0 then nat (max 1 (st_worker_concurrency s)) else n)
        | None \<Rightarrow> nat (max 1 (st_worker_concurrency s))),
      wr_last_periodic = (\<lambda>_. None), wr_idle_cycles = 0\<rparr>"

definition cycle_session ::
  "(nat \<Rightarrow> 'b runtime) \<Rightarrow> settings \<Rightarrow> time \<Rightarrow> rat \<Rightarrow> uuid set \<Rightarrow> worker \<Rightarrow> 'b world
     \<Rightarrow> nat res \<times> worker \<times> 'b world" where
  "cycle_session rts s now loop_now locked wr w =
     (case ensure_periodic_jobs now (wr_id wr) loop_now (wr_last_periodic wr) (wd_db w) of
        (Inl e, seen) \<Rightarrow> (Inl e, wr\<lparr>wr_last_periodic := seen\<rparr>, w)
      | (Inr d1, seen) \<Rightarrow>
          let (recovered, d2) = recover_stale_jobs s now None d1;
              (executed, w1) = run_once rts (wr_id wr) (wr_concurrency wr) locked now (w\<lparr>wd_db := d2\<rparr>)
          in (executed, wr\<lparr>wr_last_periodic := seen\<rparr>, w1))"

text \<open>One turn of \<open>run_forever\<close>: the seconds to wait before the next, when no job ran.\<close>

definition worker_cycle ::
  "(nat \<Rightarrow> 'b runtime) \<Rightarrow> settings \<Rightarrow> time \<Rightarrow> rat \<Rightarrow> uuid set \<Rightarrow> worker \<Rightarrow> 'b world
     \<Rightarrow> rat option \<times> worker \<times> 'b world" where
  "worker_cycle rts s now loop_now locked wr w =
     (let (result, wr1, w1) = cycle_session rts s now loop_now locked wr w;
          executed = (case result of Inl _ \<Rightarrow> 0 | Inr n \<Rightarrow> n)
      in if executed \<noteq> 0 then (None, wr1\<lparr>wr_idle_cycles := 0\<rparr>, w1)
         else let idle = min (wr_idle_cycles wr1 + 1) 10
              in (Some (st_worker_poll_interval_seconds s * (1 + of_nat idle / 4)), wr1\<lparr>wr_idle_cycles := idle\<rparr>, w1))"

section \<open>What the handlers do to the queue\<close>

named_theorems same_jobs \<open>operations that leave the queue as it is\<close>

definition same_queue :: "db \<Rightarrow> db \<Rightarrow> bool" where
  "same_queue d d1 \<longleftrightarrow> d_jobs d1 = d_jobs d \<and> d_job_attempts d1 = d_job_attempts d"

lemma jobs_of_updates [same_jobs]:
  "d_jobs (upd_attachment i f d) = d_jobs d" "d_jobs (upd_conversation i g d) = d_jobs d"
  "d_jobs (upd_export i h d) = d_jobs d" "d_jobs (mark_archived now e key v d) = d_jobs d"
  "d_jobs (reconcile now m c d) = d_jobs d" "d_jobs (snd (uuid4 d)) = d_jobs d"
  "d_jobs (with_pending cs d) = d_jobs d" "d_jobs (delete_conversations ids d) = d_jobs d"
  "d_jobs (snd (record_audit ud corr a args d)) = d_jobs d"
  by (simp_all add: upd_attachment_def upd_conversation_def upd_export_def mark_archived_def reconcile_def uuid4_def
      with_pending_def delete_conversations_def record_audit_def Let_def)

lemma attempts_of_updates [same_jobs]:
  "d_job_attempts (upd_attachment i f d) = d_job_attempts d" "d_job_attempts (upd_conversation i g d) = d_job_attempts d"
  "d_job_attempts (upd_export i h d) = d_job_attempts d" "d_job_attempts (mark_archived now e key v d) = d_job_attempts d"
  "d_job_attempts (reconcile now m c d) = d_job_attempts d" "d_job_attempts (snd (uuid4 d)) = d_job_attempts d"
  "d_job_attempts (with_pending cs d) = d_job_attempts d" "d_job_attempts (delete_conversations ids d) = d_job_attempts d"
  "d_job_attempts (snd (record_audit ud corr a args d)) = d_job_attempts d"
  by (simp_all add: upd_attachment_def upd_conversation_def upd_export_def mark_archived_def reconcile_def uuid4_def
      with_pending_def delete_conversations_def record_audit_def Let_def)

lemma jobs_archive: "handle_archive_raw_event now s cl p d b = (r, d1, b1) \<Longrightarrow> same_queue d d1"
  by (auto simp: same_queue_def handle_archive_raw_event_def archive_event_def same_jobs
      split: sum.splits option.splits if_splits prod.splits)

lemma jobs_snapshot: "handle_build_snapshot now s cl p d b = (r, d1, b1) \<Longrightarrow> same_queue d d1"
  by (auto simp: same_queue_def handle_build_snapshot_def write_snapshot_def Let_def same_jobs
      split: sum.splits option.splits if_splits prod.splits)

lemma jobs_finalize: "handle_finalize_attachment env s cl p d b = (r, d1, b1) \<Longrightarrow> same_queue d d1"
  by (auto simp: same_queue_def handle_finalize_attachment_def reject_attachment_def promote_def Let_def case_prod_beta same_jobs
      split: sum.splits option.splits if_splits)

lemma jobs_reconcile: "handle_reconcile_partial now p d = (r, d1) \<Longrightarrow> same_queue d d1"
  by (auto simp: same_queue_def handle_reconcile_partial_def same_jobs split: sum.splits option.splits if_splits)

lemma jobs_run_export: "run_export drv s cl gz now ex d b = (r, d1, b1) \<Longrightarrow> same_queue d d1"
  by (auto simp: same_queue_def run_export_def upload_export_def Let_def flush_def same_jobs split: sum.splits if_splits prod.splits)

lemma jobs_export: "handle_run_export rt p d b = (r, d1, b1) \<Longrightarrow> same_queue d d1"
  by (auto simp: same_queue_def handle_run_export_def Let_def same_jobs dest: jobs_run_export
      split: sum.splits option.splits if_splits prod.splits)

lemma jobs_soft: "soft_delete_expired ud corr now p n d = Inr (k, d1) \<Longrightarrow> same_queue d d1"
  by (auto simp: same_queue_def soft_delete_expired_def soft_delete_ids_def bindE_eq_Inr Let_def touch_policy_def mark_deleted_def same_jobs
      split: if_splits)

lemma jobs_hard: "hard_delete_grace_expired ud corr now p n d = Inr (k, d1) \<Longrightarrow> same_queue d d1"
  by (auto simp: same_queue_def hard_delete_grace_expired_def hard_delete_ids_def bindE_eq_Inr Let_def same_jobs
      split: if_splits)

lemma jobs_sweep: "sweep_policies env corr ps a c d = (r, d1) \<Longrightarrow> same_queue d d1"
  by (induction ps arbitrary: a c d) (fastforce simp: same_queue_def dest: jobs_soft jobs_hard split: sum.splits prod.splits)+

lemma jobs_retention: "handle_retention_sweep env s corr d = (r, d1) \<Longrightarrow> same_queue d d1"
  by (auto simp: same_queue_def handle_retention_sweep_def prune_idempotency_keys_def expire_stale_pending_def bindE_def Let_def
      dest!: jobs_sweep split: sum.splits prod.splits)

lemma jobs_workspace:
  "get_or_create_compliance_workspace env org wsid pend d = Inr (wsr, pend1, d1) \<Longrightarrow> same_queue d d1"
  by (auto simp: same_queue_def get_or_create_compliance_workspace_def bindE_eq_Inr Let_def uuid4_def same_jobs
      split: option.splits if_splits)

lemma jobs_fold: "fold_event env org e pend d = Inr (pend1, d1) \<Longrightarrow> same_queue d d1"
  by (auto simp: same_queue_def fold_event_def bindE_eq_Inr Let_def uuid4_def mark_processed_def same_jobs
      dest!: jobs_workspace split: option.splits if_splits)

lemma jobs_folds: "fold_events env org es pend d = Inr (pend1, d1) \<Longrightarrow> same_queue d d1"
  by (induction es arbitrary: pend d) (auto simp: same_queue_def bindE_eq_Inr dest!: jobs_fold)

lemma jobs_import: "import_pending_source_events env oid n d = Inr (k, d1) \<Longrightarrow> same_queue d d1"
  by (auto simp: same_queue_def import_pending_source_events_def with_pending_def bindE_eq_Inr Let_def dest!: jobs_folds
      split: option.splits if_splits)

lemma jobs_compliance: "handle_compliance_sync env oid d = (r, d1) \<Longrightarrow> same_queue d d1"
  by (auto simp: same_queue_def handle_compliance_sync_def dest!: jobs_import split: option.splits sum.splits)

text \<open>A handler deletes succeeded jobs at most, and their attempts.\<close>

definition keeps_running :: "db \<Rightarrow> db \<Rightarrow> bool" where
  "keeps_running d d1 \<longleftrightarrow> set (d_jobs d1) \<subseteq> set (d_jobs d)
     \<and> (\<forall>j\<in>set (d_jobs d). jb_status j = JobRunning \<longrightarrow> j \<in> set (d_jobs d1))
     \<and> (\<forall>a\<in>set (d_job_attempts d). (\<forall>j\<in>set (d_jobs d). jb_id j = ja_job_id a \<longrightarrow> jb_status j = JobRunning)
          \<longrightarrow> a \<in> set (d_job_attempts d1))"

lemma same_queue_keeps: "same_queue d d1 \<Longrightarrow> keeps_running d d1"
  by (simp add: same_queue_def keeps_running_def)

lemma cleanup_keeps: "handle_cleanup_stale now d = (r, d1) \<Longrightarrow> keeps_running d d1"
  by (auto simp: handle_cleanup_stale_def keeps_running_def prunable_def Let_def)

lemma maintain_keeps: "handle_maintain_partitions now w = (r, w1) \<Longrightarrow> wd_db w1 = wd_db w"
  by (auto simp: handle_maintain_partitions_def split: sum.splits prod.splits)

lemma on_store_keeps:
  assumes "\<And>r d1 b1. f (wd_db w) (wd_store w) = (r, d1, b1) \<Longrightarrow> same_queue (wd_db w) d1" "on_store f w = (r, w1)"
  shows "keeps_running (wd_db w) (wd_db w1)"
  using assms by (auto simp: on_store_def split: prod.splits intro: same_queue_keeps)

lemma on_db_keeps:
  assumes "\<And>r d1. f (wd_db w) = (r, d1) \<Longrightarrow> keeps_running (wd_db w) d1" "on_db f w = (r, w1)"
  shows "keeps_running (wd_db w) (wd_db w1)"
  using assms by (auto simp: on_db_def split: prod.splits)

lemma handled_keeps:
  assumes "handled_job rt j w = (r, w1)"
  shows "keeps_running (wd_db w) (wd_db w1)"
proof -
  have h: "run_handler (jb_kind j) rt j w = (r, w1)" using assms by (simp add: handled_job_def get_handler_total)
  show ?thesis
  proof (cases "jb_kind j")
    case KindArchiveRawEvent
    then show ?thesis using h by (auto elim!: on_store_keeps [rotated] dest: jobs_archive)
  next
    case KindBuildConversationSnapshot
    then show ?thesis using h by (auto elim!: on_store_keeps [rotated] dest: jobs_snapshot)
  next
    case KindFinalizeAttachment
    then show ?thesis using h by (auto elim!: on_store_keeps [rotated] dest: jobs_finalize)
  next
    case KindReconcilePartial
    then show ?thesis using h by (auto elim!: on_db_keeps [rotated] intro: same_queue_keeps dest: jobs_reconcile)
  next
    case KindRunExport
    then show ?thesis using h by (auto elim!: on_store_keeps [rotated] dest: jobs_export)
  next
    case KindRetentionSweep
    then show ?thesis using h by (auto elim!: on_db_keeps [rotated] intro: same_queue_keeps dest: jobs_retention)
  next
    case KindMaintainPartitions
    then show ?thesis using h by (auto simp: keeps_running_def dest: maintain_keeps)
  next
    case KindCleanupStale
    then show ?thesis using h by (auto elim!: on_db_keeps [rotated] dest: cleanup_keeps)
  next
    case KindComplianceSync
    then show ?thesis using h by (auto elim!: on_db_keeps [rotated] intro: same_queue_keeps dest: jobs_compliance)
  qed
qed

section \<open>A claimed job is settled\<close>

text \<open>The row of the job after its handler has returned or raised an exception.\<close>

definition settled_row :: "'b runtime \<Rightarrow> json res \<Rightarrow> job \<Rightarrow> job" where
  "settled_row rt outcome j = (case outcome of
       Inr result \<Rightarrow> completed_row (rt_done rt) (Some result) j
     | Inl (NonRetryableError m) \<Rightarrow> failed_row (rt_random rt) (rt_done rt) (lit m) False j j
     | Inl e \<Rightarrow> failed_row (rt_random rt) (rt_done rt) (typed_text rt e) True j j)"

lemma close_attempt_jobs [simp]: "d_jobs (close_attempt aid f d) = d_jobs d"
  by (simp add: close_attempt_def)

lemma settle_jobs:
  assumes "jb_lock_token job = Some tok" and "\<And>k. k \<in> set (d_jobs d) \<Longrightarrow> jb_id k = jb_id job \<Longrightarrow> k = job"
  shows "d_jobs (settle rt job tok aid outcome d)
    = map (\<lambda>k. if k = job then settled_row rt outcome job else k) (d_jobs d)"
proof -
  have up: "upd_where (\<lambda>k. jb_id k = jb_id job) g (d_jobs d) = map (\<lambda>k. if k = job then g job else k) (d_jobs d)"
    "upd_where (holds_lock (jb_id job) tok) g (d_jobs d) = map (\<lambda>k. if k = job then g job else k) (d_jobs d)" for g
    unfolding upd_where_def holds_lock_def by (rule map_cong; use assms in auto)+
  show ?thesis
    by (cases outcome; (cases "projl outcome")?)
      (simp_all add: settle_def fail_claimed_def assms(1) complete_job_def fail_write_def settled_row_def up)
qed

lemma settled_row_spec:
  assumes "0 \<le> rt_random rt" "rt_random rt < 1"
  shows "jb_id (settled_row rt outcome j) = jb_id j \<and> jb_lock_token (settled_row rt outcome j) = None
    \<and> jb_attempts (settled_row rt outcome j) = jb_attempts j
    \<and> jb_status (settled_row rt outcome j) = (case outcome of Inr _ \<Rightarrow> JobSucceeded | Inl (NonRetryableError _) \<Rightarrow> JobDead
        | Inl _ \<Rightarrow> if jb_attempts j < jb_max_attempts j then JobPending else JobFailed)
    \<and> (jb_status (settled_row rt outcome j) = JobPending \<longrightarrow> rt_done rt + seconds 5 \<le> jb_run_after (settled_row rt outcome j))"
proof -
  have "seconds 5 \<le> timedelta_seconds (backoff_delay (rt_random rt) (jb_attempts j) True)"
    using backoff_delay_bounds [OF assms, of "jb_attempts j" True]
      timedelta_seconds_bounds [of 5 "backoff_delay (rt_random rt) (jb_attempts j) True" "backoff_ceiling (jb_attempts j)"]
    by simp
  then show ?thesis
    by (auto simp: settled_row_def completed_row_def failed_row_def Let_def split: sum.splits exn.splits)
qed

lemma record_attempt_start_eq:
  "record_attempt_start now job wid b d = (att, d1) \<Longrightarrow> ja_job_id att = jb_id job \<and> ja_attempt_number att = jb_attempts job
     \<and> d_jobs d1 = d_jobs d \<and> d_job_attempts d1 = d_job_attempts d @ [att]"
  by (auto simp: record_attempt_start_def uuid4_def Let_def)

lemma execute_Inr:
  assumes "execute rt wid job tok w = (Inr u, w1)"
  obtains att d1 outcome w2 where
    "record_attempt_start (e_now (rt_env rt)) job wid False (wd_db w) = (att, d1)"
    "handled_job rt job (w\<lparr>wd_db := d1\<rparr>) = (outcome, w2)"
    "wd_db w1 = settle rt job tok (ja_id att) outcome (wd_db w2)"
  using assms by (auto simp: execute_def Let_def split: prod.splits if_splits sum.splits)

lemma in_close_attempt:
  "a \<in> set (d_job_attempts d) \<Longrightarrow> ja_id a = aid \<Longrightarrow> f a \<in> set (d_job_attempts (close_attempt aid f d))"
  unfolding close_attempt_def by (simp add: in_upd_whereI)

lemma settle_attempt:
  assumes "att \<in> set (d_job_attempts d)"
  shows "\<exists>a\<in>set (d_job_attempts (settle rt job tok (ja_id att) outcome d)). ja_id a = ja_id att
    \<and> ja_job_id a = ja_job_id att \<and> ja_attempt_number a = ja_attempt_number att
    \<and> ja_finished_at a = Some (rt_done rt) \<and> ja_succeeded a = Some (\<not> isl outcome)"
proof -
  have keep: "d_job_attempts (fail_claimed rt job tok s b d) = d_job_attempts d"
    "d_job_attempts (snd (complete_job now i t r d)) = d_job_attempts d" for s b now i t r
    by (simp_all add: fail_claimed_def fail_write_def complete_job_def)
  obtain f d2 where s: "settle rt job tok (ja_id att) outcome d = close_attempt (ja_id att) f d2"
      "d_job_attempts d2 = d_job_attempts d" "\<exists>ty sm. f = finished_attempt rt (\<not> isl outcome) ty sm"
    unfolding settle_def by (cases outcome; (cases "projl outcome")?) (fastforce simp: keep)+
  have "f att \<in> set (d_job_attempts (close_attempt (ja_id att) f d2))"
    by (rule in_close_attempt) (use assms s(2) in auto)
  with s show ?thesis by (intro bexI [of _ "f att"]) (auto simp: finished_attempt_def)
qed



definition sample_running :: "job_kind \<Rightarrow> job" where
  "sample_running kind = claimed_row 0 ''w1'' 9 (sample_job kind (JObj []))"

definition sample_world :: "job_kind \<Rightarrow> unit world" where
  "sample_world kind = \<lparr>wd_db = empty_db\<lparr>d_jobs := [sample_running kind], d_next_uuid := 10\<rparr>, wd_store = (), wd_catalog = []\<rparr>"

lemma sample_world_ok: "queue_inv (wd_db (sample_world kind))"
  by (simp add: queue_inv_def jobs_ok_def locks_ok_def lock_row_ok_def sample_world_def sample_running_def
      claimed_row_def sample_job_def)



end
