(* ===== verification/Migration_Ddl.thy ===== *)
theory Migration_Ddl
  imports Prelude
begin

text \<open>
  The schema migrations (\<open>alembic/versions\<close>) as data: the data definition statements of
  \<open>0001_initial\<close> and \<open>0002_fts\<close> in the order they are issued, one definition per table with its
  indexes.  Check constraints and predicates of partial indexes are formulas; a server default is
  the text of its expression, and the expression of the generated column \<open>search_tsv\<close> is left out.  The foreign keys, unique keys and checks are the ones the models
  declare.
\<close>

section \<open>Statements\<close>

datatype sqltype =
    TUuid
  | TTimestamp
  | TVarchar "nat option"
  | TText
  | TInteger
  | TBigint
  | TBoolean
  | TJsonb
  | TInet
  | TEnum string nat "string list"
  | TTsvector

datatype pred =
    PIn string "string list"
  | PAtLeast string int
  | PBetween string int int
  | PIsTrue string
  | PIsNull string
  | PMinLength string nat
  | PLength string nat
  | PAtSignAfterFirst string
  | PNot pred
  | PAnd pred pred
  | POr pred pred

text \<open>Name, type, server default, nullable.\<close>

datatype column = Column string sqltype "string option" bool

datatype on_delete = OnDeleteCascade | OnDeleteSetNull

datatype table_constraint =
    Check pred string
  | PrimaryKey "string list" string
  | Unique "string list" string
  | ForeignKey "string list" string "string list" on_delete string

text \<open>
  A table has a partition column or none; an index has its table, columns, uniqueness and predicate.
\<close>

datatype ddl =
    CreateTable string "column list" "table_constraint list" "string option"
  | CreateIndex string string "string list" bool "pred option"
  | AddColumn string column
  | DropIndex string string
  | DropTable string
  | DropColumn string string

section \<open>0001: the initial schema\<close>

definition create_audit_events :: "ddl list" where
  "create_audit_events =
    [CreateTable ''audit_events''
       [Column ''id'' (TUuid) None False, Column ''created_at'' (TTimestamp) (Some ''now()'') False,
        Column ''organization_id'' (TUuid) None True, Column ''actor_user_id'' (TUuid) None True,
        Column ''actor_email'' (TVarchar (Some 320)) None True, Column ''actor_roles'' (TJsonb) None False,
        Column ''device_id'' (TUuid) None True,
        Column ''action'' (TEnum ''audit_action'' 48 [''admin_read'', ''admin_search'', ''export_created'',
        ''export_downloaded'', ''approval_changed'', ''retention_soft_delete'', ''retention_hard_delete'',
        ''legal_hold_set'', ''legal_hold_cleared'', ''device_revoked'', ''auth_login'', ''auth_refresh'',
        ''auth_denied'', ''config_read'', ''policy_blocked'', ''attachment_presigned'',
        ''attachment_finalized'']) None False,
        Column ''resource_type'' (TVarchar (Some 64)) None True,
        Column ''resource_id'' (TVarchar (Some 255)) None True,
        Column ''outcome'' (TVarchar (Some 32)) None False,
        Column ''ip_hash'' (TVarchar (Some 64)) None True, Column ''source_ip'' (TInet) None True,
        Column ''user_agent_hash'' (TVarchar (Some 64)) None True,
        Column ''correlation_id'' (TVarchar (Some 64)) None True, Column ''details'' (TJsonb) None False]
       [Check (PIn ''outcome'' [''success'', ''failure'', ''denied'']) ''ck_audit_events_outcome_allowed'',
        PrimaryKey [''id'', ''created_at''] ''pk_audit_events'']
       (Some ''created_at''),
     CreateIndex ''ix_audit_events_action'' ''audit_events'' [''action'', ''created_at''] False None,
     CreateIndex ''ix_audit_events_actor'' ''audit_events'' [''actor_user_id'', ''created_at''] False None,
     CreateIndex ''ix_audit_events_org_created'' ''audit_events'' [''organization_id'',
        ''created_at''] False None,
     CreateIndex ''ix_audit_events_resource'' ''audit_events'' [''resource_type'', ''resource_id''] False None]"

definition create_capture_events :: "ddl list" where
  "create_capture_events =
    [CreateTable ''capture_events''
       [Column ''id'' (TUuid) None False, Column ''created_at'' (TTimestamp) (Some ''now()'') False,
        Column ''organization_id'' (TUuid) None False, Column ''workspace_id'' (TUuid) None True,
        Column ''user_id'' (TUuid) None True, Column ''device_id'' (TUuid) None True,
        Column ''conversation_id'' (TUuid) None True, Column ''message_id'' (TUuid) None True,
        Column ''kind'' (TEnum ''capture_event_kind'' 48 [''conversation_upsert'', ''message_version'',
        ''attachment_metadata'', ''feedback'', ''diagnostic'', ''compliance_event'']) None False,
        Column ''idempotency_key'' (TVarchar (Some 128)) None False,
        Column ''status'' (TEnum ''ingest_status'' 48 [''accepted'', ''duplicate'', ''rejected'',
        ''retryable'']) None False,
        Column ''schema_version'' (TVarchar (Some 16)) None False,
        Column ''adapter_version'' (TVarchar (Some 32)) None True,
        Column ''extension_version'' (TVarchar (Some 32)) None True,
        Column ''client_captured_at'' (TTimestamp) None True, Column ''payload'' (TJsonb) None False,
        Column ''payload_sha256'' (TVarchar (Some 64)) None False,
        Column ''payload_bytes'' (TInteger) None False, Column ''raw_s3_key'' (TText) None True,
        Column ''raw_s3_version_id'' (TVarchar (Some 1024)) None True,
        Column ''archived_at'' (TTimestamp) None True, Column ''rejection_reason'' (TText) None True,
        Column ''correlation_id'' (TVarchar (Some 64)) None True]
       [Check (PAtLeast ''payload_bytes'' 0) ''ck_capture_events_payload_bytes_non_negative'',
        PrimaryKey [''id'', ''created_at''] ''pk_capture_events'']
       (Some ''created_at''),
     CreateIndex ''ix_capture_events_conversation'' ''capture_events'' [''conversation_id'',
        ''created_at''] False None,
     CreateIndex ''ix_capture_events_idempotency'' ''capture_events'' [''idempotency_key''] False None,
     CreateIndex ''ix_capture_events_org_created'' ''capture_events'' [''organization_id'',
        ''created_at''] False None,
     CreateIndex ''ix_capture_events_unarchived'' ''capture_events'' [''archived_at'',
        ''created_at''] False None]"

definition create_idempotency_keys :: "ddl list" where
  "create_idempotency_keys =
    [CreateTable ''idempotency_keys''
       [Column ''organization_id'' (TUuid) None False,
        Column ''idempotency_key'' (TVarchar (Some 128)) None False,
        Column ''capture_event_id'' (TUuid) None False,
        Column ''capture_event_created_at'' (TTimestamp) None False,
        Column ''result_ref'' (TJsonb) None False,
        Column ''created_at'' (TTimestamp) (Some ''now()'') False]
       [PrimaryKey [''organization_id'', ''idempotency_key''] ''pk_idempotency_keys'']
       None,
     CreateIndex ''ix_idempotency_keys_created_at'' ''idempotency_keys'' [''created_at''] False None]"

definition create_jobs :: "ddl list" where
  "create_jobs =
    [CreateTable ''jobs''
       [Column ''organization_id'' (TUuid) None True,
        Column ''kind'' (TEnum ''job_kind'' 48 [''archive_raw_event'', ''build_conversation_snapshot'',
        ''finalize_attachment'', ''run_export'', ''retention_sweep'', ''compliance_sync'',
        ''reconcile_partial'', ''maintain_partitions'', ''cleanup_stale'']) None False,
        Column ''status'' (TEnum ''job_status'' 48 [''pending'', ''running'', ''succeeded'', ''failed'',
        ''dead'', ''cancelled'']) None False,
        Column ''priority'' (TInteger) None False, Column ''payload'' (TJsonb) None False,
        Column ''dedupe_key'' (TVarchar (Some 255)) None True, Column ''attempts'' (TInteger) None False,
        Column ''max_attempts'' (TInteger) None False,
        Column ''run_after'' (TTimestamp) (Some ''now()'') False,
        Column ''locked_at'' (TTimestamp) None True, Column ''locked_by'' (TVarchar (Some 128)) None True,
        Column ''lock_token'' (TUuid) None True, Column ''started_at'' (TTimestamp) None True,
        Column ''finished_at'' (TTimestamp) None True, Column ''error_summary'' (TText) None True,
        Column ''result'' (TJsonb) None False, Column ''id'' (TUuid) None False,
        Column ''created_at'' (TTimestamp) (Some ''now()'') False,
        Column ''updated_at'' (TTimestamp) (Some ''now()'') False]
       [Check (PAtLeast ''attempts'' 0) ''ck_jobs_attempts_non_negative'',
        Check (PAtLeast ''max_attempts'' 1) ''ck_jobs_max_attempts_positive'',
        Check (PBetween ''priority'' 0 1000) ''ck_jobs_priority_in_range'',
        PrimaryKey [''id''] ''pk_jobs'']
       None,
     CreateIndex ''ix_jobs_claim'' ''jobs'' [''status'', ''run_after'', ''priority'',
        ''created_at''] False (Some (PIn ''status'' [''pending''])),
     CreateIndex ''ix_jobs_created_at'' ''jobs'' [''created_at''] False None,
     CreateIndex ''ix_jobs_kind_status'' ''jobs'' [''kind'', ''status''] False None,
     CreateIndex ''ix_jobs_stale_locks'' ''jobs'' [''locked_at''] False (Some (PIn ''status'' [''running''])),
     CreateIndex ''uq_jobs_dedupe_active'' ''jobs'' [''dedupe_key''] True (Some (PAnd (PNot (PIsNull ''dedupe_key'')) (PIn ''status'' [''pending'', ''running''])))]"

definition create_organizations :: "ddl list" where
  "create_organizations =
    [CreateTable ''organizations''
       [Column ''slug'' (TVarchar (Some 64)) None False,
        Column ''display_name'' (TVarchar (Some 255)) None False,
        Column ''primary_domain'' (TVarchar (Some 255)) None False,
        Column ''allowed_domains'' (TJsonb) None False, Column ''is_active'' (TBoolean) None False,
        Column ''settings'' (TJsonb) None False, Column ''id'' (TUuid) None False,
        Column ''created_at'' (TTimestamp) (Some ''now()'') False,
        Column ''updated_at'' (TTimestamp) (Some ''now()'') False]
       [Check (PMinLength ''slug'' 1) ''ck_organizations_slug_not_empty'',
        PrimaryKey [''id''] ''pk_organizations'', Unique [''slug''] ''uq_organizations_slug'']
       None,
     CreateIndex ''ix_organizations_created_at'' ''organizations'' [''created_at''] False None,
     CreateIndex ''ix_organizations_primary_domain'' ''organizations'' [''primary_domain''] False None]"

definition create_source_event_keys :: "ddl list" where
  "create_source_event_keys =
    [CreateTable ''source_event_keys''
       [Column ''organization_id'' (TUuid) None False, Column ''source'' (TVarchar (Some 64)) None False,
        Column ''source_event_id'' (TVarchar (Some 255)) None False,
        Column ''source_event_created_at'' (TTimestamp) None False,
        Column ''created_at'' (TTimestamp) (Some ''now()'') False]
       [PrimaryKey [''organization_id'', ''source'', ''source_event_id''] ''pk_source_event_keys'']
       None,
     CreateIndex ''ix_source_event_keys_created_at'' ''source_event_keys'' [''created_at''] False None]"

definition create_source_events :: "ddl list" where
  "create_source_events =
    [CreateTable ''source_events''
       [Column ''id'' (TUuid) None False, Column ''created_at'' (TTimestamp) (Some ''now()'') False,
        Column ''organization_id'' (TUuid) None False, Column ''source'' (TVarchar (Some 64)) None False,
        Column ''source_event_id'' (TVarchar (Some 255)) None False,
        Column ''kind'' (TEnum ''source_event_kind'' 48 [''conversation'', ''message'', ''file'',
        ''deletion'', ''unknown'']) None False,
        Column ''source_conversation_id'' (TVarchar (Some 255)) None True,
        Column ''source_message_id'' (TVarchar (Some 255)) None True,
        Column ''source_workspace_id'' (TVarchar (Some 255)) None True,
        Column ''actor_email_hash'' (TVarchar (Some 64)) None True,
        Column ''event_time'' (TTimestamp) None True, Column ''is_deletion'' (TBoolean) None False,
        Column ''payload'' (TJsonb) None False, Column ''payload_sha256'' (TVarchar (Some 64)) None False,
        Column ''raw_s3_key'' (TText) None True,
        Column ''raw_s3_version_id'' (TVarchar (Some 1024)) None True,
        Column ''processed_at'' (TTimestamp) None True]
       [PrimaryKey [''id'', ''created_at''] ''pk_source_events'']
       (Some ''created_at''),
     CreateIndex ''ix_source_events_conversation'' ''source_events'' [''source_conversation_id''] False None,
     CreateIndex ''ix_source_events_org_event_time'' ''source_events'' [''organization_id'',
        ''event_time''] False None,
     CreateIndex ''ix_source_events_source_event_id'' ''source_events'' [''source'',
        ''source_event_id''] False None]"

definition create_job_attempts :: "ddl list" where
  "create_job_attempts =
    [CreateTable ''job_attempts''
       [Column ''job_id'' (TUuid) None False, Column ''attempt_number'' (TInteger) None False,
        Column ''worker_id'' (TVarchar (Some 128)) None False,
        Column ''started_at'' (TTimestamp) (Some ''now()'') False,
        Column ''finished_at'' (TTimestamp) None True, Column ''duration_ms'' (TInteger) None True,
        Column ''succeeded'' (TBoolean) None True, Column ''error_type'' (TVarchar (Some 128)) None True,
        Column ''error_summary'' (TText) None True, Column ''recovered_stale_lock'' (TBoolean) None False,
        Column ''id'' (TUuid) None False]
       [Check (PAtLeast ''attempt_number'' 1) ''ck_job_attempts_attempt_number_positive'',
        ForeignKey [''job_id''] ''jobs'' [''id''] OnDeleteCascade ''fk_job_attempts_job_id_jobs'',
        PrimaryKey [''id''] ''pk_job_attempts'',
        Unique [''job_id'', ''attempt_number''] ''uq_job_attempts_job_number'']
       None,
     CreateIndex ''ix_job_attempts_started'' ''job_attempts'' [''started_at''] False None]"

definition create_retention_policies :: "ddl list" where
  "create_retention_policies =
    [CreateTable ''retention_policies''
       [Column ''organization_id'' (TUuid) None False, Column ''name'' (TVarchar (Some 128)) None False,
        Column ''description'' (TText) None True, Column ''applies_to'' (TVarchar (Some 64)) None False,
        Column ''retain_days'' (TInteger) None False, Column ''grace_days'' (TInteger) None False,
        Column ''action'' (TEnum ''retention_action'' 48 [''soft_delete'', ''hard_delete'',
        ''anonymize'']) None False,
        Column ''is_default'' (TBoolean) None False, Column ''is_active'' (TBoolean) None False,
        Column ''legal_hold_exempt'' (TBoolean) None False, Column ''last_run_at'' (TTimestamp) None True,
        Column ''id'' (TUuid) None False, Column ''created_at'' (TTimestamp) (Some ''now()'') False,
        Column ''updated_at'' (TTimestamp) (Some ''now()'') False]
       [
        Check (PNot (PAnd (PIsTrue ''legal_hold_exempt'') (PIn ''action'' [''hard_delete'']))) ''ck_retention_policies_legal_hold_exempt_cannot_hard_delete'',
        Check (PIn ''applies_to'' [''conversations'', ''capture_events'', ''source_events'',
        ''audit_events'', ''attachments'', ''exports'']) ''ck_retention_policies_applies_to_allowed'',
        Check (PAtLeast ''grace_days'' 0) ''ck_retention_policies_grace_days_non_negative'',
        Check (PAtLeast ''retain_days'' 1) ''ck_retention_policies_retain_days_positive'',
        ForeignKey [''organization_id''] ''organizations'' [''id''] OnDeleteCascade ''fk_retention_policies_organization_id_organizations'',
        PrimaryKey [''id''] ''pk_retention_policies'',
        Unique [''organization_id'', ''name''] ''uq_retention_policies_org_name'']
       None,
     CreateIndex ''ix_retention_policies_created_at'' ''retention_policies'' [''created_at''] False None,
     CreateIndex ''ix_retention_policies_default'' ''retention_policies'' [''organization_id'',
        ''is_default''] True (Some (PIsTrue ''is_default''))]"

definition create_sync_checkpoints :: "ddl list" where
  "create_sync_checkpoints =
    [CreateTable ''sync_checkpoints''
       [Column ''id'' (TUuid) None False, Column ''organization_id'' (TUuid) None False,
        Column ''source'' (TVarchar (Some 64)) None False,
        Column ''stream'' (TVarchar (Some 64)) None False, Column ''cursor_value'' (TText) None True,
        Column ''window_start'' (TTimestamp) None True, Column ''window_end'' (TTimestamp) None True,
        Column ''last_event_time'' (TTimestamp) None True,
        Column ''last_success_at'' (TTimestamp) None True,
        Column ''last_attempt_at'' (TTimestamp) None True,
        Column ''consecutive_errors'' (TInteger) None False, Column ''total_events'' (TBigint) None False,
        Column ''last_error'' (TText) None True, Column ''state'' (TJsonb) None False,
        Column ''created_at'' (TTimestamp) (Some ''now()'') False,
        Column ''updated_at'' (TTimestamp) (Some ''now()'') False]
       [Check (PAtLeast ''consecutive_errors'' 0) ''ck_sync_checkpoints_consecutive_errors_non_negative'',
        ForeignKey [''organization_id''] ''organizations'' [''id''] OnDeleteCascade ''fk_sync_checkpoints_organization_id_organizations'',
        PrimaryKey [''id''] ''pk_sync_checkpoints'',
        Unique [''organization_id'', ''source'', ''stream''] ''uq_sync_checkpoints_stream'']
       None]"

definition create_users :: "ddl list" where
  "create_users =
    [CreateTable ''users''
       [Column ''organization_id'' (TUuid) None False, Column ''email'' (TVarchar (Some 320)) None False,
        Column ''email_hash'' (TVarchar (Some 64)) None False,
        Column ''display_name'' (TVarchar (Some 255)) None True, Column ''roles'' (TJsonb) None False,
        Column ''is_active'' (TBoolean) None False,
        Column ''notice_acknowledged_at'' (TTimestamp) None True,
        Column ''last_seen_at'' (TTimestamp) None True, Column ''id'' (TUuid) None False,
        Column ''created_at'' (TTimestamp) (Some ''now()'') False,
        Column ''updated_at'' (TTimestamp) (Some ''now()'') False]
       [Check (PAtSignAfterFirst ''email'') ''ck_users_email_looks_valid'',
        ForeignKey [''organization_id''] ''organizations'' [''id''] OnDeleteCascade ''fk_users_organization_id_organizations'',
        PrimaryKey [''id''] ''pk_users'', Unique [''organization_id'', ''email''] ''uq_users_org_email'']
       None,
     CreateIndex ''ix_users_created_at'' ''users'' [''created_at''] False None,
     CreateIndex ''ix_users_email_hash'' ''users'' [''email_hash''] False None]"

definition create_workspaces :: "ddl list" where
  "create_workspaces =
    [CreateTable ''workspaces''
       [Column ''organization_id'' (TUuid) None False,
        Column ''source_workspace_id'' (TVarchar (Some 255)) None True,
        Column ''label'' (TVarchar (Some 255)) None True,
        Column ''workspace_hash'' (TVarchar (Some 64)) None False,
        Column ''kind'' (TEnum ''workspace_kind'' 48 [''managed_company'', ''personal'',
        ''unverified'']) None False,
        Column ''verified_at'' (TTimestamp) None True, Column ''capture_enabled'' (TBoolean) None False,
        Column ''id'' (TUuid) None False, Column ''created_at'' (TTimestamp) (Some ''now()'') False,
        Column ''updated_at'' (TTimestamp) (Some ''now()'') False]
       [
        Check (POr (PNot (PIn ''kind'' [''managed_company''])) (PNot (PIsNull ''capture_enabled''))) ''ck_workspaces_managed_requires_capture_flag'',
        ForeignKey [''organization_id''] ''organizations'' [''id''] OnDeleteCascade ''fk_workspaces_organization_id_organizations'',
        PrimaryKey [''id''] ''pk_workspaces'',
        Unique [''organization_id'', ''workspace_hash''] ''uq_workspaces_org_hash'']
       None,
     CreateIndex ''ix_workspaces_created_at'' ''workspaces'' [''created_at''] False None,
     CreateIndex ''ix_workspaces_source_workspace_id'' ''workspaces'' [''source_workspace_id''] False None]"

definition create_conversations :: "ddl list" where
  "create_conversations =
    [CreateTable ''conversations''
       [Column ''organization_id'' (TUuid) None False, Column ''workspace_id'' (TUuid) None False,
        Column ''user_id'' (TUuid) None True,
        Column ''source_conversation_id'' (TVarchar (Some 255)) None False,
        Column ''source_url'' (TText) None True, Column ''title'' (TText) None True,
        Column ''model_slug'' (TVarchar (Some 128)) None True,
        Column ''capture_sources'' (TJsonb) None False,
        Column ''capture_completeness'' (TEnum ''capture_completeness'' 48 [''complete_current_page'',
        ''partial_scroll_limit'', ''live_only'', ''compliance_verified'', ''reconciled'',
        ''unknown'']) None False,
        Column ''employee_id_hash'' (TVarchar (Some 64)) None True,
        Column ''source_created_at'' (TTimestamp) None True,
        Column ''source_updated_at'' (TTimestamp) None True,
        Column ''first_captured_at'' (TTimestamp) None True,
        Column ''last_captured_at'' (TTimestamp) None True, Column ''message_count'' (TInteger) None False,
        Column ''snapshot_version'' (TInteger) None False, Column ''snapshot_s3_key'' (TText) None True,
        Column ''snapshot_sha256'' (TVarchar (Some 64)) None True,
        Column ''snapshot_stale'' (TBoolean) None False, Column ''retention_policy_id'' (TUuid) None True,
        Column ''metadata_json'' (TJsonb) None False, Column ''id'' (TUuid) None False,
        Column ''created_at'' (TTimestamp) (Some ''now()'') False,
        Column ''updated_at'' (TTimestamp) (Some ''now()'') False,
        Column ''deleted_at'' (TTimestamp) None True, Column ''deletion_reason'' (TVarchar None) None True,
        Column ''legal_hold'' (TBoolean) (Some ''false'') False]
       [
        Check (PNot (PAnd (PIsTrue ''legal_hold'') (PNot (PIsNull ''deleted_at'')))) ''ck_conversations_legal_hold_blocks_soft_delete'',
        Check (PAtLeast ''message_count'' 0) ''ck_conversations_message_count_non_negative'',
        ForeignKey [''organization_id''] ''organizations'' [''id''] OnDeleteCascade ''fk_conversations_organization_id_organizations'',
        ForeignKey [''retention_policy_id''] ''retention_policies'' [''id''] OnDeleteSetNull ''fk_conversations_retention_policy_id_retention_policies'',
        ForeignKey [''user_id''] ''users'' [''id''] OnDeleteSetNull ''fk_conversations_user_id_users'',
        ForeignKey [''workspace_id''] ''workspaces'' [''id''] OnDeleteCascade ''fk_conversations_workspace_id_workspaces'',
        PrimaryKey [''id''] ''pk_conversations'',
        Unique [''organization_id'', ''workspace_id'',
        ''source_conversation_id''] ''uq_conversations_org_workspace_source'']
       None,
     CreateIndex ''ix_conversations_created_at'' ''conversations'' [''created_at''] False None,
     CreateIndex ''ix_conversations_legal_hold'' ''conversations'' [''legal_hold''] False (Some (PIsTrue ''legal_hold'')),
     CreateIndex ''ix_conversations_snapshot_stale'' ''conversations'' [''snapshot_stale''] False (Some (PAnd (PIsTrue ''snapshot_stale'') (PIsNull ''deleted_at''))),
     CreateIndex ''ix_conversations_user_updated'' ''conversations'' [''user_id'',
        ''last_captured_at''] False None,
     CreateIndex ''ix_conversations_workspace_updated'' ''conversations'' [''workspace_id'',
        ''source_updated_at''] False None]"

definition create_devices :: "ddl list" where
  "create_devices =
    [CreateTable ''devices''
       [Column ''user_id'' (TUuid) None False, Column ''organization_id'' (TUuid) None False,
        Column ''device_fingerprint'' (TVarchar (Some 128)) None False,
        Column ''extension_id'' (TVarchar (Some 64)) None True,
        Column ''extension_version'' (TVarchar (Some 32)) None True,
        Column ''adapter_version'' (TVarchar (Some 32)) None True,
        Column ''browser_version'' (TVarchar (Some 64)) None True,
        Column ''platform'' (TVarchar (Some 64)) None True,
        Column ''managed_by_policy'' (TBoolean) None False, Column ''session_id'' (TUuid) None True,
        Column ''refresh_token_hash'' (TVarchar (Some 64)) None True,
        Column ''refresh_token_expires_at'' (TTimestamp) None True,
        Column ''refresh_rotation_counter'' (TInteger) None False,
        Column ''last_seen_at'' (TTimestamp) None True, Column ''last_sync_at'' (TTimestamp) None True,
        Column ''last_ip_hash'' (TVarchar (Some 64)) None True,
        Column ''revoked_at'' (TTimestamp) None True, Column ''revoked_reason'' (TText) None True,
        Column ''id'' (TUuid) None False, Column ''created_at'' (TTimestamp) (Some ''now()'') False,
        Column ''updated_at'' (TTimestamp) (Some ''now()'') False]
       [
        ForeignKey [''organization_id''] ''organizations'' [''id''] OnDeleteCascade ''fk_devices_organization_id_organizations'',
        ForeignKey [''user_id''] ''users'' [''id''] OnDeleteCascade ''fk_devices_user_id_users'',
        PrimaryKey [''id''] ''pk_devices'',
        Unique [''user_id'', ''device_fingerprint''] ''uq_devices_user_fingerprint'']
       None,
     CreateIndex ''ix_devices_created_at'' ''devices'' [''created_at''] False None,
     CreateIndex ''ix_devices_org_last_seen'' ''devices'' [''organization_id'', ''last_seen_at''] False None,
     CreateIndex ''ix_devices_refresh_token_hash'' ''devices'' [''refresh_token_hash''] False None]"

definition create_exports :: "ddl list" where
  "create_exports =
    [CreateTable ''exports''
       [Column ''organization_id'' (TUuid) None False, Column ''requested_by_user_id'' (TUuid) None True,
        Column ''kind'' (TEnum ''export_kind'' 48 [''curated_training_jsonl'', ''compliance_extract'',
        ''legal_hold_bundle'']) None False,
        Column ''status'' (TEnum ''export_status'' 48 [''pending'', ''running'', ''completed'', ''failed'',
        ''cancelled'']) None False,
        Column ''filters'' (TJsonb) None False, Column ''split_strategy'' (TVarchar (Some 32)) None False,
        Column ''split_ratios'' (TJsonb) None False, Column ''include_attachments'' (TBoolean) None False,
        Column ''conversation_count'' (TInteger) None False, Column ''record_count'' (TInteger) None False,
        Column ''byte_size'' (TBigint) None False, Column ''s3_prefix'' (TText) None True,
        Column ''manifest_s3_key'' (TText) None True,
        Column ''manifest_sha256'' (TVarchar (Some 64)) None True, Column ''parts'' (TJsonb) None False,
        Column ''started_at'' (TTimestamp) None True, Column ''completed_at'' (TTimestamp) None True,
        Column ''error_summary'' (TText) None True, Column ''id'' (TUuid) None False,
        Column ''created_at'' (TTimestamp) (Some ''now()'') False,
        Column ''updated_at'' (TTimestamp) (Some ''now()'') False]
       [
        Check (PIn ''split_strategy'' [''conversation_hash'', ''none'']) ''ck_exports_split_strategy_allowed'',
        Check (PAtLeast ''record_count'' 0) ''ck_exports_record_count_non_negative'',
        ForeignKey [''organization_id''] ''organizations'' [''id''] OnDeleteCascade ''fk_exports_organization_id_organizations'',
        ForeignKey [''requested_by_user_id''] ''users'' [''id''] OnDeleteSetNull ''fk_exports_requested_by_user_id_users'',
        PrimaryKey [''id''] ''pk_exports'']
       None,
     CreateIndex ''ix_exports_created_at'' ''exports'' [''created_at''] False None,
     CreateIndex ''ix_exports_org_status'' ''exports'' [''organization_id'', ''status''] False None]"

definition create_legal_holds :: "ddl list" where
  "create_legal_holds =
    [CreateTable ''legal_holds''
       [Column ''organization_id'' (TUuid) None False, Column ''name'' (TVarchar (Some 128)) None False,
        Column ''matter_reference'' (TVarchar (Some 255)) None True, Column ''scope'' (TJsonb) None False,
        Column ''created_by_user_id'' (TUuid) None True, Column ''released_at'' (TTimestamp) None True,
        Column ''released_by_user_id'' (TUuid) None True, Column ''id'' (TUuid) None False,
        Column ''created_at'' (TTimestamp) (Some ''now()'') False,
        Column ''updated_at'' (TTimestamp) (Some ''now()'') False]
       [
        ForeignKey [''created_by_user_id''] ''users'' [''id''] OnDeleteSetNull ''fk_legal_holds_created_by_user_id_users'',
        ForeignKey [''organization_id''] ''organizations'' [''id''] OnDeleteCascade ''fk_legal_holds_organization_id_organizations'',
        ForeignKey [''released_by_user_id''] ''users'' [''id''] OnDeleteSetNull ''fk_legal_holds_released_by_user_id_users'',
        PrimaryKey [''id''] ''pk_legal_holds'',
        Unique [''organization_id'', ''name''] ''uq_legal_holds_org_name'']
       None,
     CreateIndex ''ix_legal_holds_active'' ''legal_holds'' [''organization_id''] False (Some (PIsNull ''released_at'')),
     CreateIndex ''ix_legal_holds_created_at'' ''legal_holds'' [''created_at''] False None]"

definition create_user_identities :: "ddl list" where
  "create_user_identities =
    [CreateTable ''user_identities''
       [Column ''user_id'' (TUuid) None False, Column ''provider'' (TVarchar (Some 64)) None False,
        Column ''issuer'' (TVarchar (Some 255)) None False,
        Column ''subject'' (TVarchar (Some 255)) None False,
        Column ''hosted_domain'' (TVarchar (Some 255)) None True,
        Column ''last_authenticated_at'' (TTimestamp) None True, Column ''id'' (TUuid) None False,
        Column ''created_at'' (TTimestamp) (Some ''now()'') False,
        Column ''updated_at'' (TTimestamp) (Some ''now()'') False]
       [ForeignKey [''user_id''] ''users'' [''id''] OnDeleteCascade ''fk_user_identities_user_id_users'',
        PrimaryKey [''id''] ''pk_user_identities'',
        Unique [''issuer'', ''subject''] ''uq_user_identities_issuer_subject'']
       None,
     CreateIndex ''ix_user_identities_created_at'' ''user_identities'' [''created_at''] False None,
     CreateIndex ''ix_user_identities_user_id'' ''user_identities'' [''user_id''] False None]"

definition create_attachments :: "ddl list" where
  "create_attachments =
    [CreateTable ''attachments''
       [Column ''organization_id'' (TUuid) None False, Column ''workspace_id'' (TUuid) None False,
        Column ''conversation_id'' (TUuid) None False, Column ''user_id'' (TUuid) None True,
        Column ''device_id'' (TUuid) None True,
        Column ''client_attachment_id'' (TVarchar (Some 128)) None False,
        Column ''original_filename'' (TText) None True,
        Column ''safe_filename'' (TVarchar (Some 255)) None False,
        Column ''declared_mime_type'' (TVarchar (Some 255)) None True,
        Column ''detected_mime_type'' (TVarchar (Some 255)) None True,
        Column ''extension'' (TVarchar (Some 32)) None True, Column ''byte_size'' (TBigint) None False,
        Column ''verified_byte_size'' (TBigint) None True,
        Column ''sha256'' (TVarchar (Some 64)) None False,
        Column ''verified_sha256'' (TVarchar (Some 64)) None True,
        Column ''state'' (TEnum ''attachment_state'' 48 [''pending'', ''quarantine'', ''clean'',
        ''rejected'', ''expired'', ''metadata_only'']) None False,
        Column ''rejection_reason'' (TText) None True, Column ''metadata_only'' (TBoolean) None False,
        Column ''source_file_id'' (TVarchar (Some 255)) None True,
        Column ''quarantine_s3_key'' (TText) None True, Column ''clean_s3_key'' (TText) None True,
        Column ''curated_s3_key'' (TText) None True,
        Column ''s3_version_id'' (TVarchar (Some 1024)) None True,
        Column ''presign_issued_at'' (TTimestamp) None True,
        Column ''presign_expires_at'' (TTimestamp) None True,
        Column ''uploaded_at'' (TTimestamp) None True, Column ''verified_at'' (TTimestamp) None True,
        Column ''scan_status'' (TVarchar (Some 32)) None True, Column ''scan_result'' (TJsonb) None False,
        Column ''exif_stripped'' (TBoolean) None False, Column ''metadata_json'' (TJsonb) None False,
        Column ''id'' (TUuid) None False, Column ''created_at'' (TTimestamp) (Some ''now()'') False,
        Column ''updated_at'' (TTimestamp) (Some ''now()'') False,
        Column ''deleted_at'' (TTimestamp) None True, Column ''deletion_reason'' (TVarchar None) None True,
        Column ''legal_hold'' (TBoolean) (Some ''false'') False]
       [
        Check (POr (PNot (PIn ''state'' [''clean''])) (POr (PNot (PIsNull ''clean_s3_key'')) (PIsTrue ''metadata_only''))) ''ck_attachments_clean_requires_key'',
        Check (PAtLeast ''byte_size'' 0) ''ck_attachments_byte_size_non_negative'',
        Check (PLength ''sha256'' 64) ''ck_attachments_sha256_is_hex64'',
        ForeignKey [''conversation_id''] ''conversations'' [''id''] OnDeleteCascade ''fk_attachments_conversation_id_conversations'',
        ForeignKey [''device_id''] ''devices'' [''id''] OnDeleteSetNull ''fk_attachments_device_id_devices'',
        ForeignKey [''organization_id''] ''organizations'' [''id''] OnDeleteCascade ''fk_attachments_organization_id_organizations'',
        ForeignKey [''user_id''] ''users'' [''id''] OnDeleteSetNull ''fk_attachments_user_id_users'',
        ForeignKey [''workspace_id''] ''workspaces'' [''id''] OnDeleteCascade ''fk_attachments_workspace_id_workspaces'',
        PrimaryKey [''id''] ''pk_attachments'',
        Unique [''conversation_id'', ''client_attachment_id''] ''uq_attachments_conversation_client_id'']
       None,
     CreateIndex ''ix_attachments_created_at'' ''attachments'' [''created_at''] False None,
     CreateIndex ''ix_attachments_org_sha'' ''attachments'' [''organization_id'', ''sha256''] False None,
     CreateIndex ''ix_attachments_pending_expiry'' ''attachments'' [''presign_expires_at''] False (Some (PIn ''state'' [''pending''])),
     CreateIndex ''ix_attachments_state_created'' ''attachments'' [''state'', ''created_at''] False None]"

definition create_conversation_branches :: "ddl list" where
  "create_conversation_branches =
    [CreateTable ''conversation_branches''
       [Column ''conversation_id'' (TUuid) None False, Column ''parent_branch_id'' (TUuid) None True,
        Column ''source_branch_id'' (TVarchar (Some 255)) None True,
        Column ''branch_key'' (TVarchar (Some 64)) None False,
        Column ''branch_index'' (TInteger) None False, Column ''is_selected'' (TBoolean) None False,
        Column ''detected_at'' (TTimestamp) None True, Column ''id'' (TUuid) None False,
        Column ''created_at'' (TTimestamp) (Some ''now()'') False,
        Column ''updated_at'' (TTimestamp) (Some ''now()'') False]
       [
        ForeignKey [''conversation_id''] ''conversations'' [''id''] OnDeleteCascade ''fk_conversation_branches_conversation_id_conversations'',
        ForeignKey [''parent_branch_id''] ''conversation_branches'' [''id''] OnDeleteSetNull ''fk_conversation_branches_parent_branch_id_conversation_branches'',
        PrimaryKey [''id''] ''pk_conversation_branches'',
        Unique [''conversation_id'', ''branch_key''] ''uq_branches_conversation_key'']
       None,
     CreateIndex ''ix_branches_conversation_selected'' ''conversation_branches'' [''conversation_id'',
        ''is_selected''] False None,
     CreateIndex ''ix_conversation_branches_created_at'' ''conversation_branches'' [''created_at''] False None]"

definition create_messages :: "ddl list" where
  "create_messages =
    [CreateTable ''messages''
       [Column ''conversation_id'' (TUuid) None False, Column ''organization_id'' (TUuid) None False,
        Column ''branch_id'' (TUuid) None True, Column ''parent_message_id'' (TUuid) None True,
        Column ''source_message_id'' (TVarchar (Some 255)) None True,
        Column ''fingerprint'' (TVarchar (Some 64)) None False,
        Column ''role'' (TEnum ''message_role'' 48 [''user'', ''assistant'', ''tool'', ''system'']) None False,
        Column ''author_name'' (TVarchar (Some 128)) None True,
        Column ''sequence_index'' (TInteger) None False,
        Column ''source_created_at'' (TTimestamp) None True,
        Column ''current_version_id'' (TUuid) None True, Column ''version_count'' (TInteger) None False,
        Column ''completion_status'' (TEnum ''completion_status'' 48 [''complete'', ''partial'',
        ''reconciled'', ''unknown'']) None False,
        Column ''has_attachments'' (TBoolean) None False, Column ''id'' (TUuid) None False,
        Column ''created_at'' (TTimestamp) (Some ''now()'') False,
        Column ''updated_at'' (TTimestamp) (Some ''now()'') False,
        Column ''deleted_at'' (TTimestamp) None True, Column ''deletion_reason'' (TVarchar None) None True,
        Column ''legal_hold'' (TBoolean) (Some ''false'') False]
       [
        Check (PNot (PAnd (PIsTrue ''legal_hold'') (PNot (PIsNull ''deleted_at'')))) ''ck_messages_legal_hold_blocks_soft_delete'',
        Check (PAtLeast ''sequence_index'' 0) ''ck_messages_sequence_index_non_negative'',
        Check (PAtLeast ''version_count'' 0) ''ck_messages_version_count_non_negative'',
        ForeignKey [''branch_id''] ''conversation_branches'' [''id''] OnDeleteSetNull ''fk_messages_branch_id_conversation_branches'',
        ForeignKey [''conversation_id''] ''conversations'' [''id''] OnDeleteCascade ''fk_messages_conversation_id_conversations'',
        ForeignKey [''organization_id''] ''organizations'' [''id''] OnDeleteCascade ''fk_messages_organization_id_organizations'',
        ForeignKey [''parent_message_id''] ''messages'' [''id''] OnDeleteSetNull ''fk_messages_parent_message_id_messages'',
        PrimaryKey [''id''] ''pk_messages'',
        Unique [''conversation_id'', ''fingerprint''] ''uq_messages_conversation_fp'']
       None,
     CreateIndex ''ix_messages_conversation_sequence'' ''messages'' [''conversation_id'',
        ''sequence_index''] False None,
     CreateIndex ''ix_messages_created_at'' ''messages'' [''created_at''] False None,
     CreateIndex ''ix_messages_org_created'' ''messages'' [''organization_id'', ''created_at''] False None,
     CreateIndex ''ix_messages_partial_completion'' ''messages'' [''completion_status''] False (Some (PIn ''completion_status'' [''partial''])),
     CreateIndex ''uq_messages_conversation_source_id'' ''messages'' [''conversation_id'',
        ''source_message_id''] True (Some (PNot (PIsNull ''source_message_id'')))]"

definition create_message_versions :: "ddl list" where
  "create_message_versions =
    [CreateTable ''message_versions''
       [Column ''message_id'' (TUuid) None False, Column ''conversation_id'' (TUuid) None False,
        Column ''organization_id'' (TUuid) None False, Column ''version_number'' (TInteger) None False,
        Column ''is_edit'' (TBoolean) None False, Column ''is_regeneration'' (TBoolean) None False,
        Column ''completion_status'' (TEnum ''completion_status'' 48 [''complete'', ''partial'',
        ''reconciled'', ''unknown'']) None False,
        Column ''plain_text'' (TText) None False, Column ''sanitized_html'' (TText) None True,
        Column ''content_sha256'' (TVarchar (Some 64)) None False,
        Column ''normalized_sha256'' (TVarchar (Some 64)) None False,
        Column ''char_count'' (TInteger) None False, Column ''token_estimate'' (TInteger) None False,
        Column ''captured_at'' (TTimestamp) None False,
        Column ''source_created_at'' (TTimestamp) None True,
        Column ''capture_source'' (TVarchar (Some 32)) None False, Column ''device_id'' (TUuid) None True,
        Column ''capture_event_id'' (TUuid) None True, Column ''raw_s3_key'' (TText) None True,
        Column ''raw_s3_version_id'' (TVarchar (Some 1024)) None True,
        Column ''citations'' (TJsonb) None False, Column ''metadata_json'' (TJsonb) None False,
        Column ''id'' (TUuid) None False, Column ''created_at'' (TTimestamp) (Some ''now()'') False,
        Column ''updated_at'' (TTimestamp) (Some ''now()'') False,
        Column ''deleted_at'' (TTimestamp) None True, Column ''deletion_reason'' (TVarchar None) None True,
        Column ''legal_hold'' (TBoolean) (Some ''false'') False]
       [Check (PAtLeast ''char_count'' 0) ''ck_message_versions_char_count_non_negative'',
        Check (PAtLeast ''version_number'' 1) ''ck_message_versions_version_number_positive'',
        ForeignKey [''conversation_id''] ''conversations'' [''id''] OnDeleteCascade ''fk_message_versions_conversation_id_conversations'',
        ForeignKey [''device_id''] ''devices'' [''id''] OnDeleteSetNull ''fk_message_versions_device_id_devices'',
        ForeignKey [''message_id''] ''messages'' [''id''] OnDeleteCascade ''fk_message_versions_message_id_messages'',
        ForeignKey [''organization_id''] ''organizations'' [''id''] OnDeleteCascade ''fk_message_versions_organization_id_organizations'',
        PrimaryKey [''id''] ''pk_message_versions'',
        Unique [''message_id'', ''normalized_sha256''] ''uq_message_versions_message_content'',
        Unique [''message_id'', ''version_number''] ''uq_message_versions_message_number'']
       None,
     CreateIndex ''ix_message_versions_conv_norm'' ''message_versions'' [''conversation_id'',
        ''normalized_sha256''] False None,
     CreateIndex ''ix_message_versions_conversation'' ''message_versions'' [''conversation_id'',
        ''created_at''] False None,
     CreateIndex ''ix_message_versions_created_at'' ''message_versions'' [''created_at''] False None,
     CreateIndex ''ix_message_versions_org_captured'' ''message_versions'' [''organization_id'',
        ''captured_at''] False None]"

definition create_training_approvals :: "ddl list" where
  "create_training_approvals =
    [CreateTable ''training_approvals''
       [Column ''organization_id'' (TUuid) None False, Column ''conversation_id'' (TUuid) None False,
        Column ''message_id'' (TUuid) None True,
        Column ''status'' (TEnum ''approval_status'' 48 [''pending'', ''approved'', ''rejected'',
        ''withdrawn'']) None False,
        Column ''reviewed_by_user_id'' (TUuid) None True, Column ''reviewed_at'' (TTimestamp) None True,
        Column ''reason'' (TText) None True, Column ''contains_secrets'' (TBoolean) None False,
        Column ''contains_personal_data'' (TBoolean) None False,
        Column ''policy_version'' (TVarchar (Some 32)) None True, Column ''id'' (TUuid) None False,
        Column ''created_at'' (TTimestamp) (Some ''now()'') False,
        Column ''updated_at'' (TTimestamp) (Some ''now()'') False]
       [
        ForeignKey [''conversation_id''] ''conversations'' [''id''] OnDeleteCascade ''fk_training_approvals_conversation_id_conversations'',
        ForeignKey [''message_id''] ''messages'' [''id''] OnDeleteCascade ''fk_training_approvals_message_id_messages'',
        ForeignKey [''organization_id''] ''organizations'' [''id''] OnDeleteCascade ''fk_training_approvals_organization_id_organizations'',
        ForeignKey [''reviewed_by_user_id''] ''users'' [''id''] OnDeleteSetNull ''fk_training_approvals_reviewed_by_user_id_users'',
        PrimaryKey [''id''] ''pk_training_approvals'',
        Unique [''conversation_id'', ''message_id''] ''uq_training_approvals_conversation_message'']
       None,
     CreateIndex ''ix_training_approvals_approved'' ''training_approvals'' [''organization_id'',
        ''status''] False (Some (PIn ''status'' [''approved''])),
     CreateIndex ''ix_training_approvals_created_at'' ''training_approvals'' [''created_at''] False None]"

definition create_feedback :: "ddl list" where
  "create_feedback =
    [CreateTable ''feedback''
       [Column ''organization_id'' (TUuid) None False, Column ''conversation_id'' (TUuid) None False,
        Column ''message_id'' (TUuid) None True, Column ''message_version_id'' (TUuid) None True,
        Column ''user_id'' (TUuid) None True,
        Column ''kind'' (TEnum ''feedback_kind'' 48 [''useful'', ''incorrect'', ''approved'', ''rejected'',
        ''note'']) None False,
        Column ''rating'' (TInteger) None True, Column ''note'' (TText) None True,
        Column ''client_feedback_id'' (TVarchar (Some 128)) None False,
        Column ''metadata_json'' (TJsonb) None False, Column ''id'' (TUuid) None False,
        Column ''created_at'' (TTimestamp) (Some ''now()'') False,
        Column ''updated_at'' (TTimestamp) (Some ''now()'') False]
       [Check (POr (PIsNull ''rating'') (PBetween ''rating'' 1 5)) ''ck_feedback_rating_in_range'',
        ForeignKey [''conversation_id''] ''conversations'' [''id''] OnDeleteCascade ''fk_feedback_conversation_id_conversations'',
        ForeignKey [''message_id''] ''messages'' [''id''] OnDeleteCascade ''fk_feedback_message_id_messages'',
        ForeignKey [''message_version_id''] ''message_versions'' [''id''] OnDeleteSetNull ''fk_feedback_message_version_id_message_versions'',
        ForeignKey [''organization_id''] ''organizations'' [''id''] OnDeleteCascade ''fk_feedback_organization_id_organizations'',
        ForeignKey [''user_id''] ''users'' [''id''] OnDeleteSetNull ''fk_feedback_user_id_users'',
        PrimaryKey [''id''] ''pk_feedback'',
        Unique [''organization_id'', ''client_feedback_id''] ''uq_feedback_org_client_id'']
       None,
     CreateIndex ''ix_feedback_conversation'' ''feedback'' [''conversation_id''] False None,
     CreateIndex ''ix_feedback_created_at'' ''feedback'' [''created_at''] False None,
     CreateIndex ''ix_feedback_message'' ''feedback'' [''message_id''] False None]"

definition create_message_attachments :: "ddl list" where
  "create_message_attachments =
    [CreateTable ''message_attachments''
       [Column ''attachment_id'' (TUuid) None False, Column ''message_id'' (TUuid) None False,
        Column ''message_version_id'' (TUuid) None True, Column ''conversation_id'' (TUuid) None False,
        Column ''position'' (TInteger) None False, Column ''relation'' (TVarchar (Some 32)) None False,
        Column ''id'' (TUuid) None False, Column ''created_at'' (TTimestamp) (Some ''now()'') False,
        Column ''updated_at'' (TTimestamp) (Some ''now()'') False]
       [
        Check (PIn ''relation'' [''uploaded_by_user'', ''generated_by_assistant'',
        ''referenced_historical'']) ''ck_message_attachments_relation_allowed'',
        ForeignKey [''attachment_id''] ''attachments'' [''id''] OnDeleteCascade ''fk_message_attachments_attachment_id_attachments'',
        ForeignKey [''conversation_id''] ''conversations'' [''id''] OnDeleteCascade ''fk_message_attachments_conversation_id_conversations'',
        ForeignKey [''message_id''] ''messages'' [''id''] OnDeleteCascade ''fk_message_attachments_message_id_messages'',
        ForeignKey [''message_version_id''] ''message_versions'' [''id''] OnDeleteSetNull ''fk_message_attachments_message_version_id_message_versions'',
        PrimaryKey [''id''] ''pk_message_attachments'',
        Unique [''attachment_id'', ''message_id''] ''uq_message_attachments_pair'']
       None,
     CreateIndex ''ix_message_attachments_conversation'' ''message_attachments'' [''conversation_id''] False None,
     CreateIndex ''ix_message_attachments_created_at'' ''message_attachments'' [''created_at''] False None,
     CreateIndex ''ix_message_attachments_message'' ''message_attachments'' [''message_id''] False None]"

definition create_message_parts :: "ddl list" where
  "create_message_parts =
    [CreateTable ''message_parts''
       [Column ''message_version_id'' (TUuid) None False, Column ''conversation_id'' (TUuid) None False,
        Column ''part_index'' (TInteger) None False,
        Column ''kind'' (TEnum ''part_kind'' 48 [''text'', ''code'', ''heading'', ''list'', ''table'',
        ''quote'', ''link'', ''citation'', ''image_ref'', ''attachment_ref'', ''tool_output'',
        ''unknown'']) None False,
        Column ''language'' (TVarchar (Some 64)) None True, Column ''text_content'' (TText) None True,
        Column ''structured'' (TJsonb) None False, Column ''byte_size'' (TBigint) None False,
        Column ''id'' (TUuid) None False]
       [Check (PAtLeast ''part_index'' 0) ''ck_message_parts_part_index_non_negative'',
        ForeignKey [''conversation_id''] ''conversations'' [''id''] OnDeleteCascade ''fk_message_parts_conversation_id_conversations'',
        ForeignKey [''message_version_id''] ''message_versions'' [''id''] OnDeleteCascade ''fk_message_parts_message_version_id_message_versions'',
        PrimaryKey [''id''] ''pk_message_parts'',
        Unique [''message_version_id'', ''part_index''] ''uq_message_parts_version_index'']
       None,
     CreateIndex ''ix_message_parts_kind'' ''message_parts'' [''kind''] False None]"

definition upgrade_ddl :: "ddl list" where
  "upgrade_ddl = create_audit_events @ create_capture_events @ create_idempotency_keys @ create_jobs @
     create_organizations @ create_source_event_keys @ create_source_events @ create_job_attempts @
     create_retention_policies @ create_sync_checkpoints @ create_users @ create_workspaces @
     create_conversations @ create_devices @ create_exports @ create_legal_holds @
     create_user_identities @ create_attachments @ create_conversation_branches @ create_messages @
     create_message_versions @ create_training_approvals @ create_feedback @
     create_message_attachments @ create_message_parts"

definition drop_message_parts :: "ddl list" where
  "drop_message_parts =
    [DropIndex ''ix_message_parts_kind'' ''message_parts'', DropTable ''message_parts'']"

definition drop_message_attachments :: "ddl list" where
  "drop_message_attachments =
    [DropIndex ''ix_message_attachments_message'' ''message_attachments'',
     DropIndex ''ix_message_attachments_created_at'' ''message_attachments'',
     DropIndex ''ix_message_attachments_conversation'' ''message_attachments'',
     DropTable ''message_attachments'']"

definition drop_feedback :: "ddl list" where
  "drop_feedback =
    [DropIndex ''ix_feedback_message'' ''feedback'', DropIndex ''ix_feedback_created_at'' ''feedback'',
     DropIndex ''ix_feedback_conversation'' ''feedback'', DropTable ''feedback'']"

definition drop_training_approvals :: "ddl list" where
  "drop_training_approvals =
    [DropIndex ''ix_training_approvals_created_at'' ''training_approvals'',
     DropIndex ''ix_training_approvals_approved'' ''training_approvals'', DropTable ''training_approvals'']"

definition drop_message_versions :: "ddl list" where
  "drop_message_versions =
    [DropIndex ''ix_message_versions_org_captured'' ''message_versions'',
     DropIndex ''ix_message_versions_created_at'' ''message_versions'',
     DropIndex ''ix_message_versions_conversation'' ''message_versions'',
     DropIndex ''ix_message_versions_conv_norm'' ''message_versions'', DropTable ''message_versions'']"

definition drop_messages :: "ddl list" where
  "drop_messages =
    [DropIndex ''uq_messages_conversation_source_id'' ''messages'',
     DropIndex ''ix_messages_partial_completion'' ''messages'',
     DropIndex ''ix_messages_org_created'' ''messages'', DropIndex ''ix_messages_created_at'' ''messages'',
     DropIndex ''ix_messages_conversation_sequence'' ''messages'', DropTable ''messages'']"

definition drop_conversation_branches :: "ddl list" where
  "drop_conversation_branches =
    [DropIndex ''ix_conversation_branches_created_at'' ''conversation_branches'',
     DropIndex ''ix_branches_conversation_selected'' ''conversation_branches'',
     DropTable ''conversation_branches'']"

definition drop_attachments :: "ddl list" where
  "drop_attachments =
    [DropIndex ''ix_attachments_state_created'' ''attachments'',
     DropIndex ''ix_attachments_pending_expiry'' ''attachments'',
     DropIndex ''ix_attachments_org_sha'' ''attachments'',
     DropIndex ''ix_attachments_created_at'' ''attachments'', DropTable ''attachments'']"

definition drop_user_identities :: "ddl list" where
  "drop_user_identities =
    [DropIndex ''ix_user_identities_user_id'' ''user_identities'',
     DropIndex ''ix_user_identities_created_at'' ''user_identities'', DropTable ''user_identities'']"

definition drop_legal_holds :: "ddl list" where
  "drop_legal_holds =
    [DropIndex ''ix_legal_holds_created_at'' ''legal_holds'',
     DropIndex ''ix_legal_holds_active'' ''legal_holds'', DropTable ''legal_holds'']"

definition drop_exports :: "ddl list" where
  "drop_exports =
    [DropIndex ''ix_exports_org_status'' ''exports'', DropIndex ''ix_exports_created_at'' ''exports'',
     DropTable ''exports'']"

definition drop_devices :: "ddl list" where
  "drop_devices =
    [DropIndex ''ix_devices_refresh_token_hash'' ''devices'',
     DropIndex ''ix_devices_org_last_seen'' ''devices'', DropIndex ''ix_devices_created_at'' ''devices'',
     DropTable ''devices'']"

definition drop_conversations :: "ddl list" where
  "drop_conversations =
    [DropIndex ''ix_conversations_workspace_updated'' ''conversations'',
     DropIndex ''ix_conversations_user_updated'' ''conversations'',
     DropIndex ''ix_conversations_snapshot_stale'' ''conversations'',
     DropIndex ''ix_conversations_legal_hold'' ''conversations'',
     DropIndex ''ix_conversations_created_at'' ''conversations'', DropTable ''conversations'']"

definition drop_workspaces :: "ddl list" where
  "drop_workspaces =
    [DropIndex ''ix_workspaces_source_workspace_id'' ''workspaces'',
     DropIndex ''ix_workspaces_created_at'' ''workspaces'', DropTable ''workspaces'']"

definition drop_users :: "ddl list" where
  "drop_users =
    [DropIndex ''ix_users_email_hash'' ''users'', DropIndex ''ix_users_created_at'' ''users'',
     DropTable ''users'']"

definition drop_sync_checkpoints :: "ddl list" where
  "drop_sync_checkpoints =
    [DropTable ''sync_checkpoints'']"

definition drop_retention_policies :: "ddl list" where
  "drop_retention_policies =
    [DropIndex ''ix_retention_policies_default'' ''retention_policies'',
     DropIndex ''ix_retention_policies_created_at'' ''retention_policies'',
     DropTable ''retention_policies'']"

definition drop_job_attempts :: "ddl list" where
  "drop_job_attempts =
    [DropIndex ''ix_job_attempts_started'' ''job_attempts'', DropTable ''job_attempts'']"

definition drop_source_events :: "ddl list" where
  "drop_source_events =
    [DropIndex ''ix_source_events_source_event_id'' ''source_events'',
     DropIndex ''ix_source_events_org_event_time'' ''source_events'',
     DropIndex ''ix_source_events_conversation'' ''source_events'', DropTable ''source_events'']"

definition drop_source_event_keys :: "ddl list" where
  "drop_source_event_keys =
    [DropIndex ''ix_source_event_keys_created_at'' ''source_event_keys'', DropTable ''source_event_keys'']"

definition drop_organizations :: "ddl list" where
  "drop_organizations =
    [DropIndex ''ix_organizations_primary_domain'' ''organizations'',
     DropIndex ''ix_organizations_created_at'' ''organizations'', DropTable ''organizations'']"

definition drop_jobs :: "ddl list" where
  "drop_jobs =
    [DropIndex ''uq_jobs_dedupe_active'' ''jobs'', DropIndex ''ix_jobs_stale_locks'' ''jobs'',
     DropIndex ''ix_jobs_kind_status'' ''jobs'', DropIndex ''ix_jobs_created_at'' ''jobs'',
     DropIndex ''ix_jobs_claim'' ''jobs'', DropTable ''jobs'']"

definition drop_idempotency_keys :: "ddl list" where
  "drop_idempotency_keys =
    [DropIndex ''ix_idempotency_keys_created_at'' ''idempotency_keys'', DropTable ''idempotency_keys'']"

definition drop_capture_events :: "ddl list" where
  "drop_capture_events =
    [DropIndex ''ix_capture_events_unarchived'' ''capture_events'',
     DropIndex ''ix_capture_events_org_created'' ''capture_events'',
     DropIndex ''ix_capture_events_idempotency'' ''capture_events'',
     DropIndex ''ix_capture_events_conversation'' ''capture_events'', DropTable ''capture_events'']"

definition drop_audit_events :: "ddl list" where
  "drop_audit_events =
    [DropIndex ''ix_audit_events_resource'' ''audit_events'',
     DropIndex ''ix_audit_events_org_created'' ''audit_events'',
     DropIndex ''ix_audit_events_actor'' ''audit_events'',
     DropIndex ''ix_audit_events_action'' ''audit_events'', DropTable ''audit_events'']"

definition downgrade_ddl :: "ddl list" where
  "downgrade_ddl = drop_message_parts @ drop_message_attachments @ drop_feedback @
     drop_training_approvals @ drop_message_versions @ drop_messages @ drop_conversation_branches @
     drop_attachments @ drop_user_identities @ drop_legal_holds @ drop_exports @ drop_devices @
     drop_conversations @ drop_workspaces @ drop_users @ drop_sync_checkpoints @
     drop_retention_policies @ drop_job_attempts @ drop_source_events @ drop_source_event_keys @
     drop_organizations @ drop_jobs @ drop_idempotency_keys @ drop_capture_events @ drop_audit_events"

section \<open>0002: full-text search\<close>

definition upgrade_fts :: "ddl list" where
  "upgrade_fts =
    [AddColumn ''message_versions'' (Column ''search_tsv'' TTsvector None True),
     CreateIndex ''ix_message_versions_search_tsv'' ''message_versions'' [''search_tsv''] False None]"

definition downgrade_fts :: "ddl list" where
  "downgrade_fts =
    [DropIndex ''ix_message_versions_search_tsv'' ''message_versions'', DropColumn ''message_versions'' ''search_tsv'']"

end
