(* ===== verification/Migrations.thy ===== *)
theory Migrations
  imports Migration_Ddl Enums Partitions
begin

text \<open>
  Running the migrations.  \<open>run_ddl\<close> is what PostgreSQL does with the statements of
  \<open>Migration_Ddl\<close>: a statement that refers to a missing table or column, reuses a name, compares
  a column with a value outside its type, or declares a foreign key that does not match a key of
  its target fails, and with it the migration.  The partitions the first migration creates are
  the ones the maintenance job would create.
\<close>

section \<open>The catalogue\<close>

text \<open>Tables, indexes and the indexes behind primary and unique keys share one name space.\<close>

record sql_table =
  tb_name :: string
  tb_columns :: "column list"
  tb_constraints :: "table_constraint list"
  tb_partition :: "string option"
  tb_indexes :: "(string \<times> string list \<times> bool \<times> pred option) list"

type_synonym sql_schema = "sql_table list"

primrec col_name :: "column \<Rightarrow> string" where
  "col_name (Column n t d nl) = n"

primrec col_type :: "column \<Rightarrow> sqltype" where
  "col_type (Column n t d nl) = t"

primrec col_nullable :: "column \<Rightarrow> bool" where
  "col_nullable (Column n t d nl) = nl"

primrec constraint_name :: "table_constraint \<Rightarrow> string" where
  "constraint_name (Check p n) = n"
| "constraint_name (PrimaryKey cs n) = n"
| "constraint_name (Unique cs n) = n"
| "constraint_name (ForeignKey cs t ts a n) = n"

primrec key_columns :: "table_constraint \<Rightarrow> string list option" where
  "key_columns (Check p n) = None"
| "key_columns (PrimaryKey cs n) = Some cs"
| "key_columns (Unique cs n) = Some cs"
| "key_columns (ForeignKey cs t ts a n) = None"

definition table_relations :: "sql_table \<Rightarrow> string list" where
  "table_relations t = tb_name t # map fst (tb_indexes t)
     @ map constraint_name (filter (\<lambda>c. key_columns c \<noteq> None) (tb_constraints t))"

definition find_table :: "string \<Rightarrow> sql_schema \<Rightarrow> sql_table option" where
  "find_table n sch = find (\<lambda>t. tb_name t = n) sch"

definition type_of_column :: "column list \<Rightarrow> string \<Rightarrow> sqltype option" where
  "type_of_column cols n = map_option col_type (find (\<lambda>c. col_name c = n) cols)"

section \<open>Typing\<close>

text \<open>An identifier longer than 63 bytes would be cut.\<close>

definition name_fits :: "string \<Rightarrow> bool" where
  "name_fits n \<longleftrightarrow> n \<noteq> [] \<and> length n \<le> 63"

definition fresh_relation :: "string \<Rightarrow> sql_schema \<Rightarrow> bool" where
  "fresh_relation n sch \<longleftrightarrow> name_fits n \<and> \<not> list_ex (\<lambda>t. List.member (table_relations t) n) sch"

primrec value_fits :: "sqltype \<Rightarrow> string \<Rightarrow> bool" where
  "value_fits (TVarchar n) v = (case n of None \<Rightarrow> True | Some k \<Rightarrow> length v \<le> k)"
| "value_fits TText v = True"
| "value_fits (TEnum e n members) v = (List.member members v \<and> length v \<le> n)"
| "value_fits TUuid v = False"
| "value_fits TTimestamp v = False"
| "value_fits TInteger v = False"
| "value_fits TBigint v = False"
| "value_fits TBoolean v = False"
| "value_fits TJsonb v = False"
| "value_fits TInet v = False"
| "value_fits TTsvector v = False"

definition textual :: "sqltype \<Rightarrow> bool" where
  "textual t \<longleftrightarrow> (case t of TVarchar _ \<Rightarrow> True | TText \<Rightarrow> True | TEnum _ _ _ \<Rightarrow> True | _ \<Rightarrow> False)"

definition numeric :: "sqltype \<Rightarrow> bool" where
  "numeric t \<longleftrightarrow> t = TInteger \<or> t = TBigint"

definition column_is :: "(sqltype \<Rightarrow> bool) \<Rightarrow> column list \<Rightarrow> string \<Rightarrow> bool" where
  "column_is p cols n = (case type_of_column cols n of None \<Rightarrow> False | Some t \<Rightarrow> p t)"

primrec pred_ok :: "column list \<Rightarrow> pred \<Rightarrow> bool" where
  "pred_ok cols (PIn n vs) = column_is (\<lambda>t. list_all (value_fits t) vs) cols n"
| "pred_ok cols (PAtLeast n k) = column_is numeric cols n"
| "pred_ok cols (PBetween n a b) = (column_is numeric cols n \<and> a \<le> b)"
| "pred_ok cols (PIsTrue n) = column_is (\<lambda>t. t = TBoolean) cols n"
| "pred_ok cols (PIsNull n) = column_is (\<lambda>t. True) cols n"
| "pred_ok cols (PMinLength n k) = column_is textual cols n"
| "pred_ok cols (PLength n k) = column_is textual cols n"
| "pred_ok cols (PAtSignAfterFirst n) = column_is textual cols n"
| "pred_ok cols (PNot p) = pred_ok cols p"
| "pred_ok cols (PAnd p q) = (pred_ok cols p \<and> pred_ok cols q)"
| "pred_ok cols (POr p q) = (pred_ok cols p \<and> pred_ok cols q)"

definition columns_exist :: "column list \<Rightarrow> string list \<Rightarrow> bool" where
  "columns_exist cols ns \<longleftrightarrow> ns \<noteq> [] \<and> distinct ns \<and> list_all (column_is (\<lambda>t. True) cols) ns"

text \<open>A unique index of a partitioned table has to contain the partition column.\<close>

definition key_ok :: "column list \<Rightarrow> string option \<Rightarrow> string list \<Rightarrow> bool" where
  "key_ok cols part ns \<longleftrightarrow> columns_exist cols ns \<and> (case part of None \<Rightarrow> True | Some p \<Rightarrow> List.member ns p)"

definition column_nullable :: "column list \<Rightarrow> string \<Rightarrow> bool" where
  "column_nullable cols n = (case find (\<lambda>c. col_name c = n) cols of None \<Rightarrow> False | Some c \<Rightarrow> col_nullable c)"

text \<open>
  The referenced columns are a key of the target, of the same types; a column that is set to NULL
  on deletion admits NULL.
\<close>

definition reference_ok :: "sql_schema \<Rightarrow> column list \<Rightarrow> string list \<Rightarrow> string \<Rightarrow> string list \<Rightarrow> on_delete \<Rightarrow> bool" where
  "reference_ok sch cols cs target ts a \<longleftrightarrow> columns_exist cols cs \<and> (case find_table target sch of None \<Rightarrow> False
     | Some t \<Rightarrow> list_ex (\<lambda>c. key_columns c = Some ts) (tb_constraints t)
         \<and> map (type_of_column cols) cs = map (type_of_column (tb_columns t)) ts)
     \<and> (a = OnDeleteSetNull \<longrightarrow> list_all (column_nullable cols) cs)"

primrec constraint_ok :: "sql_schema \<Rightarrow> column list \<Rightarrow> string option \<Rightarrow> table_constraint \<Rightarrow> bool" where
  "constraint_ok sch cols part (Check p n) = pred_ok cols p"
| "constraint_ok sch cols part (PrimaryKey cs n) = (key_ok cols part cs \<and> \<not> list_ex (column_nullable cols) cs)"
| "constraint_ok sch cols part (Unique cs n) = key_ok cols part cs"
| "constraint_ok sch cols part (ForeignKey cs t ts a n) = reference_ok sch cols cs t ts a"

section \<open>Running statements\<close>

definition new_table :: "string \<Rightarrow> column list \<Rightarrow> table_constraint list \<Rightarrow> string option \<Rightarrow> sql_table" where
  "new_table n cols cons part =
     \<lparr>tb_name = n, tb_columns = cols, tb_constraints = cons, tb_partition = part, tb_indexes = []\<rparr>"

text \<open>A table may refer to itself.\<close>

definition create_table_ok :: "string \<Rightarrow> column list \<Rightarrow> table_constraint list \<Rightarrow> string option \<Rightarrow> sql_schema \<Rightarrow> bool" where
  "create_table_ok n cols cons part sch \<longleftrightarrow> fresh_relation n sch \<and> distinct (map col_name cols)
     \<and> list_all (constraint_ok (sch @ [new_table n cols cons part]) cols part) cons \<and> distinct (map constraint_name cons)
     \<and> list_all (\<lambda>c. if key_columns c \<noteq> None then fresh_relation (constraint_name c) sch else name_fits (constraint_name c)) cons
     \<and> (case part of None \<Rightarrow> True | Some p \<Rightarrow> column_is (\<lambda>t. t = TTimestamp) cols p)"

definition refers_to :: "string \<Rightarrow> table_constraint \<Rightarrow> bool" where
  "refers_to n c = (case c of ForeignKey cs t ts a _ \<Rightarrow> t = n | _ \<Rightarrow> False)"

definition upd_table :: "string \<Rightarrow> (sql_table \<Rightarrow> sql_table) \<Rightarrow> sql_schema \<Rightarrow> sql_schema" where
  "upd_table n f sch = upd_where (\<lambda>t. tb_name t = n) f sch"

definition index_ok :: "sql_table \<Rightarrow> string list \<Rightarrow> bool \<Rightarrow> pred option \<Rightarrow> bool" where
  "index_ok t cs uniq p \<longleftrightarrow> columns_exist (tb_columns t) cs \<and> (uniq \<longrightarrow> key_ok (tb_columns t) (tb_partition t) cs)
     \<and> (case p of None \<Rightarrow> True | Some q \<Rightarrow> pred_ok (tb_columns t) q)"

primrec run_statement :: "ddl \<Rightarrow> sql_schema \<Rightarrow> sql_schema option" where
  "run_statement (CreateTable n cols cons part) sch =
     (if create_table_ok n cols cons part sch
      then Some (sch @ [new_table n cols cons part])
      else None)"
| "run_statement (CreateIndex i n cs uniq p) sch =
     (case find_table n sch of None \<Rightarrow> None
      | Some t \<Rightarrow> if fresh_relation i sch \<and> index_ok t cs uniq p
          then Some (upd_table n (\<lambda>t. t\<lparr>tb_indexes := tb_indexes t @ [(i, cs, uniq, p)]\<rparr>) sch) else None)"
| "run_statement (AddColumn n c) sch =
     (case find_table n sch of None \<Rightarrow> None
      | Some t \<Rightarrow> if type_of_column (tb_columns t) (col_name c) = None
          then Some (upd_table n (\<lambda>t. t\<lparr>tb_columns := tb_columns t @ [c]\<rparr>) sch) else None)"
| "run_statement (DropIndex i n) sch =
     (case find_table n sch of None \<Rightarrow> None
      | Some t \<Rightarrow> if List.member (map fst (tb_indexes t)) i
          then Some (upd_table n (\<lambda>t. t\<lparr>tb_indexes := filter (\<lambda>x. fst x \<noteq> i) (tb_indexes t)\<rparr>) sch) else None)"
| "run_statement (DropTable n) sch =
     (if find_table n sch = None \<or> list_ex (\<lambda>t. tb_name t \<noteq> n \<and> list_ex (refers_to n) (tb_constraints t)) sch then None
      else Some (filter (\<lambda>t. tb_name t \<noteq> n) sch))"
| "run_statement (DropColumn n c) sch =
     (case find_table n sch of None \<Rightarrow> None
      | Some t \<Rightarrow> if type_of_column (tb_columns t) c = None \<or> list_ex (\<lambda>x. List.member (fst (snd x)) c) (tb_indexes t) then None
          else Some (upd_table n (\<lambda>t. t\<lparr>tb_columns := filter (\<lambda>x. col_name x \<noteq> c) (tb_columns t)\<rparr>) sch))"

fun run_ddl :: "ddl list \<Rightarrow> sql_schema \<Rightarrow> sql_schema option" where
  "run_ddl [] sch = Some sch"
| "run_ddl (s # ss) sch = (case run_statement s sch of None \<Rightarrow> None | Some sch1 \<Rightarrow> run_ddl ss sch1)"

lemma run_ddl_append: "run_ddl (xs @ ys) sch = (case run_ddl xs sch of None \<Rightarrow> None | Some s \<Rightarrow> run_ddl ys s)"
  by (induction xs arbitrary: sch) (auto split: option.splits)

section \<open>Checking a script table by table\<close>

text \<open>The table a script creates: a CREATE TABLE and its indexes.\<close>

fun script_indexes :: "ddl list \<Rightarrow> (string \<times> string list \<times> bool \<times> pred option) list" where
  "script_indexes (CreateIndex i n cs uniq p # ss) = (i, cs, uniq, p) # script_indexes ss"
| "script_indexes ss = []"

fun table_of :: "ddl list \<Rightarrow> sql_table" where
  "table_of (CreateTable n cols cons part # ss) = (new_table n cols cons part)\<lparr>tb_indexes := script_indexes ss\<rparr>"
| "table_of ss = new_table [] [] [] None"

fun indexes_of :: "string \<Rightarrow> ddl list \<Rightarrow> bool" where
  "indexes_of n [] = True"
| "indexes_of n (CreateIndex i m cs uniq p # ss) = (m = n \<and> indexes_of n ss)"
| "indexes_of n ss = False"

fun is_script :: "ddl list \<Rightarrow> bool" where
  "is_script (CreateTable n cols cons part # ss) = indexes_of n ss"
| "is_script ss = False"

definition id_key :: "sql_table \<Rightarrow> bool" where
  "id_key t \<longleftrightarrow> list_ex (\<lambda>c. key_columns c = Some [''id'']) (tb_constraints t)
     \<and> type_of_column (tb_columns t) ''id'' = Some TUuid"

text \<open>All references are to the \<open>id\<close> of the table itself or of one of \<open>prev\<close>.\<close>

definition local_constraint_ok :: "string list \<Rightarrow> sql_table \<Rightarrow> table_constraint \<Rightarrow> bool" where
  "local_constraint_ok prev t c = (case c of
       ForeignKey cs n ts a _ \<Rightarrow> columns_exist (tb_columns t) cs \<and> ts = [''id'']
         \<and> map (type_of_column (tb_columns t)) cs = [Some TUuid] \<and> (List.member prev n \<or> n = tb_name t \<and> id_key t)
         \<and> (a = OnDeleteSetNull \<longrightarrow> list_all (column_nullable (tb_columns t)) cs)
     | _ \<Rightarrow> constraint_ok [] (tb_columns t) (tb_partition t) c)"

definition local_ok :: "string list \<Rightarrow> sql_table \<Rightarrow> bool" where
  "local_ok prev t \<longleftrightarrow> distinct (map col_name (tb_columns t)) \<and> list_all (local_constraint_ok prev t) (tb_constraints t)
     \<and> distinct (map constraint_name (tb_constraints t)) \<and> list_all (\<lambda>c. name_fits (constraint_name c)) (tb_constraints t)
     \<and> list_all name_fits (table_relations t)
     \<and> list_all (\<lambda>(i, cs, uniq, p). index_ok t cs uniq p) (tb_indexes t)
     \<and> (case tb_partition t of None \<Rightarrow> True | Some p \<Rightarrow> column_is (\<lambda>x. x = TTimestamp) (tb_columns t) p)"

definition relations :: "sql_schema \<Rightarrow> string list" where
  "relations sch = concat (map table_relations sch)"

definition keyed :: "string list \<Rightarrow> sql_schema \<Rightarrow> bool" where
  "keyed prev sch \<longleftrightarrow> (\<forall>n\<in>set prev. \<exists>t. find_table n sch = Some t \<and> id_key t)"

lemma fresh_relation_iff: "fresh_relation n sch \<longleftrightarrow> name_fits n \<and> n \<notin> set (relations sch)"
  by (induction sch) (auto simp: fresh_relation_def relations_def)

lemma tb_name_relation: "t \<in> set sch \<Longrightarrow> tb_name t \<in> set (relations sch)"
  by (auto simp: relations_def table_relations_def)

lemma find_table_append:
  "find_table n (xs @ ys) = (case find_table n xs of Some t \<Rightarrow> Some t | None \<Rightarrow> find_table n ys)"
  by (induction xs) (auto simp: find_table_def)

lemma find_table_None: "find_table n sch = None \<longleftrightarrow> (\<forall>t\<in>set sch. tb_name t \<noteq> n)"
  by (auto simp: find_table_def find_None_iff)

lemma find_table_fresh: "n \<notin> set (relations sch) \<Longrightarrow> find_table n sch = None"
  unfolding find_table_None using tb_name_relation by metis

lemma upd_last_table:
  assumes "tb_name t \<notin> set (relations sch)"
  shows "find_table (tb_name t) (sch @ [t]) = Some t" "upd_table (tb_name t) f (sch @ [t]) = sch @ [f t]"
proof -
  have "x \<in> set sch \<Longrightarrow> tb_name x \<noteq> tb_name t" for x using assms tb_name_relation by metis
  then show "upd_table (tb_name t) f (sch @ [t]) = sch @ [f t]"
    by (simp add: upd_table_def upd_where_def map_idI)
  show "find_table (tb_name t) (sch @ [t]) = Some t"
    by (simp add: find_table_append find_table_fresh [OF assms]) (simp add: find_table_def)
qed

lemma reference_local:
  assumes "keyed prev sch" "tb_name t \<notin> set (relations sch)" "local_constraint_ok prev t c" "c \<in> set (tb_constraints t)"
  shows "constraint_ok (sch @ [t]) (tb_columns t) (tb_partition t) c"
proof (cases c)
  case (ForeignKey cs n ts a nm)
  have l: "columns_exist (tb_columns t) cs" "ts = [''id'']" "map (type_of_column (tb_columns t)) cs = [Some TUuid]"
      "a = OnDeleteSetNull \<longrightarrow> list_all (column_nullable (tb_columns t)) cs"
      "n \<in> set prev \<or> n = tb_name t \<and> id_key t"
    using assms(3) unfolding ForeignKey local_constraint_ok_def by auto
  obtain u where "find_table n (sch @ [t]) = Some u" "id_key u"
    using l(5) assms(1) upd_last_table(1) [OF assms(2)] by (auto simp: keyed_def find_table_append)
  then show ?thesis using l by (simp add: ForeignKey reference_ok_def id_key_def)
qed (use assms(3) in \<open>simp_all add: local_constraint_ok_def\<close>)

lemma new_table_sel [simp]:
  "tb_name (new_table n cols cons part) = n" "tb_columns (new_table n cols cons part) = cols"
  "tb_constraints (new_table n cols cons part) = cons" "tb_partition (new_table n cols cons part) = part"
  "tb_indexes (new_table n cols cons part) = []"
  by (simp_all add: new_table_def)

lemma index_ok_indexes [simp]: "index_ok (t\<lparr>tb_indexes := is\<rparr>) cs u p = index_ok t cs u p"
  by (simp add: index_ok_def split: option.splits)

lemma relations_snoc: "set (relations (sch @ [t])) = set (relations sch) \<union> set (table_relations t)"
  by (simp add: relations_def)

lemma run_indexes:
  assumes "indexes_of (tb_name t) ss" "tb_name t \<notin> set (relations sch)"
    and "list_all (\<lambda>(i, cs, uniq, p). index_ok t cs uniq p) (script_indexes ss)"
    and "distinct (map fst (script_indexes ss))"
    and "\<And>i. i \<in> fst ` set (script_indexes ss) \<Longrightarrow> name_fits i \<and> i \<notin> set (table_relations t) \<and> i \<notin> set (relations sch)"
  shows "run_ddl ss (sch @ [t]) = Some (sch @ [t\<lparr>tb_indexes := tb_indexes t @ script_indexes ss\<rparr>])"
  using assms
proof (induction "tb_name t" ss arbitrary: t rule: indexes_of.induct)
  case 1
  then show ?case by simp
next
  case (2 i m cs uniq p ss)
  let ?t = "t\<lparr>tb_indexes := tb_indexes t @ [(i, cs, uniq, p)]\<rparr>"
  have m: "m = tb_name t" using 2 by simp
  have "fresh_relation i (sch @ [t])" using 2(6) by (auto simp: fresh_relation_iff relations_snoc)
  then have s: "run_statement (CreateIndex i m cs uniq p) (sch @ [t]) = Some (sch @ [?t])"
    using 2(3,4) by (simp add: m upd_last_table)
  have "run_ddl ss (sch @ [?t]) = Some (sch @ [?t\<lparr>tb_indexes := tb_indexes ?t @ script_indexes ss\<rparr>])"
  proof (rule 2(1))
    show "j \<in> fst ` set (script_indexes ss) \<Longrightarrow> name_fits j \<and> j \<notin> set (table_relations ?t) \<and> j \<notin> set (relations sch)" for j
      using 2(5) 2(6) [of j] by (auto simp: table_relations_def)
  qed (use 2 in \<open>auto simp: list_all_iff\<close>)
  with s show ?case by simp
qed auto

lemma run_script:
  assumes "is_script ops" "keyed prev sch" "local_ok prev (table_of ops)"
    and "distinct (table_relations (table_of ops))" "set (table_relations (table_of ops)) \<inter> set (relations sch) = {}"
  shows "run_ddl ops sch = Some (sch @ [table_of ops])"
proof -
  obtain n cols cons part ss where ops: "ops = CreateTable n cols cons part # ss" "indexes_of n ss"
    using assms(1) by (cases ops rule: is_script.cases) auto
  let ?t0 = "new_table n cols cons part"
  have t: "table_of ops = ?t0\<lparr>tb_indexes := script_indexes ss\<rparr>" using ops by simp
  have rel: "set (table_relations (table_of ops)) = insert n (fst ` set (script_indexes ss) \<union> set (table_relations ?t0))"
    unfolding t by (auto simp: table_relations_def)
  have n: "n \<notin> set (relations sch)" using assms(5) rel by auto
  have l: "local_constraint_ok prev ?t0 c" if "c \<in> set cons" for c
    using assms(3) that unfolding t local_ok_def
    by (auto simp: list_all_iff local_constraint_ok_def id_key_def split: table_constraint.splits)
  have "constraint_ok (sch @ [?t0]) cols part c" if "c \<in> set cons" for c
    using reference_local [OF assms(2) _ l [OF that]] n that by simp
  moreover have "list_all (\<lambda>c. if key_columns c \<noteq> None then fresh_relation (constraint_name c) sch else name_fits (constraint_name c)) cons"
    using assms(3,5) unfolding t by (fastforce simp: local_ok_def list_all_iff fresh_relation_iff table_relations_def)
  ultimately have ok: "create_table_ok n cols cons part sch"
    using assms(3) n unfolding t 
    by (auto simp: create_table_ok_def local_ok_def list_all_iff fresh_relation_iff table_relations_def split: option.splits)
  have "run_ddl ss (sch @ [?t0]) = Some (sch @ [?t0\<lparr>tb_indexes := tb_indexes ?t0 @ script_indexes ss\<rparr>])"
  proof (rule run_indexes)
    show "list_all (\<lambda>(i, cs, uniq, p). index_ok ?t0 cs uniq p) (script_indexes ss)"
      using assms(3) unfolding t by (simp add: local_ok_def)
    show "distinct (map fst (script_indexes ss))" using assms(4) unfolding t by (simp add: table_relations_def)
    show "name_fits i \<and> i \<notin> set (table_relations ?t0) \<and> i \<notin> set (relations sch)" if "i \<in> fst ` set (script_indexes ss)" for i
      using that assms(3-5) unfolding t by (auto simp: local_ok_def list_all_iff table_relations_def)
  qed (use ops n in simp_all)
  then show ?thesis using ok by (simp add: ops)
qed

text \<open>Scripts one after the other: \<open>prev\<close> are the tables that can be referred to.\<close>

fun scripts_ok :: "string list \<Rightarrow> ddl list list \<Rightarrow> bool" where
  "scripts_ok prev [] = True"
| "scripts_ok prev (ops # rest) = (is_script ops \<and> local_ok prev (table_of ops)
     \<and> scripts_ok (if id_key (table_of ops) then prev @ [tb_name (table_of ops)] else prev) rest)"

lemma run_scripts:
  assumes "scripts_ok prev scripts" "keyed prev sch" "distinct (relations (sch @ map table_of scripts))"
  shows "run_ddl (concat scripts) sch = Some (sch @ map table_of scripts)"
  using assms
proof (induction scripts arbitrary: prev sch)
  case Nil
  then show ?case by simp
next
  case (Cons ops rest)
  let ?t = "table_of ops"
  have d: "set (table_relations ?t) \<inter> set (relations sch) = {}" "distinct (table_relations ?t)"
    using Cons.prems(3) by (auto simp: relations_def)
  have n: "tb_name ?t \<notin> set (relations sch)" using d(1) by (auto simp: table_relations_def)
  have r: "run_ddl ops sch = Some (sch @ [?t])"
    using Cons.prems d by (intro run_script) auto
  have "run_ddl (concat rest) (sch @ [?t]) = Some ((sch @ [?t]) @ map table_of rest)"
  proof (rule Cons.IH)
    show "scripts_ok (if id_key ?t then prev @ [tb_name ?t] else prev) rest" using Cons.prems(1) by simp
    show "keyed (if id_key ?t then prev @ [tb_name ?t] else prev) (sch @ [?t])"
      using Cons.prems(2) upd_last_table(1) [OF n] by (auto simp: keyed_def find_table_append)
    show "distinct (relations ((sch @ [?t]) @ map table_of rest))" using Cons.prems(3) by simp
  qed
  with r show ?case by (simp add: run_ddl_append)
qed

section \<open>Undoing\<close>

fun drops_of :: "string \<Rightarrow> ddl list \<Rightarrow> string list option" where
  "drops_of n [DropTable m] = (if m = n then Some [] else None)"
| "drops_of n (DropIndex i m # ss) = (if m = n then map_option (Cons i) (drops_of n ss) else None)"
| "drops_of n ss = None"

text \<open>The undo script drops indexes of the table, each once, and then the table.\<close>

definition undoes :: "ddl list \<Rightarrow> sql_table \<Rightarrow> bool" where
  "undoes ops t \<longleftrightarrow> (case drops_of (tb_name t) ops of None \<Rightarrow> False
     | Some is \<Rightarrow> distinct is \<and> list_all (\<lambda>i. List.member (map fst (tb_indexes t)) i) is)"

lemma run_undo:
  assumes "drops_of (tb_name t) ops = Some is" "distinct is" "set is \<subseteq> fst ` set (tb_indexes t)"
    and "tb_name t \<notin> set (relations sch)" "\<not> list_ex (\<lambda>u. list_ex (refers_to (tb_name t)) (tb_constraints u)) sch"
  shows "run_ddl ops (sch @ [t]) = Some sch"
  using assms
proof (induction "tb_name t" ops arbitrary: t "is" rule: drops_of.induct)
  case (1 m)
  then have "m = tb_name t" "u \<in> set sch \<Longrightarrow> tb_name u \<noteq> tb_name t" for u
    using tb_name_relation [of u sch] by (auto split: if_splits)
  then show ?case
    using 1 by (auto simp: upd_last_table(1) list_ex_iff intro: filter_True)
next
  case (2 i m ss)
  obtain js where js: "m = tb_name t" "drops_of (tb_name t) ss = Some js" "is = i # js"
    using 2(2) by (auto split: if_splits)
  let ?t = "t\<lparr>tb_indexes := filter (\<lambda>x. fst x \<noteq> i) (tb_indexes t)\<rparr>"
  have "run_ddl ss (sch @ [?t]) = Some sch"
  proof (rule 2(1))
    show "set js \<subseteq> fst ` set (tb_indexes ?t)" using 2(3,4) js(3) by fastforce
  qed (use 2 js in auto)
  moreover have "run_statement (DropIndex i m) (sch @ [t]) = Some (sch @ [?t])"
    using 2(4,5) js by (auto simp: upd_last_table)
  ultimately show ?case by simp
qed auto

lemma scripts_references:
  assumes "scripts_ok prev scripts" "c \<in> set (tb_constraints t)" "t \<in> set (map table_of scripts)" "refers_to n c"
  shows "n \<in> set prev \<or> n \<in> set (map tb_name (map table_of scripts))"
  using assms
proof (induction scripts arbitrary: prev)
  case (Cons ops rest)
  show ?case
  proof (cases "t = table_of ops")
    case True
    then have "local_constraint_ok prev t c" using Cons.prems by (auto simp: local_ok_def list_all_iff)
    then show ?thesis using Cons.prems(4) True
      by (auto simp: local_constraint_ok_def refers_to_def split: table_constraint.splits)
  next
    case False
    then show ?thesis using Cons.IH [of "if id_key (table_of ops) then prev @ [tb_name (table_of ops)] else prev"] Cons.prems
      by (auto split: if_splits)
  qed
qed simp

lemma undo_scripts:
  assumes "scripts_ok [] scripts" "distinct (relations (map table_of scripts))"
    and "list_all2 (\<lambda>u s. undoes u (table_of s)) undos scripts"
  shows "run_ddl (concat (rev undos)) (map table_of scripts) = Some []"
  using assms
proof (induction undos arbitrary: scripts rule: rev_induct)
  case (snoc u us)
  obtain ss s where s: "scripts = ss @ [s]" "list_all2 (\<lambda>u s. undoes u (table_of s)) us ss" "undoes u (table_of s)"
    using snoc.prems(3) by (auto simp: list_all2_append1 list_all2_Cons1)
  have ok: "scripts_ok p (xs @ [y]) \<Longrightarrow> scripts_ok p xs" for p xs y by (induction xs arbitrary: p) auto
  have d: "distinct (relations (map table_of ss))" "tb_name (table_of s) \<notin> set (relations (map table_of ss))"
    using snoc.prems(2) by (auto simp: s(1) relations_def table_relations_def)
  have r: "scripts_ok [] ss" using ok snoc.prems(1) s(1) by blast
  have "\<not> list_ex (\<lambda>v. list_ex (refers_to (tb_name (table_of s))) (tb_constraints v)) (map table_of ss)"
    using scripts_references [OF r] d(2) tb_name_relation [of _ "map table_of ss"] by (fastforce simp: list_ex_iff)
  then have "run_ddl u (map table_of ss @ [table_of s]) = Some (map table_of ss)"
    using s(3) d(2) by (auto simp: undoes_def list_all_iff split: option.splits intro: run_undo)
  moreover have "run_ddl (concat (rev us)) (map table_of ss) = Some []" by (rule snoc.IH [OF r d(1) s(2)])
  ultimately show ?case by (simp add: s(1) run_ddl_append)
qed simp

section \<open>Distinctness of many names\<close>

text \<open>Names grouped by their first character, as in a trie.\<close>

definition starts :: "char \<Rightarrow> string \<Rightarrow> bool" where
  "starts c s = (case s of [] \<Rightarrow> False | x # _ \<Rightarrow> x = c)"

definition weight :: "string list \<Rightarrow> nat" where
  "weight xs = sum_list (map (\<lambda>s. Suc (length s)) xs)"

lemma weight_filter: "weight (filter p xs) + weight (filter (\<lambda>s. \<not> p s) xs) = weight xs"
  by (induction xs) (auto simp: weight_def)

lemma weight_tails: "weight (map tl xs) \<le> weight xs"
  by (induction xs) (auto simp: weight_def)

function trie_distinct :: "string list \<Rightarrow> bool" where
  "trie_distinct [] = True"
| "trie_distinct [s] = True"
| "trie_distinct ([] # y # xs) = (\<not> List.member (y # xs) [] \<and> trie_distinct (y # xs))"
| "trie_distinct ((c # cs) # y # xs) = (trie_distinct (cs # map tl (filter (starts c) (y # xs)))
     \<and> trie_distinct (filter (\<lambda>s. \<not> starts c s) (y # xs)))"
  by pat_completeness auto

termination
proof (relation "measure weight")
  fix c :: char and cs y and xs :: "string list"
  show "(cs # map tl (filter (starts c) (y # xs)), (c # cs) # y # xs) \<in> measure weight"
    using weight_tails [of "filter (starts c) (y # xs)"] weight_filter [of "starts c" "y # xs"]
    by (simp add: weight_def)
  show "(filter (\<lambda>s. \<not> starts c s) (y # xs), (c # cs) # y # xs) \<in> measure weight"
    using weight_filter [of "starts c" "y # xs"] by (simp add: weight_def)
qed (auto simp: weight_def)

lemma distinct_parts: "distinct (filter p xs) \<Longrightarrow> distinct (filter (\<lambda>s. \<not> p s) xs) \<Longrightarrow> distinct xs"
  by (induction xs) (auto split: if_splits)

lemma distinct_tails:
  assumes "distinct (map tl xs)"
  shows "distinct xs"
  using assms by (auto simp: distinct_map)

lemma trie_distinct: "trie_distinct xs \<Longrightarrow> distinct xs"
proof (induction xs rule: trie_distinct.induct)
  case (4 c cs y xs)
  let ?ys = "y # xs"
  have "distinct (map tl ((c # cs) # filter (starts c) ?ys))" using 4 by simp
  then have a: "distinct ((c # cs) # filter (starts c) ?ys)" by (rule distinct_tails)
  have b: "distinct (filter (\<lambda>s. \<not> starts c s) ?ys)" using 4 by simp
  show ?case by (rule distinct_parts [of "starts c"]) (use a b in \<open>auto simp: starts_def\<close>)
qed auto

section \<open>Adding and removing the search column\<close>

lemma upd_table_twice:
  assumes "\<And>t. tb_name (f t) = tb_name t"
  shows "upd_table n h (upd_table n f sch) = upd_table n (h \<circ> f) sch"
  using assms by (simp add: upd_table_def upd_where_def)

lemma find_upd_table:
  assumes "\<And>t. tb_name (f t) = tb_name t"
  shows "find_table n (upd_table n f sch) = map_option f (find_table n sch)"
  using assms by (induction sch) (auto simp: upd_table_def find_table_def)

lemma relations_upd_table:
  assumes "\<And>t. table_relations (f t) = table_relations t"
  shows "relations (upd_table n f sch) = relations sch"
  using assms by (induction sch) (auto simp: upd_table_def relations_def)

lemma upd_table_id: "(\<And>t. t \<in> set sch \<Longrightarrow> tb_name t = n \<Longrightarrow> f t = t) \<Longrightarrow> upd_table n f sch = sch"
  unfolding upd_table_def upd_where_def by (rule map_idI) auto

lemma type_of_column_append:
  "type_of_column (xs @ ys) n = (case type_of_column xs n of None \<Rightarrow> type_of_column ys n | Some t \<Rightarrow> Some t)"
  by (induction xs) (auto simp: type_of_column_def)

lemma fts_roundtrip:
  assumes t: "find_table ''message_versions'' sch = Some t" "distinct (map tb_name sch)"
    and c: "type_of_column (tb_columns t) ''search_tsv'' = None"
    and i: "''ix_message_versions_search_tsv'' \<notin> set (relations sch)"
    and idx_cols: "\<not> list_ex (\<lambda>x. List.member (fst (snd x)) ''search_tsv'') (tb_indexes t)"
  shows "\<exists>sch'. run_ddl upgrade_fts sch = Some sch' \<and> run_ddl downgrade_fts sch' = Some sch"
proof -
  let ?n = "''message_versions''" and ?c = "Column ''search_tsv'' TTsvector None True"
  let ?x = "(''ix_message_versions_search_tsv'', [''search_tsv''], False, None :: pred option)"
  let ?add = "\<lambda>t. t\<lparr>tb_columns := tb_columns t @ [?c]\<rparr>" and ?idx = "\<lambda>t. t\<lparr>tb_indexes := tb_indexes t @ [?x]\<rparr>"
  let ?s1 = "upd_table ?n ?add sch" and ?s2 = "upd_table ?n (?idx \<circ> ?add) sch"
  have u: "u = t" if "u \<in> set sch" "tb_name u = ?n" for u
    using t that distinct_map_eq [OF t(2), of u t] by (auto simp: find_table_def dest!: find_Some_in)
  have mem: "t \<in> set sch" using t(1) by (auto simp: find_table_def dest: find_Some_in)
  have ix: "\<And>x. x \<in> set (tb_indexes t) \<Longrightarrow> fst x \<noteq> fst ?x"
    using i mem by (force simp: relations_def table_relations_def)
  have nc: "\<And>x. x \<in> set (tb_columns t) \<Longrightarrow> col_name x \<noteq> ''search_tsv''"
    using c by (auto simp: type_of_column_def find_None_iff)
  have f1: "find_table ?n ?s1 = Some (?add t)" by (simp add: find_upd_table t(1))
  have f2: "find_table ?n ?s2 = Some (?idx (?add t))" by (simp add: find_upd_table t(1))
  have new: "type_of_column (tb_columns t @ [?c]) ''search_tsv'' = Some TTsvector"
    using c by (simp add: type_of_column_append) (simp add: type_of_column_def)
  have "relations ?s1 = relations sch" by (rule relations_upd_table) (simp add: table_relations_def)
  then have "fresh_relation (fst ?x) ?s1" using i by (simp add: fresh_relation_iff name_fits_def)
  then have up: "run_ddl upgrade_fts sch = Some ?s2"
    using t(1) c f1 new
    by (simp add: upgrade_fts_def index_ok_def columns_exist_def column_is_def upd_table_twice)
  let ?s3 = "upd_table ?n (\<lambda>t. t\<lparr>tb_indexes := filter (\<lambda>x. fst x \<noteq> fst ?x) (tb_indexes t)\<rparr>) ?s2"
  have f3: "find_table ?n ?s3 = Some ((?idx (?add t))\<lparr>tb_indexes := tb_indexes t\<rparr>)"
    using ix by (simp add: find_upd_table f2 filter_id_conv)
  have "upd_table ?n (\<lambda>t. t\<lparr>tb_columns := filter (\<lambda>x. col_name x \<noteq> ''search_tsv'') (tb_columns t)\<rparr>) ?s3 = sch"
    by (simp add: upd_table_twice comp_def, rule upd_table_id)
      (use u ix nc in \<open>auto simp: filter_id_conv\<close>)
  moreover have "\<not> list_ex (\<lambda>x. List.member (fst (snd x)) ''search_tsv'') (tb_indexes t)"
    by (rule idx_cols)
  ultimately have d2: "run_statement (DropColumn ?n ''search_tsv'') ?s3 = Some sch"
    using f3 new by simp
  have d1: "run_statement (DropIndex (fst ?x) ?n) ?s2 = Some ?s3" using f2 by simp
  have "run_ddl downgrade_fts ?s2 = Some sch" unfolding downgrade_fts_def using d1 d2 by simp
  with up show ?thesis by blast
qed

end
