(* ===== verification/Migration_Check.thy ===== *)
theory Migration_Check
  imports Migrations
begin

text \<open>
  The statements of \<open>Migration_Ddl\<close> checked: table by table against the tables it may refer to, then
  as a whole, upwards and downwards, and the enumerated columns against the enumerations of the
  application.
\<close>

section \<open>Table by table\<close>

lemma script_audit_events: "is_script create_audit_events"
  by (simp add: create_audit_events_def)

lemma name_audit_events: "tb_name (table_of create_audit_events) = ''audit_events''"
  by (simp add: create_audit_events_def new_table_def)

lemma local_audit_events:
  "local_ok
     []
     (table_of create_audit_events)"
  by code_simp

lemma key_audit_events: "id_key (table_of create_audit_events) = False"
  by code_simp

lemma relations_audit_events:
  "table_relations (table_of create_audit_events) =
     [''audit_events'', ''ix_audit_events_action'', ''ix_audit_events_actor'',
      ''ix_audit_events_org_created'', ''ix_audit_events_resource'', ''pk_audit_events'']"
  by (simp add: create_audit_events_def new_table_def table_relations_def)

lemma undo_audit_events: "undoes drop_audit_events (table_of create_audit_events)"
  by code_simp

lemma script_capture_events: "is_script create_capture_events"
  by (simp add: create_capture_events_def)

lemma name_capture_events: "tb_name (table_of create_capture_events) = ''capture_events''"
  by (simp add: create_capture_events_def new_table_def)

lemma local_capture_events:
  "local_ok
     []
     (table_of create_capture_events)"
  by code_simp

lemma key_capture_events: "id_key (table_of create_capture_events) = False"
  by code_simp

lemma relations_capture_events:
  "table_relations (table_of create_capture_events) =
     [''capture_events'', ''ix_capture_events_conversation'', ''ix_capture_events_idempotency'',
      ''ix_capture_events_org_created'', ''ix_capture_events_unarchived'', ''pk_capture_events'']"
  by (simp add: create_capture_events_def new_table_def table_relations_def)

lemma undo_capture_events: "undoes drop_capture_events (table_of create_capture_events)"
  by code_simp

lemma script_idempotency_keys: "is_script create_idempotency_keys"
  by (simp add: create_idempotency_keys_def)

lemma name_idempotency_keys: "tb_name (table_of create_idempotency_keys) = ''idempotency_keys''"
  by (simp add: create_idempotency_keys_def new_table_def)

lemma local_idempotency_keys:
  "local_ok
     []
     (table_of create_idempotency_keys)"
  by code_simp

lemma key_idempotency_keys: "id_key (table_of create_idempotency_keys) = False"
  by code_simp

lemma relations_idempotency_keys:
  "table_relations (table_of create_idempotency_keys) =
     [''idempotency_keys'', ''ix_idempotency_keys_created_at'', ''pk_idempotency_keys'']"
  by (simp add: create_idempotency_keys_def new_table_def table_relations_def)

lemma undo_idempotency_keys: "undoes drop_idempotency_keys (table_of create_idempotency_keys)"
  by code_simp

lemma script_jobs: "is_script create_jobs"
  by (simp add: create_jobs_def)

lemma name_jobs: "tb_name (table_of create_jobs) = ''jobs''"
  by (simp add: create_jobs_def new_table_def)

lemma local_jobs:
  "local_ok
     []
     (table_of create_jobs)"
  by code_simp

lemma key_jobs: "id_key (table_of create_jobs) = True"
  by code_simp

lemma relations_jobs:
  "table_relations (table_of create_jobs) =
     [''jobs'', ''ix_jobs_claim'', ''ix_jobs_created_at'', ''ix_jobs_kind_status'',
      ''ix_jobs_stale_locks'', ''uq_jobs_dedupe_active'', ''pk_jobs'']"
  by (simp add: create_jobs_def new_table_def table_relations_def)

lemma undo_jobs: "undoes drop_jobs (table_of create_jobs)"
  by code_simp

lemma script_organizations: "is_script create_organizations"
  by (simp add: create_organizations_def)

lemma name_organizations: "tb_name (table_of create_organizations) = ''organizations''"
  by (simp add: create_organizations_def new_table_def)

lemma local_organizations:
  "local_ok
     [''jobs'']
     (table_of create_organizations)"
  by code_simp

lemma key_organizations: "id_key (table_of create_organizations) = True"
  by code_simp

lemma relations_organizations:
  "table_relations (table_of create_organizations) =
     [''organizations'', ''ix_organizations_created_at'', ''ix_organizations_primary_domain'',
      ''pk_organizations'', ''uq_organizations_slug'']"
  by (simp add: create_organizations_def new_table_def table_relations_def)

lemma undo_organizations: "undoes drop_organizations (table_of create_organizations)"
  by code_simp

lemma script_source_event_keys: "is_script create_source_event_keys"
  by (simp add: create_source_event_keys_def)

lemma name_source_event_keys: "tb_name (table_of create_source_event_keys) = ''source_event_keys''"
  by (simp add: create_source_event_keys_def new_table_def)

lemma local_source_event_keys:
  "local_ok
     [''jobs'', ''organizations'']
     (table_of create_source_event_keys)"
  by code_simp

lemma key_source_event_keys: "id_key (table_of create_source_event_keys) = False"
  by code_simp

lemma relations_source_event_keys:
  "table_relations (table_of create_source_event_keys) =
     [''source_event_keys'', ''ix_source_event_keys_created_at'', ''pk_source_event_keys'']"
  by (simp add: create_source_event_keys_def new_table_def table_relations_def)

lemma undo_source_event_keys: "undoes drop_source_event_keys (table_of create_source_event_keys)"
  by code_simp

lemma script_source_events: "is_script create_source_events"
  by (simp add: create_source_events_def)

lemma name_source_events: "tb_name (table_of create_source_events) = ''source_events''"
  by (simp add: create_source_events_def new_table_def)

lemma local_source_events:
  "local_ok
     [''jobs'', ''organizations'']
     (table_of create_source_events)"
  by code_simp

lemma key_source_events: "id_key (table_of create_source_events) = False"
  by code_simp

lemma relations_source_events:
  "table_relations (table_of create_source_events) =
     [''source_events'', ''ix_source_events_conversation'', ''ix_source_events_org_event_time'',
      ''ix_source_events_source_event_id'', ''pk_source_events'']"
  by (simp add: create_source_events_def new_table_def table_relations_def)

lemma undo_source_events: "undoes drop_source_events (table_of create_source_events)"
  by code_simp

lemma script_job_attempts: "is_script create_job_attempts"
  by (simp add: create_job_attempts_def)

lemma name_job_attempts: "tb_name (table_of create_job_attempts) = ''job_attempts''"
  by (simp add: create_job_attempts_def new_table_def)

lemma local_job_attempts:
  "local_ok
     [''jobs'', ''organizations'']
     (table_of create_job_attempts)"
  by code_simp

lemma key_job_attempts: "id_key (table_of create_job_attempts) = True"
  by code_simp

lemma relations_job_attempts:
  "table_relations (table_of create_job_attempts) =
     [''job_attempts'', ''ix_job_attempts_started'', ''pk_job_attempts'', ''uq_job_attempts_job_number'']"
  by (simp add: create_job_attempts_def new_table_def table_relations_def)

lemma undo_job_attempts: "undoes drop_job_attempts (table_of create_job_attempts)"
  by code_simp

lemma script_retention_policies: "is_script create_retention_policies"
  by (simp add: create_retention_policies_def)

lemma name_retention_policies: "tb_name (table_of create_retention_policies) = ''retention_policies''"
  by (simp add: create_retention_policies_def new_table_def)

lemma local_retention_policies:
  "local_ok
     [''jobs'', ''organizations'', ''job_attempts'']
     (table_of create_retention_policies)"
  by code_simp

lemma key_retention_policies: "id_key (table_of create_retention_policies) = True"
  by code_simp

lemma relations_retention_policies:
  "table_relations (table_of create_retention_policies) =
     [''retention_policies'', ''ix_retention_policies_created_at'', ''ix_retention_policies_default'',
      ''pk_retention_policies'', ''uq_retention_policies_org_name'']"
  by (simp add: create_retention_policies_def new_table_def table_relations_def)

lemma undo_retention_policies: "undoes drop_retention_policies (table_of create_retention_policies)"
  by code_simp

lemma script_sync_checkpoints: "is_script create_sync_checkpoints"
  by (simp add: create_sync_checkpoints_def)

lemma name_sync_checkpoints: "tb_name (table_of create_sync_checkpoints) = ''sync_checkpoints''"
  by (simp add: create_sync_checkpoints_def new_table_def)

lemma local_sync_checkpoints:
  "local_ok
     [''jobs'', ''organizations'', ''job_attempts'', ''retention_policies'']
     (table_of create_sync_checkpoints)"
  by code_simp

lemma key_sync_checkpoints: "id_key (table_of create_sync_checkpoints) = True"
  by code_simp

lemma relations_sync_checkpoints:
  "table_relations (table_of create_sync_checkpoints) =
     [''sync_checkpoints'', ''pk_sync_checkpoints'', ''uq_sync_checkpoints_stream'']"
  by (simp add: create_sync_checkpoints_def new_table_def table_relations_def)

lemma undo_sync_checkpoints: "undoes drop_sync_checkpoints (table_of create_sync_checkpoints)"
  by code_simp

lemma script_users: "is_script create_users"
  by (simp add: create_users_def)

lemma name_users: "tb_name (table_of create_users) = ''users''"
  by (simp add: create_users_def new_table_def)

lemma local_users:
  "local_ok
     [''jobs'', ''organizations'', ''job_attempts'', ''retention_policies'', ''sync_checkpoints'']
     (table_of create_users)"
  by code_simp

lemma key_users: "id_key (table_of create_users) = True"
  by code_simp

lemma relations_users:
  "table_relations (table_of create_users) =
     [''users'', ''ix_users_created_at'', ''ix_users_email_hash'', ''pk_users'', ''uq_users_org_email'']"
  by (simp add: create_users_def new_table_def table_relations_def)

lemma undo_users: "undoes drop_users (table_of create_users)"
  by code_simp

lemma script_workspaces: "is_script create_workspaces"
  by (simp add: create_workspaces_def)

lemma name_workspaces: "tb_name (table_of create_workspaces) = ''workspaces''"
  by (simp add: create_workspaces_def new_table_def)

lemma local_workspaces:
  "local_ok
     [''jobs'', ''organizations'', ''job_attempts'', ''retention_policies'', ''sync_checkpoints'', ''users'']
     (table_of create_workspaces)"
  by code_simp

lemma key_workspaces: "id_key (table_of create_workspaces) = True"
  by code_simp

lemma relations_workspaces:
  "table_relations (table_of create_workspaces) =
     [''workspaces'', ''ix_workspaces_created_at'', ''ix_workspaces_source_workspace_id'',
      ''pk_workspaces'', ''uq_workspaces_org_hash'']"
  by (simp add: create_workspaces_def new_table_def table_relations_def)

lemma undo_workspaces: "undoes drop_workspaces (table_of create_workspaces)"
  by code_simp

lemma script_conversations: "is_script create_conversations"
  by (simp add: create_conversations_def)

lemma name_conversations: "tb_name (table_of create_conversations) = ''conversations''"
  by (simp add: create_conversations_def new_table_def)

lemma local_conversations:
  "local_ok
     [''jobs'', ''organizations'', ''job_attempts'', ''retention_policies'', ''sync_checkpoints'',
      ''users'', ''workspaces'']
     (table_of create_conversations)"
  by code_simp

lemma key_conversations: "id_key (table_of create_conversations) = True"
  by code_simp

lemma relations_conversations:
  "table_relations (table_of create_conversations) =
     [''conversations'', ''ix_conversations_created_at'', ''ix_conversations_legal_hold'',
      ''ix_conversations_snapshot_stale'', ''ix_conversations_user_updated'',
      ''ix_conversations_workspace_updated'', ''pk_conversations'',
      ''uq_conversations_org_workspace_source'']"
  by (simp add: create_conversations_def new_table_def table_relations_def)

lemma undo_conversations: "undoes drop_conversations (table_of create_conversations)"
  by code_simp

lemma script_devices: "is_script create_devices"
  by (simp add: create_devices_def)

lemma name_devices: "tb_name (table_of create_devices) = ''devices''"
  by (simp add: create_devices_def new_table_def)

lemma local_devices:
  "local_ok
     [''jobs'', ''organizations'', ''job_attempts'', ''retention_policies'', ''sync_checkpoints'',
      ''users'', ''workspaces'', ''conversations'']
     (table_of create_devices)"
  by code_simp

lemma key_devices: "id_key (table_of create_devices) = True"
  by code_simp

lemma relations_devices:
  "table_relations (table_of create_devices) =
     [''devices'', ''ix_devices_created_at'', ''ix_devices_org_last_seen'',
      ''ix_devices_refresh_token_hash'', ''pk_devices'', ''uq_devices_user_fingerprint'']"
  by (simp add: create_devices_def new_table_def table_relations_def)

lemma undo_devices: "undoes drop_devices (table_of create_devices)"
  by code_simp

lemma script_exports: "is_script create_exports"
  by (simp add: create_exports_def)

lemma name_exports: "tb_name (table_of create_exports) = ''exports''"
  by (simp add: create_exports_def new_table_def)

lemma local_exports:
  "local_ok
     [''jobs'', ''organizations'', ''job_attempts'', ''retention_policies'', ''sync_checkpoints'',
      ''users'', ''workspaces'', ''conversations'', ''devices'']
     (table_of create_exports)"
  by code_simp

lemma key_exports: "id_key (table_of create_exports) = True"
  by code_simp

lemma relations_exports:
  "table_relations (table_of create_exports) =
     [''exports'', ''ix_exports_created_at'', ''ix_exports_org_status'', ''pk_exports'']"
  by (simp add: create_exports_def new_table_def table_relations_def)

lemma undo_exports: "undoes drop_exports (table_of create_exports)"
  by code_simp

lemma script_legal_holds: "is_script create_legal_holds"
  by (simp add: create_legal_holds_def)

lemma name_legal_holds: "tb_name (table_of create_legal_holds) = ''legal_holds''"
  by (simp add: create_legal_holds_def new_table_def)

lemma local_legal_holds:
  "local_ok
     [''jobs'', ''organizations'', ''job_attempts'', ''retention_policies'', ''sync_checkpoints'',
      ''users'', ''workspaces'', ''conversations'', ''devices'', ''exports'']
     (table_of create_legal_holds)"
  by code_simp

lemma key_legal_holds: "id_key (table_of create_legal_holds) = True"
  by code_simp

lemma relations_legal_holds:
  "table_relations (table_of create_legal_holds) =
     [''legal_holds'', ''ix_legal_holds_active'', ''ix_legal_holds_created_at'', ''pk_legal_holds'',
      ''uq_legal_holds_org_name'']"
  by (simp add: create_legal_holds_def new_table_def table_relations_def)

lemma undo_legal_holds: "undoes drop_legal_holds (table_of create_legal_holds)"
  by code_simp

lemma script_user_identities: "is_script create_user_identities"
  by (simp add: create_user_identities_def)

lemma name_user_identities: "tb_name (table_of create_user_identities) = ''user_identities''"
  by (simp add: create_user_identities_def new_table_def)

lemma local_user_identities:
  "local_ok
     [''jobs'', ''organizations'', ''job_attempts'', ''retention_policies'', ''sync_checkpoints'',
      ''users'', ''workspaces'', ''conversations'', ''devices'', ''exports'', ''legal_holds'']
     (table_of create_user_identities)"
  by code_simp

lemma key_user_identities: "id_key (table_of create_user_identities) = True"
  by code_simp

lemma relations_user_identities:
  "table_relations (table_of create_user_identities) =
     [''user_identities'', ''ix_user_identities_created_at'', ''ix_user_identities_user_id'',
      ''pk_user_identities'', ''uq_user_identities_issuer_subject'']"
  by (simp add: create_user_identities_def new_table_def table_relations_def)

lemma undo_user_identities: "undoes drop_user_identities (table_of create_user_identities)"
  by code_simp

lemma script_attachments: "is_script create_attachments"
  by (simp add: create_attachments_def)

lemma name_attachments: "tb_name (table_of create_attachments) = ''attachments''"
  by (simp add: create_attachments_def new_table_def)

lemma local_attachments:
  "local_ok
     [''jobs'', ''organizations'', ''job_attempts'', ''retention_policies'', ''sync_checkpoints'',
      ''users'', ''workspaces'', ''conversations'', ''devices'', ''exports'', ''legal_holds'',
      ''user_identities'']
     (table_of create_attachments)"
  by code_simp

lemma key_attachments: "id_key (table_of create_attachments) = True"
  by code_simp

lemma relations_attachments:
  "table_relations (table_of create_attachments) =
     [''attachments'', ''ix_attachments_created_at'', ''ix_attachments_org_sha'',
      ''ix_attachments_pending_expiry'', ''ix_attachments_state_created'', ''pk_attachments'',
      ''uq_attachments_conversation_client_id'']"
  by (simp add: create_attachments_def new_table_def table_relations_def)

lemma undo_attachments: "undoes drop_attachments (table_of create_attachments)"
  by code_simp

lemma script_conversation_branches: "is_script create_conversation_branches"
  by (simp add: create_conversation_branches_def)

lemma name_conversation_branches: "tb_name (table_of create_conversation_branches) = ''conversation_branches''"
  by (simp add: create_conversation_branches_def new_table_def)

lemma local_conversation_branches:
  "local_ok
     [''jobs'', ''organizations'', ''job_attempts'', ''retention_policies'', ''sync_checkpoints'',
      ''users'', ''workspaces'', ''conversations'', ''devices'', ''exports'', ''legal_holds'',
      ''user_identities'', ''attachments'']
     (table_of create_conversation_branches)"
  by code_simp

lemma key_conversation_branches: "id_key (table_of create_conversation_branches) = True"
  by code_simp

lemma relations_conversation_branches:
  "table_relations (table_of create_conversation_branches) =
     [''conversation_branches'', ''ix_branches_conversation_selected'',
      ''ix_conversation_branches_created_at'', ''pk_conversation_branches'',
      ''uq_branches_conversation_key'']"
  by (simp add: create_conversation_branches_def new_table_def table_relations_def)

lemma undo_conversation_branches: "undoes drop_conversation_branches (table_of create_conversation_branches)"
  by code_simp

lemma script_messages: "is_script create_messages"
  by (simp add: create_messages_def)

lemma name_messages: "tb_name (table_of create_messages) = ''messages''"
  by (simp add: create_messages_def new_table_def)

lemma local_messages:
  "local_ok
     [''jobs'', ''organizations'', ''job_attempts'', ''retention_policies'', ''sync_checkpoints'',
      ''users'', ''workspaces'', ''conversations'', ''devices'', ''exports'', ''legal_holds'',
      ''user_identities'', ''attachments'', ''conversation_branches'']
     (table_of create_messages)"
  by code_simp

lemma key_messages: "id_key (table_of create_messages) = True"
  by code_simp

lemma relations_messages:
  "table_relations (table_of create_messages) =
     [''messages'', ''ix_messages_conversation_sequence'', ''ix_messages_created_at'',
      ''ix_messages_org_created'', ''ix_messages_partial_completion'',
      ''uq_messages_conversation_source_id'', ''pk_messages'', ''uq_messages_conversation_fp'']"
  by (simp add: create_messages_def new_table_def table_relations_def)

lemma undo_messages: "undoes drop_messages (table_of create_messages)"
  by code_simp

lemma script_message_versions: "is_script create_message_versions"
  by (simp add: create_message_versions_def)

lemma name_message_versions: "tb_name (table_of create_message_versions) = ''message_versions''"
  by (simp add: create_message_versions_def new_table_def)

lemma local_message_versions:
  "local_ok
     [''jobs'', ''organizations'', ''job_attempts'', ''retention_policies'', ''sync_checkpoints'',
      ''users'', ''workspaces'', ''conversations'', ''devices'', ''exports'', ''legal_holds'',
      ''user_identities'', ''attachments'', ''conversation_branches'', ''messages'']
     (table_of create_message_versions)"
  by code_simp

lemma key_message_versions: "id_key (table_of create_message_versions) = True"
  by code_simp

lemma relations_message_versions:
  "table_relations (table_of create_message_versions) =
     [''message_versions'', ''ix_message_versions_conv_norm'', ''ix_message_versions_conversation'',
      ''ix_message_versions_created_at'', ''ix_message_versions_org_captured'', ''pk_message_versions'',
      ''uq_message_versions_message_content'', ''uq_message_versions_message_number'']"
  by (simp add: create_message_versions_def new_table_def table_relations_def)

lemma undo_message_versions: "undoes drop_message_versions (table_of create_message_versions)"
  by code_simp

lemma script_training_approvals: "is_script create_training_approvals"
  by (simp add: create_training_approvals_def)

lemma name_training_approvals: "tb_name (table_of create_training_approvals) = ''training_approvals''"
  by (simp add: create_training_approvals_def new_table_def)

lemma local_training_approvals:
  "local_ok
     [''jobs'', ''organizations'', ''job_attempts'', ''retention_policies'', ''sync_checkpoints'',
      ''users'', ''workspaces'', ''conversations'', ''devices'', ''exports'', ''legal_holds'',
      ''user_identities'', ''attachments'', ''conversation_branches'', ''messages'', ''message_versions'']
     (table_of create_training_approvals)"
  by code_simp

lemma key_training_approvals: "id_key (table_of create_training_approvals) = True"
  by code_simp

lemma relations_training_approvals:
  "table_relations (table_of create_training_approvals) =
     [''training_approvals'', ''ix_training_approvals_approved'', ''ix_training_approvals_created_at'',
      ''pk_training_approvals'', ''uq_training_approvals_conversation_message'']"
  by (simp add: create_training_approvals_def new_table_def table_relations_def)

lemma undo_training_approvals: "undoes drop_training_approvals (table_of create_training_approvals)"
  by code_simp

lemma script_feedback: "is_script create_feedback"
  by (simp add: create_feedback_def)

lemma name_feedback: "tb_name (table_of create_feedback) = ''feedback''"
  by (simp add: create_feedback_def new_table_def)

lemma local_feedback:
  "local_ok
     [''jobs'', ''organizations'', ''job_attempts'', ''retention_policies'', ''sync_checkpoints'',
      ''users'', ''workspaces'', ''conversations'', ''devices'', ''exports'', ''legal_holds'',
      ''user_identities'', ''attachments'', ''conversation_branches'', ''messages'', ''message_versions'',
      ''training_approvals'']
     (table_of create_feedback)"
  by code_simp

lemma key_feedback: "id_key (table_of create_feedback) = True"
  by code_simp

lemma relations_feedback:
  "table_relations (table_of create_feedback) =
     [''feedback'', ''ix_feedback_conversation'', ''ix_feedback_created_at'', ''ix_feedback_message'',
      ''pk_feedback'', ''uq_feedback_org_client_id'']"
  by (simp add: create_feedback_def new_table_def table_relations_def)

lemma undo_feedback: "undoes drop_feedback (table_of create_feedback)"
  by code_simp

lemma script_message_attachments: "is_script create_message_attachments"
  by (simp add: create_message_attachments_def)

lemma name_message_attachments: "tb_name (table_of create_message_attachments) = ''message_attachments''"
  by (simp add: create_message_attachments_def new_table_def)

lemma local_message_attachments:
  "local_ok
     [''jobs'', ''organizations'', ''job_attempts'', ''retention_policies'', ''sync_checkpoints'',
      ''users'', ''workspaces'', ''conversations'', ''devices'', ''exports'', ''legal_holds'',
      ''user_identities'', ''attachments'', ''conversation_branches'', ''messages'', ''message_versions'',
      ''training_approvals'', ''feedback'']
     (table_of create_message_attachments)"
  by code_simp

lemma key_message_attachments: "id_key (table_of create_message_attachments) = True"
  by code_simp

lemma relations_message_attachments:
  "table_relations (table_of create_message_attachments) =
     [''message_attachments'', ''ix_message_attachments_conversation'',
      ''ix_message_attachments_created_at'', ''ix_message_attachments_message'',
      ''pk_message_attachments'', ''uq_message_attachments_pair'']"
  by (simp add: create_message_attachments_def new_table_def table_relations_def)

lemma undo_message_attachments: "undoes drop_message_attachments (table_of create_message_attachments)"
  by code_simp

lemma script_message_parts: "is_script create_message_parts"
  by (simp add: create_message_parts_def)

lemma name_message_parts: "tb_name (table_of create_message_parts) = ''message_parts''"
  by (simp add: create_message_parts_def new_table_def)

lemma local_message_parts:
  "local_ok
     [''jobs'', ''organizations'', ''job_attempts'', ''retention_policies'', ''sync_checkpoints'',
      ''users'', ''workspaces'', ''conversations'', ''devices'', ''exports'', ''legal_holds'',
      ''user_identities'', ''attachments'', ''conversation_branches'', ''messages'', ''message_versions'',
      ''training_approvals'', ''feedback'', ''message_attachments'']
     (table_of create_message_parts)"
  by code_simp

lemma key_message_parts: "id_key (table_of create_message_parts) = True"
  by code_simp

lemma relations_message_parts:
  "table_relations (table_of create_message_parts) =
     [''message_parts'', ''ix_message_parts_kind'', ''pk_message_parts'', ''uq_message_parts_version_index'']"
  by (simp add: create_message_parts_def new_table_def table_relations_def)

lemma undo_message_parts: "undoes drop_message_parts (table_of create_message_parts)"
  by code_simp

section \<open>The whole\<close>

definition migration_scripts :: "ddl list list" where
  "migration_scripts =
     [create_audit_events, create_capture_events, create_idempotency_keys, create_jobs,
      create_organizations, create_source_event_keys, create_source_events, create_job_attempts,
      create_retention_policies, create_sync_checkpoints, create_users, create_workspaces,
      create_conversations, create_devices, create_exports, create_legal_holds, create_user_identities,
      create_attachments, create_conversation_branches, create_messages, create_message_versions,
      create_training_approvals, create_feedback, create_message_attachments, create_message_parts]"

definition migration_undos :: "ddl list list" where
  "migration_undos =
     [drop_audit_events, drop_capture_events, drop_idempotency_keys, drop_jobs, drop_organizations,
      drop_source_event_keys, drop_source_events, drop_job_attempts, drop_retention_policies,
      drop_sync_checkpoints, drop_users, drop_workspaces, drop_conversations, drop_devices, drop_exports,
      drop_legal_holds, drop_user_identities, drop_attachments, drop_conversation_branches, drop_messages,
      drop_message_versions, drop_training_approvals, drop_feedback, drop_message_attachments,
      drop_message_parts]"

lemmas script_facts =
  script_audit_events name_audit_events local_audit_events key_audit_events
  script_capture_events name_capture_events local_capture_events key_capture_events
  script_idempotency_keys name_idempotency_keys local_idempotency_keys key_idempotency_keys
  script_jobs name_jobs local_jobs key_jobs
  script_organizations name_organizations local_organizations key_organizations
  script_source_event_keys name_source_event_keys local_source_event_keys key_source_event_keys
  script_source_events name_source_events local_source_events key_source_events
  script_job_attempts name_job_attempts local_job_attempts key_job_attempts
  script_retention_policies name_retention_policies local_retention_policies key_retention_policies
  script_sync_checkpoints name_sync_checkpoints local_sync_checkpoints key_sync_checkpoints
  script_users name_users local_users key_users
  script_workspaces name_workspaces local_workspaces key_workspaces
  script_conversations name_conversations local_conversations key_conversations
  script_devices name_devices local_devices key_devices
  script_exports name_exports local_exports key_exports
  script_legal_holds name_legal_holds local_legal_holds key_legal_holds
  script_user_identities name_user_identities local_user_identities key_user_identities
  script_attachments name_attachments local_attachments key_attachments
  script_conversation_branches name_conversation_branches local_conversation_branches key_conversation_branches
  script_messages name_messages local_messages key_messages
  script_message_versions name_message_versions local_message_versions key_message_versions
  script_training_approvals name_training_approvals local_training_approvals key_training_approvals
  script_feedback name_feedback local_feedback key_feedback
  script_message_attachments name_message_attachments local_message_attachments key_message_attachments
  script_message_parts name_message_parts local_message_parts key_message_parts

lemmas relations_facts =
  relations_audit_events
  relations_capture_events
  relations_idempotency_keys
  relations_jobs
  relations_organizations
  relations_source_event_keys
  relations_source_events
  relations_job_attempts
  relations_retention_policies
  relations_sync_checkpoints
  relations_users
  relations_workspaces
  relations_conversations
  relations_devices
  relations_exports
  relations_legal_holds
  relations_user_identities
  relations_attachments
  relations_conversation_branches
  relations_messages
  relations_message_versions
  relations_training_approvals
  relations_feedback
  relations_message_attachments
  relations_message_parts

lemmas undo_facts =
  undo_audit_events
  undo_capture_events
  undo_idempotency_keys
  undo_jobs
  undo_organizations
  undo_source_event_keys
  undo_source_events
  undo_job_attempts
  undo_retention_policies
  undo_sync_checkpoints
  undo_users
  undo_workspaces
  undo_conversations
  undo_devices
  undo_exports
  undo_legal_holds
  undo_user_identities
  undo_attachments
  undo_conversation_branches
  undo_messages
  undo_message_versions
  undo_training_approvals
  undo_feedback
  undo_message_attachments
  undo_message_parts

lemma upgrade_scripts: "upgrade_ddl = concat migration_scripts"
  by (simp add: upgrade_ddl_def migration_scripts_def)

lemma downgrade_scripts: "downgrade_ddl = concat (rev migration_undos)"
  by (simp add: downgrade_ddl_def migration_undos_def)

lemma migration_scripts_ok: "scripts_ok [] migration_scripts"
  unfolding migration_scripts_def by (simp only: scripts_ok.simps script_facts if_True if_False append.simps simp_thms)

lemma migration_relations: "distinct (relations (map table_of migration_scripts))"
  
  unfolding migration_scripts_def relations_def list.map relations_facts by (rule trie_distinct) code_simp

lemma migration_undone: "list_all2 (\<lambda>u s. undoes u (table_of s)) migration_undos migration_scripts"
  unfolding migration_undos_def migration_scripts_def by (simp only: list.rel_inject undo_facts simp_thms list.rel_intros)

text \<open>The columns that store an enumeration, with the values the application writes.\<close>

definition enum_columns :: "(string \<times> string \<times> string list) list" where
  "enum_columns = [
     (''audit_events'', ''action'', map audit_action_str audit_action_values),
     (''capture_events'', ''kind'', map capture_event_kind_str capture_event_kind_values),
     (''capture_events'', ''status'', map ingest_status_str ingest_status_values),
     (''jobs'', ''kind'', map job_kind_str job_kind_values),
     (''jobs'', ''status'', map job_status_str job_status_values),
     (''source_events'', ''kind'', map source_event_kind_str source_event_kind_values),
     (''retention_policies'', ''action'', map retention_action_str retention_action_values),
     (''workspaces'', ''kind'', map workspace_kind_str workspace_kind_values),
     (''conversations'', ''capture_completeness'', map capture_completeness_str capture_completeness_values),
     (''exports'', ''kind'', map export_kind_str export_kind_values),
     (''exports'', ''status'', map export_status_str export_status_values),
     (''attachments'', ''state'', map attachment_state_str attachment_state_values),
     (''messages'', ''role'', map message_role_str message_role_values),
     (''messages'', ''completion_status'', map completion_status_str completion_status_values),
     (''message_versions'', ''completion_status'', map completion_status_str completion_status_values),
     (''training_approvals'', ''status'', map approval_status_str approval_status_values),
     (''feedback'', ''kind'', map feedback_kind_str feedback_kind_values),
     (''message_parts'', ''kind'', map part_kind_str part_kind_values)]"

definition enum_agrees :: "sql_schema \<Rightarrow> string \<times> string \<times> string list \<Rightarrow> bool" where
  "enum_agrees sch x = (case find_table (fst x) sch of None \<Rightarrow> False
     | Some t \<Rightarrow> (case type_of_column (tb_columns t) (fst (snd x)) of
         Some (TEnum n k vs) \<Rightarrow> vs = snd (snd x) \<and> list_all (value_fits (TEnum n k vs)) vs
       | _ \<Rightarrow> False))"

lemmas name_facts =
  name_audit_events name_capture_events name_idempotency_keys name_jobs
  name_organizations name_source_event_keys name_source_events name_job_attempts
  name_retention_policies name_sync_checkpoints name_users name_workspaces
  name_conversations name_devices name_exports name_legal_holds
  name_user_identities name_attachments name_conversation_branches name_messages
  name_message_versions name_training_approvals name_feedback name_message_attachments
  name_message_parts

lemma enum_agreesI:
  assumes "find_table tbl sch = Some t" "type_of_column (tb_columns t) col = Some (TEnum n k vs)"
    and "list_all (\<lambda>v. length v \<le> k) vs"
  shows "enum_agrees sch (tbl, col, vs)"
  using assms by (simp add: enum_agrees_def list_all_iff)

lemma find_attachments: "find_table ''attachments'' (map table_of migration_scripts) = Some (table_of create_attachments)"
  by (simp add: find_table_def migration_scripts_def name_facts)

lemma find_audit_events: "find_table ''audit_events'' (map table_of migration_scripts) = Some (table_of create_audit_events)"
  by (simp add: find_table_def migration_scripts_def name_facts)

lemma find_capture_events: "find_table ''capture_events'' (map table_of migration_scripts) = Some (table_of create_capture_events)"
  by (simp add: find_table_def migration_scripts_def name_facts)

lemma find_conversations: "find_table ''conversations'' (map table_of migration_scripts) = Some (table_of create_conversations)"
  by (simp add: find_table_def migration_scripts_def name_facts)

lemma find_exports: "find_table ''exports'' (map table_of migration_scripts) = Some (table_of create_exports)"
  by (simp add: find_table_def migration_scripts_def name_facts)

lemma find_feedback: "find_table ''feedback'' (map table_of migration_scripts) = Some (table_of create_feedback)"
  by (simp add: find_table_def migration_scripts_def name_facts)

lemma find_jobs: "find_table ''jobs'' (map table_of migration_scripts) = Some (table_of create_jobs)"
  by (simp add: find_table_def migration_scripts_def name_facts)

lemma find_message_parts: "find_table ''message_parts'' (map table_of migration_scripts) = Some (table_of create_message_parts)"
  by (simp add: find_table_def migration_scripts_def name_facts)

lemma find_message_versions: "find_table ''message_versions'' (map table_of migration_scripts) = Some (table_of create_message_versions)"
  by (simp add: find_table_def migration_scripts_def name_facts)

lemma find_messages: "find_table ''messages'' (map table_of migration_scripts) = Some (table_of create_messages)"
  by (simp add: find_table_def migration_scripts_def name_facts)

lemma find_retention_policies: "find_table ''retention_policies'' (map table_of migration_scripts) = Some (table_of create_retention_policies)"
  by (simp add: find_table_def migration_scripts_def name_facts)

lemma find_source_events: "find_table ''source_events'' (map table_of migration_scripts) = Some (table_of create_source_events)"
  by (simp add: find_table_def migration_scripts_def name_facts)

lemma find_training_approvals: "find_table ''training_approvals'' (map table_of migration_scripts) = Some (table_of create_training_approvals)"
  by (simp add: find_table_def migration_scripts_def name_facts)

lemma find_workspaces: "find_table ''workspaces'' (map table_of migration_scripts) = Some (table_of create_workspaces)"
  by (simp add: find_table_def migration_scripts_def name_facts)

lemma enum_audit_events_action:
  "enum_agrees (map table_of migration_scripts) (''audit_events'', ''action'', map audit_action_str audit_action_values)"
  by (rule enum_agreesI [OF find_audit_events, where n = "''audit_action''" and k = 48]) (code_simp+)

lemma enum_capture_events_kind:
  "enum_agrees (map table_of migration_scripts) (''capture_events'', ''kind'', map capture_event_kind_str capture_event_kind_values)"
  by (rule enum_agreesI [OF find_capture_events, where n = "''capture_event_kind''" and k = 48]) (code_simp+)

lemma enum_capture_events_status:
  "enum_agrees (map table_of migration_scripts) (''capture_events'', ''status'', map ingest_status_str ingest_status_values)"
  by (rule enum_agreesI [OF find_capture_events, where n = "''ingest_status''" and k = 48]) (code_simp+)

lemma enum_jobs_kind:
  "enum_agrees (map table_of migration_scripts) (''jobs'', ''kind'', map job_kind_str job_kind_values)"
  by (rule enum_agreesI [OF find_jobs, where n = "''job_kind''" and k = 48]) (code_simp+)

lemma enum_jobs_status:
  "enum_agrees (map table_of migration_scripts) (''jobs'', ''status'', map job_status_str job_status_values)"
  by (rule enum_agreesI [OF find_jobs, where n = "''job_status''" and k = 48]) (code_simp+)

lemma enum_source_events_kind:
  "enum_agrees (map table_of migration_scripts) (''source_events'', ''kind'', map source_event_kind_str source_event_kind_values)"
  by (rule enum_agreesI [OF find_source_events, where n = "''source_event_kind''" and k = 48]) (code_simp+)

lemma enum_retention_policies_action:
  "enum_agrees (map table_of migration_scripts) (''retention_policies'', ''action'', map retention_action_str retention_action_values)"
  by (rule enum_agreesI [OF find_retention_policies, where n = "''retention_action''" and k = 48]) (code_simp+)

lemma enum_workspaces_kind:
  "enum_agrees (map table_of migration_scripts) (''workspaces'', ''kind'', map workspace_kind_str workspace_kind_values)"
  by (rule enum_agreesI [OF find_workspaces, where n = "''workspace_kind''" and k = 48]) (code_simp+)

lemma enum_conversations_capture_completeness:
  "enum_agrees (map table_of migration_scripts) (''conversations'', ''capture_completeness'', map capture_completeness_str capture_completeness_values)"
  by (rule enum_agreesI [OF find_conversations, where n = "''capture_completeness''" and k = 48]) (code_simp+)

lemma enum_exports_kind:
  "enum_agrees (map table_of migration_scripts) (''exports'', ''kind'', map export_kind_str export_kind_values)"
  by (rule enum_agreesI [OF find_exports, where n = "''export_kind''" and k = 48]) (code_simp+)

lemma enum_exports_status:
  "enum_agrees (map table_of migration_scripts) (''exports'', ''status'', map export_status_str export_status_values)"
  by (rule enum_agreesI [OF find_exports, where n = "''export_status''" and k = 48]) (code_simp+)

lemma enum_attachments_state:
  "enum_agrees (map table_of migration_scripts) (''attachments'', ''state'', map attachment_state_str attachment_state_values)"
  by (rule enum_agreesI [OF find_attachments, where n = "''attachment_state''" and k = 48]) (code_simp+)

lemma enum_messages_role:
  "enum_agrees (map table_of migration_scripts) (''messages'', ''role'', map message_role_str message_role_values)"
  by (rule enum_agreesI [OF find_messages, where n = "''message_role''" and k = 48]) (code_simp+)

lemma enum_messages_completion_status:
  "enum_agrees (map table_of migration_scripts) (''messages'', ''completion_status'', map completion_status_str completion_status_values)"
  by (rule enum_agreesI [OF find_messages, where n = "''completion_status''" and k = 48]) (code_simp+)

lemma enum_message_versions_completion_status:
  "enum_agrees (map table_of migration_scripts) (''message_versions'', ''completion_status'', map completion_status_str completion_status_values)"
  by (rule enum_agreesI [OF find_message_versions, where n = "''completion_status''" and k = 48]) (code_simp+)

lemma enum_training_approvals_status:
  "enum_agrees (map table_of migration_scripts) (''training_approvals'', ''status'', map approval_status_str approval_status_values)"
  by (rule enum_agreesI [OF find_training_approvals, where n = "''approval_status''" and k = 48]) (code_simp+)

lemma enum_feedback_kind:
  "enum_agrees (map table_of migration_scripts) (''feedback'', ''kind'', map feedback_kind_str feedback_kind_values)"
  by (rule enum_agreesI [OF find_feedback, where n = "''feedback_kind''" and k = 48]) (code_simp+)

lemma enum_message_parts_kind:
  "enum_agrees (map table_of migration_scripts) (''message_parts'', ''kind'', map part_kind_str part_kind_values)"
  by (rule enum_agreesI [OF find_message_parts, where n = "''part_kind''" and k = 48]) (code_simp+)

lemmas enum_facts =
  enum_audit_events_action
  enum_capture_events_kind
  enum_capture_events_status
  enum_jobs_kind
  enum_jobs_status
  enum_source_events_kind
  enum_retention_policies_action
  enum_workspaces_kind
  enum_conversations_capture_completeness
  enum_exports_kind
  enum_exports_status
  enum_attachments_state
  enum_messages_role
  enum_messages_completion_status
  enum_message_versions_completion_status
  enum_training_approvals_status
  enum_feedback_kind
  enum_message_parts_kind

lemma migration_runs: "run_ddl upgrade_ddl [] = Some (map table_of migration_scripts)"
  using run_scripts [OF migration_scripts_ok, of "[]"] migration_relations
  by (simp add: upgrade_scripts keyed_def)

lemma migration_runs_back: "run_ddl downgrade_ddl (map table_of migration_scripts) = Some []"
  unfolding downgrade_scripts by (rule undo_scripts [OF migration_scripts_ok migration_relations migration_undone])

lemma names_distinct: "distinct (map tb_name (map table_of migration_scripts))"
proof -
  have "distinct (relations sch) \<Longrightarrow> distinct (map tb_name sch)" for sch
  proof (induction sch)
    case (Cons t sch)
    then show ?case using tb_name_relation by (fastforce simp: relations_def table_relations_def)
  qed simp
  then show ?thesis using migration_relations by blast
qed

lemma fts_runs:
  "\<exists>sch. run_ddl upgrade_fts (map table_of migration_scripts) = Some sch
     \<and> run_ddl downgrade_fts sch = Some (map table_of migration_scripts)"
proof (rule fts_roundtrip [OF find_message_versions names_distinct])
  show "type_of_column (tb_columns (table_of create_message_versions)) ''search_tsv'' = None" by code_simp
  show "\<not> list_ex (\<lambda>x. List.member (fst (snd x)) ''search_tsv'') (tb_indexes (table_of create_message_versions))" by code_simp
  show "''ix_message_versions_search_tsv'' \<notin> set (relations (map table_of migration_scripts))"
    unfolding migration_scripts_def relations_def list.map relations_facts by simp
qed

text \<open>
  C39. The migrations are well typed.  Run in order on an empty database every statement succeeds: no
  name is used twice or cut, every index, check and key is over columns that exist and values
  of their type, every foreign key refers to a key of the same type in a table that exists
  already, and a column set to NULL on deletion admits it.  The columns that store enumerations
  admit exactly the values the application writes.  Undoing the migrations gives back each
  earlier schema.
\<close>

theorem migrations_well_typed:
  "\<exists>s1 s2. run_ddl upgrade_ddl [] = Some s1 \<and> list_all (enum_agrees s1) enum_columns
     \<and> run_ddl upgrade_fts s1 = Some s2
     \<and> run_ddl downgrade_fts s2 = Some s1 \<and> run_ddl downgrade_ddl s1 = Some []"
proof -
  have "list_all (enum_agrees (map table_of migration_scripts)) enum_columns"
    unfolding enum_columns_def by (simp only: list.pred_inject enum_facts simp_thms)
  then show ?thesis using migration_runs migration_runs_back fts_runs by blast
qed

end
