(* ===== verification/Bootstrap.thy ===== *)
theory Bootstrap
  imports Partitions
begin

text \<open>
  The partitions the first migration creates (\<open>_month_bounds\<close> and \<open>_create_partitions\<close> of
  \<open>alembic/versions/0001_initial_initial_schema.py\<close>), as the statements it sends.
\<close>

definition PARTITIONED_TABLES :: "string list" where
  "PARTITIONED_TABLES = [''capture_events'', ''source_events'', ''audit_events'']"

definition BOOTSTRAP_MONTHS :: nat where
  "BOOTSTRAP_MONTHS = 4"

text \<open>\<open>date(y, m, d)\<close>: years outside 1 to 9999 raise.\<close>

definition py_date :: "int \<Rightarrow> int \<Rightarrow> int \<Rightarrow> date res" where
  "py_date y m d = (if 1 \<le> y \<and> y \<le> 9999 \<and> 1 \<le> m \<and> m \<le> 12 then Inr \<lparr>dt_year = y, dt_month = m, dt_day = d\<rparr>
     else Inl PyValueError)"

definition month_bounds :: "date \<Rightarrow> nat \<Rightarrow> (string \<times> string) res" where
  "month_bounds today k =
     (let month0 = dt_month today + int k;
          year = dt_year today + (month0 - 1) div 12;
          month = (month0 - 1) mod 12 + 1
      in bindE (py_date year month 1) (\<lambda>start.
         bindE (if month = 12 then py_date (year + 1) 1 1 else py_date year (month + 1) 1) (\<lambda>stop.
           Inr (date_iso start, date_iso stop))))"

definition bootstrap_statement :: "string \<Rightarrow> date \<Rightarrow> nat \<Rightarrow> string res" where
  "bootstrap_statement table today k = bindE (month_bounds today k) (\<lambda>(start, stop).
     let name = table @ ''_p'' @ take 4 start @ take 2 (drop 5 start)
     in Inr (''CREATE TABLE IF NOT EXISTS '' @ name @ '' PARTITION OF '' @ table
          @ '' FOR VALUES FROM ('' @ quoted start @ '') TO ('' @ quoted stop @ '')''))"

fun collect :: "'a res list \<Rightarrow> 'a list res" where
  "collect [] = Inr []"
| "collect (m # ms) = bindE m (\<lambda>x. bindE (collect ms) (\<lambda>xs. Inr (x # xs)))"

definition create_partitions :: "date \<Rightarrow> string list res" where
  "create_partitions today = bindE (collect (map (\<lambda>table.
       bindE (collect (map (bootstrap_statement table today) [0..<BOOTSTRAP_MONTHS])) (\<lambda>months.
         Inr ((''CREATE TABLE IF NOT EXISTS '' @ table @ ''_default PARTITION OF '' @ table @ '' DEFAULT'') # months)))
     PARTITIONED_TABLES)) (\<lambda>groups. Inr (concat groups))"

lemma collect_Inr: "(\<And>x. x \<in> set xs \<Longrightarrow> f x = Inr (g x)) \<Longrightarrow> collect (map f xs) = Inr (map g xs)"
  by (induction xs) auto

lemma next_twelfth:
  fixes a :: int
  shows "(a + 1) div 12 = a div 12 + (if a mod 12 = 11 then 1 else 0)"
    and "(a + 1) mod 12 = (if a mod 12 = 11 then 0 else a mod 12 + 1)"
proof -
  define q r where "q = a div 12" and "r = a mod 12"
  have a: "a = 12 * q + r" unfolding q_def r_def by simp
  have r: "0 \<le> r" "r < 12" by (simp_all add: r_def)
  have "(a + 1) div 12 = q + (if r = 11 then 1 else 0) \<and> (a + 1) mod 12 = (if r = 11 then 0 else r + 1)"
  proof (cases "r = 11")
    case True
    then have "a + 1 = 12 * (q + 1) + 0" using a by simp
    then show ?thesis using True int_div_pos_eq [of "a + 1" 12 "q + 1" 0] int_mod_pos_eq [of "a + 1" 12 "q + 1" 0] by simp
  next
    case False
    then have "a + 1 = 12 * q + (r + 1)" "r + 1 < 12" using a r by linarith+
    then show ?thesis using False r int_div_pos_eq [of "a + 1" 12 q "r + 1"] int_mod_pos_eq [of "a + 1" 12 q "r + 1"]
      by simp
  qed
  then show "(a + 1) div 12 = a div 12 + (if a mod 12 = 11 then 1 else 0)"
    and "(a + 1) mod 12 = (if a mod 12 = 11 then 0 else a mod 12 + 1)"
    by (simp_all add: q_def r_def)
qed

lemma nth_month:
  assumes "1 \<le> dt_month d" "dt_month d \<le> 12"
  shows "(next_month ^^ k) (month_start d) = \<lparr>dt_year = dt_year d + (dt_month d + int k - 1) div 12,
      dt_month = (dt_month d + int k - 1) mod 12 + 1, dt_day = 1\<rparr>"
proof (induction k)
  case 0
  then show ?case using assms by (simp add: month_start_def)
next
  case (Suc k)
  let ?m = "dt_month d + int k - 1"
  have "dt_month d + int (Suc k) - 1 = ?m + 1" by simp
  then show ?case unfolding funpow.simps o_apply Suc.IH
    by (simp only: next_twelfth) (simp add: next_month_def)
qed

text \<open>
  C40. The first migration and the maintenance job create the same partitions: on any day the statements
  of the migration are, word for word, those by which maintenance would create the DEFAULT partition
  and the partitions of the current month and of the months ahead.
\<close>

theorem bootstrap_agrees:
  assumes "1 \<le> dt_month today" "dt_month today \<le> 12" "1 \<le> dt_year today" "dt_year today \<le> 9998"
  shows "create_partitions today = Inr (concat (map (\<lambda>table. default_partition_sql table
       # map (\<lambda>k. create_partition_sql table ((next_month ^^ k) (month_start today))) [0..<MONTHS_AHEAD + 1])
     MONTHLY_PARTITIONED_TABLES))"
proof -
  have s: "bootstrap_statement table today k = Inr (create_partition_sql table ((next_month ^^ k) (month_start today)))"
    if "k < 4" for table k
  proof -
    define y m where "y = dt_year today + (dt_month today + int k - 1) div 12" and "m = (dt_month today + int k - 1) mod 12 + 1"
    have k: "(next_month ^^ k) (month_start today) = \<lparr>dt_year = y, dt_month = m, dt_day = 1\<rparr>"
      using nth_month [OF assms(1,2)] by (simp add: y_def m_def)
    let ?m = "dt_month today + int k - 1"
    have d: "0 \<le> ?m" "?m \<le> 14" using assms(1,2) that by auto
    have "0 \<le> ?m div 12" using d(1) by (simp add: pos_imp_zdiv_nonneg_iff)
    moreover have "?m div 12 \<le> 14 div 12" using d(2) by (rule zdiv_mono1) simp
    ultimately have q: "0 \<le> ?m div 12" "?m div 12 \<le> 1" by simp_all
    have e: "?m = 12 * (?m div 12) + ?m mod 12" by (rule mult_div_mod_eq [symmetric])
    have mm: "0 \<le> ?m mod 12" "?m mod 12 < 12" by simp_all
    have r: "1 \<le> y" "y \<le> 9999" "1 \<le> m" "m \<le> 12" using assms(3,4) q mm unfolding y_def m_def by linarith+
    have r12: "y \<le> 9998" if "m = 12"
    proof -
      have "?m mod 12 = 11" using that by (simp add: m_def)
      then have "12 * (?m div 12) \<le> 3" using e d(2) by linarith
      then have "?m div 12 = 0" using q by linarith
      then show ?thesis using assms(4) by (simp add: y_def)
    qed
    have b: "month_bounds today k = Inr (date_iso \<lparr>dt_year = y, dt_month = m, dt_day = 1\<rparr>,
        date_iso (next_month \<lparr>dt_year = y, dt_month = m, dt_day = 1\<rparr>))"
      unfolding month_bounds_def Let_def y_def [symmetric] m_def [symmetric]
      using r r12 by (auto simp: py_date_def next_month_def)
    have l: "length (zpad_int 4 y) = 4" "length (zpad_int 2 m) = 2"
      using r zpad_int_simps(2) [of y 4] zpad_int_simps(2) [of m 2] by simp_all
    show ?thesis unfolding bootstrap_statement_def b k
      by (simp add: create_partition_sql_def partition_name_def date_iso_def l)
  qed
  have "collect (map (bootstrap_statement table today) [0..<BOOTSTRAP_MONTHS])
      = Inr (map (\<lambda>k. create_partition_sql table ((next_month ^^ k) (month_start today))) [0..<BOOTSTRAP_MONTHS])" for table
    by (rule collect_Inr) (simp add: s BOOTSTRAP_MONTHS_def)
  then show ?thesis
    by (simp add: create_partitions_def PARTITIONED_TABLES_def MONTHLY_PARTITIONED_TABLES_def BOOTSTRAP_MONTHS_def
        MONTHS_AHEAD_def default_partition_sql_def del: upt_Suc)
qed

theorem bootstrap_agrees_witness:
  "let today = \<lparr>dt_year = 2026, dt_month = 11, dt_day = 20\<rparr>
   in create_partitions today = Inr (concat (map (\<lambda>table. default_partition_sql table
       # map (\<lambda>k. create_partition_sql table ((next_month ^^ k) (month_start today))) [0..<MONTHS_AHEAD + 1])
     MONTHLY_PARTITIONED_TABLES)) \<and> month_bounds today 1 = Inr (''2026-12-01'', ''2027-01-01'')"
  unfolding Let_def
proof (rule conjI)
  show "create_partitions \<lparr>dt_year = 2026, dt_month = 11, dt_day = 20\<rparr> = Inr (concat (map (\<lambda>table. default_partition_sql table
       # map (\<lambda>k. create_partition_sql table ((next_month ^^ k) (month_start \<lparr>dt_year = 2026, dt_month = 11, dt_day = 20\<rparr>)))
           [0..<MONTHS_AHEAD + 1]) MONTHLY_PARTITIONED_TABLES))"
    by (rule bootstrap_agrees) simp_all
  show "month_bounds \<lparr>dt_year = 2026, dt_month = 11, dt_day = 20\<rparr> 1 = Inr (''2026-12-01'', ''2027-01-01'')" by code_simp
qed

section \<open>What autogeneration leaves alone\<close>

text \<open>
  \<open>include_object\<close> of \<open>alembic/env.py\<close>: a reflected partition, and an index on one, is not compared with
  the declared tables.  The last argument is the name of the table an index stands on, empty when
  it has none.
\<close>

definition IGNORED_TABLE_SUFFIXES :: "string list" where
  "IGNORED_TABLE_SUFFIXES = [''_default'']"

definition endswith :: "string \<Rightarrow> string \<Rightarrow> bool" where
  "endswith s suf \<longleftrightarrow> startswith (rev suf) (rev s)"

definition is_partition_child :: "string \<Rightarrow> bool" where
  "is_partition_child name \<longleftrightarrow> list_ex (endswith name) IGNORED_TABLE_SUFFIXES
     \<or> (case after_last_sep ''_p'' name of None \<Rightarrow> False | Some tail \<Rightarrow> length tail = 6 \<and> list_all digit_char tail)"

definition include_object :: "string \<Rightarrow> string \<Rightarrow> bool \<Rightarrow> string \<Rightarrow> bool" where
  "include_object name kind reflected table_name =
     (if kind = ''table'' \<and> reflected \<and> is_partition_child name then False
      else if kind = ''index'' \<and> reflected \<and> is_partition_child table_name then False
      else True)"

text \<open>Every partition maintenance or the migration creates is left alone, and no declared table is.\<close>

lemma partitions_ignored:
  assumes "usable_month d"
  shows "\<not> include_object (partition_name table d) ''table'' True x"
proof -
  let ?t = "zpad_int 4 (dt_year d) @ zpad_int 2 (dt_month d)"
  have "after_last_sep ''_p'' (partition_name table d) = Some ?t"
    unfolding partition_name_def by (subst after_last_sep_digits) (simp_all add: zpad_digits)
  moreover have "length ?t = 6" "list_all digit_char ?t"
    using suffix_of_month [OF assms, of table] by simp_all
  ultimately show ?thesis by (simp add: include_object_def is_partition_child_def)
qed

lemma parents_compared:
  "list_all (\<lambda>t. include_object t ''table'' True x) MONTHLY_PARTITIONED_TABLES"
  by code_simp

end
