(* ===== verification/Logging.thy ===== *)
theory Logging
  imports Config Crypto Security
begin

text \<open>
  \<open>app/core/logging.py\<close>: the redaction of log events and the order of the processors an event passes
  through.  The patterns are matched as Python's \<open>re\<close> does; none of them needs backtracking, because
  each repetition is followed by a character outside its class.  Texts are lists of code points;
  values that are neither text, mapping nor list pass unchanged.
\<close>

section \<open>Tables\<close>

definition SENSITIVE_KEYS :: "string list" where
  "SENSITIVE_KEYS = [''authorization'', ''proxy-authorization'', ''cookie'', ''set-cookie'', ''password'',
     ''postgres_password'', ''secret'', ''client_secret'', ''api_key'', ''apikey'', ''access_token'', ''refresh_token'',
     ''id_token'', ''token'', ''jwt'', ''session'', ''aws_secret_access_key'', ''aws_access_key_id'', ''presigned_url'',
     ''upload_url'', ''download_url'', ''signature'', ''x-amz-signature'', ''code_verifier'', ''private_key'']"

definition CONTENT_KEYS :: "string list" where
  "CONTENT_KEYS = [''text'', ''content'', ''message'', ''body'', ''html'', ''sanitized_html'', ''plain_text'', ''parts'',
     ''payload'', ''raw_payload'', ''title'', ''prompt'', ''answer'']"

definition REDACTED :: string where
  "REDACTED = ''[REDACTED]''"

definition SUPPRESSED :: string where
  "SUPPRESSED = ''[CONTENT_SUPPRESSED]''"

definition MAX_DEPTH :: nat where
  "MAX_DEPTH = 6"

section \<open>Patterns\<close>

text \<open>One character of a class, or the longest run of at least \<open>n\<close> of them.\<close>

datatype piece = One "nat \<Rightarrow> bool" | Many nat "nat \<Rightarrow> bool"

fun match_pieces :: "piece list \<Rightarrow> ustr \<Rightarrow> (ustr \<times> ustr) option" where
  "match_pieces [] xs = Some ([], xs)"
| "match_pieces (One p # ps) [] = None"
| "match_pieces (One p # ps) (x # xs) =
     (if p x then map_option (\<lambda>(m, r). (x # m, r)) (match_pieces ps xs) else None)"
| "match_pieces (Many n p # ps) xs =
     (let run = takeWhile p xs
      in if length run < n then None
         else map_option (\<lambda>(m, r). (run @ m, r)) (match_pieces ps (dropWhile p xs)))"

text \<open>
  \<open>re.IGNORECASE\<close> on ASCII letters: beside the other case it takes the dotted capital and the dotless
  small i, the long s and the Kelvin sign.
\<close>

definition fold_code :: "nat \<Rightarrow> nat" where
  "fold_code c = (if c = 304 \<or> c = 305 then 105 else if c = 383 then 115 else if c = 8490 then 107 else ascii_lower_code c)"

definition ci :: "string \<Rightarrow> piece list" where
  "ci s = map (\<lambda>c. One (\<lambda>x. fold_code x = of_char c)) s"

definition exact :: "string \<Rightarrow> piece list" where
  "exact s = map (\<lambda>c. One (\<lambda>x. x = of_char c)) s"

definition digit_code :: "nat \<Rightarrow> bool" where
  "digit_code c \<longleftrightarrow> 48 \<le> c \<and> c \<le> 57"

definition ci_letter :: "nat \<Rightarrow> bool" where
  "ci_letter c \<longleftrightarrow> 97 \<le> fold_code c \<and> fold_code c \<le> 122"

definition bearer_char :: "nat \<Rightarrow> bool" where
  "bearer_char c \<longleftrightarrow> ci_letter c \<or> digit_code c \<or> c \<in> {46, 95, 126, 43, 47, 45}"

definition jwt_char :: "nat \<Rightarrow> bool" where
  "jwt_char c \<longleftrightarrow> (65 \<le> c \<and> c \<le> 90) \<or> (97 \<le> c \<and> c \<le> 122) \<or> digit_code c \<or> c = 95 \<or> c = 45"

definition word_char :: "unidb \<Rightarrow> nat \<Rightarrow> bool" where
  "word_char ud c \<longleftrightarrow> u_isalnum ud c \<or> c = 95"

text \<open>
  A pattern looks at the character before the position and at the text from there; it gives what it
  consumes, its replacement and the rest.
\<close>

type_synonym pattern = "nat option \<Rightarrow> ustr \<Rightarrow> (ustr \<times> ustr \<times> ustr) option"

definition simple_pattern :: "piece list \<Rightarrow> string \<Rightarrow> pattern" where
  "simple_pattern ps replacement prev xs = map_option (\<lambda>(m, r). (m, lit replacement, r)) (match_pieces ps xs)"

text \<open>The first group is kept.\<close>

definition grouped_pattern :: "piece list \<Rightarrow> piece list \<Rightarrow> string \<Rightarrow> pattern" where
  "grouped_pattern grp ps replacement prev xs = (case match_pieces grp xs of None \<Rightarrow> None
     | Some (g, r) \<Rightarrow> map_option (\<lambda>(m, r'). (g @ m, g @ lit replacement, r')) (match_pieces ps r))"

definition is_word :: "unidb \<Rightarrow> nat option \<Rightarrow> bool" where
  "is_word ud c = (case c of None \<Rightarrow> False | Some x \<Rightarrow> word_char ud x)"

definition head_of :: "ustr \<Rightarrow> nat option" where
  "head_of xs = (case xs of [] \<Rightarrow> None | x # _ \<Rightarrow> Some x)"

definition bounded_pattern :: "unidb \<Rightarrow> pattern \<Rightarrow> pattern" where
  "bounded_pattern ud f prev xs = (if is_word ud prev then None else case f prev xs of None \<Rightarrow> None
     | Some (m, s, r) \<Rightarrow> if is_word ud (head_of r) then None else Some (m, s, r))"

definition log_patterns :: "unidb \<Rightarrow> pattern list" where
  "log_patterns ud =
     [simple_pattern (ci ''bearer'' @ [Many 1 is_space, Many 1 bearer_char, Many 0 (\<lambda>c. c = 61)]) ''Bearer [REDACTED]'',
      bounded_pattern ud (simple_pattern (ci ''akia'' @ replicate 16 (One (\<lambda>c. digit_code c \<or> ci_letter c))) ''[REDACTED_AWS_KEY]''),
      grouped_pattern (ci ''x-amz-signature='') [Many 1 (\<lambda>c. digit_code c \<or> (97 \<le> fold_code c \<and> fold_code c \<le> 102))] ''[REDACTED]'',
      grouped_pattern (ci ''x-amz-credential='') [Many 1 (\<lambda>c. c \<noteq> 38 \<and> \<not> is_space c)] ''[REDACTED]'',
      simple_pattern (exact ''eyJ'' @ [Many 8 jwt_char] @ exact ''.'' @ [Many 8 jwt_char] @ exact ''.'' @ [Many 8 jwt_char])
        ''[REDACTED_JWT]'']"

section \<open>Scrubbing\<close>

text \<open>\<open>pattern.sub\<close>: every pattern consumes at least one character.\<close>

function sub_pattern :: "pattern \<Rightarrow> nat option \<Rightarrow> ustr \<Rightarrow> ustr" where
  "sub_pattern f prev [] = []"
| "sub_pattern f prev (x # xs) = (case f prev (x # xs) of
       Some (m, s, r) \<Rightarrow> if length r \<le> length xs then s @ sub_pattern f (Some (last m)) r else x # sub_pattern f (Some x) xs
     | None \<Rightarrow> x # sub_pattern f (Some x) xs)"
  by pat_completeness auto

termination by (relation "measure (\<lambda>(f, prev, xs). length xs)") auto

definition scrub_string :: "unidb \<Rightarrow> ustr \<Rightarrow> ustr" where
  "scrub_string ud value = fold (\<lambda>f v. sub_pattern f None v) (log_patterns ud) value"

function scrub :: "unidb \<Rightarrow> bool \<Rightarrow> nat \<Rightarrow> json \<Rightarrow> json" where
  "scrub ud allow depth v = (if MAX_DEPTH < depth then JStr ''[TRUNCATED]'' else case v of
       JStr s \<Rightarrow> JText (scrub_string ud (lit s))
     | JText s \<Rightarrow> JText (scrub_string ud s)
     | JObj kvs \<Rightarrow> JObj (map (\<lambda>(k, x). (k,
         if ascii_lower k \<in> set SENSITIVE_KEYS then JStr REDACTED
         else if ascii_lower k \<in> set CONTENT_KEYS \<and> \<not> allow then JStr SUPPRESSED
         else scrub ud allow (Suc depth) x)) kvs)
     | JList xs \<Rightarrow> JList (map (scrub ud allow (Suc depth)) xs)
     | _ \<Rightarrow> v)"
  by pat_completeness auto

termination by (relation "measure (\<lambda>(ud, allow, depth, v). Suc MAX_DEPTH - depth)") auto

declare scrub.simps [simp del]

section \<open>Processors\<close>

definition redaction_processor :: "unidb \<Rightarrow> settings \<Rightarrow> (string \<times> json) list \<Rightarrow> (string \<times> json) list" where
  "redaction_processor ud s event = (case scrub ud (st_log_message_content s) 0 (JObj event) of JObj kvs \<Rightarrow> kvs | _ \<Rightarrow> [])"

definition set_default :: "string \<Rightarrow> json \<Rightarrow> (string \<times> json) list \<Rightarrow> (string \<times> json) list" where
  "set_default k v event = (if map_of event k = None then event @ [(k, v)] else event)"

definition correlation_processor ::
  "string option \<Rightarrow> string option \<Rightarrow> (string \<times> json) list \<Rightarrow> (string \<times> json) list" where
  "correlation_processor cid actor event =
     (let e1 = (if truthy cid then set_default ''correlation_id'' (JStr (the cid)) event else event)
      in if truthy actor then set_default ''actor'' (JStr (the actor)) e1 else e1)"

text \<open>
  \<open>format_exc_info\<close> takes \<open>exc_info\<close> out of the event and, when it is set, stores the text of the
  exception being handled, a parameter.
\<close>

fun set_field_json :: "string \<Rightarrow> json \<Rightarrow> (string \<times> json) list \<Rightarrow> (string \<times> json) list" where
  "set_field_json k v [] = [(k, v)]"
| "set_field_json k v ((k', w) # event) = (if k' = k then (k, v) # event else (k', w) # set_field_json k v event)"

definition format_exc_info :: "ustr \<Rightarrow> (string \<times> json) list \<Rightarrow> (string \<times> json) list" where
  "format_exc_info traceback event = (case map_of event ''exc_info'' of None \<Rightarrow> event
     | Some v \<Rightarrow>
       let e1 = filter (\<lambda>(k, w). k \<noteq> ''exc_info'') event
       in if json_truthy v then set_field_json ''exception'' (JText traceback) e1 else e1)"

text \<open>
  The chain the configuration installs, from the correlation id to the renderer; the level and the
  time stamp come before it and hold no content, and the code never asks for a stack.
\<close>

definition log_event ::
  "unidb \<Rightarrow> settings \<Rightarrow> string option \<Rightarrow> string option \<Rightarrow> ustr \<Rightarrow> (string \<times> json) list \<Rightarrow> (string \<times> json) list" where
  "log_event ud s cid actor traceback event =
     format_exc_info traceback (redaction_processor ud s (correlation_processor cid actor event))"

section \<open>What an event shows\<close>

text \<open>
  A value fit for the log: no value under a sensitive key, content only when allowed, every text
  the outcome of the patterns, nothing nested deeper than the bound.
\<close>

function clean_value :: "unidb \<Rightarrow> bool \<Rightarrow> nat \<Rightarrow> json \<Rightarrow> bool" where
  "clean_value ud allow depth v = (if MAX_DEPTH < depth then v = JStr ''[TRUNCATED]'' else case v of
       JStr s \<Rightarrow> False
     | JText s \<Rightarrow> s \<in> range (scrub_string ud)
     | JObj kvs \<Rightarrow> (\<forall>(k, x)\<in>set kvs.
         if ascii_lower k \<in> set SENSITIVE_KEYS then x = JStr REDACTED
         else if ascii_lower k \<in> set CONTENT_KEYS \<and> \<not> allow then x = JStr SUPPRESSED
         else clean_value ud allow (Suc depth) x)
     | JList xs \<Rightarrow> (\<forall>x\<in>set xs. clean_value ud allow (Suc depth) x)
     | _ \<Rightarrow> True)"
  by pat_completeness auto

termination by (relation "measure (\<lambda>(ud, allow, depth, v). Suc MAX_DEPTH - depth)") auto

declare clean_value.simps [simp del]

lemma scrub_clean: "clean_value ud allow depth (scrub ud allow depth v)"
proof (induction ud allow depth v rule: scrub.induct)
  case (1 ud allow depth v)
  show ?case
  proof (cases "MAX_DEPTH < depth")
    case True
    then show ?thesis by (simp add: scrub.simps clean_value.simps)
  next
    case False
    then show ?thesis
      using 1 by (cases v) (auto simp: scrub.simps [of _ _ depth] clean_value.simps [of _ _ depth])
  qed
qed

text \<open>Dropping the field, or writing it, leaves the others as they were.\<close>

lemma set_field_json_others: "set (set_field_json c v event) \<subseteq> insert (c, v) (set event)"
  by (induction event) (auto split: if_splits)

lemma set_field_json_lookup: "map_of (set_field_json c v event) k = (if k = c then Some v else map_of event k)"
  by (induction event) auto

lemma format_exc_info_others:
  "set (filter (\<lambda>(k, w). k \<noteq> ''exception'') (format_exc_info traceback event)) \<subseteq> set event"
  using set_field_json_others by (fastforce simp: format_exc_info_def Let_def split: option.splits if_splits)

text \<open>The shape of what the redaction returns, and the field that asks for a traceback.\<close>

lemma redaction_obj:
  "scrub ud (st_log_message_content s) 0 (JObj event) = JObj (redaction_processor ud s event)"
  by (simp add: redaction_processor_def scrub.simps MAX_DEPTH_def)

lemma scrub_bool: "depth \<le> MAX_DEPTH \<Longrightarrow> scrub ud allow depth (JBool b) = JBool b"
  by (simp add: scrub.simps)

lemma map_of_keyed: "map_of (map (\<lambda>(k, x). (k, f k x)) kvs) c = map_option (f c) (map_of kvs c)"
  by (induction kvs) auto

lemma exc_info_plain: "ascii_lower ''exc_info'' \<notin> set SENSITIVE_KEYS \<and> ascii_lower ''exc_info'' \<notin> set CONTENT_KEYS"
  by code_simp

lemma redaction_exc_info:
  "map_of event ''exc_info'' = Some (JBool True) \<Longrightarrow> map_of (redaction_processor ud s event) ''exc_info'' = Some (JBool True)"
  unfolding redaction_processor_def scrub.simps [of _ _ 0] json.case
  by (simp add: map_of_keyed exc_info_plain scrub_bool MAX_DEPTH_def)

lemma correlation_exc_info:
  "map_of event ''exc_info'' = Some v \<Longrightarrow> map_of (correlation_processor cid actor event) ''exc_info'' = Some v"
  by (simp add: correlation_processor_def Let_def set_default_def map_add_def)

lemma clean_sub:
  "clean_value ud allow 0 (JObj kvs) \<Longrightarrow> set ys \<subseteq> set kvs \<Longrightarrow> clean_value ud allow 0 (JObj ys)"
  unfolding clean_value.simps [of _ _ 0] json.case MAX_DEPTH_def by (simp only: less_nat_zero_code if_False) blast

text \<open>
  C36. Whatever is logged, every field of the event but \<open>exception\<close> is redacted at every depth: no value
  stands under a sensitive key, conversation content only when the settings allow it, and every
  text has gone through the patterns.  The traceback of a logged exception has not: it is added
  after the redaction, word for word.
\<close>

theorem log_redaction:
  "clean_value ud (st_log_message_content s) 0
     (JObj (filter (\<lambda>(k, v). k \<noteq> ''exception'') (log_event ud s cid actor traceback event)))
   \<and> map_of (log_event ud s cid actor traceback (set_field_json ''exc_info'' (JBool True) event)) ''exception'' = Some (JText traceback)"
proof -
  let ?a = "st_log_message_content s"
  have "clean_value ud ?a 0 (JObj (redaction_processor ud s ev))" for ev
    using scrub_clean [of ud ?a 0 "JObj ev"] by (simp add: redaction_obj)
  then have "clean_value ud ?a 0 (JObj (filter (\<lambda>(k, v). k \<noteq> ''exception'') (log_event ud s cid actor traceback event)))"
    unfolding log_event_def using clean_sub format_exc_info_others by blast
  moreover have "map_of (log_event ud s cid actor traceback (set_field_json ''exc_info'' (JBool True) event)) ''exception''
    = Some (JText traceback)"
    by (simp add: log_event_def format_exc_info_def redaction_exc_info correlation_exc_info set_field_json_lookup json_truthy_def)
  ultimately show ?thesis by blast
qed

end
