(* ===== verification/Http.thy ===== *)
theory Http
  imports Logging
begin

text \<open>
  The shell around the routes: \<open>app/core/errors.py\<close> (the exceptions and their responses),
  \<open>app/api/middleware.py\<close> (correlation ids, body limit, security headers), \<open>app/main.py\<close> (the order in
  which \<open>create_app\<close> stacks them) and \<open>app/api/docs.py\<close>.  An application is a function from a request and
  a state to a response or a raised exception and the state; the router, the host check and the
  cross-origin layer of Starlette are parameters.  Header names are in lower case; the type and length
  Starlette adds to a response are left out.
\<close>

section \<open>Errors\<close>

datatype app_class = AppErrorC | ValidationErrorC | AuthenticationErrorC | AuthorizationErrorC | PolicyErrorC
  | NotFoundErrorC | ConflictErrorC | PayloadTooLargeErrorC | RateLimitErrorC | BackpressureErrorC | UpstreamErrorC

fun class_status :: "app_class \<Rightarrow> int" where
  "class_status AppErrorC = 400"
| "class_status ValidationErrorC = 422"
| "class_status AuthenticationErrorC = 401"
| "class_status AuthorizationErrorC = 403"
| "class_status PolicyErrorC = 403"
| "class_status NotFoundErrorC = 404"
| "class_status ConflictErrorC = 409"
| "class_status PayloadTooLargeErrorC = 413"
| "class_status RateLimitErrorC = 429"
| "class_status BackpressureErrorC = 503"
| "class_status UpstreamErrorC = 502"

fun class_code :: "app_class \<Rightarrow> string" where
  "class_code AppErrorC = ''bad_request''"
| "class_code ValidationErrorC = ''validation_error''"
| "class_code AuthenticationErrorC = ''unauthenticated''"
| "class_code AuthorizationErrorC = ''forbidden''"
| "class_code PolicyErrorC = ''policy_blocked''"
| "class_code NotFoundErrorC = ''not_found''"
| "class_code ConflictErrorC = ''conflict''"
| "class_code PayloadTooLargeErrorC = ''payload_too_large''"
| "class_code RateLimitErrorC = ''rate_limited''"
| "class_code BackpressureErrorC = ''backpressure''"
| "class_code UpstreamErrorC = ''upstream_error''"

record app_error =
  ae_status :: int
  ae_code :: string
  ae_message :: ustr
  ae_details :: "(string \<times> json) list"
  ae_retry_after :: "int option"

text \<open>The constructors; an empty code and a status of 0 leave the defaults of the class.\<close>

definition new_app_error ::
  "app_class \<Rightarrow> ustr \<Rightarrow> (string \<times> json) list option \<Rightarrow> string option \<Rightarrow> int option \<Rightarrow> int option \<Rightarrow> app_error" where
  "new_app_error c message details code status retry_after =
     \<lparr>ae_status = (case status of None \<Rightarrow> class_status c | Some n \<Rightarrow> if n = 0 then class_status c else n),
      ae_code = (if truthy code then the code else class_code c), ae_message = message,
      ae_details = (case details of None \<Rightarrow> [] | Some d \<Rightarrow> d),
      ae_retry_after = (case c of RateLimitErrorC \<Rightarrow> Some (case retry_after of None \<Rightarrow> 60 | Some n \<Rightarrow> n)
        | BackpressureErrorC \<Rightarrow> Some (case retry_after of None \<Rightarrow> 30 | Some n \<Rightarrow> n) | _ \<Rightarrow> None)\<rparr>"

text \<open>The class of an exception of the services; the others are not application errors.\<close>

fun exn_class :: "exn \<Rightarrow> app_class option" where
  "exn_class (ValidationError m) = Some ValidationErrorC"
| "exn_class (AuthenticationError m) = Some AuthenticationErrorC"
| "exn_class (AuthorizationError m) = Some AuthorizationErrorC"
| "exn_class (PolicyError m) = Some PolicyErrorC"
| "exn_class (NotFoundError m) = Some NotFoundErrorC"
| "exn_class (UpstreamError m) = Some UpstreamErrorC"
| "exn_class (RateLimitError n) = Some RateLimitErrorC"
| "exn_class (BackpressureError n) = Some BackpressureErrorC"
| "exn_class _ = None"

text \<open>
  What the router may raise: an application error, the errors of a request that fails its schema
  (location and type), an HTTP error with its detail and headers, or anything else, with its type
  name and its traceback.
\<close>

type_synonym headers = "(string \<times> ustr) list"

datatype raised =
    Application app_error
  | Invalid "(string list \<times> string) list"
  | HttpError int "ustr option" "headers option"
  | Unhandled string ustr

section \<open>Requests, responses, applications\<close>

record request =
  rq_method :: string
  rq_path :: ustr
  rq_headers :: headers

record response =
  rp_status :: int
  rp_headers :: headers
  rp_body :: json

text \<open>The context variables, the lines logged so far and what the routes work on.\<close>

record 'w http_context =
  cx_cid :: "string option"
  cx_actor :: "string option"
  cx_log :: "(string \<times> json) list list"
  cx_world :: 'w

type_synonym 'w application = "request \<Rightarrow> 'w http_context \<Rightarrow> (raised + response) \<times> 'w http_context"

definition str_of_ustr :: "ustr \<Rightarrow> string" where
  "str_of_ustr u = map char_of u"

definition header_set :: "string \<Rightarrow> ustr \<Rightarrow> headers \<Rightarrow> headers" where
  "header_set k v hs = filter (\<lambda>(k', w). k' \<noteq> k) hs @ [(k, v)]"

definition header_setdefault :: "string \<Rightarrow> ustr \<Rightarrow> headers \<Rightarrow> headers" where
  "header_setdefault k v hs = (if map_of hs k = None then hs @ [(k, v)] else hs)"

section \<open>Log lines\<close>

definition log_levels :: "(string \<times> int) list" where
  "log_levels = [(''CRITICAL'', 50), (''FATAL'', 50), (''ERROR'', 40), (''WARNING'', 30), (''WARN'', 30), (''INFO'', 20),
     (''DEBUG'', 10), (''NOTSET'', 0)]"

definition upper_code :: "nat \<Rightarrow> nat" where
  "upper_code c = (if 97 \<le> c \<and> c \<le> 122 then c - 32 else c)"

definition configured_level :: "settings \<Rightarrow> int" where
  "configured_level s = (case map_of (map (\<lambda>(k, n). (lit k, n)) log_levels) (map upper_code (st_log_level s)) of
     None \<Rightarrow> 20 | Some n \<Rightarrow> n)"

text \<open>The arguments come before the name of the event; a line below the configured level is dropped.\<close>

definition emit ::
  "unidb \<Rightarrow> settings \<Rightarrow> int \<Rightarrow> string \<Rightarrow> (string \<times> json) list \<Rightarrow> ustr \<Rightarrow> 'w http_context \<Rightarrow> 'w http_context" where
  "emit ud s level name args traceback cx =
     (if level < configured_level s then cx
      else cx\<lparr>cx_log := cx_log cx @ [log_event ud s (cx_cid cx) (cx_actor cx) traceback (args @ [(''event'', JStr name)])]\<rparr>)"

section \<open>Exception handlers\<close>

definition error_body :: "string \<Rightarrow> ustr \<Rightarrow> (string \<times> json) list \<Rightarrow> 'w http_context \<Rightarrow> json" where
  "error_body code message details cx = JObj [(''error'', JObj [(''code'', JStr code), (''message'', JText message),
     (''details'', JObj details), (''correlation_id'', case cx_cid cx of None \<Rightarrow> JNull | Some c \<Rightarrow> JStr c)])]"

definition app_error_response :: "unidb \<Rightarrow> settings \<Rightarrow> app_error \<Rightarrow> 'w http_context \<Rightarrow> response \<times> 'w http_context" where
  "app_error_response ud s e cx =
     (\<lparr>rp_status = ae_status e,
       rp_headers = (case ae_retry_after e of None \<Rightarrow> [] | Some n \<Rightarrow> [(''retry-after'', lit (dec_int n))]),
       rp_body = error_body (ae_code e) (ae_message e) (ae_details e) cx\<rparr>,
      emit ud s (if 500 \<le> ae_status e then 40 else 20) ''app_error''
        [(''code'', JStr (ae_code e)), (''status'', JInt (ae_status e)), (''reason'', JText (ae_message e))] [] cx)"

definition validation_response :: "(string list \<times> string) list \<Rightarrow> 'w http_context \<Rightarrow> response" where
  "validation_response errors cx =
     \<lparr>rp_status = 422, rp_headers = [],
      rp_body = error_body ''validation_error'' (lit ''Request failed schema validation'')
        [(''errors'', JList (map (\<lambda>(loc, ty). JObj [(''loc'', JList (map JStr loc)), (''type'', JStr ty)]) (take 25 errors)))] cx\<rparr>"

definition http_codes :: "(int \<times> string) list" where
  "http_codes = [(401, ''unauthenticated''), (403, ''forbidden''), (404, ''not_found''), (405, ''method_not_allowed''),
     (413, ''payload_too_large''), (429, ''rate_limited'')]"

definition http_response :: "int \<Rightarrow> ustr option \<Rightarrow> headers option \<Rightarrow> 'w http_context \<Rightarrow> response" where
  "http_response status detail hs cx =
     \<lparr>rp_status = status, rp_headers = (case hs of None \<Rightarrow> [] | Some h \<Rightarrow> h),
      rp_body = error_body (case map_of http_codes status of None \<Rightarrow> ''http_error'' | Some c \<Rightarrow> c)
        (case detail of None \<Rightarrow> lit ''Request failed'' | Some t \<Rightarrow> t) [] cx\<rparr>"

text \<open>The handlers run innermost, around the router; only the one for any other exception does not.\<close>

definition exception_handlers :: "unidb \<Rightarrow> settings \<Rightarrow> 'w application \<Rightarrow> 'w application" where
  "exception_handlers ud s app rq cx = (case app rq cx of
       (Inr p, cx1) \<Rightarrow> (Inr p, cx1)
     | (Inl e, cx1) \<Rightarrow> (case e of
           Application a \<Rightarrow> (let (p, cx2) = app_error_response ud s a cx1 in (Inr p, cx2))
         | Invalid errors \<Rightarrow> (Inr (validation_response errors cx1), cx1)
         | HttpError status detail hs \<Rightarrow> (Inr (http_response status detail hs cx1), cx1)
         | Unhandled ty tb \<Rightarrow> (Inl e, cx1)))"

definition unhandled_response :: "unidb \<Rightarrow> settings \<Rightarrow> string \<Rightarrow> ustr \<Rightarrow> 'w http_context \<Rightarrow> response \<times> 'w http_context" where
  "unhandled_response ud s ty tb cx =
     (\<lparr>rp_status = 500, rp_headers = [], rp_body = error_body ''internal_error'' (lit ''Internal server error'') [] cx\<rparr>,
      emit ud s 40 ''unhandled_exception'' [(''error_type'', JStr ty), (''exc_info'', JBool True)] tb cx)"

text \<open>Starlette puts that one outermost, around every middleware.\<close>

definition server_error :: "unidb \<Rightarrow> settings \<Rightarrow> 'w application \<Rightarrow> request \<Rightarrow> 'w http_context \<Rightarrow> response \<times> 'w http_context" where
  "server_error ud s app rq cx = (case app rq cx of
       (Inr p, cx1) \<Rightarrow> (p, cx1)
     | (Inl (Unhandled ty tb), cx1) \<Rightarrow> unhandled_response ud s ty tb cx1
     | (Inl _, cx1) \<Rightarrow> unhandled_response ud s ''Exception'' [] cx1)"

section \<open>Middleware\<close>

definition squote :: "string \<Rightarrow> string" where
  "squote w = [CHR 0x27] @ w @ [CHR 0x27]"

definition SECURITY_HEADERS :: headers where
  "SECURITY_HEADERS =
     [(''x-content-type-options'', lit ''nosniff''), (''x-frame-options'', lit ''DENY''),
      (''referrer-policy'', lit ''no-referrer''), (''cross-origin-opener-policy'', lit ''same-origin''),
      (''cross-origin-resource-policy'', lit ''same-origin''),
      (''permissions-policy'', lit ''geolocation=(), microphone=(), camera=(), interest-cohort=()''),
      (''content-security-policy'', lit (''default-src '' @ squote ''none'' @ ''; frame-ancestors '' @ squote ''none''
         @ ''; base-uri '' @ squote ''none'' @ ''; form-action '' @ squote ''none'')),
      (''cache-control'', lit ''no-store'')]"

definition add_defaults :: "headers \<Rightarrow> headers \<Rightarrow> headers" where
  "add_defaults ds hs = fold (\<lambda>(k, v) h. header_setdefault k v h) ds hs"

definition security_headers :: "settings \<Rightarrow> 'w application \<Rightarrow> 'w application" where
  "security_headers s app rq cx = (case app rq cx of
       (Inl e, cx1) \<Rightarrow> (Inl e, cx1)
     | (Inr p, cx1) \<Rightarrow>
         let h1 = add_defaults SECURITY_HEADERS (rp_headers p)
         in (Inr (p\<lparr>rp_headers := (if is_production s
               then header_setdefault ''strict-transport-security'' (lit ''max-age=63072000; includeSubDomains'') h1 else h1)\<rparr>), cx1))"

text \<open>
  \<open>str.isdigit\<close> on a header, whose bytes are read as Latin-1: the superscripts one, two and three count as
  digits, and \<open>int\<close> refuses them, as it refuses more than 4300 digits.
\<close>

definition header_isdigit :: "ustr \<Rightarrow> bool" where
  "header_isdigit v \<longleftrightarrow> v \<noteq> [] \<and> list_all (\<lambda>c. digit_code c \<or> c \<in> {178, 179, 185}) v"

definition int_of_header :: "ustr \<Rightarrow> int option" where
  "int_of_header v = (if list_all digit_code v \<and> length v \<le> 4300
     then Some (fold (\<lambda>c n. 10 * n + (int c - 48)) v 0) else None)"

definition too_large :: "settings \<Rightarrow> 'w http_context \<Rightarrow> response" where
  "too_large s cx = \<lparr>rp_status = 413, rp_headers = [],
     rp_body = error_body ''payload_too_large'' (lit ''Request body exceeds the configured maximum'')
       [(''max_bytes'', JInt (st_max_request_bytes s))] cx\<rparr>"

definition body_size_limit :: "settings \<Rightarrow> 'w application \<Rightarrow> 'w application" where
  "body_size_limit s app rq cx = (case map_of (rq_headers rq) ''content-length'' of
       None \<Rightarrow> app rq cx
     | Some v \<Rightarrow>
         if \<not> header_isdigit v then app rq cx
         else (case int_of_header v of
             None \<Rightarrow> (Inl (Unhandled ''ValueError'' []), cx)
           | Some n \<Rightarrow> if st_max_request_bytes s < n then (Inr (too_large s cx), cx) else app rq cx))"

text \<open>A client's correlation id is taken over when it is short and made of ASCII letters, digits and hyphens.\<close>

definition correlation_ok :: "unidb \<Rightarrow> ustr \<Rightarrow> bool" where
  "correlation_ok ud v \<longleftrightarrow> list_all (\<lambda>c. c < 128) v
     \<and> (let w = filter (\<lambda>c. c \<noteq> 45) v in w \<noteq> [] \<and> list_all (u_isalnum ud) w) \<and> length v \<le> 64"

definition correlation_id :: "unidb \<Rightarrow> string \<Rightarrow> request \<Rightarrow> string" where
  "correlation_id ud fresh rq = (case map_of (rq_headers rq) ''x-correlation-id'' of None \<Rightarrow> fresh
     | Some v \<Rightarrow> if correlation_ok ud v then str_of_ustr v else fresh)"

text \<open>
  The random id, and the elapsed milliseconds as text and as the rounded number, are parameters.  The
  line of the request is logged after the context variables have been reset.
\<close>

record clock =
  ck_fresh :: string
  ck_text :: ustr
  ck_rounded :: rat

definition correlation_middleware :: "unidb \<Rightarrow> settings \<Rightarrow> clock \<Rightarrow> 'w application \<Rightarrow> 'w application" where
  "correlation_middleware ud s ck app rq cx =
     (let cid = correlation_id ud (ck_fresh ck) rq;
          (r, cx1) = app rq (cx\<lparr>cx_cid := Some cid, cx_actor := None\<rparr>);
          cx2 = cx1\<lparr>cx_cid := cx_cid cx, cx_actor := cx_actor cx\<rparr>
      in case r of
           Inl e \<Rightarrow> (Inl e, cx2)
         | Inr p \<Rightarrow>
             let p' = p\<lparr>rp_headers := header_set ''x-response-time-ms'' (ck_text ck)
                   (header_set ''x-correlation-id'' (lit cid) (rp_headers p))\<rparr>
             in (Inr p', emit ud s 20 ''http_request''
                   [(''method'', JStr (rq_method rq)), (''path'', JText (rq_path rq)), (''status'', JInt (rp_status p')),
                    (''duration_ms'', JFloat (ck_rounded ck))] [] cx2))"

section \<open>The application\<close>

text \<open>The three middlewares of the program around the handlers and the router, innermost first.\<close>

definition own_stack :: "unidb \<Rightarrow> settings \<Rightarrow> clock \<Rightarrow> 'w application \<Rightarrow> 'w application" where
  "own_stack ud s ck router = correlation_middleware ud s ck (body_size_limit s (security_headers s (exception_handlers ud s router)))"

record 'w starlette =
  sl_trusted_host :: "ustr list \<Rightarrow> 'w application \<Rightarrow> 'w application"
  sl_cors :: "ustr list \<Rightarrow> string list \<Rightarrow> string list \<Rightarrow> string list \<Rightarrow> int \<Rightarrow> 'w application \<Rightarrow> 'w application"

definition create_app ::
  "unidb \<Rightarrow> settings \<Rightarrow> clock \<Rightarrow> 'w starlette \<Rightarrow> 'w application \<Rightarrow> request \<Rightarrow> 'w http_context \<Rightarrow> response \<times> 'w http_context" where
  "create_app ud s ck sl router =
     (let a1 = own_stack ud s ck router;
          a2 = (if is_production s then sl_trusted_host sl [st_archive_hostname s] a1 else a1);
          a3 = (if allowed_origins s \<noteq> [] then sl_cors sl (allowed_origins s) [''GET'', ''POST'', ''OPTIONS'']
                  [''Authorization'', ''Content-Type'', ''X-Correlation-Id''] [''X-Correlation-Id'', ''Retry-After''] 600 a2
                else a2)
      in server_error ud s a3)"

definition openapi_url :: "settings \<Rightarrow> string option" where
  "openapi_url s = (if api_docs_available s then Some ''/openapi.json'' else None)"

definition SWAGGER_UI_DIR :: string where
  "SWAGGER_UI_DIR = ''/opt/swagger-ui''"

text \<open>What is warned about while the application is built, given whether the documentation's files are there.\<close>

type_synonym log_call = "int \<times> string \<times> (string \<times> json) list"

definition build_warnings :: "settings \<Rightarrow> bool \<Rightarrow> log_call list" where
  "build_warnings s assets =
     (if allowed_origins s = []
      then [(30, ''cors_allowlist_empty'', [(''hint'', JStr ''Set EXTENSION_IDS after the first build'')])] else [])
     @ (if api_docs_available s \<and> \<not> assets
        then [(30, ''api_docs_assets_missing'', [(''directory'', JStr SWAGGER_UI_DIR),
          (''detail'', JStr ''documentation is enabled but the image has no Swagger UI assets'')])] else [])"

text \<open>What the start of the application logs.\<close>

definition lifespan_events :: "settings \<Rightarrow> log_call list" where
  "lifespan_events s =
     [(20, ''api_starting'', [(''environment'', JText (st_environment s)), (''version'', JText (st_app_version s)),
        (''capture_active'', JBool (browser_capture_active s)),
        (''compliance_poll_enabled'', JBool (st_compliance_poll_enabled s))])]
     @ (if \<not> browser_capture_active s
        then [(30, ''capture_gates_closed'',
          [(''browser_content_capture_enabled'', JBool (st_browser_content_capture_enabled s)),
           (''openai_written_authorization_confirmed'', JBool (st_openai_written_authorization_confirmed s)),
           (''kill_switch'', JBool (st_kill_switch_enabled s))])] else [])
     @ (if is_production s \<and> api_docs_available s
        then [(30, ''api_docs_exposed'', [(''detail'', JStr (''Interactive API documentation is enabled in production. ''
          @ ''Protect /docs and /openapi.json with a Cloudflare Access ''
          @ ''policy, or set API_DOCS_ENABLED=false.''))])] else [])"

section \<open>Documentation and root\<close>

definition ASSET_MOUNT :: string where
  "ASSET_MOUNT = ''/static/swagger''"

definition INITIALISER_PATH :: string where
  "INITIALISER_PATH = ''/docs/initialiser.js''"

definition DOCS_PATH :: string where
  "DOCS_PATH = ''/docs''"

definition OPENAPI_PATH :: string where
  "OPENAPI_PATH = ''/openapi.json''"

definition DOCS_CSP :: string where
  "DOCS_CSP = ''default-src '' @ squote ''none'' @ ''; '' @ ''script-src '' @ squote ''self'' @ ''; ''
     @ ''style-src '' @ squote ''self'' @ '' '' @ squote ''unsafe-inline'' @ ''; '' @ ''img-src '' @ squote ''self'' @ '' data:; ''
     @ ''font-src '' @ squote ''self'' @ '' data:; '' @ ''connect-src '' @ squote ''self'' @ ''; ''
     @ ''frame-ancestors '' @ squote ''none'' @ ''; '' @ ''base-uri '' @ squote ''none'' @ ''; '' @ ''form-action '' @ squote ''none''"

text \<open>The page, its lines with the three values filled in.\<close>

definition page_lines :: "ustr \<Rightarrow> ustr list" where
  \<open>page_lines title = [lit ''<!DOCTYPE html>'', lit ''<html lang="en">'', lit ''  <head>'',
     lit ''    <meta charset="utf-8">'',
     lit ''    <meta name="viewport" content="width=device-width, initial-scale=1">'',
     lit ''    <meta name="robots" content="noindex, nofollow">'',
     lit ''    <title>'' @ title @ lit ''</title>'',
     lit (''    <link rel="stylesheet" href="'' @ ASSET_MOUNT @ ''/swagger-ui.css">''), lit ''  </head>'', lit ''  <body>'',
     lit ''    <div id="swagger-ui"></div>'',
     lit (''    <script src="'' @ ASSET_MOUNT @ ''/swagger-ui-bundle.js"></script>''),
     lit (''    <script src="'' @ INITIALISER_PATH @ ''"></script>''), lit ''  </body>'', lit ''</html>'']\<close>

definition swagger_ui :: "settings \<Rightarrow> int \<times> headers \<times> ustr" where
  "swagger_ui s = (200, [(''content-security-policy'', lit DOCS_CSP)],
     concat (map (\<lambda>l. l @ [10]) (page_lines (st_app_name s @ lit '' API''))))"

definition initialiser_lines :: "string list" where
  "initialiser_lines = [''// Served as a file so the documentation page needs no inline-script'',
     ''// permission in its Content-Security-Policy.'', ''window.onload = function () {'', ''  window.ui = SwaggerUIBundle({'',
     ''    url: '' @ squote OPENAPI_PATH @ '','', ''    dom_id: '' @ squote ''#swagger-ui'' @ '','', ''    deepLinking: true,'',
     ''    layout: '' @ squote ''BaseLayout'' @ '','', ''    presets: [SwaggerUIBundle.presets.apis],'', ''  });'', ''};'']"

definition initialiser :: "int \<times> headers \<times> string" where
  "initialiser = (200, [(''content-type'', lit ''application/javascript'')], concat (map (\<lambda>l. l @ [CHR 0x0A]) initialiser_lines))"

text \<open>The documentation is mounted only when the settings allow it and both files are in the image.\<close>

definition assets_present :: "(string \<Rightarrow> bool) \<Rightarrow> bool" where
  "assets_present is_file \<longleftrightarrow> is_file (SWAGGER_UI_DIR @ ''/swagger-ui-bundle.js'') \<and> is_file (SWAGGER_UI_DIR @ ''/swagger-ui.css'')"

definition documentation_paths :: "settings \<Rightarrow> (string \<Rightarrow> bool) \<Rightarrow> string list" where
  "documentation_paths s is_file =
     (if api_docs_available s \<and> assets_present is_file then [DOCS_PATH, INITIALISER_PATH, ASSET_MOUNT] else [])"

definition root_document :: "settings \<Rightarrow> json" where
  "root_document s = JObj [(''name'', JText (st_app_name s)), (''version'', JText (st_app_version s)),
     (''api_base_path'', JText (st_api_base_path s)),
     (''docs'', if api_docs_available s then JStr DOCS_PATH else JNull)]"

section \<open>Headers\<close>

lemma header_set_lookup: "map_of (header_set k v hs) c = (if c = k then Some v else map_of hs c)"
  unfolding header_set_def by (induction hs) auto

lemma header_set_fst: "map fst (header_set k v hs) = filter (\<lambda>c. c \<noteq> k) (map fst hs) @ [k]"
  unfolding header_set_def by (induction hs) auto

lemma setdefault_lookup:
  "map_of (header_setdefault k v hs) c = (case map_of hs c of Some w \<Rightarrow> Some w | None \<Rightarrow> if c = k then Some v else None)"
  by (auto simp: header_setdefault_def map_add_def split: option.splits)

lemma add_defaults_keeps: "map_of hs c = Some w \<Longrightarrow> map_of (add_defaults ds hs) c = Some w"
  by (induction ds arbitrary: hs) (auto simp: add_defaults_def setdefault_lookup)

lemma add_defaults_has: "c \<in> fst ` set ds \<Longrightarrow> map_of (add_defaults ds hs) c \<noteq> None"
proof (induction ds arbitrary: hs)
  case (Cons d ds)
  obtain k v where d: "d = (k, v)" by fastforce
  have s: "add_defaults (d # ds) hs = add_defaults ds (header_setdefault k v hs)" by (simp add: add_defaults_def d)
  show ?case
  proof (cases "c = k")
    case True
    then obtain w where "map_of (header_setdefault k v hs) c = Some w" by (cases "map_of hs c") (auto simp: setdefault_lookup)
    then show ?thesis using s add_defaults_keeps by fastforce
  qed (use Cons d s in auto)
qed simp

text \<open>A header present is neither lost nor replaced by the security headers, and all of those are there.\<close>

lemma security_headers_Inr:
  assumes "security_headers s app rq cx = (Inr p, cx1)"
  obtains p0 where "app rq cx = (Inr p0, cx1)" "rp_status p = rp_status p0" "rp_body p = rp_body p0"
    "\<And>c w. map_of (rp_headers p0) c = Some w \<Longrightarrow> map_of (rp_headers p) c = Some w"
    "list_all (\<lambda>(k, v). map_of (rp_headers p) k \<noteq> None) SECURITY_HEADERS"
proof -
  obtain p0 where a: "app rq cx = (Inr p0, cx1)"
    using assms by (auto simp: security_headers_def Let_def split: prod.splits sum.splits)
  define h where "h = add_defaults SECURITY_HEADERS (rp_headers p0)"
  have p: "p = p0\<lparr>rp_headers := (if is_production s
      then header_setdefault ''strict-transport-security'' (lit ''max-age=63072000; includeSubDomains'') h else h)\<rparr>"
    using assms by (auto simp: security_headers_def a h_def Let_def)
  have k: "map_of h c = Some w \<Longrightarrow> map_of (rp_headers p) c = Some w" for c w by (simp add: p setdefault_lookup)
  have "list_all (\<lambda>(k, v). map_of (rp_headers p) k \<noteq> None) SECURITY_HEADERS"
    unfolding list_all_iff using add_defaults_has [of _ SECURITY_HEADERS "rp_headers p0"] k h_def by force
  moreover have "map_of (rp_headers p0) c = Some w \<Longrightarrow> map_of (rp_headers p) c = Some w" for c w
    using add_defaults_keeps k h_def by blast
  ultimately show ?thesis using that [OF a] p by simp
qed

section \<open>What every response shows\<close>

definition oversized :: "settings \<Rightarrow> request \<Rightarrow> bool" where
  "oversized s rq \<longleftrightarrow> (case map_of (rq_headers rq) ''content-length'' of None \<Rightarrow> False
     | Some v \<Rightarrow> header_isdigit v \<and> (case int_of_header v of None \<Rightarrow> False | Some n \<Rightarrow> st_max_request_bytes s < n))"

lemma body_size_oversized: "oversized s rq \<Longrightarrow> body_size_limit s app rq cx = (Inr (too_large s cx), cx)"
  by (auto simp: oversized_def body_size_limit_def split: option.splits)

lemma body_size_passes:
  "\<not> oversized s rq \<Longrightarrow> body_size_limit s app rq cx = app rq cx \<or> body_size_limit s app rq cx = (Inl (Unhandled ''ValueError'' []), cx)"
  by (auto simp: oversized_def body_size_limit_def split: option.splits)

text \<open>What the handlers let through is an exception no handler is registered for.\<close>

lemma exception_handlers_Inl: "fst (exception_handlers ud s app rq cx) = Inl e \<Longrightarrow> \<exists>ty tb. e = Unhandled ty tb"
  by (auto simp: exception_handlers_def case_prod_beta Let_def split: sum.splits raised.splits)

lemma emit_frame [simp]:
  "cx_cid (emit ud s l n a t cx) = cx_cid cx" "cx_actor (emit ud s l n a t cx) = cx_actor cx"
  "cx_world (emit ud s l n a t cx) = cx_world cx"
  by (simp_all add: emit_def)

text \<open>
  C38. What a client gets.  A request whose declared length is over the limit is answered with 413
  before the router runs, its state untouched, and the answer carries the correlation id but none
  of the security headers.  Every other answer of the router or of an exception handler carries
  the correlation id and all the security headers.  An exception no handler is registered for is
  answered outside every middleware: the 500 has no header and no correlation id in its body.
\<close>

theorem service_responses:
  "let (p, cx2) = server_error ud s (own_stack ud s ck router) rq cx
   in case fst (own_stack ud s ck router rq cx) of
        Inl e \<Rightarrow> rp_status p = 500 \<and> rp_headers p = []
          \<and> rp_body p = error_body ''internal_error'' (lit ''Internal server error'') [] cx
      | Inr r \<Rightarrow> p = r
          \<and> map_of (rp_headers p) ''x-correlation-id'' = Some (lit (correlation_id ud (ck_fresh ck) rq))
          \<and> (if oversized s rq
             then rp_status p = 413 \<and> map fst (rp_headers p) = [''x-correlation-id'', ''x-response-time-ms''] \<and> cx_world cx2 = cx_world cx
             else list_all (\<lambda>(k, v). map_of (rp_headers p) k \<noteq> None) SECURITY_HEADERS)"
proof -
  define inner where "inner = security_headers s (exception_handlers ud s router)"
  define cx0 where "cx0 = cx\<lparr>cx_cid := Some (correlation_id ud (ck_fresh ck) rq), cx_actor := None\<rparr>"
  obtain o1 cx1 where b: "body_size_limit s inner rq cx0 = (o1, cx1)" by fastforce
  have st: "own_stack ud s ck router rq cx = correlation_middleware ud s ck (body_size_limit s inner) rq cx"
    by (simp add: own_stack_def inner_def)
  show ?thesis
  proof (cases o1)
    case (Inl e)
    have "\<exists>ty tb. e = Unhandled ty tb"
      using b body_size_oversized [of s rq inner cx0] body_size_passes [of s rq inner cx0] exception_handlers_Inl [of ud s router rq cx0]
      by (cases "oversized s rq") (auto simp: Inl inner_def security_headers_def Let_def split: prod.splits sum.splits)
    then show ?thesis
      using b by (auto simp: st correlation_middleware_def server_error_def unhandled_response_def error_body_def Let_def Inl
          cx0_def [symmetric])
  next
    case (Inr r)
    have ok: "if oversized s rq then r = too_large s cx0 \<and> cx1 = cx0
      else list_all (\<lambda>(k, v). map_of (rp_headers r) k \<noteq> None) SECURITY_HEADERS"
    proof (cases "oversized s rq")
      case False
      then have "inner rq cx0 = (Inr r, cx1)" using body_size_passes [OF False, of inner cx0] b Inr by auto
      then show ?thesis unfolding inner_def using False by (auto elim: security_headers_Inr)
    qed (use b Inr body_size_oversized [of s rq inner cx0] in auto)
    define r' where "r' = r\<lparr>rp_headers := header_set ''x-response-time-ms'' (ck_text ck)
      (header_set ''x-correlation-id'' (lit (correlation_id ud (ck_fresh ck) rq)) (rp_headers r))\<rparr>"
    obtain cx2 where own: "own_stack ud s ck router rq cx = (Inr r', cx2)" and w: "cx_world cx2 = cx_world cx1"
      using b by (simp add: st correlation_middleware_def Let_def Inr cx0_def [symmetric] r'_def)
    have l: "map_of (rp_headers r') c = (if c = ''x-response-time-ms'' then Some (ck_text ck)
      else if c = ''x-correlation-id'' then Some (lit (correlation_id ud (ck_fresh ck) rq)) else map_of (rp_headers r) c)" for c
      by (simp add: r'_def header_set_lookup)
    have "if oversized s rq
      then rp_status r' = 413 \<and> map fst (rp_headers r') = [''x-correlation-id'', ''x-response-time-ms''] \<and> cx_world cx2 = cx_world cx
      else list_all (\<lambda>(k, v). map_of (rp_headers r') k \<noteq> None) SECURITY_HEADERS"
    proof (cases "oversized s rq")
      case True
      then show ?thesis using ok w by (simp add: r'_def header_set_fst too_large_def cx0_def)
    next
      case False
      then have "list_all (\<lambda>(k, v). map_of (rp_headers r) k \<noteq> None) SECURITY_HEADERS" using ok by simp
      then show ?thesis using False by (auto simp: list_all_iff l)
    qed
    then show ?thesis by (simp only: server_error_def own prod.case sum.case fst_conv Let_def l) simp
  qed
qed

lemma log_line_lookup:
  assumes "map_of event ''exc_info'' = None"
  shows "map_of (log_event ud s None None tb event) c =
    map_option (\<lambda>x. if ascii_lower c \<in> set SENSITIVE_KEYS then JStr REDACTED
      else if ascii_lower c \<in> set CONTENT_KEYS \<and> \<not> st_log_message_content s then JStr SUPPRESSED
      else scrub ud (st_log_message_content s) (Suc 0) x) (map_of event c)"
  using assms unfolding log_event_def redaction_processor_def scrub.simps [of _ _ 0] json.case correlation_processor_def
  by (simp add: format_exc_info_def map_of_keyed MAX_DEPTH_def truthy_def)

lemma status_plain: "ascii_lower ''status'' \<notin> set SENSITIVE_KEYS \<and> ascii_lower ''status'' \<notin> set CONTENT_KEYS"
  by code_simp

text \<open>
  The line a request leaves in the access log has no correlation id: it is written after the
  context variables are reset.
\<close>

lemma access_line_uncorrelated:
  assumes "own_stack ud s ck router rq \<lparr>cx_cid = None, cx_actor = None, cx_log = l, cx_world = w\<rparr> = (Inr p, cx1)"
    "configured_level s \<le> 20"
  shows "map_of (last (cx_log cx1)) ''correlation_id'' = None \<and> map_of (last (cx_log cx1)) ''status'' = Some (JInt (rp_status p))"
proof -
  let ?line = "log_event ud s None None [] [(''method'', JStr (rq_method rq)), (''path'', JText (rq_path rq)),
    (''status'', JInt (rp_status p)), (''duration_ms'', JFloat (ck_rounded ck)), (''event'', JStr ''http_request'')]"
  have "\<exists>l'. cx_log cx1 = l' @ [?line]"
    using assms by (auto simp: own_stack_def correlation_middleware_def emit_def Let_def split: prod.splits sum.splits)
  then have "last (cx_log cx1) = ?line" by auto
  then show ?thesis by (simp add: log_line_lookup status_plain scrub.simps MAX_DEPTH_def)
qed

end
