(* ===== verification/Clients.thy ===== *)
theory Clients
  imports Config Sanitize Storage Security
begin

text \<open>
  How the program sets up what it calls: the tables handed to the HTML cleaner
  (\<open>app/core/sanitize.py\<close>), the two S3 clients and the storage singleton (\<open>app/services/storage.py\<close>), the
  database engine and its session factory (\<open>app/db/session.py\<close>), and the key set the development identity
  provider publishes (\<open>app/core/devauth.py\<close>).  Engines and clients are numbered in the
  order they are built.
\<close>

section \<open>The HTML cleaner\<close>

definition ALLOWED_TAGS :: "string list" where
  "ALLOWED_TAGS = [''p'', ''br'', ''hr'', ''span'', ''div'', ''strong'', ''b'', ''em'', ''i'', ''u'', ''s'', ''del'', ''ins'',
     ''mark'', ''sub'', ''sup'', ''h1'', ''h2'', ''h3'', ''h4'', ''h5'', ''h6'', ''ul'', ''ol'', ''li'', ''dl'', ''dt'', ''dd'',
     ''blockquote'', ''pre'', ''code'', ''kbd'', ''samp'', ''table'', ''thead'', ''tbody'', ''tfoot'', ''tr'', ''th'', ''td'',
     ''caption'', ''colgroup'', ''col'', ''a'', ''img'', ''figure'', ''figcaption'', ''cite'', ''abbr'', ''time'']"

definition ALLOWED_ATTRS :: "(string \<times> string list) list" where
  "ALLOWED_ATTRS = [(''*'', [''class'', ''title'', ''dir'', ''lang'']), (''a'', [''href'', ''rel'', ''target'']),
     (''img'', [''src'', ''alt'', ''width'', ''height'']), (''code'', [''class'', ''data-language'']),
     (''pre'', [''class'', ''data-language'']), (''th'', [''colspan'', ''rowspan'', ''scope'']), (''td'', [''colspan'', ''rowspan'']),
     (''col'', [''span'']), (''time'', [''datetime'']), (''ol'', [''start'', ''type''])]"

definition ALLOWED_PROTOCOLS :: "string list" where
  "ALLOWED_PROTOCOLS = [''http'', ''https'', ''mailto'']"

record cleaner =
  cl_tags :: "string set"
  cl_attributes :: "(string \<times> string list) list"
  cl_protocols :: "string set"
  cl_strip :: bool
  cl_strip_comments :: bool

definition CLEANER :: cleaner where
  "CLEANER = \<lparr>cl_tags = set ALLOWED_TAGS, cl_attributes = ALLOWED_ATTRS, cl_protocols = set ALLOWED_PROTOCOLS,
     cl_strip = True, cl_strip_comments = True\<rparr>"

text \<open>
  The allowlists admit no element that runs or embeds anything, no style and no event handler, and
  no address but the web's and mail's; every tag with attributes of its own is an allowed tag.
\<close>

lemma allowlist_inert:
  "set ALLOWED_TAGS \<inter> {''script'', ''style'', ''iframe'', ''object'', ''embed'', ''form'', ''input'', ''svg'', ''math'', ''link'', ''meta'', ''base''} = {}
   \<and> list_all (\<lambda>(t, as). (t = ''*'' \<or> t \<in> set ALLOWED_TAGS) \<and> list_all (\<lambda>a. a \<noteq> ''style'' \<and> take 2 a \<noteq> ''on'') as) ALLOWED_ATTRS
   \<and> ''javascript'' \<notin> set ALLOWED_PROTOCOLS \<and> ''data'' \<notin> set ALLOWED_PROTOCOLS"
  by code_simp

section \<open>The S3 clients\<close>

record boto_config =
  bt_region_name :: ustr
  bt_signature_version :: string
  bt_addressing_style :: string
  bt_max_attempts :: int
  bt_retry_mode :: string
  bt_connect_timeout :: int
  bt_read_timeout :: int

definition data_path_config :: "settings \<Rightarrow> boto_config" where
  "data_path_config s = \<lparr>bt_region_name = st_aws_region s, bt_signature_version = ''s3v4'', bt_addressing_style = ''virtual'',
     bt_max_attempts = 5, bt_retry_mode = ''standard'', bt_connect_timeout = 10, bt_read_timeout = 60\<rparr>"

definition probe_config :: "settings \<Rightarrow> boto_config" where
  "probe_config s = \<lparr>bt_region_name = st_aws_region s, bt_signature_version = ''s3v4'', bt_addressing_style = ''virtual'',
     bt_max_attempts = 1, bt_retry_mode = ''standard'', bt_connect_timeout = 2, bt_read_timeout = 3\<rparr>"

record storage_service =
  sv_settings :: settings
  sv_client :: "(nat \<times> boto_config) option"
  sv_health_client :: "(nat \<times> boto_config) option"

definition new_storage_service :: "settings \<Rightarrow> storage_service" where
  "new_storage_service s = \<lparr>sv_settings = s, sv_client = None, sv_health_client = None\<rparr>"

text \<open>\<open>n\<close> is the number of the next client built.\<close>

definition s3_client :: "nat \<Rightarrow> storage_service \<Rightarrow> (nat \<times> boto_config) \<times> nat \<times> storage_service" where
  "s3_client n v = (case sv_client v of
       Some c \<Rightarrow> (c, n, v)
     | None \<Rightarrow> (let c = (n, data_path_config (sv_settings v)) in (c, Suc n, v\<lparr>sv_client := Some c\<rparr>)))"

definition health_client :: "nat \<Rightarrow> storage_service \<Rightarrow> (nat \<times> boto_config) \<times> nat \<times> storage_service" where
  "health_client n v = (case sv_health_client v of
       Some c \<Rightarrow> (c, n, v)
     | None \<Rightarrow> (let c = (n, probe_config (sv_settings v)) in (c, Suc n, v\<lparr>sv_health_client := Some c\<rparr>)))"

datatype probe_outcome = Answered | TimedOut | ProbeFailed

definition storage_check :: "(nat \<times> boto_config \<Rightarrow> rat \<Rightarrow> ustr \<Rightarrow> probe_outcome) \<Rightarrow> nat \<Rightarrow> storage_service \<Rightarrow> bool \<times> nat \<times> storage_service" where
  "storage_check head_bucket n v =
     (let (c, n1, v1) = health_client n v
      in (head_bucket c (st_s3_health_timeout_seconds (sv_settings v)) (st_s3_bucket (sv_settings v)) = Answered, n1, v1))"

text \<open>The singleton of the process, and its replacement, which forgets the cached probe.\<close>

definition get_storage :: "settings \<Rightarrow> storage_service option \<Rightarrow> storage_service" where
  "get_storage s storage = (case storage of None \<Rightarrow> new_storage_service s | Some v \<Rightarrow> v)"

definition reset_storage :: "storage_service option \<Rightarrow> health_cache \<Rightarrow> storage_service option \<times> health_cache" where
  "reset_storage service h = (service, reset_storage_health_cache h)"

text \<open>A client is built once and then shared, and the probe never takes the patient one.\<close>

lemma s3_client_once:
  assumes "s3_client n v = (c, n1, v1)"
  shows "s3_client n1 v1 = (c, n1, v1)"
  using assms by (auto simp: s3_client_def Let_def split: option.splits)

lemma health_client_config:
  assumes "health_client n (new_storage_service s) = (c, n1, v1)"
  shows "snd c = probe_config s \<and> health_client n1 v1 = (c, n1, v1) \<and> sv_client v1 = None"
  using assms by (auto simp: health_client_def new_storage_service_def Let_def)

section \<open>The database engine\<close>

record engine_args =
  en_url :: ustr
  en_application_name :: ustr
  en_statement_timeout :: string
  en_idle_in_transaction_session_timeout :: string
  en_timezone :: string
  en_statement_cache_size :: int
  en_echo :: bool
  en_pool_pre_ping :: bool
  en_pool_size :: int
  en_max_overflow :: int
  en_pool_recycle :: int
  en_pool_timeout :: rat

definition build_engine :: "settings \<Rightarrow> engine_args" where
  "build_engine s = \<lparr>en_url = st_database_url s, en_application_name = st_app_name s,
     en_statement_timeout = dec_int (st_database_statement_timeout_ms s),
     en_idle_in_transaction_session_timeout = ''60000'', en_timezone = ''UTC'', en_statement_cache_size = 256, en_echo = False,
     en_pool_pre_ping = st_database_pool_pre_ping s, en_pool_size = st_database_pool_size s,
     en_max_overflow = st_database_max_overflow s, en_pool_recycle = st_database_pool_recycle_seconds s,
     en_pool_timeout = st_database_pool_timeout_seconds s\<rparr>"

record session_factory =
  sf_bind :: nat
  sf_expire_on_commit :: bool
  sf_autoflush :: bool

text \<open>The two globals of the module; every engine built so far has a number below the counter, and the disposed ones are kept.\<close>

record db_module =
  dm_engine :: "nat option"
  dm_sessionmaker :: "session_factory option"
  dm_built :: nat
  dm_disposed :: "nat set"

definition db_module0 :: db_module where
  "db_module0 = \<lparr>dm_engine = None, dm_sessionmaker = None, dm_built = 0, dm_disposed = {}\<rparr>"

definition get_engine :: "db_module \<Rightarrow> nat \<times> db_module" where
  "get_engine m = (case dm_engine m of Some e \<Rightarrow> (e, m)
     | None \<Rightarrow> (dm_built m, m\<lparr>dm_engine := Some (dm_built m), dm_built := Suc (dm_built m)\<rparr>))"

definition session_factory_for :: "nat \<Rightarrow> session_factory" where
  "session_factory_for e = \<lparr>sf_bind = e, sf_expire_on_commit = False, sf_autoflush = False\<rparr>"

definition get_sessionmaker :: "db_module \<Rightarrow> session_factory \<times> db_module" where
  "get_sessionmaker m = (case dm_sessionmaker m of Some f \<Rightarrow> (f, m)
     | None \<Rightarrow> (let (e, m1) = get_engine m; f = session_factory_for e in (f, m1\<lparr>dm_sessionmaker := Some f\<rparr>)))"

definition check_database :: "(nat \<Rightarrow> bool) \<Rightarrow> db_module \<Rightarrow> bool \<times> db_module" where
  "check_database answers m = (let (e, m1) = get_engine m in (answers e, m1))"

definition dispose_engine :: "db_module \<Rightarrow> db_module" where
  "dispose_engine m = m\<lparr>dm_disposed := dm_disposed m \<union> set_option (dm_engine m), dm_engine := None, dm_sessionmaker := None\<rparr>"

definition reset_engine_for_tests :: "nat option \<Rightarrow> db_module \<Rightarrow> db_module" where
  "reset_engine_for_tests engine m = m\<lparr>dm_engine := engine, dm_sessionmaker := map_option session_factory_for engine\<rparr>"

inductive module_step :: "db_module \<Rightarrow> db_module \<Rightarrow> bool" where
  "module_step m (snd (get_engine m))"
| "module_step m (snd (get_sessionmaker m))"
| "module_step m (snd (check_database answers m))"
| "module_step m (dispose_engine m)"

text \<open>
  Whatever the calls, sessions are made on the engine in use, and that one has not been disposed of.
\<close>

definition module_ok :: "db_module \<Rightarrow> bool" where
  "module_ok m \<longleftrightarrow> (case dm_sessionmaker m of None \<Rightarrow> True | Some f \<Rightarrow> dm_engine m = Some (sf_bind f))
     \<and> (case dm_engine m of None \<Rightarrow> True | Some e \<Rightarrow> e < dm_built m \<and> e \<notin> dm_disposed m)
     \<and> (\<forall>e\<in>dm_disposed m. e < dm_built m)"

lemma get_engine_ok: "module_ok m \<Longrightarrow> module_ok (snd (get_engine m)) \<and> dm_engine (snd (get_engine m)) = Some (fst (get_engine m))"
  by (auto simp: module_ok_def get_engine_def split: option.splits intro: less_SucI)

lemma get_engine_factory: "dm_sessionmaker (snd (get_engine m)) = dm_sessionmaker m"
  by (simp add: get_engine_def split: option.splits)

lemma module_step_ok: "module_step m m' \<Longrightarrow> module_ok m \<Longrightarrow> module_ok m'"
proof (induction rule: module_step.induct)
  case (2 m)
  then show ?case
    using get_engine_ok [OF 2] get_engine_factory [of m]
    by (auto simp: get_sessionmaker_def session_factory_for_def module_ok_def Let_def split: option.splits prod.splits)
next
  case (3 answers m)
  then show ?case using get_engine_ok [OF 3] by (simp add: check_database_def case_prod_beta Let_def)
next
  case (4 m)
  then show ?case by (auto simp: module_ok_def dispose_engine_def split: option.splits)
qed (use get_engine_ok in blast)

interpretation db_session: inv_system "\<lambda>m. m = db_module0" module_step module_ok
  by unfold_locales (simp add: module_ok_def db_module0_def, rule module_step_ok)

lemma sessions_on_live_engine:
  assumes "reach (\<lambda>m. m = db_module0) module_step m"
  shows "dm_engine (snd (get_sessionmaker m)) = Some (sf_bind (fst (get_sessionmaker m)))
    \<and> sf_bind (fst (get_sessionmaker m)) \<notin> dm_disposed (snd (get_sessionmaker m))"
proof -
  have "module_ok (snd (get_sessionmaker m))"
    by (rule module_step_ok [OF module_step.intros(2)]) (rule db_session.reach_inv [OF assms])
  moreover have "dm_sessionmaker (snd (get_sessionmaker m)) = Some (fst (get_sessionmaker m))"
    by (auto simp: get_sessionmaker_def Let_def case_prod_beta split: option.splits)
  ultimately show ?thesis by (auto simp: module_ok_def split: option.splits)
qed

section \<open>The published key\<close>

definition DEV_KEY_ID :: string where
  "DEV_KEY_ID = ''techsara-dev-local-key''"

text \<open>\<open>value.to_bytes((value.bit_length() + 7) // 8, "big")\<close>.\<close>

fun be_bytes :: "nat \<Rightarrow> nat list" where
  "be_bytes n = (if n = 0 then [] else be_bytes (n div 256) @ [n mod 256])"

declare be_bytes.simps [simp del]

definition b64_int :: "nat \<Rightarrow> string" where
  "b64_int n = rstrip_by (\<lambda>c. c = CHR ''='') (b64encode b64_url_alphabet (be_bytes n))"

definition jwks :: "settings \<Rightarrow> nat \<Rightarrow> nat \<Rightarrow> json res" where
  "jwks s modulus exponent = bindE (assert_dev_auth_allowed s) (\<lambda>_. Inr (JObj [(''keys'', JList [JObj
     [(''kty'', JStr ''RSA''), (''use'', JStr ''sig''), (''alg'', JStr ''RS256''), (''kid'', JStr DEV_KEY_ID),
      (''n'', JStr (b64_int modulus)), (''e'', JStr (b64_int exponent))]])]))"

text \<open>The octets are those of the number, without a leading zero.\<close>

lemma be_bytes_value: "foldl (\<lambda>a b. 256 * a + b) 0 (be_bytes n) = n"
  by (induction n rule: be_bytes.induct) (simp add: be_bytes.simps)

lemma be_bytes_minimal: "n \<noteq> 0 \<Longrightarrow> hd (be_bytes n) \<noteq> 0"
proof (induction n rule: be_bytes.induct)
  case (1 n)
  then show ?case
    by (cases "n div 256 = 0") (auto simp: be_bytes.simps [of n] be_bytes.simps [of 0] hd_append div_eq_0_iff be_bytes.simps [of "n div 256"])
qed

lemma usual_exponent: "b64_int 65537 = ''AQAB''"
  by code_simp

text \<open>No key set is published where the development provider is not allowed.\<close>

lemma jwks_production: "is_production s \<Longrightarrow> \<exists>e. jwks s n k = Inl e"
  by (simp add: jwks_def assert_dev_auth_allowed_def dev_auth_allowed_def)

end
