(* ===== verification/Naming.thy ===== *)
theory Naming
  imports Migration_Ddl
begin

text \<open>
  The naming convention of \<open>app/db/base.py\<close>, which keeps the names of constraints the same in the
  models and in the migrations: the name a key, a check or a reference gets when the model gives it
  none, the check's own part being its last argument.
\<close>

fun join_names :: "string list \<Rightarrow> string" where
  "join_names [] = []"
| "join_names [n] = n"
| "join_names (n # ns) = n @ ''_'' @ join_names ns"

definition naming_convention :: "string \<Rightarrow> string \<Rightarrow> string list \<Rightarrow> string \<Rightarrow> string \<Rightarrow> string" where
  "naming_convention kind table columns own referred =
     (if kind = ''ix'' then ''ix_'' @ table @ ''_'' @ join_names columns
      else if kind = ''uq'' then ''uq_'' @ table @ ''_'' @ join_names columns
      else if kind = ''ck'' then ''ck_'' @ table @ ''_'' @ own
      else if kind = ''fk'' then ''fk_'' @ table @ ''_'' @ join_names columns @ ''_'' @ referred
      else ''pk_'' @ table)"

text \<open>
  Primary keys and references of the migration have exactly the conventional name, and checks its
  beginning; the unique keys are named one by one in the models.
\<close>

fun conventional :: "string \<Rightarrow> table_constraint \<Rightarrow> bool" where
  "conventional t (Check p n) = (take (length (naming_convention ''ck'' t [] [] [])) n = naming_convention ''ck'' t [] [] [])"
| "conventional t (PrimaryKey cs n) = (n = naming_convention ''pk'' t cs [] [])"
| "conventional t (Unique cs n) = True"
| "conventional t (ForeignKey cs r rs a n) = (n = naming_convention ''fk'' t cs [] r)"

fun conventional_table :: "ddl \<Rightarrow> bool" where
  "conventional_table (CreateTable t cols cons part) = list_all (conventional t) cons"
| "conventional_table _ = True"

lemma migration_follows_convention: "list_all conventional_table upgrade_ddl"
  by code_simp

end
