(* ===== verification/Spec2Isabelle.thy ===== *)
theory Spec2Isabelle
  imports Sanitize Policy RateLimit RateLimit_Spec Ingest_Numbering Retention_Hold Accounts Api_Auth Api_Admin
    Compliance_Poller Worker Migration_Check Bootstrap Logging Http Clients Naming
begin

text \<open>
  A verification development for the backend of the managed ChatGPT session archive
  (\<open>src/services/backend\<close>).

  The program.  A FastAPI application receives what a managed browser extension captures
  (conversations, messages, attachments, feedback), checks it against the policy of the workspace,
  stores it in PostgreSQL and puts jobs into a queue held in the same database.  A worker claims the
  jobs and archives raw events, builds snapshots, verifies attachments, reconciles partial
  conversations, writes exports, applies retention and maintains partitions, using S3 for the
  bytes.  A second process polls a compliance interface and stores and imports its events.  The
  components share nothing but the database and the bucket; the development follows that cut.

  How it is modelled.  Text is a list of code points (\<open>ustr\<close>) where any character may occur and a
  HOL string where the code admits ASCII only; times are microseconds since the epoch in UTC; floats
  are the rationals they denote, rounded as binary64 rounds; identifiers drawn at random are a
  counter (\<open>d_next_uuid\<close>) or parameters.  A table is a list of row records in physical order, a row
  type being one ORM class; the database is the record \<open>db\<close> of all tables.  An operation takes the
  database and gives it back; what it raises is \<open>Inl\<close> of an \<open>exn\<close>, what it returns \<open>Inr\<close>.  A flush that
  violates a declared constraint raises \<open>IntegrityError\<close>.

  Theories, in the order in which they build on each other.
  \<^item> \<open>Prelude\<close>: results, exceptions, tables, times, JSON, reachable states and the locale \<open>inv_system\<close> of
    a system with an invariant.  \<open>Enums\<close>: \<open>app/models/enums.py\<close>, each enumeration an instance of the
    locale \<open>str_enum\<close>.  \<open>Pytext\<close>, \<open>Floats\<close>, \<open>Dates\<close>, \<open>JsonText\<close>, \<open>Ipaddr\<close>: what the code uses of Python's text,
    floats, calendar, \<open>json.dumps\<close> and \<open>ipaddress\<close>.
  \<^item> \<open>Crypto\<close>, \<open>Sanitize\<close>, \<open>Config\<close>, \<open>RateLimit\<close>, \<open>Security\<close>, \<open>Logging\<close>: the modules of the same name under
    \<open>app/core\<close> (\<open>Security\<close> with \<open>devauth.py\<close>).  SHA-256, HMAC and base64 are executable.
  \<^item> \<open>Rows\<close>: \<open>app/models\<close>, with the unique and check constraints (\<open>constraints\<close>).
  \<^item> \<open>Policy\<close>, \<open>Jobs\<close>, \<open>Storage\<close>, \<open>Schemas\<close>, \<open>Ingest\<close>, \<open>Exif\<close>, \<open>Audit_Trail\<close>, \<open>Retention\<close>, \<open>Attachments\<close>, \<open>Snapshots\<close>,
    \<open>Exports\<close>, \<open>Accounts\<close>, \<open>Partitions\<close>, \<open>Runtime_Config\<close>: the services (and, for \<open>Schemas\<close>, \<open>app/schemas\<close>).
    \<open>Ingest_History\<close>, \<open>Ingest_Numbering\<close> and \<open>Retention_Hold\<close> hold longer arguments about them,
    \<open>RateLimit_Spec\<close> the abstract machine the limiter refines.
  \<^item> \<open>Deps\<close>, \<open>Api_Ingest\<close>, \<open>Api_Auth\<close>, \<open>Api_Admin\<close>, \<open>Http\<close>: \<open>app/api\<close>, \<open>app/core/errors.py\<close> and \<open>app/main.py\<close>:
    authentication of a request, every route, and the middleware around them.
  \<^item> \<open>Finalize\<close>, \<open>Handlers\<close>, \<open>Worker\<close>: \<open>app/workers\<close>; a handler works on the \<open>world\<close> of database, bucket and
    partition catalogue, and \<open>execute\<close> runs it for a claimed job.
  \<^item> \<open>Compliance_Adapter\<close>, \<open>Compliance_Import\<close>, \<open>Compliance_Poller\<close>: the polling process.
  \<^item> \<open>Migration_Ddl\<close>, \<open>Migrations\<close>, \<open>Migration_Check\<close>, \<open>Bootstrap\<close>, \<open>Naming\<close>: \<open>alembic\<close> and the naming convention
    of \<open>app/db/base.py\<close>; the migrations are data and \<open>run_ddl\<close> says what PostgreSQL does with them.
  \<^item> \<open>Clients\<close>: the set-up of the HTML cleaner, the S3 clients and the database engine.

  What is shown, by component.
  \<^item> Ingest: in every reachable state the versions of a message are numbered without gaps
    (\<open>version_numbering\<close>), and no step loses or overwrites what was stored (\<open>history_kept\<close>).
  \<^item> Queue: the invariant of rows and locks (\<open>queue_invariant\<close>), what claiming, enqueueing and failing
    do, that a token once lost stays powerless except for the unguarded UPDATE of \<open>fail_job\<close>
    (\<open>fail_write_steals_lock\<close>); the worker always settles a job it runs, unless the database session
    itself is lost, and then the job is retried for ever.
  \<^item> Attachments: only bytes whose digest was checked become clean.  Retention: a hold wins over every
    deletion; deletion happens after the grace period only.  Snapshots and exports: completeness, integrity,
    eligibility, and that parts and splits partition the conversations.
  \<^item> Partitions: the months asked for are covered, dropping by age takes exactly the old ones, and the
    migration creates the same partitions as the maintenance job.  The migrations are well-typed in both
    directions, and the columns of enumerations admit exactly the values of the code.
  \<^item> Limiter: it takes the decisions of a machine that remembers every admission for ever
    (\<open>limiter_refines_window\<close>, through the locale \<open>timed_simulation\<close>), and its advertised wait suffices.
  \<^item> Accounts and requests: a refresh token works once; a revoked device is locked out of every
    later request; the anonymous configuration carries no label and no identifiers; what a response of the
    application carries, and what the two that escape the middleware lack; what a log event shows.
  \<^item> Compliance: a cycle ends within a bound of requests and pauses; two defects of the import.

  Bounds.  Loops are structural or carry a measure.  Fuel occurs once, in \<open>chunks_of\<close>, with the length of the list,
  which suffices since every chunk takes an element.  The retry loop of the adapter is bounded by
  \<open>MAX_RETRIES\<close>, the loop over pages by the setting.  The endless loops of the two processes are modelled by
  one cycle (\<open>worker_cycle\<close>, \<open>run_cycle\<close>) and, for the poller, by any number of them.

  Parameters.  bleach, the S3 client, PyJWT and the key client, the HTTP client, gzip, the JSON decoder, the
  tables of Unicode, the router and the two middlewares of Starlette, and every random draw and clock are
  arguments of the definitions that use them.  Rows locked by others are a set of identifiers.

  Not modelled.  Signals and process start, the renderer of log lines, SQLAlchemy itself (identity map,
  pooling; pending rows are modelled where the code depends on them), \<open>updated_at\<close> and the generated full-text
  column, foreign keys of rows (the migrations' are checked), concurrency beyond the interleaving of whole
  operations, the response schemas that only describe error bodies, tests and scripts, and the browser extension,
  which is not Python.
\<close>

end
